(* ===== verification/Usbg_Prelude.thy ===== *)
theory Usbg_Prelude
  imports Main "HOL-Library.Word" "HOL-Library.Monad_Syntax"
    "HOL-Library.List_Lexorder" "HOL-Library.Char_ord"
begin

text \<open>
  Shared vocabulary of the development: the machine types of the library's C code, the
  named theorem collections, and generic lemmas on lists, options and words that the
  components use. Nothing here is specific to one component.
\<close>

section \<open>Types\<close>

text \<open>
  A C \<open>int\<close> or \<open>unsigned int\<close> that carries data is a 32-bit word (\<open>sint\<close> and
  \<open>uint\<close> give its two readings). Return codes are \<open>int\<close>: the library returns small
  negative error codes, zero, or a byte count.
\<close>

type_synonym cint = "32 word"
type_synonym u8 = "8 word"
type_synonym u16 = "16 word"
type_synonym ptr = nat

named_theorems frame \<open>what an operation leaves unchanged\<close>
named_theorems wf_intros \<open>introduction rules of the heap invariant\<close>

section \<open>Option and pairs\<close>

lemma bind_Some_elim:
  assumes "Option.bind m f = Some r"
  obtains x where "m = Some x" "f x = Some r"
  using assms by (cases m) auto

lemma Some_iff_dom: "(\<exists>y. m x = Some y) \<longleftrightarrow> x \<in> dom m"
  by auto

lemma upd_upd_None [simp]: "(m(x := None)) y = Some v \<longleftrightarrow> y \<noteq> x \<and> m y = Some v"
  by auto

section \<open>Lists\<close>

lemma takeWhile_all: "\<forall>x\<in>set xs. P x \<Longrightarrow> takeWhile P (xs @ ys) = xs @ takeWhile P ys"
  by (induction xs) auto

lemma dropWhile_none: "xs = [] \<or> \<not> P (hd xs) \<Longrightarrow> dropWhile P xs = xs"
  by (cases xs) auto

lemma sorted_wrt_remove1: "sorted_wrt P xs \<Longrightarrow> sorted_wrt P (remove1 x xs)"
  by (induction xs) (auto dest: in_set_remove1 [THEN iffD1, rotated] notin_set_remove1 set_remove1_subset [THEN subsetD])

lemma map_remove1_cong:
  "(\<And>y. y \<in> set xs \<Longrightarrow> y \<noteq> x \<Longrightarrow> f y = g y) \<Longrightarrow> distinct xs \<Longrightarrow>
   map f (remove1 x xs) = map g (remove1 x xs)"
  by (rule map_cong) auto

lemma list_all_option_cong:
  "(\<And>x. x \<in> set xs \<Longrightarrow> f x = g x) \<Longrightarrow> map f xs = map g xs"
  by (rule map_cong) auto

section \<open>Words\<close>

lemma word_of_int_sint [simp]: "word_of_int (sint (w :: cint)) = w"
  by simp

lemma ucast_u16_cint: "ucast (ucast (x :: u16) :: cint) = x"
  by (rule ucast_up_ucast_id) (simp add: is_up)

lemma ucast_u8_cint: "ucast (ucast (x :: u8) :: cint) = x"
  by (rule ucast_up_ucast_id) (simp add: is_up)

end
