(* ===== verification/Usbg_Error.thy ===== *)
theory Usbg_Error
  imports Usbg_Prelude
begin

text \<open>
  Error codes: the enumeration of \<open>include/usbg/usbg.h\<close> and the three functions of
  \<open>src/usbg_error.c\<close>. Kernel error numbers are the Linux values of
  \<open>errno.h\<close>.
\<close>

section \<open>The enumeration\<close>

datatype usbg_error =
    USBG_SUCCESS
  | USBG_ERROR_NO_MEM
  | USBG_ERROR_NO_ACCESS
  | USBG_ERROR_INVALID_PARAM
  | USBG_ERROR_NOT_FOUND
  | USBG_ERROR_IO
  | USBG_ERROR_EXIST
  | USBG_ERROR_NO_DEV
  | USBG_ERROR_BUSY
  | USBG_ERROR_NOT_SUPPORTED
  | USBG_ERROR_PATH_TOO_LONG
  | USBG_ERROR_INVALID_FORMAT
  | USBG_ERROR_MISSING_TAG
  | USBG_ERROR_INVALID_TYPE
  | USBG_ERROR_INVALID_VALUE
  | USBG_ERROR_NOT_EMPTY
  | USBG_ERROR_OTHER_ERROR

text \<open>The C value of each constant.\<close>

fun err :: "usbg_error \<Rightarrow> int" where
  "err USBG_SUCCESS = 0"
| "err USBG_ERROR_NO_MEM = -1"
| "err USBG_ERROR_NO_ACCESS = -2"
| "err USBG_ERROR_INVALID_PARAM = -3"
| "err USBG_ERROR_NOT_FOUND = -4"
| "err USBG_ERROR_IO = -5"
| "err USBG_ERROR_EXIST = -6"
| "err USBG_ERROR_NO_DEV = -7"
| "err USBG_ERROR_BUSY = -8"
| "err USBG_ERROR_NOT_SUPPORTED = -9"
| "err USBG_ERROR_PATH_TOO_LONG = -10"
| "err USBG_ERROR_INVALID_FORMAT = -11"
| "err USBG_ERROR_MISSING_TAG = -12"
| "err USBG_ERROR_INVALID_TYPE = -13"
| "err USBG_ERROR_INVALID_VALUE = -14"
| "err USBG_ERROR_NOT_EMPTY = -15"
| "err USBG_ERROR_OTHER_ERROR = -99"

text \<open>Kernel error numbers the library distinguishes.\<close>

type_synonym errno = int

abbreviation EPERM :: errno where "EPERM \<equiv> 1"
abbreviation ENOENT :: errno where "ENOENT \<equiv> 2"
abbreviation EIO :: errno where "EIO \<equiv> 5"
abbreviation ENOMEM :: errno where "ENOMEM \<equiv> 12"
abbreviation EACCES :: errno where "EACCES \<equiv> 13"
abbreviation EBUSY :: errno where "EBUSY \<equiv> 16"
abbreviation EEXIST :: errno where "EEXIST \<equiv> 17"
abbreviation ENODEV :: errno where "ENODEV \<equiv> 19"
abbreviation ENOTDIR :: errno where "ENOTDIR \<equiv> 20"
abbreviation EINVAL :: errno where "EINVAL \<equiv> 22"
abbreviation EROFS :: errno where "EROFS \<equiv> 30"
abbreviation ERANGE :: errno where "ERANGE \<equiv> 34"
abbreviation ENOTEMPTY :: errno where "ENOTEMPTY \<equiv> 39"

section \<open>usbg\_error.c\<close>

definition usbg_translate_error :: "int \<Rightarrow> int" where
  "usbg_translate_error e =
     (if e = ENOMEM then err USBG_ERROR_NO_MEM
      else if e = EACCES \<or> e = EROFS \<or> e = EPERM then err USBG_ERROR_NO_ACCESS
      else if e = ENOENT \<or> e = ENOTDIR then err USBG_ERROR_NOT_FOUND
      else if e = ERANGE \<or> e = EINVAL \<or> e = err USBG_ERROR_INVALID_PARAM
        then err USBG_ERROR_INVALID_PARAM
      else if e = EIO then err USBG_ERROR_IO
      else if e = EEXIST then err USBG_ERROR_EXIST
      else if e = ENODEV then err USBG_ERROR_NO_DEV
      else if e = EBUSY then err USBG_ERROR_BUSY
      else if e = ENOTEMPTY then err USBG_ERROR_NOT_EMPTY
      else err USBG_ERROR_OTHER_ERROR)"

definition usbg_error_name :: "int \<Rightarrow> string" where
  "usbg_error_name e =
     (if e = err USBG_SUCCESS then ''USBG_SUCCESS''
      else if e = err USBG_ERROR_NO_MEM then ''USBG_ERROR_NO_MEM''
      else if e = err USBG_ERROR_NO_ACCESS then ''USBG_ERROR_NO_ACCESS''
      else if e = err USBG_ERROR_INVALID_PARAM then ''USBG_ERROR_INVALID_PARAM''
      else if e = err USBG_ERROR_NOT_FOUND then ''USBG_ERROR_NOT_FOUND''
      else if e = err USBG_ERROR_IO then ''USBG_ERROR_IO''
      else if e = err USBG_ERROR_EXIST then ''USBG_ERROR_EXIST''
      else if e = err USBG_ERROR_NO_DEV then ''USBG_ERROR_NO_DEV''
      else if e = err USBG_ERROR_BUSY then ''USBG_ERROR_BUSY''
      else if e = err USBG_ERROR_NOT_SUPPORTED then ''USBG_ERROR_NOT_SUPPORTED''
      else if e = err USBG_ERROR_PATH_TOO_LONG then ''USBG_ERROR_PATH_TOO_LONG''
      else if e = err USBG_ERROR_INVALID_FORMAT then ''USBG_ERROR_INVALID_FORMAT''
      else if e = err USBG_ERROR_MISSING_TAG then ''USBG_ERROR_MISSING_TAG''
      else if e = err USBG_ERROR_INVALID_TYPE then ''USBG_ERROR_INVALID_TYPE''
      else if e = err USBG_ERROR_INVALID_VALUE then ''USBG_ERROR_INVALID_VALUE''
      else if e = err USBG_ERROR_NOT_EMPTY then ''USBG_ERROR_NOT_EMPTY''
      else if e = err USBG_ERROR_OTHER_ERROR then ''USBG_ERROR_OTHER_ERROR''
      else ''UNKNOWN'')"

definition usbg_strerror :: "int \<Rightarrow> string" where
  "usbg_strerror e =
     (if e = err USBG_SUCCESS then ''Success''
      else if e = err USBG_ERROR_NO_MEM then ''Insufficient memory''
      else if e = err USBG_ERROR_NO_ACCESS then ''Access denied (insufficient permissions)''
      else if e = err USBG_ERROR_INVALID_PARAM then ''Invalid parameter''
      else if e = err USBG_ERROR_NOT_FOUND then ''Not found (file or directory removed)''
      else if e = err USBG_ERROR_IO then ''Input/output error''
      else if e = err USBG_ERROR_EXIST then ''Already exist''
      else if e = err USBG_ERROR_NO_DEV then ''No such device (illegal device name)''
      else if e = err USBG_ERROR_BUSY then ''Busy (gadget enabled)''
      else if e = err USBG_ERROR_NOT_SUPPORTED then ''Function not supported''
      else if e = err USBG_ERROR_PATH_TOO_LONG then ''Created path was too long to process it.''
      else if e = err USBG_ERROR_INVALID_FORMAT then ''Given file has incompatible format.''
      else if e = err USBG_ERROR_MISSING_TAG then ''One of mandatory tags is missing.''
      else if e = err USBG_ERROR_INVALID_TYPE then ''One of attributes has incompatible type.''
      else if e = err USBG_ERROR_INVALID_VALUE then ''Incorrect value provided as attribute.''
      else if e = err USBG_ERROR_NOT_EMPTY then ''Entity is not empty.''
      else if e = err USBG_ERROR_OTHER_ERROR then ''Other error''
      else ''Unknown error'')"

section \<open>Facts\<close>

lemma err_inject [simp]: "err a = err b \<longleftrightarrow> a = b"
  by (cases a; cases b) simp_all

lemma err_nonpos: "err e \<le> 0"
  by (cases e) simp_all

lemma err_zero_iff [simp]: "err e = 0 \<longleftrightarrow> e = USBG_SUCCESS" "0 = err e \<longleftrightarrow> e = USBG_SUCCESS"
  by (cases e; simp)+

text \<open>An operation that reports a kernel error never reports success by accident.\<close>

lemma translate_error_neg [simp]: "usbg_translate_error e < 0"
  by (simp add: usbg_translate_error_def)

lemma translate_error_nonzero [simp]: "usbg_translate_error e \<noteq> 0" "0 \<noteq> usbg_translate_error e"
  using translate_error_neg [of e] by linarith+

lemma translate_error_not_ge [simp]: "\<not> 0 \<le> usbg_translate_error e"
  by (simp add: not_le)

lemma translate_error_enum: "\<exists>c. usbg_translate_error e = err c \<and> c \<noteq> USBG_SUCCESS"
  unfolding usbg_translate_error_def by (auto simp del: err.simps)

lemma error_name_err:
  "usbg_error_name (err e) = ''UNKNOWN'' \<longleftrightarrow> False"
  by (cases e) (simp_all add: usbg_error_name_def)

end
