(* ===== verification/Usbg_Libc.thy ===== *)
theory Usbg_Libc
  imports Usbg_Error
begin

text \<open>
  The part of the C library the code uses on strings and numbers: comparison, search and
  copies, \<open>printf\<close> conversions, \<open>strtol\<close> and the \<open>scanf\<close> patterns,
  and the two Ethernet address conversions of glibc. Strings are lists of bytes without
  the terminating NUL. The lemmas are the round trips between printing and parsing.
\<close>

section \<open>Strings\<close>

text \<open>The C string at the start of a buffer: its bytes up to the first NUL.\<close>

definition cstr :: "string \<Rightarrow> string" where
  "cstr bs = takeWhile (\<lambda>c. c \<noteq> CHR 0x00) bs"

definition no_nul :: "string \<Rightarrow> bool" where
  "no_nul s \<longleftrightarrow> CHR 0x00 \<notin> set s"

fun strcmp :: "string \<Rightarrow> string \<Rightarrow> int" where
  "strcmp [] [] = 0"
| "strcmp [] (y # ys) = -1"
| "strcmp (x # xs) [] = 1"
| "strcmp (x # xs) (y # ys) =
     (if x = y then strcmp xs ys else if x < y then -1 else 1)"

definition c_isspace :: "char \<Rightarrow> bool" where
  "c_isspace c \<longleftrightarrow> c \<in> {CHR 0x20, CHR 0x09, CHR 0x0A, CHR 0x0B, CHR 0x0C, CHR 0x0D}"

text \<open>
  \<open>strchr\<close> and \<open>strrchr\<close>: the text before and after the first (last) occurrence
  of a character, \<open>None\<close> for a NULL result.
\<close>

definition split_first :: "char \<Rightarrow> string \<Rightarrow> (string \<times> string) option" where
  "split_first c s =
     (if c \<in> set s then Some (takeWhile (\<lambda>x. x \<noteq> c) s, tl (dropWhile (\<lambda>x. x \<noteq> c) s))
      else None)"

definition split_last :: "char \<Rightarrow> string \<Rightarrow> (string \<times> string) option" where
  "split_last c s =
     (case split_first c (rev s) of None \<Rightarrow> None | Some (a, b) \<Rightarrow> Some (rev b, rev a))"

text \<open>
  \<open>snprintf(buf, len, "%s", s)\<close>: the text left in a buffer of \<open>len\<close> bytes (nothing is
  written when \<open>len\<close> is 0) and the returned count.
\<close>

definition snprintf_s :: "nat \<Rightarrow> string \<Rightarrow> int \<times> string" where
  "snprintf_s len s = (int (length s), take (len - 1) s)"

section \<open>Digits\<close>

definition digit_val :: "nat \<Rightarrow> char \<Rightarrow> nat option" where
  "digit_val b c =
     (let n = of_char c :: nat;
          d = (if 48 \<le> n \<and> n \<le> 57 then n - 48
               else if 97 \<le> n \<and> n \<le> 122 then n - 87
               else if 65 \<le> n \<and> n \<le> 90 then n - 55
               else b)
      in if d < b then Some d else None)"

definition digit_char :: "nat \<Rightarrow> char" where
  "digit_char d = (if d < 16 then ''0123456789abcdef'' ! d else CHR ''?'')"

fun nat_str :: "nat \<Rightarrow> nat \<Rightarrow> string" where
  "nat_str b n =
     (if b < 2 \<or> n < b then [digit_char n]
      else nat_str b (n div b) @ [digit_char (n mod b)])"

declare nat_str.simps [simp del]

fun scan_digits :: "nat \<Rightarrow> string \<Rightarrow> nat \<Rightarrow> nat \<times> string" where
  "scan_digits b [] acc = (acc, [])"
| "scan_digits b (c # cs) acc =
     (case digit_val b c of None \<Rightarrow> (acc, c # cs) | Some d \<Rightarrow> scan_digits b cs (acc * b + d))"

section \<open>strtol and strtoul\<close>

text \<open>Optional sign; the result says whether it was a minus.\<close>

definition scan_sign :: "string \<Rightarrow> bool \<times> string" where
  "scan_sign s =
     (case s of
        [] \<Rightarrow> (False, [])
      | c # cs \<Rightarrow> if c = CHR ''-'' then (True, cs) else if c = CHR ''+'' then (False, cs) else (False, s))"

text \<open>In base 16 an optional \<open>0x\<close> prefix, taken only when a digit follows it.\<close>

definition skip_hex_prefix :: "nat \<Rightarrow> string \<Rightarrow> string" where
  "skip_hex_prefix b s =
     (case s of
        z # x # d # rest \<Rightarrow>
          if b = 16 \<and> z = CHR ''0'' \<and> (x = CHR ''x'' \<or> x = CHR ''X'') \<and> digit_val b d \<noteq> None
          then d # rest else s
      | _ \<Rightarrow> s)"

text \<open>
  Sign, magnitude and the rest of the string (from \<open>endptr\<close>); without a digit nothing
  is consumed and the value is 0.
\<close>

definition scan_number :: "nat \<Rightarrow> string \<Rightarrow> bool \<times> nat \<times> string" where
  "scan_number b s =
     (let (neg, s1) = scan_sign (dropWhile c_isspace s);
          s2 = skip_hex_prefix b s1
      in if s2 = [] \<or> digit_val b (hd s2) = None then (False, 0, s)
         else let (n, rest) = scan_digits b s2 0 in (neg, n, rest))"

abbreviation LONG_MAX :: int where "LONG_MAX \<equiv> 9223372036854775807"
abbreviation LONG_MIN :: int where "LONG_MIN \<equiv> - 9223372036854775808"
abbreviation ULONG_MAX :: int where "ULONG_MAX \<equiv> 18446744073709551615"

text \<open>\<open>strtol\<close>: value, rest of the string, and whether \<open>errno\<close> was set to \<open>ERANGE\<close>.\<close>

definition strtol :: "nat \<Rightarrow> string \<Rightarrow> int \<times> string \<times> bool" where
  "strtol b s =
     (let (neg, n, rest) = scan_number b s;
          v = (if neg then - int n else int n)
      in if v > LONG_MAX then (LONG_MAX, rest, True)
         else if v < LONG_MIN then (LONG_MIN, rest, True)
         else (v, rest, False))"

definition strtoul :: "nat \<Rightarrow> string \<Rightarrow> int \<times> string" where
  "strtoul b s =
     (let (neg, n, rest) = scan_number b s
      in if int n > ULONG_MAX then (ULONG_MAX, rest)
         else (if neg then (- int n) mod (ULONG_MAX + 1) else int n, rest))"

section \<open>printf conversions of integers\<close>

text \<open>The four format strings the library passes to \<open>usbg_write_int\<close>.\<close>

datatype int_format =
    Fmt_d   \<comment> \<open>"%d\\n"\<close>
  | Fmt_x   \<comment> \<open>"0x%x\\n"\<close>
  | Fmt_04x \<comment> \<open>"0x%04x\\n"\<close>
  | Fmt_02x \<comment> \<open>"0x%02x\\n"\<close>

definition pad_zero :: "nat \<Rightarrow> string \<Rightarrow> string" where
  "pad_zero w s = replicate (w - length s) (CHR ''0'') @ s"

definition int_str :: "int \<Rightarrow> string" where
  "int_str i = (if i < 0 then CHR ''-'' # nat_str 10 (nat (- i)) else nat_str 10 (nat i))"

fun format_int :: "int_format \<Rightarrow> cint \<Rightarrow> string" where
  "format_int Fmt_d v = int_str (sint v) @ [CHR 0x0A]"
| "format_int Fmt_x v = ''0x'' @ nat_str 16 (unat v) @ [CHR 0x0A]"
| "format_int Fmt_04x v = ''0x'' @ pad_zero 4 (nat_str 16 (unat v)) @ [CHR 0x0A]"
| "format_int Fmt_02x v = ''0x'' @ pad_zero 2 (nat_str 16 (unat v)) @ [CHR 0x0A]"

text \<open>The base each of them is read back in.\<close>

fun format_base :: "int_format \<Rightarrow> nat" where
  "format_base Fmt_d = 10"
| "format_base Fmt_x = 16"
| "format_base Fmt_04x = 16"
| "format_base Fmt_02x = 16"

section \<open>scanf patterns\<close>

text \<open>\<open>%d\<close>: the value and the rest, \<open>None\<close> for a matching failure.\<close>

definition scan_d :: "string \<Rightarrow> (int \<times> string) option" where
  "scan_d s =
     (let (neg, s1) = scan_sign (dropWhile c_isspace s)
      in if s1 = [] \<or> digit_val 10 (hd s1) = None then None
         else let (n, rest) = scan_digits 10 s1 0 in Some (if neg then - int n else int n, rest))"

text \<open>
  \<open>sscanf(s, "pre%d", &id)\<close>: the returned count and the value stored, if any. The count
  is \<open>EOF\<close> (-1) when the input ends before the first conversion, 0 when a character
  does not match.
\<close>

fun sscanf_prefix_d :: "string \<Rightarrow> string \<Rightarrow> int \<times> int option" where
  "sscanf_prefix_d [] s =
     (if dropWhile c_isspace s = [] then (-1, None)
      else case scan_d s of None \<Rightarrow> (0, None) | Some (v, _) \<Rightarrow> (1, Some v))"
| "sscanf_prefix_d (p # ps) [] = (-1, None)"
| "sscanf_prefix_d (p # ps) (c # cs) = (if p = c then sscanf_prefix_d ps cs else (0, None))"

text \<open>\<open>sscanf(s, "%d:%d", &major, &minor)\<close>, only the case of two conversions matters.\<close>

definition sscanf_dev :: "string \<Rightarrow> (int \<times> int) option" where
  "sscanf_dev s =
     (case scan_d s of
        Some (a, c # rest) \<Rightarrow>
          if c = CHR '':'' then
            (case scan_d rest of Some (b, _) \<Rightarrow> Some (a, b) | None \<Rightarrow> None)
          else None
      | _ \<Rightarrow> None)"

text \<open>
  \<open>%02hhx\<close>: at most two characters after white space, of which one may be a sign or
  both the prefix \<open>0x\<close> (read as 0).
\<close>

definition scan_hhx :: "string \<Rightarrow> (u8 \<times> string) option" where
  "scan_hhx s =
     (let s0 = dropWhile c_isspace s;
          (neg, s1) = scan_sign s0;
          room = 2 - (length s0 - length s1);
          ds = takeWhile (\<lambda>c. digit_val 16 c \<noteq> None) (take room s1);
          n = fst (scan_digits 16 ds 0)
      in if ds = [] then None
         else if room = 2 \<and> ds = ''0'' \<and> take 1 (drop 1 s1) \<in> {''x'', ''X''}
           then Some (0, drop 2 s1)
         else Some (if neg then - of_nat n else of_nat n, drop (length ds) s1))"

text \<open>
  The pattern of \<open>usbg_write_guid\<close>: 16 conversions with dashes after the 4th, 6th, 8th
  and 10th byte; the bytes converted before the first failure.
\<close>

fun scan_guid :: "nat \<Rightarrow> nat \<Rightarrow> string \<Rightarrow> u8 list" where
  "scan_guid 0 i s = []"
| "scan_guid (Suc n) i s =
     (let s' = (if i \<in> {4, 6, 8, 10} then (case s of c # cs \<Rightarrow> if c = CHR ''-'' then Some cs else None | [] \<Rightarrow> None)
                else Some s)
      in case s' of None \<Rightarrow> []
         | Some t \<Rightarrow> (case scan_hhx t of None \<Rightarrow> [] | Some (b, rest) \<Rightarrow> b # scan_guid n (Suc i) rest))"

section \<open>Ethernet addresses\<close>

definition hex2 :: "u8 \<Rightarrow> string" where
  "hex2 b = pad_zero 2 (nat_str 16 (unat b))"

text \<open>glibc's \<open>ether_aton_r\<close> for the \<open>n\<close> octets still to read.\<close>

fun ether_octets :: "nat \<Rightarrow> string \<Rightarrow> u8 list option" where
  "ether_octets 0 s = Some []"
| "ether_octets (Suc 0) s =
     (case s of [] \<Rightarrow> None
      | c # cs \<Rightarrow> (case digit_val 16 c of None \<Rightarrow> None
         | Some d \<Rightarrow>
            (case cs of [] \<Rightarrow> Some [of_nat d]
             | c2 # _ \<Rightarrow> if c_isspace c2 then Some [of_nat d]
                else (case digit_val 16 c2 of None \<Rightarrow> None | Some d2 \<Rightarrow> Some [of_nat (16 * d + d2)]))))"
| "ether_octets (Suc (Suc n)) s =
     (case s of
        c # c2 # cs \<Rightarrow>
          (case digit_val 16 c of None \<Rightarrow> None
           | Some d \<Rightarrow>
              if c2 = CHR '':'' then map_option (Cons (of_nat d)) (ether_octets (Suc n) cs)
              else (case digit_val 16 c2 of None \<Rightarrow> None
                    | Some d2 \<Rightarrow>
                       (case cs of
                          c3 # cs' \<Rightarrow> if c3 = CHR '':''
                             then map_option (Cons (of_nat (16 * d + d2))) (ether_octets (Suc n) cs')
                             else None
                        | [] \<Rightarrow> None)))
      | _ \<Rightarrow> None)"

definition ether_aton :: "string \<Rightarrow> u8 list option" where
  "ether_aton s = ether_octets 6 s"

fun ether_ntoa :: "u8 list \<Rightarrow> string" where
  "ether_ntoa [] = []"
| "ether_ntoa [b] = hex2 b"
| "ether_ntoa (b # bs) = hex2 b @ [CHR '':''] @ ether_ntoa bs"

section \<open>Comparison is the linear order on strings\<close>

lemma strcmp_zero_iff [simp]: "strcmp a b = 0 \<longleftrightarrow> a = b"
  by (induction a b rule: strcmp.induct) auto

lemma strcmp_refl [simp]: "strcmp a a = 0"
  by simp

lemma strcmp_neg_iff [simp]: "strcmp a b < 0 \<longleftrightarrow> a < b"
  by (induction a b rule: strcmp.induct) (auto simp: not_less_iff_gr_or_eq simp del: less_char_simp)

lemma strcmp_pos_iff [simp]: "0 < strcmp a b \<longleftrightarrow> b < a"
proof -
  have "0 < strcmp a b \<longleftrightarrow> \<not> strcmp a b < 0 \<and> strcmp a b \<noteq> 0" by linarith
  then show ?thesis by (simp only: strcmp_neg_iff strcmp_zero_iff) (metis less_asym neqE)
qed

section \<open>C strings\<close>

lemma cstr_no_nul: "no_nul s \<Longrightarrow> cstr (s @ t) = s @ cstr t"
  unfolding cstr_def no_nul_def by (rule takeWhile_all) auto

lemma cstr_id [simp]: "no_nul s \<Longrightarrow> cstr s = s"
  using cstr_no_nul [of s "[]"] by (simp add: cstr_def)

lemma no_nul_append [simp]: "no_nul (a @ b) \<longleftrightarrow> no_nul a \<and> no_nul b"
  by (simp add: no_nul_def)

lemma no_nul_Cons [simp]: "no_nul (c # s) \<longleftrightarrow> c \<noteq> CHR 0x00 \<and> no_nul s"
  by (auto simp: no_nul_def)

lemma no_nul_Nil [simp]: "no_nul []"
  by (simp add: no_nul_def)

section \<open>Printing and reading digits\<close>

lemma digit_cases:
  "(d :: nat) < 16 \<Longrightarrow> d = 0 \<or> d = 1 \<or> d = 2 \<or> d = 3 \<or> d = 4 \<or> d = 5 \<or> d = 6 \<or> d = 7
     \<or> d = 8 \<or> d = 9 \<or> d = 10 \<or> d = 11 \<or> d = 12 \<or> d = 13 \<or> d = 14 \<or> d = 15"
  by arith

lemma digit_val_digit_char: "d < b \<Longrightarrow> b \<le> 16 \<Longrightarrow> digit_val b (digit_char d) = Some d"
proof -
  assume *: "d < b" "b \<le> 16"
  then have "d < 16" by simp
  from digit_cases [OF this] * show ?thesis
    by (elim disjE) (simp_all add: digit_val_def digit_char_def)
qed

lemma digit_char_plain:
  "d < 16 \<Longrightarrow> \<not> c_isspace (digit_char d) \<and> digit_char d \<noteq> CHR 0x00 \<and> digit_char d \<noteq> CHR 0x0A
     \<and> digit_char d \<noteq> CHR ''-'' \<and> digit_char d \<noteq> CHR ''+'' \<and> digit_char d \<noteq> CHR '':''
     \<and> digit_char d \<noteq> CHR ''x'' \<and> digit_char d \<noteq> CHR ''X'' \<and> digit_char d \<noteq> CHR ''.''"
  by (drule digit_cases, elim disjE) (simp_all add: digit_char_def c_isspace_def)

lemma nat_str_not_Nil [simp]: "nat_str b n \<noteq> []"
  by (subst nat_str.simps) simp

lemma nat_str_set:
  "2 \<le> b \<Longrightarrow> b \<le> 16 \<Longrightarrow> \<forall>c\<in>set (nat_str b n). \<exists>d<b. c = digit_char d"
proof (induction b n rule: nat_str.induct)
  case (1 b n)
  show ?case
  proof (cases "n < b")
    case True
    then show ?thesis by (subst nat_str.simps) auto
  next
    case False
    with 1 have "\<forall>c\<in>set (nat_str b (n div b)). \<exists>d<b. c = digit_char d" by simp
    moreover have "n mod b < b" using 1(2) by simp
    then have "\<exists>d<b. digit_char (n mod b) = digit_char d" by blast
    ultimately show ?thesis using False 1(2) by (subst nat_str.simps) auto
  qed
qed

lemma nat_str_chars:
  assumes "2 \<le> b" "b \<le> 16" "c \<in> set (nat_str b n)"
  shows "digit_val b c \<noteq> None" "\<not> c_isspace c" "c \<noteq> CHR 0x00" "c \<noteq> CHR 0x0A"
    "c \<noteq> CHR ''-''" "c \<noteq> CHR ''+''" "c \<noteq> CHR '':''" "c \<noteq> CHR ''x''" "c \<noteq> CHR ''X''" "c \<noteq> CHR ''.''"
proof -
  from nat_str_set [OF assms(1,2), of n] assms(3) obtain d where d: "d < b" "c = digit_char d"
    by blast
  then have "d < 16" using assms(2) by simp
  from digit_char_plain [OF this] d digit_val_digit_char [OF d(1) assms(2)]
  show "digit_val b c \<noteq> None" "\<not> c_isspace c" "c \<noteq> CHR 0x00" "c \<noteq> CHR 0x0A"
    "c \<noteq> CHR ''-''" "c \<noteq> CHR ''+''" "c \<noteq> CHR '':''" "c \<noteq> CHR ''x''" "c \<noteq> CHR ''X''" "c \<noteq> CHR ''.''"
    by simp_all
qed

definition digits_value :: "nat \<Rightarrow> string \<Rightarrow> nat \<Rightarrow> nat" where
  "digits_value b s acc = foldl (\<lambda>a c. a * b + the (digit_val b c)) acc s"

lemma scan_digits_append:
  "\<forall>c\<in>set xs. digit_val b c \<noteq> None \<Longrightarrow>
   scan_digits b (xs @ ys) acc = scan_digits b ys (digits_value b xs acc)"
  by (induction xs arbitrary: acc) (auto simp: digits_value_def)

lemma scan_digits_stop:
  "s = [] \<or> digit_val b (hd s) = None \<Longrightarrow> scan_digits b s acc = (acc, s)"
  by (cases s) (auto split: option.splits)

lemma digits_value_nat_str: "2 \<le> b \<Longrightarrow> b \<le> 16 \<Longrightarrow> digits_value b (nat_str b n) 0 = n"
proof (induction b n rule: nat_str.induct)
  case (1 b n)
  show ?case
  proof (cases "n < b")
    case True
    with 1(2,3) show ?thesis
      by (subst nat_str.simps) (simp add: digits_value_def digit_val_digit_char)
  next
    case False
    with 1 have "digits_value b (nat_str b (n div b)) 0 = n div b" by simp
    moreover have "digit_val b (digit_char (n mod b)) = Some (n mod b)"
      using 1(2,3) by (intro digit_val_digit_char) auto
    ultimately show ?thesis using False 1(2)
      by (subst nat_str.simps) (simp add: digits_value_def)
  qed
qed

lemma digit_val_zero [simp]: "2 \<le> b \<Longrightarrow> digit_val b (CHR ''0'') = Some 0"
  by (simp add: digit_val_def)

lemma digits_value_pad [simp]:
  "2 \<le> b \<Longrightarrow> digits_value b (pad_zero w s) 0 = digits_value b s 0"
proof -
  assume "2 \<le> b"
  then have "digits_value b (replicate k (CHR ''0'') @ s) 0 = digits_value b s 0" for k
    by (induction k) (simp_all add: digits_value_def)
  then show ?thesis by (simp add: pad_zero_def)
qed

lemma set_pad_zero: "set (pad_zero w s) \<subseteq> insert (CHR ''0'') (set s)"
  by (auto simp: pad_zero_def)

lemma pad_zero_not_Nil [simp]: "s \<noteq> [] \<Longrightarrow> pad_zero w s \<noteq> []"
  by (simp add: pad_zero_def)

lemma digit_val_newline [simp]: "digit_val b (CHR 0x0A) = None"
  by (simp add: digit_val_def)

text \<open>Reading back digits that end at a character which is not one.\<close>

lemma scan_digits_number:
  assumes "2 \<le> b" "b \<le> 16" "rest = [] \<or> digit_val b (hd rest) = None"
  shows "scan_digits b (pad_zero w (nat_str b n) @ rest) 0 = (n, rest)"
    and "scan_digits b (nat_str b n @ rest) 0 = (n, rest)"
proof -
  have all: "\<forall>c\<in>set (pad_zero w (nat_str b n)). digit_val b c \<noteq> None" for w
    using set_pad_zero [of w "nat_str b n"] nat_str_chars(1) [OF assms(1,2)] assms(1) by fastforce
  show "scan_digits b (pad_zero w (nat_str b n) @ rest) 0 = (n, rest)"
    using all assms by (simp add: scan_digits_append scan_digits_stop digits_value_nat_str)
  have "\<forall>c\<in>set (nat_str b n). digit_val b c \<noteq> None"
    using nat_str_chars(1) [OF assms(1,2)] by blast
  then show "scan_digits b (nat_str b n @ rest) 0 = (n, rest)"
    using assms by (simp add: scan_digits_append scan_digits_stop digits_value_nat_str)
qed

section \<open>Reading back what printf wrote\<close>

lemma scan_number_hex:
  assumes "rest = [] \<or> digit_val 16 (hd rest) = None"
  shows "scan_number 16 (''0x'' @ pad_zero w (nat_str 16 n) @ rest) = (False, n, rest)"
proof -
  obtain d ds where d: "pad_zero w (nat_str 16 n) = d # ds"
    by (cases "pad_zero w (nat_str 16 n)") auto
  then have "digit_val 16 d \<noteq> None"
    using set_pad_zero [of w "nat_str 16 n"] nat_str_chars(1) [of 16 _ n] by fastforce
  with d scan_digits_number(1) [of 16 rest w n] assms show ?thesis
    by (auto simp: scan_number_def scan_sign_def skip_hex_prefix_def c_isspace_def)
qed

lemma pad_zero_none: "nat_str b n = pad_zero 0 (nat_str b n)"
  by (simp add: pad_zero_def)

lemma scan_number_dec:
  assumes "rest = [] \<or> digit_val 10 (hd rest) = None"
  shows "scan_number 10 (int_str i @ rest) = (i < 0, nat \<bar>i\<bar>, rest)"
proof -
  have head: "\<exists>d ds. nat_str 10 n = d # ds \<and> digit_val 10 d \<noteq> None \<and> \<not> c_isspace d
      \<and> d \<noteq> CHR ''-'' \<and> d \<noteq> CHR ''+''" for n
    using nat_str_chars [of 10 _ n] nat_str_not_Nil [of 10 n]
    by (cases "nat_str 10 n") (auto simp del: nat_str_not_Nil)
  have skip: "skip_hex_prefix 10 s = s" for s
    by (auto simp: skip_hex_prefix_def split: list.splits)
  have minus: "\<not> c_isspace (CHR ''-'')" by (simp add: c_isspace_def)
  show ?thesis
  proof (cases "i < 0")
    case True
    with head [of "nat (- i)"] scan_digits_number(2) [of 10 rest "nat (- i)"] assms minus show ?thesis
      by (auto simp: int_str_def scan_number_def scan_sign_def skip)
  next
    case False
    with head [of "nat i"] scan_digits_number(2) [of 10 rest "nat i"] assms show ?thesis
      by (auto simp: int_str_def scan_number_def scan_sign_def skip)
  qed
qed

lemma sint_bounds_cint: "- 2147483648 \<le> sint (v :: cint)" "sint v < 2147483648"
  using sint_ge [of v] sint_lt [of v] by simp_all

lemma uint_bounds_cint: "uint (v :: cint) < 4294967296" "- 1 < uint v"
  using uint_lt2p [of v] less_le_trans [OF _ uint_ge_0 [of v], of "-1"] by auto

lemma unat_bound_cint: "unat (v :: cint) < 4294967296"
proof -
  have "nat (uint v) < 4294967296" using uint_bounds_cint [of v] by linarith
  then show ?thesis by simp
qed

text \<open>
  Whatever follows the newline in the buffer, reading the printed text gives the value
  back.
\<close>

lemma strtol_format_int:
  "strtol (format_base f) (format_int f v @ junk) =
     ((if f = Fmt_d then sint v else uint v), CHR 0x0A # junk, False)"
proof (cases "f = Fmt_d")
  case True
  with sint_bounds_cint [of v] scan_number_dec [of "CHR 0x0A # junk" "sint v"] show ?thesis
    by (auto simp: strtol_def Let_def)
next
  case False
  obtain w where w: "format_int f v = ''0x'' @ pad_zero w (nat_str 16 (unat v)) @ [CHR 0x0A]"
    "format_base f = 16"
  proof (cases f)
    case Fmt_x
    with that [of 0] show ?thesis by (simp add: pad_zero_def)
  next
    case Fmt_04x
    with that [of 4] show ?thesis by simp
  next
    case Fmt_02x
    with that [of 2] show ?thesis by simp
  qed (use False in simp)
  with scan_number_hex [of "CHR 0x0A # junk" w "unat v"] uint_bounds_cint [of v] unat_bound_cint [of v] False show ?thesis
    by (simp add: strtol_def Let_def)
qed

lemma no_nul_nat_str: "2 \<le> b \<Longrightarrow> b \<le> 16 \<Longrightarrow> no_nul (nat_str b n)"
  using nat_str_chars(3) unfolding no_nul_def by blast

lemma no_nul_pad_zero [simp]: "no_nul (pad_zero w s) = no_nul s"
  by (auto simp: no_nul_def pad_zero_def)

lemma no_nul_format_int [simp]: "no_nul (format_int f v)"
  by (cases f) (auto simp: int_str_def no_nul_nat_str)


text \<open>The printed text of an \<open>int\<close> is short.\<close>

lemma length_nat_str: "2 \<le> b \<Longrightarrow> n < b ^ Suc w \<Longrightarrow> length (nat_str b n) \<le> Suc w"
proof (induction w arbitrary: n)
  case 0
  then show ?case by (subst nat_str.simps) simp
next
  case (Suc w)
  show ?case
  proof (cases "n < b")
    case True
    then show ?thesis by (subst nat_str.simps) simp
  next
    case False
    have "n div b < b ^ Suc w"
      using Suc.prems by (simp add: less_mult_imp_div_less mult.commute)
    with Suc False show ?thesis by (subst nat_str.simps) simp
  qed
qed

lemma length_pad_zero: "length (pad_zero w s) = max w (length s)"
  by (simp add: pad_zero_def)

lemma length_format_int: "length (format_int f v) \<le> 13"
proof -
  have "length (nat_str 16 (unat v)) \<le> Suc 7"
    using unat_bound_cint [of v] by (intro length_nat_str) simp_all
  moreover have "length (nat_str 10 (nat (sint v))) \<le> 10"
    using sint_bounds_cint [of v] length_nat_str [of 10 "nat (sint v)" 9] by simp
  moreover have "length (nat_str 10 (nat (- sint v))) \<le> 10"
    using sint_bounds_cint [of v] length_nat_str [of 10 "nat (- sint v)" 9] by simp
  ultimately show ?thesis
    by (cases f) (auto simp: int_str_def length_pad_zero)
qed


section \<open>Ethernet addresses\<close>

lemma unat_bound_u8: "unat (b :: u8) < 256"
proof -
  have "uint b < 256" using uint_lt2p [of b] by simp
  then have "nat (uint b) < 256" by linarith
  then show ?thesis by simp
qed

lemma hex2_digits: "hex2 b = [digit_char (unat b div 16), digit_char (unat b mod 16)]"
proof (cases "unat b < 16")
  case True
  then show ?thesis by (simp add: hex2_def pad_zero_def nat_str.simps digit_char_def)
next
  case False
  have "unat b div 16 < 16" using unat_bound_u8 [of b] by (simp add: less_mult_imp_div_less)
  with False show ?thesis
    by (simp add: hex2_def pad_zero_def nat_str.simps [of 16 "unat b"] nat_str.simps [of 16 "unat b div 16"])
qed

lemma ether_octets_ntoa: "bs \<noteq> [] \<Longrightarrow> ether_octets (length bs) (ether_ntoa bs) = Some bs"
proof (induction bs rule: ether_ntoa.induct)
  case (2 b)
  have "unat b div 16 < 16" "unat b mod 16 < 16"
    using unat_bound_u8 [of b] by (simp_all add: less_mult_imp_div_less)
  with digit_char_plain [of "unat b mod 16"] show ?case
    by (simp add: hex2_digits digit_val_digit_char)
next
  case (3 b b2 bs)
  have "unat b div 16 < 16" "unat b mod 16 < 16"
    using unat_bound_u8 [of b] by (simp_all add: less_mult_imp_div_less)
  with digit_char_plain [of "unat b mod 16"] 3 show ?case
    by (simp add: hex2_digits digit_val_digit_char)
qed simp

lemma ether_aton_ntoa: "length bs = 6 \<Longrightarrow> ether_aton (ether_ntoa bs) = Some bs"
  using ether_octets_ntoa [of bs] by (cases bs) (auto simp: ether_aton_def)

lemma hex2_chars: "c \<in> set (hex2 b) \<Longrightarrow> \<exists>d<16. c = digit_char d"
proof -
  have "unat b div 16 < 16" "unat b mod 16 < 16"
    using unat_bound_u8 [of b] by (simp_all add: less_mult_imp_div_less)
  then show "c \<in> set (hex2 b) \<Longrightarrow> \<exists>d<16. c = digit_char d"
    unfolding hex2_digits by (metis empty_iff list.set(1) set_ConsD)
qed

lemma ether_ntoa_chars:
  "c \<in> set (ether_ntoa bs) \<Longrightarrow> c = CHR '':'' \<or> (\<exists>d<16. c = digit_char d)"
  by (induction bs rule: ether_ntoa.induct) (auto dest: hex2_chars)

lemma length_ether_ntoa: "length (ether_ntoa bs) \<le> 3 * length bs"
  by (induction bs rule: ether_ntoa.induct) (simp_all add: hex2_digits)

lemma ether_ntoa_plain: "no_nul (ether_ntoa bs)" "CHR 0x0A \<notin> set (ether_ntoa bs)"
  using ether_ntoa_chars digit_char_plain by (fastforce simp: no_nul_def)+

end
