(* ===== verification/Usbg_Kernel.thy ===== *)
theory Usbg_Kernel
  imports Usbg_Libc
begin

text \<open>
  What the library calls but does not contain: the allocator, the file system calls on
  configfs and sysfs, and the C library's directory walkers. They are one record of
  functions over an arbitrary environment state \<open>'k\<close>, an argument of every
  definition that uses them, so a theorem without hypotheses on it holds for every
  behaviour of the kernel: any call may fail with any error, and files may change between
  two calls.
\<close>

section \<open>The calls\<close>

text \<open>
  \<open>fopen(p, "r"); fread; fclose\<close>: the open fails, or bytes are read and
  \<open>ferror\<close> tells whether reading stopped on an error.
\<close>

datatype file_read =
    Read_open_failed errno
  | Read_bytes string bool

text \<open>
  \<open>fopen(p, "w"); fwrite; fclose\<close>: the open fails, or \<open>fwrite\<close> returned a count, with
  the error that \<open>ferror\<close> reports if any, and \<open>fclose\<close> fails or not.
\<close>

datatype file_write =
    Write_open_failed errno
  | Wrote nat "errno option" "errno option"

datatype d_type = DT_LNK | DT_DIR | DT_REG

record dirent =
  d_name :: string
  d_kind :: d_type

record 'k kernel =
  k_malloc :: "'k \<Rightarrow> bool \<times> 'k"
  k_stale :: "'k \<Rightarrow> string"
  k_read :: "string \<Rightarrow> nat \<Rightarrow> 'k \<Rightarrow> file_read \<times> 'k"
  k_write :: "string \<Rightarrow> string \<Rightarrow> 'k \<Rightarrow> file_write \<times> 'k"
  k_mkdir :: "string \<Rightarrow> 'k \<Rightarrow> errno option \<times> 'k"
  k_rmdir :: "string \<Rightarrow> 'k \<Rightarrow> errno option \<times> 'k"
  k_unlink :: "string \<Rightarrow> 'k \<Rightarrow> errno option \<times> 'k"
  k_symlink :: "string \<Rightarrow> string \<Rightarrow> 'k \<Rightarrow> errno option \<times> 'k"
  k_readlink :: "string \<Rightarrow> nat \<Rightarrow> 'k \<Rightarrow> (errno + string) \<times> 'k"
  k_opendir :: "string \<Rightarrow> 'k \<Rightarrow> errno option \<times> 'k"
  k_readdir :: "string \<Rightarrow> 'k \<Rightarrow> (errno + dirent list) \<times> 'k"
  k_nftw :: "string \<Rightarrow> 'k \<Rightarrow> ((string \<times> nat) list \<times> bool) \<times> 'k"
  k_remove :: "string \<Rightarrow> 'k \<Rightarrow> errno option \<times> 'k"
  k_stat :: "string \<Rightarrow> 'k \<Rightarrow> bool \<times> 'k"

text \<open>
  \<^item> \<open>k_malloc\<close>: whether the next allocation (\<open>malloc\<close>, \<open>calloc\<close>, \<open>strdup\<close>,
    \<open>strndup\<close>, \<open>asprintf\<close>) succeeds;
  \<^item> \<open>k_stale\<close>: what lies behind the part of a stack buffer that was written;
  \<^item> \<open>k_readdir\<close>: the entries of a directory in the order the kernel gives them;
  \<^item> \<open>k_nftw\<close>: the entries \<open>nftw\<close> visits with \<open>FTW_DEPTH\<close>, in order, each with its
    level below the start, and whether the walk ended with an error;
  \<^item> \<open>k_stat\<close>: whether \<open>stat\<close> succeeds.
  The result \<open>None\<close> of a call that returns an error number is success.
\<close>

section \<open>Paths\<close>

text \<open>\<open>USBG_MAX_PATH_LENGTH\<close> is \<open>PATH_MAX\<close>; a path with its NUL must fit into it.\<close>

definition USBG_MAX_PATH_LENGTH :: nat where
  "USBG_MAX_PATH_LENGTH = 4096"

definition USBG_MAX_FILE_SIZE :: nat where
  "USBG_MAX_FILE_SIZE = 4096"

definition USBG_MAX_STR_LENGTH :: nat where
  "USBG_MAX_STR_LENGTH = 256"

definition fits :: "string \<Rightarrow> bool" where
  "fits p \<longleftrightarrow> length p < USBG_MAX_PATH_LENGTH"

definition path2 :: "string \<Rightarrow> string \<Rightarrow> string" where
  "path2 a b = a @ ''/'' @ b"

definition path3 :: "string \<Rightarrow> string \<Rightarrow> string \<Rightarrow> string" where
  "path3 a b c = a @ ''/'' @ b @ ''/'' @ c"

lemma path3_inject [simp]: "path3 a b c = path3 a b d \<longleftrightarrow> c = d"
  by (simp add: path3_def)

section \<open>scandir\<close>

text \<open>
  The two filters of the library and \<open>scandir(path, sel, alphasort)\<close> in the C locale,
  where \<open>alphasort\<close> compares like \<open>strcmp\<close>: the library's results depend on names
  only, so a directory is the sorted list of its entries.
\<close>

definition file_select :: "dirent \<Rightarrow> bool" where
  "file_select d \<longleftrightarrow> \<not> (strcmp (d_name d) ''.'' = 0 \<or> strcmp (d_name d) ''..'' = 0)"

definition bindings_select :: "dirent \<Rightarrow> bool" where
  "bindings_select d \<longleftrightarrow> d_kind d = DT_LNK"

definition scandir ::
  "'k kernel \<Rightarrow> string \<Rightarrow> (dirent \<Rightarrow> bool) \<Rightarrow> 'k \<Rightarrow> (errno + string list) \<times> 'k" where
  "scandir K path sel k =
     (case k_readdir K path k of
        (Inl e, k') \<Rightarrow> (Inl e, k')
      | (Inr ds, k') \<Rightarrow> (Inr (sort (map d_name (filter sel ds))), k'))"

lemma scandir_sorted: "scandir K p sel k = (Inr ns, k') \<Longrightarrow> sorted ns"
  by (auto simp: scandir_def split: prod.splits sum.splits)

section \<open>Attribute files that keep what is written\<close>

text \<open>
  The interface most round trips rely on. \<open>contents\<close> is the text a reader of a file gets.
  A completed write makes it the written text and leaves other files alone; reading and
  allocating change no file. A configfs attribute that stores a value behaves so; one that
  the kernel normalises or changes on its own does not, and the theorems that use this
  interface say so by their hypothesis.
\<close>

locale attr_store =
  fixes K :: "'k kernel"
    and contents :: "'k \<Rightarrow> string \<Rightarrow> string option"
  assumes write_stores:
      "k_write K p s k = (Wrote n ferr None, k') \<Longrightarrow> length s \<le> n \<Longrightarrow>
        contents k' = (contents k)(p \<mapsto> s)"
    and read_returns:
      "contents k p = Some s \<Longrightarrow> fst (k_read K p len k) = Read_bytes (take len s) False"
    and read_keeps: "contents (snd (k_read K p len k)) = contents k"
    and malloc_keeps: "contents (snd (k_malloc K k)) = contents k"

text \<open>The same, where allocations succeed.\<close>

locale attr_store_mem = attr_store +
  assumes malloc_succeeds: "fst (k_malloc K k)"

end
