(* ===== verification/Usbg_Common.thy ===== *)
theory Usbg_Common
  imports Usbg_Kernel
begin

text \<open>
  The helpers of \<open>src/usbg_common.c\<close>: bounded reads and writes of attribute files,
  removal of files and directories, and the conversions shared by the function types.
  Each takes the kernel, its C arguments and the environment state, and returns what the C
  function returns (with the contents of its output buffer where it has one) and the new
  state. \<open>errno\<close> of a failed call is part of the call's result.
\<close>

section \<open>Reading\<close>

text \<open>\<open>usbg_read_buf_limited\<close>: return code and the bytes now at the start of \<open>buf\<close>.\<close>

definition usbg_read_buf_limited ::
  "'k kernel \<Rightarrow> string \<Rightarrow> string \<Rightarrow> string \<Rightarrow> nat \<Rightarrow> 'k \<Rightarrow> int \<times> string \<times> 'k" where
  "usbg_read_buf_limited K path name file len k =
     (let p = path3 path name file
      in if \<not> fits p then (err USBG_ERROR_PATH_TOO_LONG, [], k)
         else case k_read K p len k of
             (Read_open_failed e, k') \<Rightarrow> (usbg_translate_error e, [], k')
           | (Read_bytes bs ferr, k') \<Rightarrow>
               let buf = take len bs; ret = length buf
               in if ret < len \<and> ferr then (err USBG_ERROR_IO, buf, k')
                  else (int ret, buf, k'))"

definition usbg_read_buf ::
  "'k kernel \<Rightarrow> string \<Rightarrow> string \<Rightarrow> string \<Rightarrow> 'k \<Rightarrow> int \<times> string \<times> 'k" where
  "usbg_read_buf K path name file k = usbg_read_buf_limited K path name file USBG_MAX_STR_LENGTH k"

text \<open>
  \<open>usbg_read_int\<close>: \<open>dest\<close> is the old value of the output parameter. \<open>strtol\<close> runs
  over the bytes read and whatever follows them in the buffer, and always sets
  \<open>pos\<close>, so the test of \<open>pos\<close> never fails.
\<close>

definition usbg_read_int ::
  "'k kernel \<Rightarrow> string \<Rightarrow> string \<Rightarrow> string \<Rightarrow> nat \<Rightarrow> cint \<Rightarrow> 'k \<Rightarrow> int \<times> cint \<times> 'k" where
  "usbg_read_int K path name file base dest k =
     (let (ret, buf, k') = usbg_read_buf K path name file k
      in if ret \<ge> 0 then
           let (v, rest, erange) = strtol base (cstr (buf @ k_stale K k'));
               pos = Some rest
           in (if pos = None then err USBG_ERROR_OTHER_ERROR else 0, word_of_int v, k')
         else (ret, dest, k'))"

definition usbg_read_dec ::
  "'k kernel \<Rightarrow> string \<Rightarrow> string \<Rightarrow> string \<Rightarrow> cint \<Rightarrow> 'k \<Rightarrow> int \<times> cint \<times> 'k" where
  "usbg_read_dec K p n f d k = usbg_read_int K p n f 10 d k"

definition usbg_read_hex ::
  "'k kernel \<Rightarrow> string \<Rightarrow> string \<Rightarrow> string \<Rightarrow> cint \<Rightarrow> 'k \<Rightarrow> int \<times> cint \<times> 'k" where
  "usbg_read_hex K p n f d k = usbg_read_int K p n f 16 d k"

definition usbg_read_bool ::
  "'k kernel \<Rightarrow> string \<Rightarrow> string \<Rightarrow> string \<Rightarrow> bool \<Rightarrow> 'k \<Rightarrow> int \<times> bool \<times> 'k" where
  "usbg_read_bool K path name file dest k =
     (let (ret, buf, k') = usbg_read_dec K path name file 0 k
      in if ret \<noteq> err USBG_SUCCESS then (ret, dest, k') else (ret, buf \<noteq> 0, k'))"

text \<open>
  \<open>usbg_read_string_limited\<close>: return code and the C string left in \<open>buf\<close>, cut at the
  first newline; on error the empty string.
\<close>

definition usbg_read_string_limited ::
  "'k kernel \<Rightarrow> string \<Rightarrow> string \<Rightarrow> string \<Rightarrow> nat \<Rightarrow> 'k \<Rightarrow> int \<times> string \<times> 'k" where
  "usbg_read_string_limited K path name file len k =
     (let (ret, buf, k') = usbg_read_buf_limited K path name file len k
      in if ret \<ge> 0 then
           (0, takeWhile (\<lambda>c. c \<noteq> CHR 0x0A)
                 (cstr (take (if ret < int len - 1 then nat ret else len - 1) buf)), k')
         else (ret, [], k'))"

definition usbg_read_string ::
  "'k kernel \<Rightarrow> string \<Rightarrow> string \<Rightarrow> string \<Rightarrow> 'k \<Rightarrow> int \<times> string \<times> 'k" where
  "usbg_read_string K path name file k =
     usbg_read_string_limited K path name file USBG_MAX_STR_LENGTH k"

text \<open>The two \<open>_alloc\<close> readers: the new string, \<open>None\<close> when \<open>*dest\<close> is not set.\<close>

definition usbg_read_string_alloc ::
  "'k kernel \<Rightarrow> string \<Rightarrow> string \<Rightarrow> string \<Rightarrow> 'k \<Rightarrow> int \<times> string option \<times> 'k" where
  "usbg_read_string_alloc K path name file k =
     (let (ret, buf, k1) = usbg_read_string_limited K path name file USBG_MAX_FILE_SIZE k
      in if ret \<noteq> err USBG_SUCCESS then (ret, None, k1)
         else let (ok, k2) = k_malloc K k1
              in if \<not> ok then (err USBG_ERROR_NO_MEM, None, k2) else (ret, Some buf, k2))"

definition usbg_read_buf_alloc ::
  "'k kernel \<Rightarrow> string \<Rightarrow> string \<Rightarrow> string \<Rightarrow> nat \<Rightarrow> 'k \<Rightarrow> int \<times> string option \<times> 'k" where
  "usbg_read_buf_alloc K path name file len k =
     (let (ret, buf, k1) = usbg_read_buf_limited K path name file len k
      in if ret \<noteq> int len then (ret, None, k1)
         else let (ok, k2) = k_malloc K k1
              in if \<not> ok then (err USBG_ERROR_NO_MEM, None, k2) else (0, Some buf, k2))"

section \<open>Writing\<close>

definition usbg_write_buf ::
  "'k kernel \<Rightarrow> string \<Rightarrow> string \<Rightarrow> string \<Rightarrow> string \<Rightarrow> 'k \<Rightarrow> int \<times> 'k" where
  "usbg_write_buf K path name file buf k =
     (let p = path3 path name file
      in if \<not> fits p then (err USBG_ERROR_PATH_TOO_LONG, k)
         else case k_write K p buf k of
             (Write_open_failed e, k') \<Rightarrow> (usbg_translate_error e, k')
           | (Wrote n ferr cerr, k') \<Rightarrow>
               let nmb = (if n < length buf then
                            (case ferr of Some e \<Rightarrow> usbg_translate_error e
                             | None \<Rightarrow> err USBG_ERROR_IO)
                          else int n)
               in case cerr of Some e \<Rightarrow> (usbg_translate_error e, k') | None \<Rightarrow> (nmb, k'))"

definition usbg_write_int ::
  "'k kernel \<Rightarrow> string \<Rightarrow> string \<Rightarrow> string \<Rightarrow> cint \<Rightarrow> int_format \<Rightarrow> 'k \<Rightarrow> int \<times> 'k" where
  "usbg_write_int K path name file v str k =
     (let buf = format_int str v; nmb = length buf
      in if nmb \<ge> USBG_MAX_STR_LENGTH then (err USBG_ERROR_INVALID_PARAM, k)
         else let (ret, k') = usbg_write_buf K path name file buf k
              in (if ret > 0 then 0 else ret, k'))"

definition usbg_write_dec ::
  "'k kernel \<Rightarrow> string \<Rightarrow> string \<Rightarrow> string \<Rightarrow> cint \<Rightarrow> 'k \<Rightarrow> int \<times> 'k" where
  "usbg_write_dec K p n f v k = usbg_write_int K p n f v Fmt_d k"

definition usbg_write_hex ::
  "'k kernel \<Rightarrow> string \<Rightarrow> string \<Rightarrow> string \<Rightarrow> cint \<Rightarrow> 'k \<Rightarrow> int \<times> 'k" where
  "usbg_write_hex K p n f v k = usbg_write_int K p n f v Fmt_x k"

definition usbg_write_hex16 ::
  "'k kernel \<Rightarrow> string \<Rightarrow> string \<Rightarrow> string \<Rightarrow> cint \<Rightarrow> 'k \<Rightarrow> int \<times> 'k" where
  "usbg_write_hex16 K p n f v k = usbg_write_int K p n f v Fmt_04x k"

definition usbg_write_hex8 ::
  "'k kernel \<Rightarrow> string \<Rightarrow> string \<Rightarrow> string \<Rightarrow> cint \<Rightarrow> 'k \<Rightarrow> int \<times> 'k" where
  "usbg_write_hex8 K p n f v k = usbg_write_int K p n f v Fmt_02x k"

definition usbg_write_bool ::
  "'k kernel \<Rightarrow> string \<Rightarrow> string \<Rightarrow> string \<Rightarrow> bool \<Rightarrow> 'k \<Rightarrow> int \<times> 'k" where
  "usbg_write_bool K p n f v k = usbg_write_dec K p n f (if v then 1 else 0) k"

definition usbg_write_string ::
  "'k kernel \<Rightarrow> string \<Rightarrow> string \<Rightarrow> string \<Rightarrow> string option \<Rightarrow> 'k \<Rightarrow> int \<times> 'k" where
  "usbg_write_string K path name file buf k =
     (case buf of
        None \<Rightarrow> (err USBG_ERROR_INVALID_PARAM, k)
      | Some s \<Rightarrow> let (ret, k') = usbg_write_buf K path name file s k
                  in (if ret > 0 then 0 else ret, k'))"

text \<open>The GUID is parsed into 16 bytes, which are written as they are.\<close>

definition usbg_write_guid ::
  "'k kernel \<Rightarrow> string \<Rightarrow> string \<Rightarrow> string \<Rightarrow> string \<Rightarrow> 'k \<Rightarrow> int \<times> 'k" where
  "usbg_write_guid K path name file buf k =
     (if length buf \<noteq> 36 then (err USBG_ERROR_INVALID_PARAM, k)
      else let guidbin = scan_guid 16 0 buf
           in if length guidbin \<noteq> 16 then (err USBG_ERROR_INVALID_PARAM, k)
              else let (ret, k') = usbg_write_buf K path name file
                                     (map (\<lambda>b. char_of (unat b)) guidbin) k
                   in (if ret > 0 then 0 else ret, k'))"

section \<open>Files and directories\<close>

definition errno_ret :: "errno option \<Rightarrow> int" where
  "errno_ret r = (case r of None \<Rightarrow> err USBG_SUCCESS | Some e \<Rightarrow> usbg_translate_error e)"

definition usbg_rm_file :: "'k kernel \<Rightarrow> string \<Rightarrow> string \<Rightarrow> 'k \<Rightarrow> int \<times> 'k" where
  "usbg_rm_file K path name k =
     (let buf = path2 path name
      in if fits buf then (let (r, k') = k_unlink K buf k in (errno_ret r, k'))
         else (err USBG_ERROR_PATH_TOO_LONG, k))"

definition usbg_rm_dir :: "'k kernel \<Rightarrow> string \<Rightarrow> string \<Rightarrow> 'k \<Rightarrow> int \<times> 'k" where
  "usbg_rm_dir K path name k =
     (let buf = path2 path name
      in if fits buf then (let (r, k') = k_rmdir K buf k in (errno_ret r, k'))
         else (err USBG_ERROR_PATH_TOO_LONG, k))"

text \<open>The loop over the entries: after an error the rest is only freed.\<close>

fun rm_dirs_loop :: "'k kernel \<Rightarrow> string \<Rightarrow> string list \<Rightarrow> int \<Rightarrow> 'k \<Rightarrow> int \<times> 'k" where
  "rm_dirs_loop K path [] ret k = (ret, k)"
| "rm_dirs_loop K path (d # ds) ret k =
     (if ret = err USBG_SUCCESS then
        (let (ret', k') = usbg_rm_dir K path d k in rm_dirs_loop K path ds ret' k')
      else rm_dirs_loop K path ds ret k)"

definition usbg_rm_all_dirs :: "'k kernel \<Rightarrow> string \<Rightarrow> 'k \<Rightarrow> int \<times> 'k" where
  "usbg_rm_all_dirs K path k =
     (case scandir K path file_select k of
        (Inl e, k') \<Rightarrow> (usbg_translate_error e, k')
      | (Inr ds, k') \<Rightarrow> rm_dirs_loop K path ds (err USBG_SUCCESS) k')"

definition usbg_check_dir :: "'k kernel \<Rightarrow> string \<Rightarrow> 'k \<Rightarrow> int \<times> 'k" where
  "usbg_check_dir K path k =
     (case k_opendir K path k of
        (None, k1) \<Rightarrow> (err USBG_SUCCESS, k1)
      | (Some e, k1) \<Rightarrow>
          if e \<noteq> ENOENT then (usbg_translate_error e, k1)
          else (let (r, k2) = k_mkdir K path k1 in (errno_ret r, k2)))"

section \<open>Ethernet addresses and device numbers\<close>

definition usbg_ether_ntoa_r :: "u8 list \<Rightarrow> string" where
  "usbg_ether_ntoa_r addr = ether_ntoa addr"

text \<open>\<open>val\<close> is the old value of the output parameter.\<close>

definition usbg_get_ether_addr ::
  "'k kernel \<Rightarrow> string \<Rightarrow> string \<Rightarrow> string \<Rightarrow> u8 list \<Rightarrow> 'k \<Rightarrow> int \<times> u8 list \<times> 'k" where
  "usbg_get_ether_addr K path name attr v k =
     (let (ret, s, k') = usbg_read_string_limited K path name attr USBG_MAX_STR_LENGTH k
      in if ret \<noteq> 0 then (ret, v, k')
         else case ether_aton s of None \<Rightarrow> (err USBG_ERROR_IO, v, k') | Some a \<Rightarrow> (0, a, k'))"

definition usbg_set_ether_addr ::
  "'k kernel \<Rightarrow> string \<Rightarrow> string \<Rightarrow> string \<Rightarrow> u8 list \<Rightarrow> 'k \<Rightarrow> int \<times> 'k" where
  "usbg_set_ether_addr K path name attr v k =
     usbg_write_string K path name attr (Some (usbg_ether_ntoa_r v)) k"

text \<open>A \<open>dev_t\<close> is the pair of its major and minor number.\<close>

type_synonym dev_t = "cint \<times> cint"

definition usbg_get_dev ::
  "'k kernel \<Rightarrow> string \<Rightarrow> string \<Rightarrow> string \<Rightarrow> dev_t \<Rightarrow> 'k \<Rightarrow> int \<times> dev_t \<times> 'k" where
  "usbg_get_dev K path name attr v k =
     (let (ret, s, k') = usbg_read_string_limited K path name attr USBG_MAX_STR_LENGTH k
      in if ret < 0 then (ret, v, k')
         else case sscanf_dev s of
             None \<Rightarrow> (err USBG_ERROR_INVALID_VALUE, v, k')
           | Some (major, minor) \<Rightarrow> (0, (word_of_int major, word_of_int minor), k'))"

end
