(* ===== verification/Usbg_Attr_Files.thy ===== *)
theory Usbg_Attr_Files
  imports Usbg_Common
begin

text \<open>
  What the readers and writers of \<open>Usbg_Common\<close> promise to their callers: the error
  branches for any kernel, and for a kernel whose attribute files keep what is written,
  that a value written without error is read back. The contract of one kind of attribute is
  the locale \<open>stored_attr\<close>; every kind the library has is shown to meet it.
\<close>

section \<open>Return codes for any kernel\<close>

lemma write_buf_cases:
  assumes "usbg_write_buf K p n f s k = (ret, k')"
  shows "ret < 0 \<or> (int (length s) \<le> ret \<and> fits (path3 p n f) \<and>
          (\<exists>ferr. k_write K (path3 p n f) s k = (Wrote (nat ret) ferr None, k')))"
  using assms
  by (auto simp: usbg_write_buf_def Let_def split: if_splits prod.splits file_write.splits option.splits)

lemma write_int_ret: "fst (usbg_write_int K p n f v fmt k) \<le> 0"
  by (simp add: usbg_write_int_def Let_def split: prod.split)

lemma write_string_ret: "fst (usbg_write_string K p n f s k) \<le> 0"
  by (simp add: usbg_write_string_def Let_def split: prod.split option.split)

lemma rm_file_ret: "fst (usbg_rm_file K p n k) \<le> 0"
  by (simp add: usbg_rm_file_def Let_def errno_ret_def split: prod.split option.split)
     (meson less_imp_le translate_error_neg)

lemma rm_dir_ret: "fst (usbg_rm_dir K p n k) \<le> 0"
  by (simp add: usbg_rm_dir_def Let_def errno_ret_def split: prod.split option.split)
     (meson less_imp_le translate_error_neg)

lemma rm_dirs_loop_ret: "ret \<le> 0 \<Longrightarrow> fst (rm_dirs_loop K p ds ret k) \<le> 0"
proof (induction ds arbitrary: ret k)
  case (Cons d ds)
  then show ?case using rm_dir_ret [of K p d k] by (auto split: prod.split)
qed simp

lemma rm_all_dirs_ret: "fst (usbg_rm_all_dirs K p k) \<le> 0"
  by (auto simp: usbg_rm_all_dirs_def less_imp_le intro!: rm_dirs_loop_ret split: prod.split sum.split)

lemma check_dir_ret: "fst (usbg_check_dir K p k) \<le> 0"
  by (auto simp: usbg_check_dir_def errno_ret_def less_imp_le split: prod.split option.split)

lemma read_string_limited_ret: "fst (usbg_read_string_limited K p n f len k) \<le> 0"
  by (auto simp: usbg_read_string_limited_def Let_def split: prod.split)

lemma read_int_ret: "fst (usbg_read_int K p n f b d k) \<le> 0"
  by (auto simp: usbg_read_int_def Let_def split: prod.split)

section \<open>The contract of a stored attribute\<close>

locale stored_attr = attr_store K contents
  for K :: "'k kernel" and contents :: "'k \<Rightarrow> string \<Rightarrow> string option" +
  fixes rd :: "string \<Rightarrow> string \<Rightarrow> string \<Rightarrow> 'v \<Rightarrow> 'k \<Rightarrow> int \<times> 'v \<times> 'k"
    and wr :: "string \<Rightarrow> string \<Rightarrow> string \<Rightarrow> 'v \<Rightarrow> 'k \<Rightarrow> int \<times> 'k"
    and ok :: "'v \<Rightarrow> bool"
    and enc :: "'v \<Rightarrow> string"
  assumes wr_enc: "wr p n f v k = (0, k') \<Longrightarrow> ok v \<Longrightarrow>
      fits (path3 p n f) \<and> contents k' = (contents k)(path3 p n f \<mapsto> enc v)"
    and rd_enc: "contents k (path3 p n f) = Some (enc v) \<Longrightarrow> fits (path3 p n f) \<Longrightarrow> ok v \<Longrightarrow>
      \<exists>k'. rd p n f d k = (0, v, k') \<and> contents k' = contents k"
begin

lemma read_after_write:
  assumes "wr p n f v k = (0, k')" "ok v"
  shows "\<exists>k''. rd p n f d k' = (0, v, k'')"
  using wr_enc [OF assms] rd_enc [of k' p n f v d] assms(2) by auto

text \<open>Writing another file in between does not disturb it.\<close>

lemma read_after_write_other:
  assumes "wr p n f v k = (0, k1)" "ok v" "contents k2 = (contents k1)(q \<mapsto> s)" "q \<noteq> path3 p n f"
  shows "\<exists>k''. rd p n f d k2 = (0, v, k'')"
  using wr_enc [OF assms(1,2)] rd_enc [of k2 p n f v d] assms by auto

end

section \<open>Reading a file whose contents are known\<close>

context attr_store
begin

lemma write_buf_stores:
  assumes "usbg_write_buf K p n f s k = (ret, k')" "ret \<ge> 0"
  shows "fits (path3 p n f)" "contents k' = (contents k)(path3 p n f \<mapsto> s)"
proof -
  from write_buf_cases [OF assms(1)] assms(2) obtain ferr where
    w: "k_write K (path3 p n f) s k = (Wrote (nat ret) ferr None, k')"
      "int (length s) \<le> ret" "fits (path3 p n f)"
    by auto
  then show "fits (path3 p n f)" by simp
  from w(2) assms(2) have "length s \<le> nat ret" by linarith
  with w(1) show "contents k' = (contents k)(path3 p n f \<mapsto> s)" by (rule write_stores)
qed

lemma read_buf_contents:
  assumes "contents k (path3 p n f) = Some s" "fits (path3 p n f)"
  obtains k' where "usbg_read_buf_limited K p n f len k = (int (min (length s) len), take len s, k')"
    "contents k' = contents k"
proof -
  have "fst (k_read K (path3 p n f) len k) = Read_bytes (take len s) False"
    using assms(1) by (rule read_returns)
  moreover have "contents (snd (k_read K (path3 p n f) len k)) = contents k"
    by (rule read_keeps)
  ultimately have "usbg_read_buf_limited K p n f len k = (int (min (length s) len), take len s,
      snd (k_read K (path3 p n f) len k))"
    using assms(2) by (cases "k_read K (path3 p n f) len k")
      (simp add: usbg_read_buf_limited_def Let_def min_def)
  with read_keeps that show ?thesis by blast
qed

lemma read_int_contents:
  assumes "contents k (path3 p n f) = Some (format_int fmt v)" "fits (path3 p n f)"
  shows "\<exists>k'. usbg_read_int K p n f (format_base fmt) d k = (0, v, k') \<and> contents k' = contents k"
proof -
  obtain k' where r: "usbg_read_buf_limited K p n f USBG_MAX_STR_LENGTH k =
      (int (min (length (format_int fmt v)) USBG_MAX_STR_LENGTH),
       take USBG_MAX_STR_LENGTH (format_int fmt v), k')" "contents k' = contents k"
    using assms by (rule read_buf_contents)
  moreover have "length (format_int fmt v) \<le> USBG_MAX_STR_LENGTH"
    using length_format_int [of fmt v] by (simp add: USBG_MAX_STR_LENGTH_def)
  ultimately show ?thesis
    using strtol_format_int [of fmt v "cstr (k_stale K k')"]
    by (auto simp: usbg_read_int_def usbg_read_buf_def Let_def cstr_no_nul)
qed

end


section \<open>The kinds of attributes\<close>

text \<open>A text that survives being written to and read from an attribute file.\<close>

definition storable :: "string \<Rightarrow> bool" where
  "storable s \<longleftrightarrow> no_nul s \<and> CHR 0x0A \<notin> set s \<and> length s < USBG_MAX_FILE_SIZE"

context attr_store
begin

lemma write_int_stores:
  assumes "usbg_write_int K p n f v fmt k = (0, k')"
  shows "fits (path3 p n f) \<and> contents k' = (contents k)(path3 p n f \<mapsto> format_int fmt v)"
proof -
  have "length (format_int fmt v) < USBG_MAX_STR_LENGTH"
    using length_format_int [of fmt v] by (simp add: USBG_MAX_STR_LENGTH_def)
  with assms obtain ret where "usbg_write_buf K p n f (format_int fmt v) k = (ret, k')" "ret \<ge> 0"
    by (auto simp: usbg_write_int_def Let_def split: prod.splits if_splits)
  then show ?thesis by (simp add: write_buf_stores)
qed

lemma write_string_stores:
  assumes "usbg_write_string K p n f (Some s) k = (0, k')"
  shows "fits (path3 p n f) \<and> contents k' = (contents k)(path3 p n f \<mapsto> s)"
proof -
  from assms obtain ret where "usbg_write_buf K p n f s k = (ret, k')" "ret \<ge> 0"
    by (auto simp: usbg_write_string_def Let_def split: prod.splits if_splits)
  then show ?thesis by (simp add: write_buf_stores)
qed

lemma read_string_contents:
  assumes "contents k (path3 p n f) = Some s" "fits (path3 p n f)"
    and "no_nul s" "CHR 0x0A \<notin> set s" "length s < len"
  shows "\<exists>k'. usbg_read_string_limited K p n f len k = (0, s, k') \<and> contents k' = contents k"
proof -
  obtain k' where "usbg_read_buf_limited K p n f len k =
      (int (min (length s) len), take len s, k')" "contents k' = contents k"
    using assms(1,2) by (rule read_buf_contents)
  moreover have "takeWhile (\<lambda>c. c \<noteq> CHR 0x0A) s = s" using assms(4) by (auto simp: takeWhile_eq_all_conv)
  ultimately show ?thesis using assms(3,5)
    by (auto simp: usbg_read_string_limited_def Let_def min_def)
qed

lemma write_bool_stores:
  "usbg_write_bool K p n f v k = (0, k') \<Longrightarrow>
   fits (path3 p n f) \<and> contents k' = (contents k)(path3 p n f \<mapsto> format_int Fmt_d (if v then 1 else 0))"
  unfolding usbg_write_bool_def usbg_write_dec_def by (rule write_int_stores)

lemma read_bool_contents:
  assumes "contents k (path3 p n f) = Some (format_int Fmt_d (if v then 1 else 0))" "fits (path3 p n f)"
  shows "\<exists>k'. usbg_read_bool K p n f d k = (0, v, k') \<and> contents k' = contents k"
  using read_int_contents [OF assms, of 0]
  by (auto simp: usbg_read_bool_def usbg_read_dec_def Let_def)

end

sublocale attr_store \<subseteq> dec: stored_attr K contents "usbg_read_dec K" "usbg_write_dec K"
    "\<lambda>_. True" "format_int Fmt_d"
  by unfold_locales
     (simp_all add: usbg_write_dec_def usbg_read_dec_def write_int_stores read_int_contents [where fmt = Fmt_d, simplified])

sublocale attr_store \<subseteq> hex16: stored_attr K contents "usbg_read_hex K" "usbg_write_hex16 K"
    "\<lambda>_. True" "format_int Fmt_04x"
  by unfold_locales
     (simp_all add: usbg_write_hex16_def usbg_read_hex_def write_int_stores del: format_int.simps
        add: read_int_contents [where fmt = Fmt_04x, unfolded format_base.simps])

sublocale attr_store \<subseteq> hex8: stored_attr K contents "usbg_read_hex K" "usbg_write_hex8 K"
    "\<lambda>_. True" "format_int Fmt_02x"
  by unfold_locales
     (simp_all add: usbg_write_hex8_def usbg_read_hex_def write_int_stores del: format_int.simps
        add: read_int_contents [where fmt = Fmt_02x, unfolded format_base.simps])

sublocale attr_store \<subseteq> hex: stored_attr K contents "usbg_read_hex K" "usbg_write_hex K"
    "\<lambda>_. True" "format_int Fmt_x"
  by unfold_locales
     (simp_all add: usbg_write_hex_def usbg_read_hex_def write_int_stores del: format_int.simps
        add: read_int_contents [where fmt = Fmt_x, unfolded format_base.simps])

sublocale attr_store \<subseteq> flag: stored_attr K contents "usbg_read_bool K" "usbg_write_bool K"
    "\<lambda>_. True" "\<lambda>v. format_int Fmt_d (if v then 1 else 0)"
  by unfold_locales (simp_all add: write_bool_stores read_bool_contents del: format_int.simps)


context attr_store
begin

lemma write_ether_stores:
  "usbg_set_ether_addr K p n f v k = (0, k') \<Longrightarrow>
   fits (path3 p n f) \<and> contents k' = (contents k)(path3 p n f \<mapsto> ether_ntoa v)"
  unfolding usbg_set_ether_addr_def usbg_ether_ntoa_r_def by (rule write_string_stores)

lemma read_ether_contents:
  assumes "contents k (path3 p n f) = Some (ether_ntoa v)" "fits (path3 p n f)" "length v = 6"
  shows "\<exists>k'. usbg_get_ether_addr K p n f d k = (0, v, k') \<and> contents k' = contents k"
proof -
  have "length (ether_ntoa v) < USBG_MAX_STR_LENGTH"
    using length_ether_ntoa [of v] assms(3) by (simp add: USBG_MAX_STR_LENGTH_def)
  from read_string_contents [OF assms(1,2) ether_ntoa_plain this] show ?thesis
    using ether_aton_ntoa [OF assms(3)] by (auto simp: usbg_get_ether_addr_def Let_def)
qed

end

sublocale attr_store \<subseteq> ether: stored_attr K contents "usbg_get_ether_addr K" "usbg_set_ether_addr K"
    "\<lambda>v. length v = 6" ether_ntoa
  by unfold_locales (simp_all add: write_ether_stores read_ether_contents)
text \<open>Numbers through the general functions, with other files written in between.\<close>

lemma int_file_kept:
  assumes "attr_store K contents" "usbg_write_int K p n f v fmt k = (0, k1)"
    and "contents k2 = (contents k1)(q \<mapsto> s)" "q \<noteq> path3 p n f"
  shows "\<exists>k'. usbg_read_int K p n f (format_base fmt) d k2 = (0, v, k')"
proof -
  from attr_store.write_int_stores [OF assms(1,2)] assms(3,4)
  have "contents k2 (path3 p n f) = Some (format_int fmt v)" "fits (path3 p n f)" by simp_all
  from attr_store.read_int_contents [OF assms(1) this] show ?thesis by blast
qed

end
