(* ===== verification/Usbg_Attr_Table.thy ===== *)
theory Usbg_Attr_Table
  imports Usbg_Attr_Files
begin

text \<open>
  The attribute tables the function types share (\<open>include/usbg/usbg_internal.h\<close> and the
  files of \<open>src/function/\<close>): an entry has a file name, a read-only flag and the functions
  that get and set one value; a structure of attributes is the list of its members' values
  in table order. The loops over a table stop at the first error.
\<close>

section \<open>Values and entries\<close>

text \<open>The member of the attribute union that is in use.\<close>

datatype attr_val =
    Int_val cint
  | Bool_val bool
  | Str_val "string option"
  | Ether_val "u8 list"
  | Dev_val dev_t
  | Report_val string

type_synonym 'k attr_get_func =
  "'k kernel \<Rightarrow> string \<Rightarrow> string \<Rightarrow> string \<Rightarrow> attr_val \<Rightarrow> 'k \<Rightarrow> int \<times> attr_val \<times> 'k"

text \<open>Setting a value through a pointer of another type is undefined: \<open>None\<close>.\<close>

type_synonym 'k attr_set_func =
  "'k kernel \<Rightarrow> string \<Rightarrow> string \<Rightarrow> string \<Rightarrow> attr_val \<Rightarrow> 'k \<Rightarrow> (int \<times> 'k) option"

record 'k attr_entry =
  a_name :: string
  a_ro :: bool
  a_get :: "'k attr_get_func"
  a_set :: "'k attr_set_func option"

section \<open>The typed getters and setters\<close>

definition usbg_get_dec :: "'k attr_get_func" where
  "usbg_get_dec K path name attr v k =
     (let (ret, i, k') = usbg_read_dec K path name attr 0 k
      in (ret, if ret = 0 then Int_val i else v, k'))"

definition usbg_set_dec :: "'k attr_set_func" where
  "usbg_set_dec K path name attr v k =
     (case v of Int_val i \<Rightarrow> Some (usbg_write_dec K path name attr i k) | _ \<Rightarrow> None)"

definition usbg_get_bool :: "'k attr_get_func" where
  "usbg_get_bool K path name attr v k =
     (let (ret, b, k') = usbg_read_bool K path name attr False k
      in (ret, if ret = 0 then Bool_val b else v, k'))"

definition usbg_set_bool :: "'k attr_set_func" where
  "usbg_set_bool K path name attr v k =
     (case v of Bool_val b \<Rightarrow> Some (usbg_write_bool K path name attr b k) | _ \<Rightarrow> None)"

definition usbg_get_string :: "'k attr_get_func" where
  "usbg_get_string K path name attr v k =
     (let (ret, s, k') = usbg_read_string_alloc K path name attr k
      in (ret, if ret = 0 then Str_val s else v, k'))"

definition usbg_set_string :: "'k attr_set_func" where
  "usbg_set_string K path name attr v k =
     (case v of Str_val s \<Rightarrow> Some (usbg_write_string K path name attr s k) | _ \<Rightarrow> None)"

definition get_ether :: "'k attr_get_func" where
  "get_ether K path name attr v k =
     (let (ret, a, k') = usbg_get_ether_addr K path name attr [] k
      in (ret, if ret = 0 then Ether_val a else v, k'))"

definition set_ether :: "'k attr_set_func" where
  "set_ether K path name attr v k =
     (case v of Ether_val a \<Rightarrow> Some (usbg_set_ether_addr K path name attr a k) | _ \<Rightarrow> None)"

definition get_dev :: "'k attr_get_func" where
  "get_dev K path name attr v k =
     (let (ret, d, k') = usbg_get_dev K path name attr (0, 0) k
      in (ret, if ret = 0 then Dev_val d else v, k'))"

text \<open>The entries the table macros make.\<close>

definition dec_attr :: "string \<Rightarrow> 'k attr_entry" where
  "dec_attr n = \<lparr>a_name = n, a_ro = False, a_get = usbg_get_dec, a_set = Some usbg_set_dec\<rparr>"

definition dec_attr_ro :: "string \<Rightarrow> 'k attr_entry" where
  "dec_attr_ro n = \<lparr>a_name = n, a_ro = True, a_get = usbg_get_dec, a_set = None\<rparr>"

definition bool_attr :: "string \<Rightarrow> 'k attr_entry" where
  "bool_attr n = \<lparr>a_name = n, a_ro = False, a_get = usbg_get_bool, a_set = Some usbg_set_bool\<rparr>"

definition string_attr :: "string \<Rightarrow> 'k attr_entry" where
  "string_attr n = \<lparr>a_name = n, a_ro = False, a_get = usbg_get_string, a_set = Some usbg_set_string\<rparr>"

definition string_attr_ro :: "string \<Rightarrow> 'k attr_entry" where
  "string_attr_ro n = \<lparr>a_name = n, a_ro = True, a_get = usbg_get_string, a_set = None\<rparr>"

definition ether_addr_attr :: "string \<Rightarrow> 'k attr_entry" where
  "ether_addr_attr n = \<lparr>a_name = n, a_ro = False, a_get = get_ether, a_set = Some set_ether\<rparr>"

definition dev_attr_ro :: "string \<Rightarrow> 'k attr_entry" where
  "dev_attr_ro n = \<lparr>a_name = n, a_ro = True, a_get = get_dev, a_set = None\<rparr>"

section \<open>One attribute of a table\<close>

text \<open>An index outside of the table reads past its end.\<close>

definition table_get_val ::
  "'k attr_entry list \<Rightarrow> 'k kernel \<Rightarrow> string \<Rightarrow> string \<Rightarrow> nat \<Rightarrow> attr_val \<Rightarrow> 'k
     \<Rightarrow> (int \<times> attr_val \<times> 'k) option" where
  "table_get_val tab K path name i v k =
     (if i < length tab then Some (a_get (tab ! i) K path name (a_name (tab ! i)) v k) else None)"

definition table_set_val ::
  "'k attr_entry list \<Rightarrow> 'k kernel \<Rightarrow> string \<Rightarrow> string \<Rightarrow> nat \<Rightarrow> attr_val \<Rightarrow> 'k
     \<Rightarrow> (int \<times> 'k) option" where
  "table_set_val tab K path name i v k =
     (if i < length tab then
        if a_ro (tab ! i) then Some (err USBG_ERROR_INVALID_PARAM, k)
        else do { set \<leftarrow> a_set (tab ! i); set K path name (a_name (tab ! i)) v k }
      else None)"

section \<open>All attributes of a table\<close>

text \<open>
  The structure's members from the current index on are the list \<open>vs\<close>; too few of them
  would be a read outside of the structure.
\<close>

fun table_get_attrs ::
  "'k attr_entry list \<Rightarrow> 'k kernel \<Rightarrow> string \<Rightarrow> string \<Rightarrow> attr_val list \<Rightarrow> 'k
     \<Rightarrow> (int \<times> attr_val list \<times> 'k) option" where
  "table_get_attrs [] K path name vs k = Some (0, vs, k)"
| "table_get_attrs (e # es) K path name [] k = None"
| "table_get_attrs (e # es) K path name (v # vs) k =
     (let (ret, v', k1) = a_get e K path name (a_name e) v k
      in if ret \<noteq> 0 then Some (ret, v' # vs, k1)
         else do {
           (ret', vs', k2) \<leftarrow> table_get_attrs es K path name vs k1;
           Some (ret', v' # vs', k2)
         })"

text \<open>
  \<open>skip_ro\<close>: the loops of the net, HID and UVC import code pass over read-only
  entries; a table without such entries behaves the same either way.
\<close>

fun table_set_attrs ::
  "'k attr_entry list \<Rightarrow> 'k kernel \<Rightarrow> string \<Rightarrow> string \<Rightarrow> attr_val list \<Rightarrow> 'k \<Rightarrow> (int \<times> 'k) option" where
  "table_set_attrs [] K path name vs k = Some (0, k)"
| "table_set_attrs (e # es) K path name [] k = None"
| "table_set_attrs (e # es) K path name (v # vs) k =
     (if a_ro e then table_set_attrs es K path name vs k
      else do {
        set \<leftarrow> a_set e;
        (ret, k1) \<leftarrow> set K path name (a_name e) v k;
        if ret \<noteq> 0 then Some (ret, k1) else table_set_attrs es K path name vs k1
      })"

section \<open>Loops over a table stay inside it\<close>

text \<open>An entry that can take a value: it is never set, or its setter is for the value's type.\<close>

definition takes :: "'k attr_entry \<Rightarrow> attr_val \<Rightarrow> bool" where
  "takes e v \<longleftrightarrow> a_ro e \<or>
     (\<exists>st. a_set e = Some st \<and> (\<forall>K p n m k. \<exists>ret k'. st K p n m v k = Some (ret, k')))"

lemma takes_simps [simp]:
  "takes (dec_attr n) (Int_val i)" "takes (bool_attr n) (Bool_val b)"
  "takes (string_attr n) (Str_val s)" "takes (ether_addr_attr n) (Ether_val a)"
  "takes (string_attr_ro n) v" "takes (dec_attr_ro n) v" "takes (dev_attr_ro n) v"
  by (simp_all add: takes_def dec_attr_def bool_attr_def string_attr_def ether_addr_attr_def
      string_attr_ro_def dec_attr_ro_def dev_attr_ro_def usbg_set_dec_def usbg_set_bool_def
      usbg_set_string_def set_ether_def)

lemma table_set_total:
  assumes "list_all2 takes es vs"
  shows "\<exists>ret k'. table_set_attrs es K p n vs k = Some (ret, k')"
  using assms
proof (induction es arbitrary: vs k)
  case (Cons e es)
  then obtain v vs' where vs: "vs = v # vs'" "takes e v" "list_all2 takes es vs'"
    by (auto simp: list_all2_Cons1)
  show ?case
  proof (cases "a_ro e")
    case True
    with Cons.IH vs show ?thesis by simp
  next
    case False
    with vs(2) obtain st where st: "a_set e = Some st"
      "\<And>K p n m k. \<exists>ret k'. st K p n m v k = Some (ret, k')" by (auto simp: takes_def)
    from st(2) [of K p n "a_name e" k] obtain ret k1 where "st K p n (a_name e) v k = Some (ret, k1)"
      by blast
    with st(1) False vs Cons.IH [OF vs(3), of k1] show ?thesis by auto
  qed
qed simp

lemma table_get_total:
  assumes "length vs = length es"
  shows "\<exists>ret vs' k'. table_get_attrs es K p n vs k = Some (ret, vs', k') \<and> length vs' = length vs"
  using assms
proof (induction es arbitrary: vs k)
  case (Cons e es)
  then obtain v vs' where vs: "vs = v # vs'" "length vs' = length es" by (cases vs) auto
  obtain ret v' k1 where "a_get e K p n (a_name e) v k = (ret, v', k1)" by (metis prod_cases3)
  with vs Cons.IH [OF vs(2), of k1] show ?case by auto
qed simp

section \<open>Writing a structure and reading it back\<close>

text \<open>An entry, a value and the text the file of the entry holds for it.\<close>

definition entry_keeps ::
  "'k kernel \<Rightarrow> ('k \<Rightarrow> string \<Rightarrow> string option) \<Rightarrow> 'k attr_entry \<Rightarrow> attr_val \<Rightarrow> string \<Rightarrow> bool" where
  "entry_keeps K contents e v s \<longleftrightarrow> \<not> a_ro e \<and>
     (\<forall>set p n k k'. a_set e = Some set \<longrightarrow> set K p n (a_name e) v k = Some (0, k') \<longrightarrow>
        fits (path3 p n (a_name e)) \<and> contents k' = (contents k)(path3 p n (a_name e) \<mapsto> s)) \<and>
     (\<forall>p n d k. contents k (path3 p n (a_name e)) = Some s \<longrightarrow> fits (path3 p n (a_name e)) \<longrightarrow>
        (\<exists>k'. a_get e K p n (a_name e) d k = (0, v, k') \<and> contents k' = contents k))"

lemma entry_keepsI:
  assumes "\<not> a_ro e"
    and "\<And>set p n k k'. a_set e = Some set \<Longrightarrow> set K p n (a_name e) v k = Some (0, k') \<Longrightarrow>
        fits (path3 p n (a_name e)) \<and> contents k' = (contents k)(path3 p n (a_name e) \<mapsto> s)"
    and "\<And>p n d k. contents k (path3 p n (a_name e)) = Some s \<Longrightarrow> fits (path3 p n (a_name e)) \<Longrightarrow>
        \<exists>k'. a_get e K p n (a_name e) d k = (0, v, k') \<and> contents k' = contents k"
  shows "entry_keeps K contents e v s"
  unfolding entry_keeps_def using assms by blast

lemma a_name_simps [simp]:
  "a_name (dec_attr n) = n" "a_name (bool_attr n) = n" "a_name (string_attr n) = n"
  "a_name (ether_addr_attr n) = n" "a_name (dec_attr_ro n) = n" "a_name (string_attr_ro n) = n"
  "a_name (dev_attr_ro n) = n"
  by (simp_all add: dec_attr_def bool_attr_def string_attr_def ether_addr_attr_def dec_attr_ro_def
      string_attr_ro_def dev_attr_ro_def)

context attr_store_mem
begin

lemma string_alloc_contents:
  assumes "contents k (path3 p n f) = Some s" "fits (path3 p n f)" "storable s"
  shows "\<exists>k'. usbg_read_string_alloc K p n f k = (0, Some s, k') \<and> contents k' = contents k"
proof -
  from read_string_contents [OF assms(1,2), of USBG_MAX_FILE_SIZE] assms(3) obtain k1 where
    r: "usbg_read_string_limited K p n f USBG_MAX_FILE_SIZE k = (0, s, k1)" "contents k1 = contents k"
    by (auto simp: storable_def)
  with malloc_succeeds [of k1] malloc_keeps [of k1] show ?thesis
    by (auto simp: usbg_read_string_alloc_def Let_def split: prod.splits)
qed

lemma dec_entry_keeps: "entry_keeps K contents (dec_attr n) (Int_val i) (format_int Fmt_d i)"
proof (rule entry_keepsI)
  fix p m d k
  assume "contents k (path3 p m (a_name (dec_attr n))) = Some (format_int Fmt_d i)"
    and "fits (path3 p m (a_name (dec_attr n)))"
  then show "\<exists>k'. a_get (dec_attr n) K p m (a_name (dec_attr n)) d k = (0, Int_val i, k')
      \<and> contents k' = contents k"
    using dec.rd_enc [of k p m n i 0]
    by (auto simp: dec_attr_def usbg_get_dec_def simp del: format_int.simps)
qed (auto simp: dec_attr_def usbg_set_dec_def simp del: format_int.simps dest: dec.wr_enc)

lemma bool_entry_keeps:
  "entry_keeps K contents (bool_attr n) (Bool_val b) (format_int Fmt_d (if b then 1 else 0))"
proof (rule entry_keepsI)
  fix p m d k
  assume "contents k (path3 p m (a_name (bool_attr n))) = Some (format_int Fmt_d (if b then 1 else 0))"
    and "fits (path3 p m (a_name (bool_attr n)))"
  then show "\<exists>k'. a_get (bool_attr n) K p m (a_name (bool_attr n)) d k = (0, Bool_val b, k')
      \<and> contents k' = contents k"
    using flag.rd_enc [of k p m n b False]
    by (auto simp: bool_attr_def usbg_get_bool_def simp del: format_int.simps if_split)
qed (auto simp: bool_attr_def usbg_set_bool_def simp del: format_int.simps if_split dest: flag.wr_enc)

lemma string_entry_keeps:
  assumes "storable s"
  shows "entry_keeps K contents (string_attr n) (Str_val (Some s)) s"
proof (rule entry_keepsI)
  fix p m d k
  assume "contents k (path3 p m (a_name (string_attr n))) = Some s" "fits (path3 p m (a_name (string_attr n)))"
  then show "\<exists>k'. a_get (string_attr n) K p m (a_name (string_attr n)) d k =
      (0, Str_val (Some s), k') \<and> contents k' = contents k"
    using string_alloc_contents [of k p m n s] assms
    by (auto simp: string_attr_def usbg_get_string_def)
qed (auto simp: string_attr_def usbg_set_string_def dest: write_string_stores)

lemma ether_entry_keeps:
  assumes "length a = 6"
  shows "entry_keeps K contents (ether_addr_attr n) (Ether_val a) (ether_ntoa a)"
proof (rule entry_keepsI)
  fix p m d k
  assume "contents k (path3 p m (a_name (ether_addr_attr n))) = Some (ether_ntoa a)"
    and "fits (path3 p m (a_name (ether_addr_attr n)))"
  then show "\<exists>k'. a_get (ether_addr_attr n) K p m (a_name (ether_addr_attr n)) d k =
      (0, Ether_val a, k') \<and> contents k' = contents k"
    using ether.rd_enc [of k p m n a "[]"] assms
    by (auto simp: ether_addr_attr_def get_ether_def)
qed (use assms in \<open>auto simp: ether_addr_attr_def set_ether_def dest: ether.wr_enc\<close>)

text \<open>An entry that takes a value and keeps it, or that is never written.\<close>

definition keeps :: "'a attr_entry \<Rightarrow> attr_val \<Rightarrow> bool" where
  "keeps e v \<longleftrightarrow> (\<exists>s. entry_keeps K contents e v s)"

lemma keeps_intros:
  "keeps (dec_attr n) (Int_val i)"
  "keeps (bool_attr n) (Bool_val b)"
  "storable s \<Longrightarrow> keeps (string_attr n) (Str_val (Some s))"
  "length a = 6 \<Longrightarrow> keeps (ether_addr_attr n) (Ether_val a)"
  unfolding keeps_def
  using dec_entry_keeps bool_entry_keeps string_entry_keeps ether_entry_keeps by blast+

text \<open>
  After a write of a whole structure without error, the file of each entry holds the text
  of its member, and no other file changed.
\<close>

definition stored_in :: "string \<Rightarrow> string \<Rightarrow> 'a \<Rightarrow> 'a attr_entry \<Rightarrow> attr_val \<Rightarrow> bool" where
  "stored_in p n k e v \<longleftrightarrow>
     (\<exists>s. entry_keeps K contents e v s \<and> contents k (path3 p n (a_name e)) = Some s
        \<and> fits (path3 p n (a_name e)))"

lemma stored_in_cong:
  "contents k (path3 p n (a_name e)) = contents k' (path3 p n (a_name e)) \<Longrightarrow>
   stored_in p n k e v = stored_in p n k' e v"
  by (simp add: stored_in_def)

lemma stored_in_get:
  assumes "stored_in p n k e v"
  obtains k' where "a_get e K p n (a_name e) d k = (0, v, k')" "contents k' = contents k"
  using assms unfolding stored_in_def entry_keeps_def by blast

lemma table_set_stored:
  assumes "table_set_attrs es K p n vs k = Some (0, k')"
    and "distinct (map a_name es)" "list_all2 (\<lambda>e v. a_ro e \<or> keeps e v) es vs"
  shows "list_all2 (\<lambda>e v. a_ro e \<or> stored_in p n k' e v) es vs
    \<and> (\<forall>q. q \<notin> (\<lambda>e. path3 p n (a_name e)) ` set es \<longrightarrow> contents k' q = contents k q)"
  using assms
proof (induction es arbitrary: vs k)
  case (Cons e es)
  from Cons.prems(3) obtain v vs' where vs: "vs = v # vs'" and e: "a_ro e \<or> keeps e v"
    and es: "list_all2 (\<lambda>e v. a_ro e \<or> keeps e v) es vs'" by (auto simp: list_all2_Cons1)
  have new: "path3 p n (a_name e) \<notin> (\<lambda>e. path3 p n (a_name e)) ` set es"
    using Cons.prems(2) by auto
  show ?case
  proof (cases "a_ro e")
    case True
    with Cons.IH [OF _ _ es, of k] Cons.prems(1,2) vs show ?thesis by auto
  next
    case False
    with e obtain s where ks: "entry_keeps K contents e v s" by (auto simp: keeps_def)
    note keeps = ks [unfolded entry_keeps_def]
    from Cons.prems(1) vs False obtain st k1 where st: "a_set e = Some st"
      "st K p n (a_name e) v k = Some (0, k1)" and rest: "table_set_attrs es K p n vs' k1 = Some (0, k')"
      by (auto elim!: bind_Some_elim split: if_splits)
    from keeps st have k1: "fits (path3 p n (a_name e))"
      "contents k1 = (contents k)(path3 p n (a_name e) \<mapsto> s)" by blast+
    from Cons.IH [OF rest _ es] Cons.prems(2)
    have IH: "list_all2 (\<lambda>e v. a_ro e \<or> stored_in p n k' e v) es vs'"
      "\<forall>q. q \<notin> (\<lambda>e. path3 p n (a_name e)) ` set es \<longrightarrow> contents k' q = contents k1 q" by auto
    from IH(2) new k1(2) have "contents k' (path3 p n (a_name e)) = Some s" by simp
    with ks k1(1) have "stored_in p n k' e v" by (auto simp: stored_in_def)
    with IH k1(2) vs show ?thesis by auto
  qed
qed auto

lemma table_get_stored:
  assumes "list_all2 (stored_in p n k) es vs" "length ds = length es"
  shows "\<exists>k'. table_get_attrs es K p n ds k = Some (0, vs, k') \<and> contents k' = contents k"
  using assms
proof (induction es arbitrary: vs ds k)
  case (Cons e es)
  from Cons.prems(1) obtain v vs' where vs: "vs = v # vs'" and e: "stored_in p n k e v"
    and es: "list_all2 (stored_in p n k) es vs'" by (auto simp: list_all2_Cons1)
  from Cons.prems(2) obtain d ds' where ds: "ds = d # ds'" "length ds' = length es"
    by (cases ds) auto
  from e obtain k1 where k1: "a_get e K p n (a_name e) d k = (0, v, k1)" "contents k1 = contents k"
    by (rule stored_in_get)
  from es have "list_all2 (stored_in p n k1) es vs'"
    by (rule list_all2_mono) (simp add: stored_in_def k1(2))
  from Cons.IH [OF this ds(2)] obtain k2 where
    "table_get_attrs es K p n ds' k1 = Some (0, vs', k2)" "contents k2 = contents k1" by auto
  with k1 ds vs show ?case by auto
qed auto

text \<open>Writing a structure and reading it into any other returns the values written.\<close>

lemma table_set_get:
  assumes "table_set_attrs es K p n vs k = Some (0, k')"
    and "distinct (map a_name es)" "list_all2 (\<lambda>e v. \<not> a_ro e \<and> keeps e v) es vs"
    and "length ds = length es"
  shows "\<exists>k''. table_get_attrs es K p n ds k' = Some (0, vs, k'')"
proof -
  have "list_all2 (\<lambda>e v. a_ro e \<or> keeps e v) es vs"
    using assms(3) by (rule list_all2_mono) simp
  from table_set_stored [OF assms(1,2) this] assms(3)
  have "list_all2 (stored_in p n k') es vs"
    by (auto simp: list_all2_conv_all_nth)
  from table_get_stored [OF this assms(4)] show ?thesis by blast
qed

text \<open>A single attribute that is not read-only reads as it was written with the others.\<close>

lemma table_set_get_val:
  assumes "table_set_attrs es K p n vs k = Some (0, k')"
    and "distinct (map a_name es)" "list_all2 (\<lambda>e v. a_ro e \<or> keeps e v) es vs"
    and "i < length es" "\<not> a_ro (es ! i)"
  shows "\<exists>k''. table_get_val es K p n i d k' = Some (0, vs ! i, k'')"
proof -
  from table_set_stored [OF assms(1-3)] assms(4,5) have "stored_in p n k' (es ! i) (vs ! i)"
    by (auto simp: list_all2_conv_all_nth)
  then obtain k'' where "a_get (es ! i) K p n (a_name (es ! i)) d k' = (0, vs ! i, k'')"
    by (rule stored_in_get)
  with assms(4) show ?thesis by (simp add: table_get_val_def)
qed

end

end
