(* ===== verification/Usbg_Names.thy ===== *)
theory Usbg_Names
  imports Usbg_Common
begin

text \<open>
  The name tables of \<open>src/usbg.c\<close> (function types, gadget attributes, gadget strings,
  OS descriptor files), their lookups in both directions, and the two splitters that turn a
  configfs directory name into a function type with an instance, and into a configuration
  label with an id.
\<close>

section \<open>Function types\<close>

datatype usbg_function_type =
    USBG_F_SERIAL | USBG_F_ACM | USBG_F_OBEX | USBG_F_ECM | USBG_F_SUBSET | USBG_F_NCM
  | USBG_F_EEM | USBG_F_RNDIS | USBG_F_PHONET | USBG_F_FFS | USBG_F_MASS_STORAGE
  | USBG_F_MIDI | USBG_F_LOOPBACK | USBG_F_HID | USBG_F_UAC2 | USBG_F_UVC
  | USBG_F_PRINTER | USBG_F_9PFS

text \<open>The enumeration in order, so that a constant's position is its C value.\<close>

definition all_function_types :: "usbg_function_type list" where
  "all_function_types =
     [USBG_F_SERIAL, USBG_F_ACM, USBG_F_OBEX, USBG_F_ECM, USBG_F_SUBSET, USBG_F_NCM,
      USBG_F_EEM, USBG_F_RNDIS, USBG_F_PHONET, USBG_F_FFS, USBG_F_MASS_STORAGE,
      USBG_F_MIDI, USBG_F_LOOPBACK, USBG_F_HID, USBG_F_UAC2, USBG_F_UVC,
      USBG_F_PRINTER, USBG_F_9PFS]"

fun function_type_code :: "usbg_function_type \<Rightarrow> nat" where
  "function_type_code USBG_F_SERIAL = 0"
| "function_type_code USBG_F_ACM = 1"
| "function_type_code USBG_F_OBEX = 2"
| "function_type_code USBG_F_ECM = 3"
| "function_type_code USBG_F_SUBSET = 4"
| "function_type_code USBG_F_NCM = 5"
| "function_type_code USBG_F_EEM = 6"
| "function_type_code USBG_F_RNDIS = 7"
| "function_type_code USBG_F_PHONET = 8"
| "function_type_code USBG_F_FFS = 9"
| "function_type_code USBG_F_MASS_STORAGE = 10"
| "function_type_code USBG_F_MIDI = 11"
| "function_type_code USBG_F_LOOPBACK = 12"
| "function_type_code USBG_F_HID = 13"
| "function_type_code USBG_F_UAC2 = 14"
| "function_type_code USBG_F_UVC = 15"
| "function_type_code USBG_F_PRINTER = 16"
| "function_type_code USBG_F_9PFS = 17"

text \<open>The \<open>name\<close> field of each \<open>struct usbg_function_type\<close>.\<close>

fun function_type_name :: "usbg_function_type \<Rightarrow> string" where
  "function_type_name USBG_F_SERIAL = ''gser''"
| "function_type_name USBG_F_ACM = ''acm''"
| "function_type_name USBG_F_OBEX = ''obex''"
| "function_type_name USBG_F_ECM = ''ecm''"
| "function_type_name USBG_F_SUBSET = ''geth''"
| "function_type_name USBG_F_NCM = ''ncm''"
| "function_type_name USBG_F_EEM = ''eem''"
| "function_type_name USBG_F_RNDIS = ''rndis''"
| "function_type_name USBG_F_PHONET = ''phonet''"
| "function_type_name USBG_F_FFS = ''ffs''"
| "function_type_name USBG_F_MASS_STORAGE = ''mass_storage''"
| "function_type_name USBG_F_MIDI = ''midi''"
| "function_type_name USBG_F_LOOPBACK = ''Loopback''"
| "function_type_name USBG_F_HID = ''hid''"
| "function_type_name USBG_F_UAC2 = ''uac2''"
| "function_type_name USBG_F_UVC = ''uvc''"
| "function_type_name USBG_F_PRINTER = ''printer''"
| "function_type_name USBG_F_9PFS = ''usb9pfs''"

text \<open>The C cast of a number to the enumeration, \<open>None\<close> outside of it.\<close>

definition function_type_of :: "int \<Rightarrow> usbg_function_type option" where
  "function_type_of i =
     (if 0 \<le> i \<and> i < 18 then Some (all_function_types ! nat i) else None)"

text \<open>The enumeration is ordered by its C values, as the range checks of the code use it.\<close>

instantiation usbg_function_type :: linorder
begin

definition less_eq_usbg_function_type :: "usbg_function_type \<Rightarrow> usbg_function_type \<Rightarrow> bool" where
  "less_eq_usbg_function_type a b \<longleftrightarrow> function_type_code a \<le> function_type_code b"

definition less_usbg_function_type :: "usbg_function_type \<Rightarrow> usbg_function_type \<Rightarrow> bool" where
  "less_usbg_function_type a b \<longleftrightarrow> function_type_code a < function_type_code b"

instance
proof
  fix x y z :: usbg_function_type
  show "x \<le> y \<Longrightarrow> y \<le> x \<Longrightarrow> x = y"
    by (cases x; cases y) (simp_all add: less_eq_usbg_function_type_def)
qed (auto simp: less_eq_usbg_function_type_def less_usbg_function_type_def)

end

section \<open>Gadget attribute, string and OS descriptor names\<close>

definition gadget_attr_names :: "string list" where
  "gadget_attr_names =
     [''bcdUSB'', ''bDeviceClass'', ''bDeviceSubClass'', ''bDeviceProtocol'',
      ''bMaxPacketSize0'', ''idVendor'', ''idProduct'', ''bcdDevice'']"

definition gadget_str_names :: "string list" where
  "gadget_str_names = [''manufacturer'', ''product'', ''serialnumber'']"

definition gadget_os_desc_names :: "string list" where
  "gadget_os_desc_names = [''use'', ''b_vendor_code'', ''qw_sign'']"

section \<open>Lookups\<close>

text \<open>The do-while loop over a table, from index \<open>i\<close>.\<close>

fun lookup_loop :: "string list \<Rightarrow> string \<Rightarrow> nat \<Rightarrow> int" where
  "lookup_loop [] name i = err USBG_ERROR_NOT_FOUND"
| "lookup_loop (n # ns) name i =
     (if strcmp name n = 0 then int i else lookup_loop ns name (Suc i))"

definition lookup_name :: "string list \<Rightarrow> string option \<Rightarrow> int" where
  "lookup_name table name =
     (case name of None \<Rightarrow> err USBG_ERROR_INVALID_PARAM | Some n \<Rightarrow> lookup_loop table n 0)"

definition usbg_lookup_function_type :: "string option \<Rightarrow> int" where
  "usbg_lookup_function_type name = lookup_name (map function_type_name all_function_types) name"

definition usbg_lookup_gadget_attr :: "string option \<Rightarrow> int" where
  "usbg_lookup_gadget_attr name = lookup_name gadget_attr_names name"

definition usbg_lookup_gadget_str :: "string option \<Rightarrow> int" where
  "usbg_lookup_gadget_str name = lookup_name gadget_str_names name"

definition name_at :: "string list \<Rightarrow> int \<Rightarrow> string option" where
  "name_at table i = (if 0 \<le> i \<and> i < int (length table) then Some (table ! nat i) else None)"

definition usbg_get_function_type_str :: "int \<Rightarrow> string option" where
  "usbg_get_function_type_str t = name_at (map function_type_name all_function_types) t"

definition usbg_get_gadget_attr_str :: "int \<Rightarrow> string option" where
  "usbg_get_gadget_attr_str a = name_at gadget_attr_names a"

definition usbg_get_gadget_str_name :: "int \<Rightarrow> string option" where
  "usbg_get_gadget_str_name s = name_at gadget_str_names s"

definition usbg_get_gadget_os_desc_name :: "int \<Rightarrow> string option" where
  "usbg_get_gadget_os_desc_name s = name_at gadget_os_desc_names s"

section \<open>Splitting directory names\<close>

text \<open>
  \<open>usbg_split_function_instance_type\<close>: return code, and the type and instance on success.
  The only allocation is the copy of the type name.
\<close>

definition usbg_split_function_instance_type ::
  "'k kernel \<Rightarrow> string \<Rightarrow> 'k \<Rightarrow> int \<times> (usbg_function_type \<times> string) option \<times> 'k" where
  "usbg_split_function_instance_type K full_name k =
     (case split_first (CHR ''.'') full_name of
        None \<Rightarrow> (err USBG_ERROR_INVALID_PARAM, None, k)
      | Some (type_name, inst) \<Rightarrow>
          if type_name = [] \<or> inst = [] then (err USBG_ERROR_INVALID_PARAM, None, k)
          else let (ok, k') = k_malloc K k
            in if \<not> ok then (err USBG_ERROR_NO_MEM, None, k')
               else let r = usbg_lookup_function_type (Some type_name)
                 in if r \<ge> 0 then
                      (err USBG_SUCCESS, map_option (\<lambda>t. (t, inst)) (function_type_of r), k')
                    else (err USBG_ERROR_NOT_SUPPORTED, None, k'))"

text \<open>
  \<open>usbg_split_config_label_id\<close>: the id (or an error) and the label, if it was
  allocated. The result of \<open>strtol\<close> is stored into an \<open>int\<close>.
\<close>

definition usbg_split_config_label_id ::
  "'k kernel \<Rightarrow> string \<Rightarrow> 'k \<Rightarrow> int \<times> string option \<times> 'k" where
  "usbg_split_config_label_id K full_name k =
     (case split_last (CHR ''.'') full_name of
        None \<Rightarrow> (err USBG_ERROR_INVALID_PARAM, None, k)
      | Some (lbl, id_string) \<Rightarrow>
          if lbl = [] \<or> id_string = [] \<or> c_isspace (hd id_string)
          then (err USBG_ERROR_INVALID_PARAM, None, k)
          else let (ok, k') = k_malloc K k
            in if \<not> ok then (err USBG_ERROR_INVALID_PARAM, None, k')
               else let (v, rest, erange) = strtol 10 id_string;
                        ret = sint (word_of_int v :: cint)
                 in if erange then (usbg_translate_error ERANGE, None, k')
                    else if rest \<noteq> [] \<or> ret < 0 \<or> ret > 255
                      then (err USBG_ERROR_INVALID_PARAM, Some lbl, k')
                    else (ret, Some lbl, k'))"

section \<open>Facts about the tables\<close>

lemma function_type_of_code [simp]: "function_type_of (int (function_type_code t)) = Some t"
  by (cases t) (simp_all add: function_type_of_def all_function_types_def)

lemma function_type_code_less: "function_type_code t < 18"
  by (cases t) simp_all

lemma function_type_name_inject [simp]: "function_type_name a = function_type_name b \<longleftrightarrow> a = b"
  by (cases a; cases b) simp_all

lemma function_type_name_plain:
  "function_type_name t \<noteq> []" "CHR ''.'' \<notin> set (function_type_name t)"
  by (cases t; simp)+

lemma lookup_loop_distinct:
  "distinct ns \<Longrightarrow> i < length ns \<Longrightarrow> lookup_loop ns (ns ! i) j = int (i + j)"
proof (induction ns arbitrary: i j)
  case (Cons n ns)
  then show ?case by (cases i) auto
qed simp

lemma lookup_loop_not_found: "name \<notin> set ns \<Longrightarrow> lookup_loop ns name i = err USBG_ERROR_NOT_FOUND"
  by (induction ns arbitrary: i) auto

lemma lookup_loop_found:
  "lookup_loop ns name j = int r \<Longrightarrow> r \<ge> j \<and> r - j < length ns \<and> ns ! (r - j) = name"
proof (induction ns arbitrary: j)
  case (Cons n ns)
  show ?case
  proof (cases "name = n")
    case True
    with Cons.prems show ?thesis by simp
  next
    case False
    with Cons have "r \<ge> Suc j \<and> r - Suc j < length ns \<and> ns ! (r - Suc j) = name" by simp
    moreover from this have "r - j = Suc (r - Suc j)" by arith
    ultimately show ?thesis by auto
  qed
qed simp

lemma function_type_nth [simp]: "map function_type_name all_function_types ! function_type_code t = function_type_name t"
  by (cases t) (simp_all add: all_function_types_def)

lemma lookup_function_type_name [simp]:
  "usbg_lookup_function_type (Some (function_type_name t)) = int (function_type_code t)"
proof -
  have "distinct (map function_type_name all_function_types)"
    by (simp add: all_function_types_def)
  from lookup_loop_distinct [OF this, of "function_type_code t" 0]
  have "lookup_loop (map function_type_name all_function_types)
    (map function_type_name all_function_types ! function_type_code t) 0 = int (function_type_code t)"
    using function_type_code_less [of t] by (simp add: all_function_types_def)
  then show ?thesis
    by (simp add: usbg_lookup_function_type_def lookup_name_def)
qed

lemma split_first_append:
  "c \<notin> set a \<Longrightarrow> split_first c (a @ c # b) = Some (a, b)"
  by (subst dropWhile_append2 | auto simp: split_first_def takeWhile_tail)+

lemma split_first_Some:
  "split_first c s = Some (a, b) \<Longrightarrow> s = a @ c # b \<and> c \<notin> set a"
proof -
  assume *: "split_first c s = Some (a, b)"
  then have c: "c \<in> set s" and a: "a = takeWhile (\<lambda>x. x \<noteq> c) s"
    and b: "b = tl (dropWhile (\<lambda>x. x \<noteq> c) s)"
    by (auto simp: split_first_def split: if_splits)
  from c have ne: "dropWhile (\<lambda>x. x \<noteq> c) s \<noteq> []" by auto
  then have "hd (dropWhile (\<lambda>x. x \<noteq> c) s) = c" using hd_dropWhile [of "\<lambda>x. x \<noteq> c" s] by blast
  with ne b have "dropWhile (\<lambda>x. x \<noteq> c) s = c # b" by (metis list.collapse)
  with a have "s = a @ c # b" by (metis takeWhile_dropWhile_id)
  moreover have "c \<notin> set a" using a by (auto dest: set_takeWhileD)
  ultimately show ?thesis by simp
qed

lemma split_last_append:
  "c \<notin> set b \<Longrightarrow> split_last c (a @ c # b) = Some (a, b)"
  using split_first_append [of c "rev b" "rev a"] by (simp add: split_last_def)

text \<open>
  Splitting the directory name that \<open>usbg_init_function\<close> composes gives the type and
  instance back.
\<close>

lemma split_function_name:
  assumes "inst \<noteq> []" "k_malloc K k = (True, k')"
  shows "usbg_split_function_instance_type K (function_type_name t @ ''.'' @ inst) k =
           (err USBG_SUCCESS, Some (t, inst), k')"
  using assms function_type_name_plain [of t] split_first_append [of "CHR ''.''" "function_type_name t" inst]
  by (simp add: usbg_split_function_instance_type_def)

end
