(* ===== verification/Usbg_State.thy ===== *)
theory Usbg_State
  imports Usbg_Names
begin

text \<open>
  The library's objects (\<open>include/usbg/usbg_internal.h\<close>) in an explicit store. A pointer
  is a number; each structure type has its own map from pointers to objects, so an object
  that was freed is absent and a pointer to it dangles. A \<open>TAILQ\<close> is the list of its
  members' pointers. Every operation on the store returns an option: \<open>None\<close> is undefined
  behaviour, that is, reading or freeing an object that is not there. Also here: allocation
  and release of the objects and the insertion macro \<open>INSERT_TAILQ_STRING_ORDER\<close>.
\<close>

section \<open>Objects\<close>

text \<open>
  \<open>struct usbg_f_ms\<close> and \<open>struct usbg_f_uvc\<close> extend a function by a mask of LUNs, and by
  masks of frames for each format.
\<close>

datatype function_ext =
    Plain_ext
  | Ms_ext (ms_luns: "bool list") (ms_luns_initiated: bool)
  | Uvc_ext (uvc_formats: "(bool list \<times> bool) list") (uvc_formats_initiated: bool)

record usbg_function =
  f_name :: string
  f_path :: string
  f_instance :: string
  f_label :: "string option"
  f_type :: usbg_function_type
  f_parent :: ptr
  f_ext :: function_ext

record usbg_binding =
  b_name :: string
  b_path :: string
  b_target :: ptr
  b_parent :: ptr

record usbg_config =
  c_name :: string
  c_path :: string
  c_label :: string
  c_id :: int
  c_bindings :: "ptr list"
  c_parent :: ptr

record usbg_gadget =
  g_name :: string
  g_path :: string
  g_configs :: "ptr list"
  g_functions :: "ptr list"
  g_udc :: "ptr option"
  g_os_desc_binding :: "ptr option"

record usbg_udc =
  u_name :: string
  u_gadget :: "ptr option"

text \<open>
  The one \<open>struct usbg_state\<close>, the store, the next pointer the allocator hands out, and
  the environment. All objects have this state as their \<open>parent\<close> root.
\<close>

record 'k world =
  s_configfs_path :: string
  s_path :: string
  s_gadgets :: "ptr list"
  s_udcs :: "ptr list"
  gadget_at :: "ptr \<rightharpoonup> usbg_gadget"
  config_at :: "ptr \<rightharpoonup> usbg_config"
  function_at :: "ptr \<rightharpoonup> usbg_function"
  binding_at :: "ptr \<rightharpoonup> usbg_binding"
  udc_at :: "ptr \<rightharpoonup> usbg_udc"
  next_ptr :: ptr
  os :: 'k

text \<open>Run an operation of the environment.\<close>

definition on_os :: "('k \<Rightarrow> 'a \<times> 'k) \<Rightarrow> 'k world \<Rightarrow> 'a \<times> 'k world" where
  "on_os m w = (fst (m (os w)), w\<lparr>os := snd (m (os w))\<rparr>)"

section \<open>Access through a pointer\<close>

definition upd_gadget :: "ptr \<Rightarrow> (usbg_gadget \<Rightarrow> usbg_gadget) \<Rightarrow> 'k world \<Rightarrow> 'k world option" where
  "upd_gadget p h w = map_option (\<lambda>g. w\<lparr>gadget_at := (gadget_at w)(p \<mapsto> h g)\<rparr>) (gadget_at w p)"

definition upd_config :: "ptr \<Rightarrow> (usbg_config \<Rightarrow> usbg_config) \<Rightarrow> 'k world \<Rightarrow> 'k world option" where
  "upd_config p h w = map_option (\<lambda>c. w\<lparr>config_at := (config_at w)(p \<mapsto> h c)\<rparr>) (config_at w p)"

definition upd_function :: "ptr \<Rightarrow> (usbg_function \<Rightarrow> usbg_function) \<Rightarrow> 'k world \<Rightarrow> 'k world option" where
  "upd_function p h w = map_option (\<lambda>f. w\<lparr>function_at := (function_at w)(p \<mapsto> h f)\<rparr>) (function_at w p)"

definition upd_binding :: "ptr \<Rightarrow> (usbg_binding \<Rightarrow> usbg_binding) \<Rightarrow> 'k world \<Rightarrow> 'k world option" where
  "upd_binding p h w = map_option (\<lambda>b. w\<lparr>binding_at := (binding_at w)(p \<mapsto> h b)\<rparr>) (binding_at w p)"

definition upd_udc :: "ptr \<Rightarrow> (usbg_udc \<Rightarrow> usbg_udc) \<Rightarrow> 'k world \<Rightarrow> 'k world option" where
  "upd_udc p h w = map_option (\<lambda>u. w\<lparr>udc_at := (udc_at w)(p \<mapsto> h u)\<rparr>) (udc_at w p)"

section \<open>Freeing\<close>

definition usbg_free_binding :: "ptr \<Rightarrow> 'k world \<Rightarrow> 'k world option" where
  "usbg_free_binding p w = do {
     b \<leftarrow> binding_at w p;
     Some (w\<lparr>binding_at := (binding_at w)(p := None)\<rparr>)
   }"

text \<open>Every function type has a \<open>free_inst\<close> operation.\<close>

definition usbg_free_function :: "ptr \<Rightarrow> 'k world \<Rightarrow> 'k world option" where
  "usbg_free_function p w = do {
     f \<leftarrow> function_at w p;
     Some (w\<lparr>function_at := (function_at w)(p := None)\<rparr>)
   }"

text \<open>The loops that take the first member off a queue until it is empty.\<close>

fun free_all :: "(ptr \<Rightarrow> 'k world \<Rightarrow> 'k world option) \<Rightarrow> ptr list \<Rightarrow> 'k world \<Rightarrow> 'k world option" where
  "free_all free [] w = Some w"
| "free_all free (p # ps) w = do { w1 \<leftarrow> free p w; free_all free ps w1 }"

definition usbg_free_config :: "ptr \<Rightarrow> 'k world \<Rightarrow> 'k world option" where
  "usbg_free_config p w = do {
     c \<leftarrow> config_at w p;
     w1 \<leftarrow> free_all usbg_free_binding (c_bindings c) w;
     Some (w1\<lparr>config_at := (config_at w1)(p := None)\<rparr>)
   }"

definition usbg_free_gadget :: "ptr \<Rightarrow> 'k world \<Rightarrow> 'k world option" where
  "usbg_free_gadget p w = do {
     g \<leftarrow> gadget_at w p;
     w1 \<leftarrow> free_all usbg_free_config (g_configs g) w;
     w2 \<leftarrow> free_all usbg_free_function (g_functions g) w1;
     Some (w2\<lparr>gadget_at := (gadget_at w2)(p := None)\<rparr>)
   }"

definition usbg_free_udc :: "ptr \<Rightarrow> 'k world \<Rightarrow> 'k world option" where
  "usbg_free_udc p w = do {
     u \<leftarrow> udc_at w p;
     Some (w\<lparr>udc_at := (udc_at w)(p := None)\<rparr>)
   }"

definition usbg_free_state :: "'k world \<Rightarrow> 'k world option" where
  "usbg_free_state w = do {
     w1 \<leftarrow> free_all usbg_free_gadget (s_gadgets w) w;
     w2 \<leftarrow> free_all usbg_free_udc (s_udcs w1) w1;
     Some (w2\<lparr>s_gadgets := [], s_udcs := []\<rparr>)
   }"

definition usbg_cleanup :: "'k world \<Rightarrow> 'k world option" where
  "usbg_cleanup w = usbg_free_state w"

section \<open>Allocating\<close>

text \<open>Two copies that are both attempted, as in the \<open>usbg_allocate_*\<close> functions.\<close>

definition malloc2 :: "'k kernel \<Rightarrow> 'k \<Rightarrow> bool \<times> 'k" where
  "malloc2 K k = (let (a, k1) = k_malloc K k; (b, k2) = k_malloc K k1 in (a \<and> b, k2))"

definition malloc_then2 :: "'k kernel \<Rightarrow> 'k \<Rightarrow> bool \<times> 'k" where
  "malloc_then2 K k = (let (a, k1) = k_malloc K k in if a then malloc2 K k1 else (False, k1))"

definition usbg_allocate_gadget ::
  "'k kernel \<Rightarrow> string \<Rightarrow> string \<Rightarrow> 'k world \<Rightarrow> ptr option \<times> 'k world" where
  "usbg_allocate_gadget K path name w =
     (let (ok, w1) = on_os (malloc_then2 K) w; p = next_ptr w1
      in if \<not> ok then (None, w1)
         else (Some p, w1\<lparr>next_ptr := Suc p,
                gadget_at := (gadget_at w1)(p \<mapsto>
                  \<lparr>g_name = name, g_path = path, g_configs = [], g_functions = [],
                   g_udc = None, g_os_desc_binding = None\<rparr>)\<rparr>))"

text \<open>The name of a configuration is \<open>asprintf("%s.%d", label, id)\<close>.\<close>

definition config_name :: "string \<Rightarrow> int \<Rightarrow> string" where
  "config_name lbl i = lbl @ ''.'' @ int_str i"

definition usbg_allocate_config ::
  "'k kernel \<Rightarrow> string \<Rightarrow> string \<Rightarrow> int \<Rightarrow> ptr \<Rightarrow> 'k world \<Rightarrow> ptr option \<times> 'k world" where
  "usbg_allocate_config K path lbl i parent w =
     (let (ok, w1) = on_os (k_malloc K) w in
      if \<not> ok then (None, w1)
      else let (ok, w2) = on_os (malloc_then2 K) w1; p = next_ptr w2 in
      if \<not> ok then (None, w2)
      else (Some p, w2\<lparr>next_ptr := Suc p,
             config_at := (config_at w2)(p \<mapsto>
               \<lparr>c_name = config_name lbl i, c_path = path, c_label = lbl, c_id = i,
                c_bindings = [], c_parent = parent\<rparr>)\<rparr>))"

text \<open>
  \<open>usbg_init_function\<close>: only the name's allocation is checked. If the copy of the path
  fails, \<open>f->path\<close> is NULL, which every use of it (\<open>snprintf\<close> with \<open>%s\<close>) prints as
  \<open>(null)\<close>.
\<close>

definition usbg_init_function ::
  "'k kernel \<Rightarrow> usbg_function_type \<Rightarrow> string \<Rightarrow> string \<Rightarrow> ptr \<Rightarrow> function_ext \<Rightarrow> 'k
     \<Rightarrow> int \<times> usbg_function option \<times> 'k" where
  "usbg_init_function K type inst path parent ext k =
     (let (ok, k1) = k_malloc K k in
      if \<not> ok then (err USBG_ERROR_NO_MEM, None, k1)
      else let (ok2, k2) = k_malloc K k1 in
        (0, Some \<lparr>f_name = function_type_name type @ ''.'' @ inst,
                  f_path = (if ok2 then path else ''(null)''), f_instance = inst,
                  f_label = None, f_type = type, f_parent = parent, f_ext = ext\<rparr>, k2))"

definition MAX_LUNS :: nat where "MAX_LUNS = 16"
definition MAX_FRAMES :: nat where "MAX_FRAMES = 16"
definition MAX_FORMATS :: nat where "MAX_FORMATS = 2"

text \<open>
  What \<open>alloc_inst\<close> adds to the function itself: nothing (\<open>GENERIC_ALLOC_INST\<close>), a
  cleared LUN mask (\<open>ms_alloc_inst\<close>), or cleared frame masks (\<open>uvc_alloc_inst\<close>).
\<close>

definition alloc_inst_ext :: "usbg_function_type \<Rightarrow> function_ext" where
  "alloc_inst_ext type =
     (case type of
        USBG_F_MASS_STORAGE \<Rightarrow> Ms_ext (replicate MAX_LUNS False) False
      | USBG_F_UVC \<Rightarrow> Uvc_ext (replicate MAX_FORMATS (replicate MAX_FRAMES False, False)) False
      | _ \<Rightarrow> Plain_ext)"

definition usbg_allocate_function ::
  "'k kernel \<Rightarrow> string \<Rightarrow> usbg_function_type \<Rightarrow> string \<Rightarrow> ptr \<Rightarrow> 'k world \<Rightarrow> ptr option \<times> 'k world" where
  "usbg_allocate_function K path type inst parent w =
     (let (ok, w1) = on_os (k_malloc K) w in
      if \<not> ok then (None, w1)
      else let ((ret, f), w2) = on_os (\<lambda>k. let (r, f, k') =
                 usbg_init_function K type inst path parent (alloc_inst_ext type) k in ((r, f), k')) w1;
               p = next_ptr w2
        in case f of
             None \<Rightarrow> (None, w2)
           | Some f \<Rightarrow> (Some p, w2\<lparr>next_ptr := Suc p, function_at := (function_at w2)(p \<mapsto> f)\<rparr>))"

text \<open>The target is set by the caller, after the allocation; it has no value before.\<close>

definition usbg_allocate_binding ::
  "'k kernel \<Rightarrow> string \<Rightarrow> string \<Rightarrow> ptr \<Rightarrow> ptr \<Rightarrow> 'k world \<Rightarrow> ptr option \<times> 'k world" where
  "usbg_allocate_binding K path name parent target w =
     (let (ok, w1) = on_os (malloc_then2 K) w; p = next_ptr w1
      in if \<not> ok then (None, w1)
         else (Some p, w1\<lparr>next_ptr := Suc p,
                binding_at := (binding_at w1)(p \<mapsto>
                  \<lparr>b_name = name, b_path = path, b_target = target, b_parent = parent\<rparr>)\<rparr>))"

definition usbg_allocate_udc :: "'k kernel \<Rightarrow> string \<Rightarrow> 'k world \<Rightarrow> ptr option \<times> 'k world" where
  "usbg_allocate_udc K name w =
     (let (ok, w1) = on_os (k_malloc K) w in
      if \<not> ok then (None, w1)
      else let (ok, w2) = on_os (k_malloc K) w1; p = next_ptr w2 in
      if \<not> ok then (None, w2)
      else (Some p, w2\<lparr>next_ptr := Suc p,
             udc_at := (udc_at w2)(p \<mapsto> \<lparr>u_name = name, u_gadget = None\<rparr>)\<rparr>))"

section \<open>Numbered directories\<close>

text \<open>
  The mass storage and UVC functions fill a mask from the entries \<open>lun.N\<close> and
  \<open>frame.N\<close> of a directory. The filter keeps an entry for which \<open>sscanf\<close> returns a
  non-zero value, which includes \<open>EOF\<close> on a proper prefix of the name. For an entry
  without a number \<open>id\<close> has no value (and the comparison of \<open>scandir\<close> is no order);
  a number outside of the mask writes outside of it; both are undefined. The order of the
  entries does not matter to the mask.
\<close>

definition numbered_select :: "string \<Rightarrow> dirent \<Rightarrow> bool" where
  "numbered_select pre d \<longleftrightarrow> file_select d \<and> fst (sscanf_prefix_d pre (d_name d)) \<noteq> 0"

fun mark_ids :: "string \<Rightarrow> string list \<Rightarrow> bool list \<Rightarrow> bool list option" where
  "mark_ids pre [] msk = Some msk"
| "mark_ids pre (d # ds) msk =
     (case snd (sscanf_prefix_d pre d) of
        None \<Rightarrow> None
      | Some i \<Rightarrow>
          if 0 \<le> i \<and> i < int (length msk) then mark_ids pre ds (msk[nat i := True]) else None)"

section \<open>Ordered insertion\<close>

text \<open>
  The three branches of \<open>INSERT_TAILQ_STRING_ORDER\<close>: before the first, after the last, or
  before the first member that is not smaller. If the loop meets no such member, nothing is
  inserted.
\<close>

fun insert_before_loop ::
  "(ptr \<rightharpoonup> string) \<Rightarrow> ptr \<Rightarrow> string \<Rightarrow> ptr list \<Rightarrow> ptr list option" where
  "insert_before_loop nm x nx [] = Some []"
| "insert_before_loop nm x nx (y # ys) = do {
     ny \<leftarrow> nm y;
     if strcmp nx ny > 0 then map_option (Cons y) (insert_before_loop nm x nx ys)
     else Some (x # y # ys)
   }"

definition insert_string_order ::
  "(ptr \<rightharpoonup> string) \<Rightarrow> ptr \<Rightarrow> ptr list \<Rightarrow> ptr list option" where
  "insert_string_order nm x xs =
     (if xs = [] then Some [x]
      else do {
        nx \<leftarrow> nm x;
        n1 \<leftarrow> nm (hd xs);
        if strcmp nx n1 < 0 then Some (x # xs)
        else do {
          nl \<leftarrow> nm (last xs);
          if strcmp nx nl > 0 then Some (xs @ [x])
          else insert_before_loop nm x nx xs
        }
      })"

definition gadget_name_at :: "'k world \<Rightarrow> ptr \<rightharpoonup> string" where
  "gadget_name_at w p = map_option g_name (gadget_at w p)"

definition config_name_at :: "'k world \<Rightarrow> ptr \<rightharpoonup> string" where
  "config_name_at w p = map_option c_name (config_at w p)"

definition function_name_at :: "'k world \<Rightarrow> ptr \<rightharpoonup> string" where
  "function_name_at w p = map_option f_name (function_at w p)"

definition binding_name_at :: "'k world \<Rightarrow> ptr \<rightharpoonup> string" where
  "binding_name_at w p = map_option b_name (binding_at w p)"

end
