(* ===== verification/Usbg_F_Basic.thy ===== *)
theory Usbg_F_Basic
  imports Usbg_Attr_Table Usbg_State
begin

text \<open>
  The function types whose attributes are one table (\<open>loopback.c\<close>, \<open>midi.c\<close>,
  \<open>ether.c\<close>, \<open>hid.c\<close>, \<open>uac2.c\<close>) or one read-only value (\<open>serial.c\<close>,
  \<open>ffs.c\<close>, \<open>phonet.c\<close>, \<open>9pfs.c\<close>) of \<open>src/function/\<close>. A structure of
  attributes is a record; the offsets of a table are the order of the record's members.
  Getters take the old contents of the structure they fill, which a failed read leaves as
  they were.
\<close>

section \<open>Structures and tables\<close>

definition struct_get_attrs ::
  "'k attr_entry list \<Rightarrow> ('s \<Rightarrow> attr_val list) \<Rightarrow> (attr_val list \<Rightarrow> 's) \<Rightarrow> 'k kernel \<Rightarrow>
     usbg_function \<Rightarrow> 's \<Rightarrow> 'k \<Rightarrow> (int \<times> 's \<times> 'k) option" where
  "struct_get_attrs tab to_vals of_vals K f a k = do {
     (ret, vs, k') \<leftarrow> table_get_attrs tab K (f_path f) (f_name f) (to_vals a) k;
     Some (ret, of_vals vs, k')
   }"

definition struct_set_attrs ::
  "'k attr_entry list \<Rightarrow> ('s \<Rightarrow> attr_val list) \<Rightarrow> 'k kernel \<Rightarrow> usbg_function \<Rightarrow> 's \<Rightarrow> 'k
     \<Rightarrow> (int \<times> 'k) option" where
  "struct_set_attrs tab to_vals K f a k = table_set_attrs tab K (f_path f) (f_name f) (to_vals a) k"

text \<open>The bounded string getters: the length of the string that was read, or the error.\<close>

definition usbg_get_string_s ::
  "'k kernel \<Rightarrow> usbg_function option \<Rightarrow> string \<Rightarrow> nat option \<Rightarrow> 'k \<Rightarrow> int \<times> string \<times> 'k" where
  "usbg_get_string_s K f attr buf k =
     (case (f, buf) of
        (Some f, Some len) \<Rightarrow>
          let (ret, s, k') = usbg_read_string_limited K (f_path f) (f_name f) attr len k
          in (if ret \<noteq> 0 then ret else int (length s), s, k')
      | _ \<Rightarrow> (err USBG_ERROR_INVALID_PARAM, [], k))"

fun int_val :: "attr_val \<Rightarrow> cint" where
  "int_val (Int_val i) = i" | "int_val _ = 0"

fun bool_val :: "attr_val \<Rightarrow> bool" where
  "bool_val (Bool_val b) = b" | "bool_val _ = False"

fun str_val :: "attr_val \<Rightarrow> string option" where
  "str_val (Str_val s) = s" | "str_val _ = None"

fun ether_val :: "attr_val \<Rightarrow> u8 list" where
  "ether_val (Ether_val a) = a" | "ether_val _ = []"

fun dev_val :: "attr_val \<Rightarrow> dev_t" where
  "dev_val (Dev_val d) = d" | "dev_val _ = (0, 0)"

fun report_val :: "attr_val \<Rightarrow> string" where
  "report_val (Report_val s) = s" | "report_val _ = []"

section \<open>Loopback\<close>

record loopback_attrs =
  lb_buflen :: cint
  lb_qlen :: cint

definition loopback_attr :: "'k attr_entry list" where
  "loopback_attr = [dec_attr ''buflen'', dec_attr ''qlen'']"

definition loopback_vals :: "loopback_attrs \<Rightarrow> attr_val list" where
  "loopback_vals a = [Int_val (lb_buflen a), Int_val (lb_qlen a)]"

definition loopback_of :: "attr_val list \<Rightarrow> loopback_attrs" where
  "loopback_of vs = \<lparr>lb_buflen = int_val (vs ! 0), lb_qlen = int_val (vs ! 1)\<rparr>"

definition usbg_f_loopback_get_attr_val ::
  "'k kernel \<Rightarrow> usbg_function \<Rightarrow> nat \<Rightarrow> attr_val \<Rightarrow> 'k \<Rightarrow> (int \<times> attr_val \<times> 'k) option" where
  "usbg_f_loopback_get_attr_val K f i v k = table_get_val loopback_attr K (f_path f) (f_name f) i v k"

definition usbg_f_loopback_set_attr_val ::
  "'k kernel \<Rightarrow> usbg_function \<Rightarrow> nat \<Rightarrow> attr_val \<Rightarrow> 'k \<Rightarrow> (int \<times> 'k) option" where
  "usbg_f_loopback_set_attr_val K f i v k = table_set_val loopback_attr K (f_path f) (f_name f) i v k"

definition usbg_f_loopback_get_attrs ::
  "'k kernel \<Rightarrow> usbg_function \<Rightarrow> loopback_attrs \<Rightarrow> 'k \<Rightarrow> (int \<times> loopback_attrs \<times> 'k) option" where
  "usbg_f_loopback_get_attrs K f a k = struct_get_attrs loopback_attr loopback_vals loopback_of K f a k"

definition usbg_f_loopback_set_attrs ::
  "'k kernel \<Rightarrow> usbg_function \<Rightarrow> loopback_attrs \<Rightarrow> 'k \<Rightarrow> (int \<times> 'k) option" where
  "usbg_f_loopback_set_attrs K f a k = struct_set_attrs loopback_attr loopback_vals K f a k"

section \<open>MIDI\<close>

record midi_attrs =
  midi_index :: cint
  midi_id :: "string option"
  midi_in_ports :: cint
  midi_out_ports :: cint
  midi_buflen :: cint
  midi_qlen :: cint

definition midi_attr :: "'k attr_entry list" where
  "midi_attr =
     [dec_attr ''index'', string_attr ''id'', dec_attr ''in_ports'', dec_attr ''out_ports'',
      dec_attr ''buflen'', dec_attr ''qlen'']"

definition midi_vals :: "midi_attrs \<Rightarrow> attr_val list" where
  "midi_vals a =
     [Int_val (midi_index a), Str_val (midi_id a), Int_val (midi_in_ports a),
      Int_val (midi_out_ports a), Int_val (midi_buflen a), Int_val (midi_qlen a)]"

definition midi_of :: "attr_val list \<Rightarrow> midi_attrs" where
  "midi_of vs =
     \<lparr>midi_index = int_val (vs ! 0), midi_id = str_val (vs ! 1), midi_in_ports = int_val (vs ! 2),
      midi_out_ports = int_val (vs ! 3), midi_buflen = int_val (vs ! 4), midi_qlen = int_val (vs ! 5)\<rparr>"

definition usbg_f_midi_get_attr_val ::
  "'k kernel \<Rightarrow> usbg_function \<Rightarrow> nat \<Rightarrow> attr_val \<Rightarrow> 'k \<Rightarrow> (int \<times> attr_val \<times> 'k) option" where
  "usbg_f_midi_get_attr_val K f i v k = table_get_val midi_attr K (f_path f) (f_name f) i v k"

definition usbg_f_midi_set_attr_val ::
  "'k kernel \<Rightarrow> usbg_function \<Rightarrow> nat \<Rightarrow> attr_val \<Rightarrow> 'k \<Rightarrow> (int \<times> 'k) option" where
  "usbg_f_midi_set_attr_val K f i v k = table_set_val midi_attr K (f_path f) (f_name f) i v k"

definition usbg_f_midi_get_attrs ::
  "'k kernel \<Rightarrow> usbg_function \<Rightarrow> midi_attrs \<Rightarrow> 'k \<Rightarrow> (int \<times> midi_attrs \<times> 'k) option" where
  "usbg_f_midi_get_attrs K f a k = struct_get_attrs midi_attr midi_vals midi_of K f a k"

definition usbg_f_midi_set_attrs ::
  "'k kernel \<Rightarrow> usbg_function \<Rightarrow> midi_attrs \<Rightarrow> 'k \<Rightarrow> (int \<times> 'k) option" where
  "usbg_f_midi_set_attrs K f a k = struct_set_attrs midi_attr midi_vals K f a k"

definition usbg_f_midi_get_id_s ::
  "'k kernel \<Rightarrow> usbg_function option \<Rightarrow> nat option \<Rightarrow> 'k \<Rightarrow> int \<times> string \<times> 'k" where
  "usbg_f_midi_get_id_s K f buf k = usbg_get_string_s K f ''id'' buf k"

section \<open>Network functions\<close>

record net_attrs =
  net_dev_addr :: "u8 list"
  net_host_addr :: "u8 list"
  net_ifname :: "string option"
  net_qmult :: cint
  net_class :: cint
  net_subclass :: cint
  net_protocol :: cint

text \<open>The name of an entry is the name of the C member, \<open>class_\<close> with its underscore.\<close>

definition net_attr :: "'k attr_entry list" where
  "net_attr =
     [ether_addr_attr ''dev_addr'', ether_addr_attr ''host_addr'', string_attr_ro ''ifname'',
      dec_attr ''qmult'', dec_attr ''class_'', dec_attr ''subclass'', dec_attr ''protocol'']"

definition net_vals :: "net_attrs \<Rightarrow> attr_val list" where
  "net_vals a =
     [Ether_val (net_dev_addr a), Ether_val (net_host_addr a), Str_val (net_ifname a),
      Int_val (net_qmult a), Int_val (net_class a), Int_val (net_subclass a), Int_val (net_protocol a)]"

definition net_of :: "attr_val list \<Rightarrow> net_attrs" where
  "net_of vs =
     \<lparr>net_dev_addr = ether_val (vs ! 0), net_host_addr = ether_val (vs ! 1),
      net_ifname = str_val (vs ! 2), net_qmult = int_val (vs ! 3), net_class = int_val (vs ! 4),
      net_subclass = int_val (vs ! 5), net_protocol = int_val (vs ! 6)\<rparr>"

definition usbg_f_net_get_attr_val ::
  "'k kernel \<Rightarrow> usbg_function \<Rightarrow> nat \<Rightarrow> attr_val \<Rightarrow> 'k \<Rightarrow> (int \<times> attr_val \<times> 'k) option" where
  "usbg_f_net_get_attr_val K f i v k = table_get_val net_attr K (f_path f) (f_name f) i v k"

definition usbg_f_net_set_attr_val ::
  "'k kernel \<Rightarrow> usbg_function \<Rightarrow> nat \<Rightarrow> attr_val \<Rightarrow> 'k \<Rightarrow> (int \<times> 'k) option" where
  "usbg_f_net_set_attr_val K f i v k = table_set_val net_attr K (f_path f) (f_name f) i v k"

definition usbg_f_net_get_attrs ::
  "'k kernel \<Rightarrow> usbg_function \<Rightarrow> net_attrs \<Rightarrow> 'k \<Rightarrow> (int \<times> net_attrs \<times> 'k) option" where
  "usbg_f_net_get_attrs K f a k = struct_get_attrs net_attr net_vals net_of K f a k"

definition usbg_f_net_set_attrs ::
  "'k kernel \<Rightarrow> usbg_function \<Rightarrow> net_attrs \<Rightarrow> 'k \<Rightarrow> (int \<times> 'k) option" where
  "usbg_f_net_set_attrs K f a k = struct_set_attrs net_attr net_vals K f a k"

text \<open>A text pointer that is NULL or points to an empty string.\<close>

definition empty_str :: "string option \<Rightarrow> bool" where
  "empty_str s \<longleftrightarrow> s = None \<or> s = Some []"

definition ether_set_attrs ::
  "'k kernel \<Rightarrow> usbg_function \<Rightarrow> net_attrs \<Rightarrow> 'k \<Rightarrow> (int \<times> 'k) option" where
  "ether_set_attrs K f a k =
     (if \<not> empty_str (net_ifname a) then Some (err USBG_ERROR_INVALID_PARAM, k)
      else usbg_f_net_set_attrs K f a k)"

definition usbg_f_net_get_ifname_s ::
  "'k kernel \<Rightarrow> usbg_function option \<Rightarrow> nat option \<Rightarrow> 'k \<Rightarrow> int \<times> string \<times> 'k" where
  "usbg_f_net_get_ifname_s K f buf k = usbg_get_string_s K f ''ifname'' buf k"

section \<open>HID\<close>

text \<open>
  The report descriptor: read through a buffer of \<open>USBG_MAX_STR_LENGTH\<close> bytes; an empty
  one is written as a single NUL byte.
\<close>

definition hid_get_report :: "'k attr_get_func" where
  "hid_get_report K path name attr v k =
     (let (ret, buf, k1) = usbg_read_buf K path name attr k in
      if ret < 0 then (ret, v, k1)
      else if ret = 0 then (0, Report_val [], k1)
      else let (ok, k2) = k_malloc K k1 in
        if \<not> ok then (err USBG_ERROR_NO_MEM, Report_val [], k2) else (0, Report_val buf, k2))"

definition hid_set_report :: "'k attr_set_func" where
  "hid_set_report K path name attr v k =
     (case v of
        Report_val s \<Rightarrow>
          let buf = (if length s = 0 then [CHR 0x00] else s);
              (ret, k') = usbg_write_buf K path name attr buf k
          in Some (if ret > 0 then err USBG_SUCCESS else ret, k')
      | _ \<Rightarrow> None)"

definition report_attr :: "string \<Rightarrow> 'k attr_entry" where
  "report_attr n = \<lparr>a_name = n, a_ro = False, a_get = hid_get_report, a_set = Some hid_set_report\<rparr>"

record hid_attrs =
  hid_dev :: dev_t
  hid_protocol :: cint
  hid_report_desc :: string
  hid_report_length :: cint
  hid_subclass :: cint

definition hid_attr :: "'k attr_entry list" where
  "hid_attr =
     [dev_attr_ro ''dev'', dec_attr ''protocol'', report_attr ''report_desc'',
      dec_attr ''report_length'', dec_attr ''subclass'']"

definition hid_vals :: "hid_attrs \<Rightarrow> attr_val list" where
  "hid_vals a =
     [Dev_val (hid_dev a), Int_val (hid_protocol a), Report_val (hid_report_desc a),
      Int_val (hid_report_length a), Int_val (hid_subclass a)]"

definition hid_of :: "attr_val list \<Rightarrow> hid_attrs" where
  "hid_of vs =
     \<lparr>hid_dev = dev_val (vs ! 0), hid_protocol = int_val (vs ! 1), hid_report_desc = report_val (vs ! 2),
      hid_report_length = int_val (vs ! 3), hid_subclass = int_val (vs ! 4)\<rparr>"

definition usbg_f_hid_get_attr_val ::
  "'k kernel \<Rightarrow> usbg_function \<Rightarrow> nat \<Rightarrow> attr_val \<Rightarrow> 'k \<Rightarrow> (int \<times> attr_val \<times> 'k) option" where
  "usbg_f_hid_get_attr_val K f i v k = table_get_val hid_attr K (f_path f) (f_name f) i v k"

definition usbg_f_hid_set_attr_val ::
  "'k kernel \<Rightarrow> usbg_function \<Rightarrow> nat \<Rightarrow> attr_val \<Rightarrow> 'k \<Rightarrow> (int \<times> 'k) option" where
  "usbg_f_hid_set_attr_val K f i v k = table_set_val hid_attr K (f_path f) (f_name f) i v k"

definition usbg_f_hid_get_attrs ::
  "'k kernel \<Rightarrow> usbg_function \<Rightarrow> hid_attrs \<Rightarrow> 'k \<Rightarrow> (int \<times> hid_attrs \<times> 'k) option" where
  "usbg_f_hid_get_attrs K f a k = struct_get_attrs hid_attr hid_vals hid_of K f a k"

definition usbg_f_hid_set_attrs ::
  "'k kernel \<Rightarrow> usbg_function \<Rightarrow> hid_attrs \<Rightarrow> 'k \<Rightarrow> (int \<times> 'k) option" where
  "usbg_f_hid_set_attrs K f a k = struct_set_attrs hid_attr hid_vals K f a k"

section \<open>UAC2\<close>

text \<open>
  The members of type \<open>aligned_short\<close> are read and written as the whole
  \<open>int\<close> they are aligned to; here they are that \<open>int\<close>.
\<close>

record uac2_attrs =
  uac2_c_chmask :: cint
  uac2_c_srate :: cint
  uac2_c_ssize :: cint
  uac2_p_chmask :: cint
  uac2_p_srate :: cint
  uac2_p_ssize :: cint
  uac2_p_hs_bint :: cint
  uac2_c_hs_bint :: cint
  uac2_c_sync :: "string option"
  uac2_req_number :: cint
  uac2_fb_max :: cint
  uac2_p_mute_present :: bool
  uac2_p_volume_present :: bool
  uac2_p_volume_min :: cint
  uac2_p_volume_max :: cint
  uac2_p_volume_res :: cint
  uac2_c_mute_present :: bool
  uac2_c_volume_present :: bool
  uac2_c_volume_min :: cint
  uac2_c_volume_max :: cint
  uac2_c_volume_res :: cint
  uac2_function_name :: "string option"

definition uac2_attr :: "'k attr_entry list" where
  "uac2_attr =
     [dec_attr ''c_chmask'', dec_attr ''c_srate'', dec_attr ''c_ssize'', dec_attr ''p_chmask'',
      dec_attr ''p_srate'', dec_attr ''p_ssize'', dec_attr ''p_hs_bint'', dec_attr ''c_hs_bint'',
      string_attr ''c_sync'', dec_attr ''req_number'', dec_attr ''fb_max'',
      bool_attr ''p_mute_present'', bool_attr ''p_volume_present'', dec_attr ''p_volume_min'',
      dec_attr ''p_volume_max'', dec_attr ''p_volume_res'', bool_attr ''c_mute_present'',
      bool_attr ''c_volume_present'', dec_attr ''c_volume_min'', dec_attr ''c_volume_max'',
      dec_attr ''c_volume_res'', string_attr ''function_name'']"

definition uac2_vals :: "uac2_attrs \<Rightarrow> attr_val list" where
  "uac2_vals a =
     [Int_val (uac2_c_chmask a), Int_val (uac2_c_srate a), Int_val (uac2_c_ssize a),
      Int_val (uac2_p_chmask a), Int_val (uac2_p_srate a), Int_val (uac2_p_ssize a),
      Int_val (uac2_p_hs_bint a), Int_val (uac2_c_hs_bint a), Str_val (uac2_c_sync a),
      Int_val (uac2_req_number a), Int_val (uac2_fb_max a), Bool_val (uac2_p_mute_present a),
      Bool_val (uac2_p_volume_present a), Int_val (uac2_p_volume_min a),
      Int_val (uac2_p_volume_max a), Int_val (uac2_p_volume_res a),
      Bool_val (uac2_c_mute_present a), Bool_val (uac2_c_volume_present a),
      Int_val (uac2_c_volume_min a), Int_val (uac2_c_volume_max a), Int_val (uac2_c_volume_res a),
      Str_val (uac2_function_name a)]"

definition uac2_of :: "attr_val list \<Rightarrow> uac2_attrs" where
  "uac2_of vs =
     \<lparr>uac2_c_chmask = int_val (vs ! 0), uac2_c_srate = int_val (vs ! 1), uac2_c_ssize = int_val (vs ! 2),
      uac2_p_chmask = int_val (vs ! 3), uac2_p_srate = int_val (vs ! 4), uac2_p_ssize = int_val (vs ! 5),
      uac2_p_hs_bint = int_val (vs ! 6), uac2_c_hs_bint = int_val (vs ! 7), uac2_c_sync = str_val (vs ! 8),
      uac2_req_number = int_val (vs ! 9), uac2_fb_max = int_val (vs ! 10),
      uac2_p_mute_present = bool_val (vs ! 11), uac2_p_volume_present = bool_val (vs ! 12),
      uac2_p_volume_min = int_val (vs ! 13), uac2_p_volume_max = int_val (vs ! 14),
      uac2_p_volume_res = int_val (vs ! 15), uac2_c_mute_present = bool_val (vs ! 16),
      uac2_c_volume_present = bool_val (vs ! 17), uac2_c_volume_min = int_val (vs ! 18),
      uac2_c_volume_max = int_val (vs ! 19), uac2_c_volume_res = int_val (vs ! 20),
      uac2_function_name = str_val (vs ! 21)\<rparr>"

definition usbg_f_uac2_get_attr_val ::
  "'k kernel \<Rightarrow> usbg_function \<Rightarrow> nat \<Rightarrow> attr_val \<Rightarrow> 'k \<Rightarrow> (int \<times> attr_val \<times> 'k) option" where
  "usbg_f_uac2_get_attr_val K f i v k = table_get_val uac2_attr K (f_path f) (f_name f) i v k"

definition usbg_f_uac2_set_attr_val ::
  "'k kernel \<Rightarrow> usbg_function \<Rightarrow> nat \<Rightarrow> attr_val \<Rightarrow> 'k \<Rightarrow> (int \<times> 'k) option" where
  "usbg_f_uac2_set_attr_val K f i v k = table_set_val uac2_attr K (f_path f) (f_name f) i v k"

definition usbg_f_uac2_get_attrs ::
  "'k kernel \<Rightarrow> usbg_function \<Rightarrow> uac2_attrs \<Rightarrow> 'k \<Rightarrow> (int \<times> uac2_attrs \<times> 'k) option" where
  "usbg_f_uac2_get_attrs K f a k = struct_get_attrs uac2_attr uac2_vals uac2_of K f a k"

definition usbg_f_uac2_set_attrs ::
  "'k kernel \<Rightarrow> usbg_function \<Rightarrow> uac2_attrs \<Rightarrow> 'k \<Rightarrow> (int \<times> 'k) option" where
  "usbg_f_uac2_set_attrs K f a k = struct_set_attrs uac2_attr uac2_vals K f a k"

section \<open>Functions with one read-only attribute\<close>

text \<open>Serial functions: the port number cannot be set; only 0 is accepted.\<close>

definition serial_set_attrs :: "cint \<Rightarrow> int" where
  "serial_set_attrs port_num = (if port_num \<noteq> 0 then err USBG_ERROR_INVALID_PARAM else err USBG_SUCCESS)"

definition usbg_f_serial_get_port_num ::
  "'k kernel \<Rightarrow> usbg_function \<Rightarrow> cint \<Rightarrow> 'k \<Rightarrow> int \<times> cint \<times> 'k" where
  "usbg_f_serial_get_port_num K f port_num k =
     usbg_read_dec K (f_path f) (f_name f) ''port_num'' port_num k"

text \<open>The device names of FunctionFS and 9pfs are copies of the instance name.\<close>

definition ffs_set_attrs :: "string option \<Rightarrow> int" where
  "ffs_set_attrs dev_name = (if \<not> empty_str dev_name then err USBG_ERROR_INVALID_PARAM else err USBG_SUCCESS)"

definition usbg_f_fs_get_dev_name ::
  "'k kernel \<Rightarrow> usbg_function option \<Rightarrow> 'k \<Rightarrow> int \<times> string option \<times> 'k" where
  "usbg_f_fs_get_dev_name K ff k =
     (case ff of None \<Rightarrow> (err USBG_ERROR_INVALID_PARAM, None, k)
      | Some f \<Rightarrow> let (ok, k') = k_malloc K k
                in if ok then (0, Some (f_instance f), k') else (err USBG_ERROR_NO_MEM, None, k'))"

definition usbg_f_fs_get_dev_name_s :: "usbg_function option \<Rightarrow> nat option \<Rightarrow> int \<times> string option" where
  "usbg_f_fs_get_dev_name_s ff buf =
     (case (ff, buf) of (Some f, Some len) \<Rightarrow> map_prod id Some (snprintf_s len (f_instance f))
      | _ \<Rightarrow> (err USBG_ERROR_INVALID_PARAM, None))"

definition p9fs_set_attrs :: "string option \<Rightarrow> int" where
  "p9fs_set_attrs dev_name = (if \<not> empty_str dev_name then err USBG_ERROR_INVALID_PARAM else err USBG_SUCCESS)"

definition usbg_f_9pfs_get_dev_name ::
  "'k kernel \<Rightarrow> usbg_function option \<Rightarrow> 'k \<Rightarrow> int \<times> string option \<times> 'k" where
  "usbg_f_9pfs_get_dev_name K ff k =
     (case ff of None \<Rightarrow> (err USBG_ERROR_INVALID_PARAM, None, k)
      | Some f \<Rightarrow> let (ok, k') = k_malloc K k
                in if ok then (0, Some (f_instance f), k') else (err USBG_ERROR_NO_MEM, None, k'))"

definition usbg_f_9pfs_get_dev_name_s :: "usbg_function option \<Rightarrow> nat option \<Rightarrow> int \<times> string option" where
  "usbg_f_9pfs_get_dev_name_s ff buf =
     (case (ff, buf) of (Some f, Some len) \<Rightarrow> map_prod id Some (snprintf_s len (f_instance f))
      | _ \<Rightarrow> (err USBG_ERROR_INVALID_PARAM, None))"

definition phonet_set_attrs :: "string option \<Rightarrow> int" where
  "phonet_set_attrs ifname = (if \<not> empty_str ifname then err USBG_ERROR_INVALID_PARAM else err USBG_SUCCESS)"

definition usbg_f_phonet_get_ifname ::
  "'k kernel \<Rightarrow> usbg_function option \<Rightarrow> 'k \<Rightarrow> int \<times> string option \<times> 'k" where
  "usbg_f_phonet_get_ifname K pf k =
     (case pf of None \<Rightarrow> (err USBG_ERROR_INVALID_PARAM, None, k)
      | Some f \<Rightarrow> usbg_read_string_alloc K (f_path f) (f_name f) ''ifname'' k)"

definition usbg_f_phonet_get_ifname_s ::
  "'k kernel \<Rightarrow> usbg_function option \<Rightarrow> nat option \<Rightarrow> 'k \<Rightarrow> int \<times> string \<times> 'k" where
  "usbg_f_phonet_get_ifname_s K pf buf k = usbg_get_string_s K pf ''ifname'' buf k"

section \<open>Total operations\<close>

lemma struct_set_total:
  "list_all2 takes tab (to_vals a) \<Longrightarrow> \<exists>ret k'. struct_set_attrs tab to_vals K f a k = Some (ret, k')"
  unfolding struct_set_attrs_def by (rule table_set_total)

lemma struct_get_total:
  "length (to_vals a) = length tab \<Longrightarrow>
   \<exists>ret a' k'. struct_get_attrs tab to_vals of_vals K f a k = Some (ret, a', k')"
  using table_get_total [of "to_vals a" tab K "f_path f" "f_name f" k]
  by (auto simp: struct_get_attrs_def)

lemma takes_report [simp]: "takes (report_attr n) (Report_val s)"
  by (simp add: takes_def report_attr_def hid_set_report_def split: prod.split)

lemmas struct_defs = loopback_attr_def loopback_vals_def midi_attr_def midi_vals_def net_attr_def
  net_vals_def hid_attr_def hid_vals_def uac2_attr_def uac2_vals_def

lemma struct_takes:
  "list_all2 takes loopback_attr (loopback_vals a1)"
  "list_all2 takes midi_attr (midi_vals a2)"
  "list_all2 takes net_attr (net_vals a3)"
  "list_all2 takes hid_attr (hid_vals a4)"
  "list_all2 takes uac2_attr (uac2_vals a5)"
  by (simp_all add: struct_defs)

lemma struct_set_totals:
  "\<exists>ret k'. usbg_f_loopback_set_attrs K f a1 k = Some (ret, k')"
  "\<exists>ret k'. usbg_f_midi_set_attrs K f a2 k = Some (ret, k')"
  "\<exists>ret k'. usbg_f_net_set_attrs K f a3 k = Some (ret, k')"
  "\<exists>ret k'. usbg_f_hid_set_attrs K f a4 k = Some (ret, k')"
  "\<exists>ret k'. usbg_f_uac2_set_attrs K f a5 k = Some (ret, k')"
  unfolding usbg_f_loopback_set_attrs_def usbg_f_midi_set_attrs_def usbg_f_net_set_attrs_def
    usbg_f_hid_set_attrs_def usbg_f_uac2_set_attrs_def
  by (rule struct_set_total, rule struct_takes)+

lemmas struct_lengths = struct_takes [THEN list_all2_lengthD, symmetric]

lemma struct_of_vals [simp]:
  "loopback_of (loopback_vals a1) = a1" "midi_of (midi_vals a2) = a2" "net_of (net_vals a3) = a3"
  "hid_of (hid_vals a4) = a4" "uac2_of (uac2_vals a5) = a5"
  by (simp_all add: loopback_of_def loopback_vals_def midi_of_def midi_vals_def net_of_def
      net_vals_def hid_of_def hid_vals_def uac2_of_def uac2_vals_def)

section \<open>Round trips\<close>

lemma a_ro_simps [simp]:
  "\<not> a_ro (dec_attr n)" "\<not> a_ro (bool_attr n)" "\<not> a_ro (string_attr n)"
  "\<not> a_ro (ether_addr_attr n)" "\<not> a_ro (report_attr n)" "a_ro (string_attr_ro n)" "a_ro (dev_attr_ro n)"
  by (simp_all add: dec_attr_def bool_attr_def string_attr_def ether_addr_attr_def report_attr_def
      string_attr_ro_def dev_attr_ro_def)

lemma a_name_report [simp]: "a_name (report_attr n) = n"
  by (simp add: report_attr_def)

lemma struct_names:
  "distinct (map a_name loopback_attr)" "distinct (map a_name midi_attr)" "distinct (map a_name net_attr)"
  "distinct (map a_name hid_attr)" "distinct (map a_name uac2_attr)"
  by (simp_all add: struct_defs)

context attr_store_mem
begin

lemma struct_set_get:
  assumes "struct_set_attrs tab to_vals K f a k = Some (0, k')"
    and "distinct (map a_name tab)" "list_all2 (\<lambda>e v. \<not> a_ro e \<and> keeps e v) tab (to_vals a)"
    and "length (to_vals d) = length tab" "of_vals (to_vals a) = a"
  shows "\<exists>k''. struct_get_attrs tab to_vals of_vals K f d k' = Some (0, a, k'')"
  using table_set_get [OF assms(1) [unfolded struct_set_attrs_def] assms(2,3,4)] assms(5)
  by (auto simp: struct_get_attrs_def)

lemma report_keeps:
  assumes "s \<noteq> []" "length s \<le> USBG_MAX_STR_LENGTH"
  shows "keeps (report_attr n) (Report_val s)"
  unfolding keeps_def
proof (rule exI [of _ s], rule entry_keepsI)
  let ?e = "report_attr n :: 'a attr_entry"
  fix p m d k
  assume c: "contents k (path3 p m (a_name ?e)) = Some s"
    and f: "fits (path3 p m (a_name ?e))"
  from c f have "contents k (path3 p m n) = Some s" "fits (path3 p m n)" by simp_all
  then obtain k1 where "usbg_read_buf_limited K p m n USBG_MAX_STR_LENGTH k =
      (int (min (length s) USBG_MAX_STR_LENGTH), take USBG_MAX_STR_LENGTH s, k1)"
    "contents k1 = contents k"
    by (rule read_buf_contents)
  with assms malloc_succeeds [of k1] malloc_keeps [of k1]
  show "\<exists>k'. a_get ?e K p m (a_name ?e) d k = (0, Report_val s, k')
      \<and> contents k' = contents k"
    by (auto simp: report_attr_def hid_get_report_def usbg_read_buf_def Let_def split: prod.splits)
next
  let ?e = "report_attr n :: 'a attr_entry"
  fix st p m k k'
  assume "a_set ?e = Some st" "st K p m (a_name ?e) (Report_val s) k = Some (0, k')"
  with assms(1) obtain ret where "usbg_write_buf K p m n s k = (ret, k')" "ret \<ge> 0"
    by (auto simp: report_attr_def hid_set_report_def Let_def split: prod.splits if_splits)
  then show "fits (path3 p m (a_name ?e)) \<and>
      contents k' = (contents k)(path3 p m (a_name ?e) \<mapsto> s)"
    by (simp add: write_buf_stores)
qed simp

lemma loopback_round_trip:
  assumes "usbg_f_loopback_set_attrs K f a k = Some (0, k')"
  shows "\<exists>k''. usbg_f_loopback_get_attrs K f d k' = Some (0, a, k'')"
  unfolding usbg_f_loopback_get_attrs_def
  by (rule struct_set_get [OF assms [unfolded usbg_f_loopback_set_attrs_def]])
     (simp_all add: struct_names struct_lengths, simp add: struct_defs keeps_intros)

lemma midi_round_trip:
  assumes "usbg_f_midi_set_attrs K f a k = Some (0, k')" "midi_id a = Some s" "storable s"
  shows "\<exists>k''. usbg_f_midi_get_attrs K f d k' = Some (0, a, k'')"
  unfolding usbg_f_midi_get_attrs_def
  by (rule struct_set_get [OF assms(1) [unfolded usbg_f_midi_set_attrs_def]])
     (simp_all add: struct_names struct_lengths, simp add: struct_defs keeps_intros assms(2,3))

lemma uac2_round_trip:
  assumes "usbg_f_uac2_set_attrs K f a k = Some (0, k')"
    and "uac2_c_sync a = Some s" "storable s" "uac2_function_name a = Some t" "storable t"
  shows "\<exists>k''. usbg_f_uac2_get_attrs K f d k' = Some (0, a, k'')"
  unfolding usbg_f_uac2_get_attrs_def
  by (rule struct_set_get [OF assms(1) [unfolded usbg_f_uac2_set_attrs_def]])
     (simp_all add: struct_names struct_lengths, simp add: struct_defs keeps_intros assms(2-5))

lemma net_round_trip:
  assumes "usbg_f_net_set_attrs K f a k = Some (0, k')"
    and "length (net_dev_addr a) = 6" "length (net_host_addr a) = 6" "i < 7" "i \<noteq> 2"
  shows "\<exists>k''. usbg_f_net_get_attr_val K f i d k' = Some (0, net_vals a ! i, k'')"
  unfolding usbg_f_net_get_attr_val_def
proof (rule table_set_get_val [OF assms(1) [unfolded usbg_f_net_set_attrs_def struct_set_attrs_def]])
  show "list_all2 (\<lambda>e v. a_ro e \<or> keeps e v) net_attr (net_vals a)"
    using assms(2,3) by (simp add: struct_defs keeps_intros)
  have "i = 0 \<or> i = 1 \<or> i = 3 \<or> i = 4 \<or> i = 5 \<or> i = 6" using assms(4,5) by arith
  then show "\<not> a_ro (net_attr ! i)" by (auto simp: net_attr_def)
qed (use assms(4) struct_names in \<open>simp_all add: net_attr_def\<close>)

lemma hid_round_trip:
  assumes "usbg_f_hid_set_attrs K f a k = Some (0, k')"
    and "hid_report_desc a \<noteq> []" "length (hid_report_desc a) \<le> USBG_MAX_STR_LENGTH" "0 < i" "i < 5"
  shows "\<exists>k''. usbg_f_hid_get_attr_val K f i d k' = Some (0, hid_vals a ! i, k'')"
  unfolding usbg_f_hid_get_attr_val_def
proof (rule table_set_get_val [OF assms(1) [unfolded usbg_f_hid_set_attrs_def struct_set_attrs_def]])
  show "list_all2 (\<lambda>e v. a_ro e \<or> keeps e v) hid_attr (hid_vals a)"
    using assms(2,3) by (simp add: struct_defs keeps_intros report_keeps)
  have "i = 1 \<or> i = 2 \<or> i = 3 \<or> i = 4" using assms(4,5) by arith
  then show "\<not> a_ro (hid_attr ! i)" by (auto simp: hid_attr_def)
qed (use assms(5) struct_names in \<open>simp_all add: hid_attr_def\<close>)

end

end
