(* ===== verification/Usbg_F_Ms.thy ===== *)
theory Usbg_F_Ms
  imports Usbg_Attr_Table Usbg_State
begin

text \<open>
  The mass storage function (\<open>src/function/ms.c\<close>): the mask of its LUNs, filled from the
  file system on first use and kept up to date by creation and removal, and the attributes
  of the function and of each LUN. An access to the mask, to the table of LUNs to be or to
  an array of LUN attributes outside of its bounds is undefined (\<open>None\<close>).
\<close>

section \<open>Data\<close>

record ms_lun_attrs =
  lun_id :: int
  lun_cdrom :: bool
  lun_ro :: bool
  lun_nofua :: bool
  lun_removable :: bool
  lun_file :: "string option"
  lun_inquiry_string :: "string option"

text \<open>
  \<open>luns\<close> is a NULL-terminated array. What a caller passes in is the list of its members
  before the terminator; what \<open>usbg_f_ms_get_attrs\<close> builds is the whole array.
\<close>

record ms_attrs =
  ms_stall :: bool
  ms_lun_list :: "ms_lun_attrs list"

record ms_attrs_out =
  out_stall :: bool
  out_nluns :: nat
  out_luns :: "ms_lun_attrs option list"

record usbg_f_ms =
  mf_path :: string
  mf_name :: string
  mf_luns :: "bool list"
  mf_luns_initiated :: bool

definition usbg_to_ms_function :: "usbg_function \<Rightarrow> usbg_f_ms option" where
  "usbg_to_ms_function f =
     (case f_ext f of
        Ms_ext luns init \<Rightarrow>
          if f_type f = USBG_F_MASS_STORAGE then
            Some \<lparr>mf_path = f_path f, mf_name = f_name f, mf_luns = luns, mf_luns_initiated = init\<rparr>
          else None
      | _ \<Rightarrow> None)"

text \<open>The function object with the state of its LUN mask.\<close>

definition ms_update :: "usbg_f_ms \<Rightarrow> usbg_function \<Rightarrow> usbg_function" where
  "ms_update mf f = f\<lparr>f_ext := Ms_ext (mf_luns mf) (mf_luns_initiated mf)\<rparr>"

definition ms_lun_attr :: "'k attr_entry list" where
  "ms_lun_attr =
     [bool_attr ''cdrom'', bool_attr ''ro'', bool_attr ''nofua'', bool_attr ''removable'',
      string_attr ''file'', string_attr ''inquiry_string'']"

definition lun_vals :: "ms_lun_attrs \<Rightarrow> attr_val list" where
  "lun_vals a =
     [Bool_val (lun_cdrom a), Bool_val (lun_ro a), Bool_val (lun_nofua a),
      Bool_val (lun_removable a), Str_val (lun_file a), Str_val (lun_inquiry_string a)]"

definition lun_of_vals :: "int \<Rightarrow> attr_val list \<Rightarrow> ms_lun_attrs" where
  "lun_of_vals i vs =
     (case vs of
        [Bool_val a, Bool_val b, Bool_val c, Bool_val d, Str_val e, Str_val f] \<Rightarrow>
          \<lparr>lun_id = i, lun_cdrom = a, lun_ro = b, lun_nofua = c, lun_removable = d,
           lun_file = e, lun_inquiry_string = f\<rparr>
      | _ \<Rightarrow> \<lparr>lun_id = i, lun_cdrom = False, lun_ro = False, lun_nofua = False,
             lun_removable = False, lun_file = None, lun_inquiry_string = None\<rparr>)"

lemma lun_of_vals_lun_vals [simp]: "lun_of_vals i (lun_vals a) = a\<lparr>lun_id := i\<rparr>"
  by (simp add: lun_of_vals_def lun_vals_def)

section \<open>The LUN mask\<close>

definition lun_select :: "dirent \<Rightarrow> bool" where
  "lun_select d \<longleftrightarrow> numbered_select ''lun.'' d"

definition init_luns :: "'k kernel \<Rightarrow> usbg_f_ms \<Rightarrow> 'k \<Rightarrow> (int \<times> usbg_f_ms \<times> 'k) option" where
  "init_luns K ms k =
     (let lpath = path2 (mf_path ms) (mf_name ms) @ ''/''
      in if \<not> fits lpath then Some (err USBG_ERROR_PATH_TOO_LONG, ms, k)
         else case scandir K lpath lun_select k of
             (Inl e, k') \<Rightarrow> Some (usbg_translate_error e, ms, k')
           | (Inr ds, k') \<Rightarrow> do {
               luns \<leftarrow> mark_ids ''lun.'' ds (mf_luns ms);
               Some (0, ms\<lparr>mf_luns := luns\<rparr>, k')
             })"

text \<open>The mask is the one in the returned object.\<close>

definition get_lun_mask :: "'k kernel \<Rightarrow> usbg_f_ms \<Rightarrow> 'k \<Rightarrow> (usbg_f_ms \<times> 'k) option" where
  "get_lun_mask K ms k =
     (if mf_luns_initiated ms then Some (ms, k)
      else do {
        (ret, ms', k') \<leftarrow> init_luns K ms k;
        Some (if ret = 0 then ms'\<lparr>mf_luns_initiated := True\<rparr> else ms', k')
      })"

text \<open>Reading an element of the mask.\<close>

definition lun_at :: "usbg_f_ms \<Rightarrow> int \<Rightarrow> bool option" where
  "lun_at ms i = (if 0 \<le> i \<and> i < int (length (mf_luns ms)) then Some (mf_luns ms ! nat i) else None)"

section \<open>Attributes of a LUN\<close>

definition lun_path :: "usbg_f_ms \<Rightarrow> int \<Rightarrow> string" where
  "lun_path ms i = path3 (mf_path ms) (mf_name ms) (''lun.'' @ int_str i @ ''/'')"

definition usbg_f_ms_get_lun_attr_val ::
  "'k kernel \<Rightarrow> usbg_f_ms \<Rightarrow> int \<Rightarrow> nat \<Rightarrow> attr_val \<Rightarrow> 'k \<Rightarrow> (int \<times> attr_val \<times> 'k) option" where
  "usbg_f_ms_get_lun_attr_val K ms i lattr v k =
     (if \<not> fits (lun_path ms i) then Some (err USBG_ERROR_PATH_TOO_LONG, v, k)
      else table_get_val ms_lun_attr K (lun_path ms i) [] lattr v k)"

definition usbg_f_ms_set_lun_attr_val ::
  "'k kernel \<Rightarrow> usbg_f_ms \<Rightarrow> int \<Rightarrow> nat \<Rightarrow> attr_val \<Rightarrow> 'k \<Rightarrow> (int \<times> 'k) option" where
  "usbg_f_ms_set_lun_attr_val K ms i lattr v k =
     (if \<not> fits (lun_path ms i) then Some (err USBG_ERROR_PATH_TOO_LONG, k)
      else table_set_val ms_lun_attr K (lun_path ms i) [] lattr v k)"

definition usbg_f_ms_get_lun_attrs ::
  "'k kernel \<Rightarrow> usbg_f_ms \<Rightarrow> int \<Rightarrow> ms_lun_attrs \<Rightarrow> 'k \<Rightarrow> (int \<times> ms_lun_attrs \<times> 'k) option" where
  "usbg_f_ms_get_lun_attrs K ms i old k =
     (if \<not> fits (lun_path ms i) then Some (err USBG_ERROR_PATH_TOO_LONG, old\<lparr>lun_id := i\<rparr>, k)
      else do {
        (ret, vs, k') \<leftarrow> table_get_attrs ms_lun_attr K (lun_path ms i) [] (lun_vals old) k;
        Some (ret, lun_of_vals i vs, k')
      })"

definition usbg_f_ms_set_lun_attrs ::
  "'k kernel \<Rightarrow> usbg_f_ms \<Rightarrow> int \<Rightarrow> ms_lun_attrs \<Rightarrow> 'k \<Rightarrow> (int \<times> 'k) option" where
  "usbg_f_ms_set_lun_attrs K ms i lattrs k =
     (if \<not> fits (lun_path ms i) then Some (err USBG_ERROR_PATH_TOO_LONG, k)
      else table_set_attrs ms_lun_attr K (lun_path ms i) [] (lun_vals lattrs) k)"

text \<open>
  The file name of a LUN. The attribute is called \<open>file\<close>, the name read here is
  \<open>filename\<close>.
\<close>

definition usbg_f_ms_get_lun_file_s ::
  "'k kernel \<Rightarrow> usbg_f_ms option \<Rightarrow> int \<Rightarrow> nat option \<Rightarrow> 'k \<Rightarrow> int \<times> string \<times> 'k" where
  "usbg_f_ms_get_lun_file_s K mf i buf k =
     (case (mf, buf) of
        (Some ms, Some len) \<Rightarrow>
          if \<not> fits (lun_path ms i) then (err USBG_ERROR_PATH_TOO_LONG, [], k)
          else let (ret, s, k') = usbg_read_string_limited K (lun_path ms i) [] ''filename'' len k
               in (if ret \<noteq> 0 then ret else int (length s), s, k')
      | _ \<Rightarrow> (err USBG_ERROR_INVALID_PARAM, [], k))"

section \<open>Creation and removal of a LUN\<close>

definition usbg_f_ms_create_lun ::
  "'k kernel \<Rightarrow> usbg_f_ms \<Rightarrow> int \<Rightarrow> ms_lun_attrs option \<Rightarrow> 'k \<Rightarrow> (int \<times> usbg_f_ms \<times> 'k) option" where
  "usbg_f_ms_create_lun K mf i lattrs k =
     (if i \<ge> int MAX_LUNS then Some (err USBG_ERROR_INVALID_PARAM, mf, k)
      else do {
        (ms, k1) \<leftarrow> get_lun_mask K mf k;
        present \<leftarrow> lun_at ms i;
        if present then Some (err USBG_ERROR_EXIST, ms, k1)
        else if \<not> fits (lun_path ms i) then Some (err USBG_ERROR_PATH_TOO_LONG, ms, k1)
        else case k_mkdir K (lun_path ms i) k1 of
          (Some e, k2) \<Rightarrow> Some (usbg_translate_error e, ms, k2)
        | (None, k2) \<Rightarrow> do {
            (ret, k3) \<leftarrow> (case lattrs of None \<Rightarrow> Some (0, k2) | Some a \<Rightarrow> usbg_f_ms_set_lun_attrs K ms i a k2);
            if ret \<noteq> 0 then Some (ret, ms, snd (k_rmdir K (lun_path ms i) k3))
            else Some (0, ms\<lparr>mf_luns := (mf_luns ms)[nat i := True]\<rparr>, k3)
          }
      })"

definition usbg_f_ms_rm_lun ::
  "'k kernel \<Rightarrow> usbg_f_ms \<Rightarrow> int \<Rightarrow> 'k \<Rightarrow> (int \<times> usbg_f_ms \<times> 'k) option" where
  "usbg_f_ms_rm_lun K mf i k =
     (if i \<ge> int MAX_LUNS then Some (err USBG_ERROR_INVALID_PARAM, mf, k)
      else do {
        (ms, k1) \<leftarrow> get_lun_mask K mf k;
        present \<leftarrow> lun_at ms i;
        if \<not> present then Some (err USBG_ERROR_INVALID_PARAM, ms, k1)
        else if \<not> fits (lun_path ms i) then Some (err USBG_ERROR_PATH_TOO_LONG, ms, k1)
        else case k_rmdir K (lun_path ms i) k1 of
          (Some e, k2) \<Rightarrow> Some (usbg_translate_error e, ms, k2)
        | (None, k2) \<Rightarrow> Some (0, ms\<lparr>mf_luns := (mf_luns ms)[nat i := False]\<rparr>, k2)
      })"

text \<open>The loop of \<open>ms_remove\<close> over the LUNs after LUN 0.\<close>

fun ms_remove_loop ::
  "'k kernel \<Rightarrow> nat list \<Rightarrow> usbg_f_ms \<Rightarrow> 'k \<Rightarrow> (int \<times> usbg_f_ms \<times> 'k) option" where
  "ms_remove_loop K [] ms k = Some (err USBG_SUCCESS, ms, k)"
| "ms_remove_loop K (i # is) ms k = do {
     present \<leftarrow> lun_at ms (int i);
     if \<not> present then ms_remove_loop K is ms k
     else do {
       (ret, ms', k') \<leftarrow> usbg_f_ms_rm_lun K ms (int i) k;
       if ret \<noteq> 0 then Some (ret, ms', k') else ms_remove_loop K is ms' k'
     }
   }"

definition ms_remove :: "'k kernel \<Rightarrow> usbg_f_ms \<Rightarrow> 'k \<Rightarrow> (int \<times> usbg_f_ms \<times> 'k) option" where
  "ms_remove K mf k = do {
     (ms, k1) \<leftarrow> get_lun_mask K mf k;
     ms_remove_loop K [1..<MAX_LUNS] ms k1
   }"

section \<open>Attributes of the function\<close>

definition usbg_f_ms_get_stall :: "'k kernel \<Rightarrow> usbg_f_ms \<Rightarrow> bool \<Rightarrow> 'k \<Rightarrow> int \<times> bool \<times> 'k" where
  "usbg_f_ms_get_stall K mf stall k = usbg_read_bool K (mf_path mf) (mf_name mf) ''stall'' stall k"

definition usbg_f_ms_set_stall :: "'k kernel \<Rightarrow> usbg_f_ms \<Rightarrow> bool \<Rightarrow> 'k \<Rightarrow> int \<times> 'k" where
  "usbg_f_ms_set_stall K mf stall k = usbg_write_bool K (mf_path mf) (mf_name mf) ''stall'' stall k"

definition usbg_f_ms_get_nluns :: "'k kernel \<Rightarrow> usbg_f_ms \<Rightarrow> 'k \<Rightarrow> (nat \<times> usbg_f_ms \<times> 'k) option" where
  "usbg_f_ms_get_nluns K mf k = do {
     (ms, k') \<leftarrow> get_lun_mask K mf k;
     Some (length (filter id (take MAX_LUNS (mf_luns ms))), ms, k')
   }"

text \<open>The loop of \<open>usbg_f_ms_get_attrs\<close> fills the array that was allocated.\<close>

fun get_luns_loop ::
  "'k kernel \<Rightarrow> usbg_f_ms \<Rightarrow> nat list \<Rightarrow> ms_lun_attrs option list \<Rightarrow> 'k
     \<Rightarrow> (int \<times> ms_lun_attrs option list \<times> 'k) option" where
  "get_luns_loop K ms [] arr k = Some (0, arr, k)"
| "get_luns_loop K ms (i # is) arr k = do {
     present \<leftarrow> lun_at ms (int i);
     if \<not> present then get_luns_loop K ms is arr k
     else if i \<ge> length arr then None
     else let (ok, k1) = k_malloc K k in
       if \<not> ok then Some (err USBG_ERROR_NO_MEM, arr, k1)
       else do {
         (ret, a, k2) \<leftarrow> usbg_f_ms_get_lun_attrs K ms (int i) (lun_of_vals 0 []) k1;
         if ret \<noteq> 0 then Some (ret, arr, k2)
         else get_luns_loop K ms is (arr[i := Some a]) k2
       }
   }"

definition usbg_f_ms_get_attrs ::
  "'k kernel \<Rightarrow> usbg_f_ms \<Rightarrow> 'k \<Rightarrow> (int \<times> ms_attrs_out option \<times> usbg_f_ms \<times> 'k) option" where
  "usbg_f_ms_get_attrs K mf k =
     (let (ret, stall, k1) = usbg_f_ms_get_stall K mf False k in
      if ret \<noteq> 0 then Some (ret, None, mf, k1)
      else do {
        (ms, k2) \<leftarrow> get_lun_mask K mf k1;
        (nluns, ms', k3) \<leftarrow> usbg_f_ms_get_nluns K ms k2;
        let (ok, k4) = k_malloc K k3 in
          if \<not> ok then Some (err USBG_ERROR_NO_MEM, None, ms', k4)
          else do {
            (ret, arr, k5) \<leftarrow> get_luns_loop K ms' [0..<MAX_LUNS] (replicate (nluns + 1) None) k4;
            Some (ret, if ret = 0 then Some \<lparr>out_stall = stall, out_nluns = nluns, out_luns = arr\<rparr> else None,
                  ms', k5)
          }
      })"

text \<open>
  \<open>luns_to_be\<close>: for each LUN id the place of its attributes in the array, or -1.
\<close>

fun luns_to_be_loop :: "ms_lun_attrs list \<Rightarrow> nat \<Rightarrow> int list \<Rightarrow> int list option" where
  "luns_to_be_loop [] i tb = Some tb"
| "luns_to_be_loop (a # as) i tb =
     (let n = (if lun_id a \<ge> 0 then lun_id a else int i)
      in if n < int (length tb) then luns_to_be_loop as (Suc i) (tb[nat n := int i]) else None)"

text \<open>\<open>attrs->luns[i]\<close>: a member, the terminating NULL, or outside of the array.\<close>

definition lun_arg :: "ms_lun_attrs list \<Rightarrow> nat \<Rightarrow> ms_lun_attrs option option" where
  "lun_arg as i =
     (if i < length as then Some (Some (as ! i)) else if i = length as then Some None else None)"

definition ms_set_lun ::
  "'k kernel \<Rightarrow> ms_lun_attrs list \<Rightarrow> int list \<Rightarrow> nat \<Rightarrow> usbg_f_ms \<Rightarrow> 'k \<Rightarrow> (int \<times> usbg_f_ms \<times> 'k) option" where
  "ms_set_lun K as tb i ms k = do {
     present \<leftarrow> lun_at ms (int i);
     if present then
       if tb ! i \<ge> 0 then do {
         a \<leftarrow> lun_arg as i;
         lattrs \<leftarrow> a;
         (ret, k') \<leftarrow> usbg_f_ms_set_lun_attrs K ms (int i) lattrs k;
         Some (ret, ms, k')
       }
       else usbg_f_ms_rm_lun K ms (int i) k
     else if tb ! i \<ge> 0 then do {
       a \<leftarrow> lun_arg as i;
       usbg_f_ms_create_lun K ms (int i) a k
     }
     else Some (0, ms, k)
   }"

fun ms_cleanup_loop ::
  "'k kernel \<Rightarrow> int list \<Rightarrow> nat list \<Rightarrow> usbg_f_ms \<Rightarrow> 'k \<Rightarrow> (usbg_f_ms \<times> 'k) option" where
  "ms_cleanup_loop K tb [] ms k = Some (ms, k)"
| "ms_cleanup_loop K tb (j # js) ms k = do {
     present \<leftarrow> lun_at ms (int j);
     if \<not> present \<and> tb ! j \<ge> 0 then do {
       (ret, ms', k') \<leftarrow> usbg_f_ms_rm_lun K ms (int j) k;
       ms_cleanup_loop K tb js ms' k'
     }
     else ms_cleanup_loop K tb js ms k
   }"

fun ms_set_loop ::
  "'k kernel \<Rightarrow> ms_lun_attrs list \<Rightarrow> int list \<Rightarrow> nat list \<Rightarrow> usbg_f_ms \<Rightarrow> 'k \<Rightarrow> (int \<times> usbg_f_ms \<times> 'k) option" where
  "ms_set_loop K as tb [] ms k = Some (0, ms, k)"
| "ms_set_loop K as tb (i # is) ms k = do {
     (ret, ms', k') \<leftarrow> ms_set_lun K as tb i ms k;
     if ret \<noteq> 0 then do {
       (ms'', k'') \<leftarrow> ms_cleanup_loop K tb [0..<i] ms' k';
       Some (ret, ms'', k'')
     }
     else ms_set_loop K as tb is ms' k'
   }"

definition usbg_f_ms_set_attrs ::
  "'k kernel \<Rightarrow> usbg_f_ms \<Rightarrow> ms_attrs \<Rightarrow> 'k \<Rightarrow> (int \<times> usbg_f_ms \<times> 'k) option" where
  "usbg_f_ms_set_attrs K mf attrs k =
     (let (ret, k1) = usbg_f_ms_set_stall K mf (ms_stall attrs) k in
      if ret \<noteq> 0 then Some (ret, mf, k1)
      else do {
        (ms, k2) \<leftarrow> get_lun_mask K mf k1;
        tb \<leftarrow> luns_to_be_loop (ms_lun_list attrs) 0 (replicate MAX_LUNS (-1));
        ms_set_loop K (ms_lun_list attrs) tb [0..<MAX_LUNS] ms k2
      })"

text \<open>The strings of the LUN attributes are freed and cleared.\<close>

definition usbg_f_ms_cleanup_lun_attrs :: "ms_lun_attrs \<Rightarrow> ms_lun_attrs" where
  "usbg_f_ms_cleanup_lun_attrs a = a\<lparr>lun_file := None, lun_inquiry_string := None\<rparr>"

section \<open>The mask is kept in step with the file system\<close>

text \<open>A mask that was read already, of the size of the array.\<close>

definition ms_ready :: "usbg_f_ms \<Rightarrow> bool" where
  "ms_ready ms \<longleftrightarrow> mf_luns_initiated ms \<and> length (mf_luns ms) = MAX_LUNS"

lemma get_lun_mask_ready [simp]: "ms_ready ms \<Longrightarrow> get_lun_mask K ms k = Some (ms, k)"
  by (simp add: ms_ready_def get_lun_mask_def)

lemma lun_at_ready [simp]: "ms_ready ms \<Longrightarrow> i < MAX_LUNS \<Longrightarrow> lun_at ms (int i) = Some (mf_luns ms ! i)"
  by (simp add: ms_ready_def lun_at_def)

lemma ms_ready_update [simp]: "ms_ready (ms\<lparr>mf_luns := (mf_luns ms)[i := b]\<rparr>) = ms_ready ms"
  by (simp add: ms_ready_def)

text \<open>Typed members never reach a setter of another type.\<close>

lemma set_lun_attrs_total: "\<exists>ret k'. usbg_f_ms_set_lun_attrs K ms i a k = Some (ret, k')"
  by (simp add: usbg_f_ms_set_lun_attrs_def ms_lun_attr_def lun_vals_def bool_attr_def string_attr_def
      usbg_set_bool_def usbg_set_string_def split: prod.split)

lemma create_lun_cases:
  assumes "ms_ready ms" "i < MAX_LUNS"
  shows "\<exists>ret ms' k'. usbg_f_ms_create_lun K ms (int i) a k = Some (ret, ms', k') \<and>
    (ret = 0 \<and> \<not> mf_luns ms ! i \<and> ms' = ms\<lparr>mf_luns := (mf_luns ms)[i := True]\<rparr> \<or> ret \<noteq> 0 \<and> ms' = ms)"
proof -
  have [simp]: "\<not> MAX_LUNS \<le> i" using assms(2) by simp
  show ?thesis
  proof (cases a)
    case None
    with assms show ?thesis
      by (simp add: usbg_f_ms_create_lun_def split: prod.split option.split)
  next
    case (Some b)
    obtain R S where [simp]: "\<And>k. usbg_f_ms_set_lun_attrs K ms (int i) b k = Some (R k, S k)"
      using set_lun_attrs_total [of K ms "int i" b] by metis
    from Some assms show ?thesis
      by (simp add: usbg_f_ms_create_lun_def split: prod.split option.split)
  qed
qed

lemma rm_lun_cases:
  assumes "ms_ready ms" "i < MAX_LUNS"
  shows "\<exists>ret ms' k'. usbg_f_ms_rm_lun K ms (int i) k = Some (ret, ms', k') \<and>
    (ret = 0 \<and> mf_luns ms ! i \<and> ms' = ms\<lparr>mf_luns := (mf_luns ms)[i := False]\<rparr> \<or> ret \<noteq> 0 \<and> ms' = ms)"
  using assms by (simp add: usbg_f_ms_rm_lun_def split: prod.split option.split)

lemma rm_lun_absent:
  assumes "ms_ready ms" "i < MAX_LUNS" "\<not> mf_luns ms ! i"
  shows "usbg_f_ms_rm_lun K ms (int i) k = Some (err USBG_ERROR_INVALID_PARAM, ms, k)"
  using assms by (simp add: usbg_f_ms_rm_lun_def)

text \<open>
  Removal of the function removes every LUN but LUN 0, or stops at the first that the
  kernel refuses to remove.
\<close>

lemma ms_remove_loop_removes:
  assumes "ms_ready ms" "\<forall>i\<in>set is. i < MAX_LUNS"
  shows "\<exists>ret ms' k'. ms_remove_loop K is ms k = Some (ret, ms', k') \<and> ms_ready ms' \<and>
    (\<forall>j. j \<notin> set is \<longrightarrow> mf_luns ms' ! j = mf_luns ms ! j) \<and>
    (ret = 0 \<longrightarrow> (\<forall>j\<in>set is. \<not> mf_luns ms' ! j))"
  using assms
proof (induction "is" arbitrary: ms k)
  case (Cons i "is")
  then have i: "i < MAX_LUNS" "lun_at ms (int i) = Some (mf_luns ms ! i)" by simp_all
  show ?case
  proof (cases "mf_luns ms ! i")
    case False
    from Cons.IH [OF Cons.prems(1), of k] Cons.prems(2) obtain ret ms' k' where
      IH: "ms_remove_loop K is ms k = Some (ret, ms', k')" "ms_ready ms'"
        "\<forall>j. j \<notin> set is \<longrightarrow> mf_luns ms' ! j = mf_luns ms ! j" "ret = 0 \<longrightarrow> (\<forall>j\<in>set is. \<not> mf_luns ms' ! j)"
      by auto
    with False i show ?thesis by (cases "i \<in> set is") auto
  next
    case True
    from rm_lun_cases [OF Cons.prems(1) i(1), of K k] obtain ret ms1 k1 where
      rm: "usbg_f_ms_rm_lun K ms (int i) k = Some (ret, ms1, k1)"
        "if ret = 0 then ms1 = ms\<lparr>mf_luns := (mf_luns ms)[i := False]\<rparr> else ms1 = ms" by auto
    show ?thesis
    proof (cases "ret = 0")
      case False
      with rm True i Cons.prems(1) show ?thesis by auto
    next
      case ret: True
      with rm Cons.prems(1) have r1: "ms_ready ms1" by simp
      have len: "i < length (mf_luns ms)" using Cons.prems(1) i(1) by (simp add: ms_ready_def)
      from Cons.IH [OF r1, of k1] Cons.prems(2) obtain ret' ms' k' where
        IH: "ms_remove_loop K is ms1 k1 = Some (ret', ms', k')" "ms_ready ms'"
          "\<forall>j. j \<notin> set is \<longrightarrow> mf_luns ms' ! j = mf_luns ms1 ! j" "ret' = 0 \<longrightarrow> (\<forall>j\<in>set is. \<not> mf_luns ms' ! j)"
        by auto
      with rm ret True i len show ?thesis by (cases "i \<in> set is") (auto simp: nth_list_update)
    qed
  qed
qed simp

section \<open>Setting the attributes of a function\<close>

text \<open>Attributes for LUNs that are in the order of their ids, or leave the id to the order.\<close>

definition luns_in_order :: "ms_lun_attrs list \<Rightarrow> bool" where
  "luns_in_order as \<longleftrightarrow> (\<forall>i<length as. lun_id (as ! i) < 0 \<or> lun_id (as ! i) = int i)"

lemma luns_to_be_in_order:
  assumes "\<forall>j<length as. lun_id (as ! j) < 0 \<or> lun_id (as ! j) = int (i + j)" "i + length as \<le> length tb"
  shows "luns_to_be_loop as i tb =
    Some (take i tb @ map int [i..<i + length as] @ drop (i + length as) tb)"
  using assms
proof (induction as arbitrary: i tb)
  case (Cons a as)
  have a: "lun_id a < 0 \<or> lun_id a = int i" using Cons.prems(1) by force
  have as: "\<forall>j<length as. lun_id (as ! j) < 0 \<or> lun_id (as ! j) = int (Suc i + j)"
  proof (intro allI impI)
    fix j assume "j < length as"
    with Cons.prems(1) [rule_format, of "Suc j"]
    show "lun_id (as ! j) < 0 \<or> lun_id (as ! j) = int (Suc i + j)" by simp
  qed
  have "luns_to_be_loop (a # as) i tb = luns_to_be_loop as (Suc i) (tb[i := int i])"
    using a Cons.prems(2) by auto
  also have "\<dots> = Some (take (Suc i) (tb[i := int i]) @ map int [Suc i..<Suc i + length as]
      @ drop (Suc i + length as) (tb[i := int i]))"
    using Cons.IH [OF as, of "tb[i := int i]"] Cons.prems(2) by simp
  also have "take (Suc i) (tb[i := int i]) = take i tb @ [int i]"
    using Cons.prems(2) by (simp add: take_Suc_conv_app_nth)
  also have "drop (Suc i + length as) (tb[i := int i]) = drop (Suc i + length as) tb"
    by simp
  finally show ?case by (subst upt_conv_Cons) simp_all
qed simp

lemma cleanup_loop_nothing:
  assumes "ms_ready ms" "\<forall>j\<in>set js. j < MAX_LUNS"
  shows "ms_cleanup_loop K tb js ms k = Some (ms, k)"
  using assms by (induction js arbitrary: k) (auto simp: rm_lun_absent)

lemma ms_set_lun_cases:
  assumes "ms_ready ms" "i < MAX_LUNS" "0 \<le> tb ! i \<longleftrightarrow> i < length as"
  shows "\<exists>ret ms' k'. ms_set_lun K as tb i ms k = Some (ret, ms', k') \<and>
    (ret = 0 \<and> ms' = ms\<lparr>mf_luns := (mf_luns ms)[i := i < length as]\<rparr> \<or> ret \<noteq> 0 \<and> ms' = ms)"
proof -
  have len: "i < length (mf_luns ms)" using assms(1,2) by (simp add: ms_ready_def)
  have same: "mf_luns ms ! i = b \<Longrightarrow> ms = ms\<lparr>mf_luns := (mf_luns ms)[i := b]\<rparr>" for b
  proof -
    assume b: "mf_luns ms ! i = b"
    have "(mf_luns ms)[i := b] = mf_luns ms" unfolding b [symmetric] by (rule list_update_id)
    then show ?thesis by simp
  qed
  consider (keep) "mf_luns ms ! i" "i < length as" | (rm) "mf_luns ms ! i" "\<not> i < length as"
    | (new) "\<not> mf_luns ms ! i" "i < length as" | (no) "\<not> mf_luns ms ! i" "\<not> i < length as"
    by blast
  then show ?thesis
  proof cases
    case keep
    with set_lun_attrs_total [of K ms "int i" "as ! i" k] same [of True] assms show ?thesis
      by (auto simp: ms_set_lun_def lun_arg_def)
  next
    case rm
    with rm_lun_cases [OF assms(1,2), of K k] assms show ?thesis
      by (auto simp: ms_set_lun_def)
  next
    case new
    with create_lun_cases [OF assms(1,2), of K "Some (as ! i)" k] assms show ?thesis
      by (auto simp: ms_set_lun_def lun_arg_def)
  next
    case no
    with same [of False] assms show ?thesis by (auto simp: ms_set_lun_def)
  qed
qed

lemma ms_set_loop_mask:
  assumes "ms_ready ms" "\<And>i. i < MAX_LUNS \<Longrightarrow> 0 \<le> tb ! i \<longleftrightarrow> i < length as"
    and "j \<le> MAX_LUNS" "\<forall>i<j. mf_luns ms ! i \<longleftrightarrow> i < length as"
  shows "\<exists>ret ms' k'. ms_set_loop K as tb [j..<MAX_LUNS] ms k = Some (ret, ms', k') \<and> ms_ready ms' \<and>
    (ret = 0 \<longrightarrow> (\<forall>i<MAX_LUNS. mf_luns ms' ! i \<longleftrightarrow> i < length as))"
  using assms
proof (induction "MAX_LUNS - j" arbitrary: j ms k)
  case (Suc n)
  then have j: "j < MAX_LUNS" by simp
  from ms_set_lun_cases [OF Suc.prems(1) j Suc.prems(2) [OF j], of K k] obtain ret ms1 k1 where
    s: "ms_set_lun K as tb j ms k = Some (ret, ms1, k1)"
      "if ret = 0 then ms1 = ms\<lparr>mf_luns := (mf_luns ms)[j := j < length as]\<rparr> else ms1 = ms" by auto
  show ?case
  proof (cases "ret = 0")
    case False
    with s j Suc.prems(1) cleanup_loop_nothing [OF Suc.prems(1), of "[0..<j]" K tb k1] show ?thesis
      by (auto simp: upt_conv_Cons)
  next
    case True
    with s Suc.prems(1) have r: "ms_ready ms1" by simp
    have "j < length (mf_luns ms)" using Suc.prems(1) j by (simp add: ms_ready_def)
    with s True Suc.prems(4) have "\<forall>i<Suc j. mf_luns ms1 ! i \<longleftrightarrow> i < length as"
      by (auto simp: less_Suc_eq)
    with Suc.hyps(1) [of "Suc j" ms1 k1] Suc.hyps(2) Suc.prems(2) r j s True show ?thesis
      by (auto simp: upt_conv_Cons)
  qed
qed simp

lemma ms_set_attrs_mask:
  assumes "ms_ready mf" "luns_in_order (ms_lun_list a)" "length (ms_lun_list a) \<le> MAX_LUNS"
  shows "\<exists>ret mf' k'. usbg_f_ms_set_attrs K mf a k = Some (ret, mf', k') \<and> ms_ready mf' \<and>
    (ret = 0 \<longrightarrow> (\<forall>i<MAX_LUNS. mf_luns mf' ! i \<longleftrightarrow> i < length (ms_lun_list a)))"
proof -
  let ?tb = "map int [0..<length (ms_lun_list a)] @ drop (length (ms_lun_list a)) (replicate MAX_LUNS (- 1))"
  have tb: "luns_to_be_loop (ms_lun_list a) 0 (replicate MAX_LUNS (-1)) = Some ?tb"
    using luns_to_be_in_order [of "ms_lun_list a" 0 "replicate MAX_LUNS (-1)"] assms(2,3)
    by (simp add: luns_in_order_def)
  have "\<And>i. i < MAX_LUNS \<Longrightarrow> 0 \<le> ?tb ! i \<longleftrightarrow> i < length (ms_lun_list a)"
    by (simp add: nth_append)
  from ms_set_loop_mask [OF assms(1) this, of 0 K] show ?thesis
    using assms(1) tb by (auto simp: usbg_f_ms_set_attrs_def split: prod.split)
qed

end
