(* ===== verification/Usbg_F_Uvc.thy ===== *)
theory Usbg_F_Uvc
  imports Usbg_Attr_Table Usbg_State
begin

text \<open>
  The UVC function (\<open>src/function/uvc.c\<close>, without its import and export): the masks of
  frames of the two formats, the attribute tables of the function, its formats and frames,
  the directories and links that \<open>usbg_f_uvc_set_attrs\<close> makes, and the removal of
  everything below the function. A call through a setter that is not there and an index
  outside of a table are undefined (\<open>None\<close>).
\<close>

section \<open>Data\<close>

record uvc_config_attrs =
  uc_streaming_maxburst :: cint
  uc_streaming_maxpacket :: cint
  uc_streaming_interval :: cint
  uc_function_name :: "string option"

record uvc_frame_attrs =
  ur_bFrameIndex :: cint
  ur_bmCapabilities :: cint
  ur_dwMinBitRate :: cint
  ur_dwMaxBitRate :: cint
  ur_dwMaxVideoFrameBufferSize :: cint
  ur_dwDefaultFrameInterval :: cint
  ur_dwFrameInterval :: cint
  ur_wWidth :: cint
  ur_wHeight :: cint

text \<open>\<open>frames\<close> and \<open>formats\<close> are NULL-terminated arrays: the members before the NULL.\<close>

record uvc_format_attrs =
  uf_bmaControls :: cint
  uf_bFormatIndex :: cint
  uf_bDefaultFrameIndex :: cint
  uf_bAspectRatioX :: cint
  uf_bAspectRatioY :: cint
  uf_bmInterlaceFlags :: cint
  uf_format :: string
  uf_bBitsPerPixel :: cint
  uf_guidFormat :: "string option"
  uf_frames :: "uvc_frame_attrs list"

record uvc_attrs =
  ua_formats :: "uvc_format_attrs list"

record usbg_f_uvc =
  uvcf_path :: string
  uvcf_name :: string
  uvcf_formats :: "(bool list \<times> bool) list"
  uvcf_formats_initiated :: bool

definition usbg_to_uvc_function :: "usbg_function \<Rightarrow> usbg_f_uvc option" where
  "usbg_to_uvc_function f =
     (case f_ext f of
        Uvc_ext formats init \<Rightarrow>
          if f_type f = USBG_F_UVC then
            Some \<lparr>uvcf_path = f_path f, uvcf_name = f_name f, uvcf_formats = formats,
                  uvcf_formats_initiated = init\<rparr>
          else None
      | _ \<Rightarrow> None)"

definition format_names :: "string list" where
  "format_names = [''mjpeg/m'', ''uncompressed/u'']"

section \<open>The tables\<close>

definition uvc_config_attr :: "'k attr_entry list" where
  "uvc_config_attr =
     [dec_attr ''streaming_maxburst'', dec_attr ''streaming_maxpacket'',
      dec_attr ''streaming_interval'', string_attr ''function_name'']"

definition uvc_frame_attr :: "'k attr_entry list" where
  "uvc_frame_attr =
     [dec_attr ''bFrameIndex'', dec_attr ''bmCapabilities'', dec_attr ''dwMinBitRate'',
      dec_attr ''dwMaxBitRate'', dec_attr ''dwMaxVideoFrameBufferSize'',
      dec_attr ''dwDefaultFrameInterval'', dec_attr ''dwFrameInterval'',
      dec_attr ''wHeight'', dec_attr ''wWidth'']"

text \<open>A GUID is read as 16 bytes and set from its text.\<close>

definition usbg_get_guid :: "'k attr_get_func" where
  "usbg_get_guid K path name attr v k =
     (let (ret, s, k') = usbg_read_buf_alloc K path name attr 16 k
      in (ret, if s = None then v else Str_val s, k'))"

definition usbg_set_guid :: "'k attr_set_func" where
  "usbg_set_guid K path name attr v k =
     (case v of Str_val (Some s) \<Rightarrow> Some (usbg_write_guid K path name attr s k) | _ \<Rightarrow> None)"

definition guid_attr :: "string \<Rightarrow> 'k attr_entry" where
  "guid_attr n = \<lparr>a_name = n, a_ro = False, a_get = usbg_get_guid, a_set = Some usbg_set_guid\<rparr>"

text \<open>The order of the enumeration of \<open>uvc.h\<close>.\<close>

definition uvc_format_attr :: "'k attr_entry list" where
  "uvc_format_attr =
     [dec_attr_ro ''bmaControls'', dec_attr_ro ''bmInterlaceFlags'', dec_attr_ro ''bAspectRatioY'',
      dec_attr_ro ''bAspectRatioX'', dec_attr ''bDefaultFrameIndex'', dec_attr_ro ''bFormatIndex'',
      dec_attr ''bBitsPerPixel'', guid_attr ''guidFormat'']"

section \<open>The masks of frames\<close>

definition frame_select :: "dirent \<Rightarrow> bool" where
  "frame_select d \<longleftrightarrow> numbered_select ''frame.'' d"

definition init_frames :: "'k kernel \<Rightarrow> usbg_f_uvc \<Rightarrow> nat \<Rightarrow> 'k \<Rightarrow> (int \<times> usbg_f_uvc \<times> 'k) option" where
  "init_frames K uvc j k =
     (let fpath = path2 (uvcf_path uvc) (uvcf_name uvc) @ ''/streaming/'' @ (format_names ! j) @ ''/''
      in if \<not> fits fpath then Some (err USBG_ERROR_PATH_TOO_LONG, uvc, k)
         else case scandir K fpath frame_select k of
             (Inl e, k') \<Rightarrow> Some (usbg_translate_error e, uvc, k')
           | (Inr ds, k') \<Rightarrow> do {
               frames \<leftarrow> mark_ids ''frame.'' ds (fst (uvcf_formats uvc ! j));
               Some (0, uvc\<lparr>uvcf_formats := (uvcf_formats uvc)[j := (frames, True)]\<rparr>, k')
             })"

fun init_formats_loop ::
  "'k kernel \<Rightarrow> nat list \<Rightarrow> usbg_f_uvc \<Rightarrow> 'k \<Rightarrow> (usbg_f_uvc \<times> 'k) option" where
  "init_formats_loop K [] uvc k = Some (uvc, k)"
| "init_formats_loop K (i # is) uvc k = do {
     (ret, uvc', k') \<leftarrow> init_frames K uvc i k;
     init_formats_loop K is
       (if ret \<noteq> 0 then uvc'\<lparr>uvcf_formats_initiated := False\<rparr> else uvc') k'
   }"

definition get_formats_mask :: "'k kernel \<Rightarrow> usbg_f_uvc \<Rightarrow> 'k \<Rightarrow> (usbg_f_uvc \<times> 'k) option" where
  "get_formats_mask K uvc k =
     (if uvcf_formats_initiated uvc then Some (uvc, k)
      else init_formats_loop K [0..<MAX_FORMATS] (uvc\<lparr>uvcf_formats_initiated := True\<rparr>) k)"

section \<open>Attributes\<close>

definition uvc_config_vals :: "uvc_config_attrs \<Rightarrow> attr_val list" where
  "uvc_config_vals a =
     [Int_val (uc_streaming_maxburst a), Int_val (uc_streaming_maxpacket a),
      Int_val (uc_streaming_interval a), Str_val (uc_function_name a)]"

definition uvc_frame_vals :: "uvc_frame_attrs \<Rightarrow> attr_val list" where
  "uvc_frame_vals a =
     [Int_val (ur_bFrameIndex a), Int_val (ur_bmCapabilities a), Int_val (ur_dwMinBitRate a),
      Int_val (ur_dwMaxBitRate a), Int_val (ur_dwMaxVideoFrameBufferSize a),
      Int_val (ur_dwDefaultFrameInterval a), Int_val (ur_dwFrameInterval a),
      Int_val (ur_wHeight a), Int_val (ur_wWidth a)]"

definition uvc_format_vals :: "uvc_format_attrs \<Rightarrow> attr_val list" where
  "uvc_format_vals a =
     [Int_val (uf_bmaControls a), Int_val (uf_bmInterlaceFlags a), Int_val (uf_bAspectRatioY a),
      Int_val (uf_bAspectRatioX a), Int_val (uf_bDefaultFrameIndex a), Int_val (uf_bFormatIndex a),
      Int_val (uf_bBitsPerPixel a), Str_val (uf_guidFormat a)]"

text \<open>The setters of this file do not test the read-only flag.\<close>

definition table_set_unchecked ::
  "'k attr_entry list \<Rightarrow> 'k kernel \<Rightarrow> string \<Rightarrow> string \<Rightarrow> nat \<Rightarrow> attr_val \<Rightarrow> 'k \<Rightarrow> (int \<times> 'k) option" where
  "table_set_unchecked tab K path name i v k =
     (if i < length tab then do { st \<leftarrow> a_set (tab ! i); st K path name (a_name (tab ! i)) v k }
      else None)"

definition config_path :: "usbg_f_uvc \<Rightarrow> string" where
  "config_path uvcf = path2 (uvcf_path uvcf) (uvcf_name uvcf) @ ''/''"

definition format_path :: "usbg_f_uvc \<Rightarrow> string \<Rightarrow> string" where
  "format_path uvcf fmt = path2 (uvcf_path uvcf) (uvcf_name uvcf) @ ''/streaming/'' @ fmt @ ''/''"

definition frame_path :: "usbg_f_uvc \<Rightarrow> string \<Rightarrow> int \<Rightarrow> string" where
  "frame_path uvcf fmt i = format_path uvcf fmt @ ''frame.'' @ int_str i @ ''/''"

definition usbg_f_uvc_get_config_attr_val ::
  "'k kernel \<Rightarrow> usbg_f_uvc \<Rightarrow> nat \<Rightarrow> attr_val \<Rightarrow> 'k \<Rightarrow> (int \<times> attr_val \<times> 'k) option" where
  "usbg_f_uvc_get_config_attr_val K uvcf i v k =
     (if \<not> fits (config_path uvcf) then Some (err USBG_ERROR_PATH_TOO_LONG, v, k)
      else table_get_val uvc_config_attr K (config_path uvcf) [] i v k)"

definition usbg_f_uvc_set_config_attr_val ::
  "'k kernel \<Rightarrow> usbg_f_uvc \<Rightarrow> nat \<Rightarrow> attr_val \<Rightarrow> 'k \<Rightarrow> (int \<times> 'k) option" where
  "usbg_f_uvc_set_config_attr_val K uvcf i v k =
     (if \<not> fits (config_path uvcf) then Some (err USBG_ERROR_PATH_TOO_LONG, k)
      else table_set_unchecked uvc_config_attr K (config_path uvcf) [] i v k)"

definition usbg_f_uvc_get_frame_attr_val ::
  "'k kernel \<Rightarrow> usbg_f_uvc \<Rightarrow> string \<Rightarrow> int \<Rightarrow> nat \<Rightarrow> attr_val \<Rightarrow> 'k \<Rightarrow> (int \<times> attr_val \<times> 'k) option" where
  "usbg_f_uvc_get_frame_attr_val K uvcf fmt fid i v k =
     (if \<not> fits (frame_path uvcf fmt fid) then Some (err USBG_ERROR_PATH_TOO_LONG, v, k)
      else table_get_val uvc_frame_attr K (frame_path uvcf fmt fid) [] i v k)"

definition usbg_f_uvc_set_frame_attr_val ::
  "'k kernel \<Rightarrow> usbg_f_uvc \<Rightarrow> string \<Rightarrow> int \<Rightarrow> nat \<Rightarrow> attr_val \<Rightarrow> 'k \<Rightarrow> (int \<times> 'k) option" where
  "usbg_f_uvc_set_frame_attr_val K uvcf fmt fid i v k =
     (if \<not> fits (frame_path uvcf fmt fid) then Some (err USBG_ERROR_PATH_TOO_LONG, k)
      else table_set_unchecked uvc_frame_attr K (frame_path uvcf fmt fid) [] i v k)"

definition usbg_f_uvc_get_format_attr_val ::
  "'k kernel \<Rightarrow> usbg_f_uvc \<Rightarrow> string \<Rightarrow> nat \<Rightarrow> attr_val \<Rightarrow> 'k \<Rightarrow> (int \<times> attr_val \<times> 'k) option" where
  "usbg_f_uvc_get_format_attr_val K uvcf fmt i v k =
     (if \<not> fits (format_path uvcf fmt) then Some (err USBG_ERROR_PATH_TOO_LONG, v, k)
      else table_get_val uvc_format_attr K (format_path uvcf fmt) [] i v k)"

definition usbg_f_uvc_set_format_attr_val ::
  "'k kernel \<Rightarrow> usbg_f_uvc \<Rightarrow> string \<Rightarrow> nat \<Rightarrow> attr_val \<Rightarrow> 'k \<Rightarrow> (int \<times> 'k) option" where
  "usbg_f_uvc_set_format_attr_val K uvcf fmt i v k =
     (if \<not> fits (format_path uvcf fmt) then Some (err USBG_ERROR_PATH_TOO_LONG, k)
      else table_set_unchecked uvc_format_attr K (format_path uvcf fmt) [] i v k)"

text \<open>
  The loops over all attributes: a value for each index, or, past the end of the structure,
  none.
\<close>

fun set_vals_loop ::
  "(nat \<Rightarrow> attr_val \<Rightarrow> 'k \<Rightarrow> (int \<times> 'k) option) \<Rightarrow> nat \<Rightarrow> nat \<Rightarrow> attr_val list \<Rightarrow> 'k \<Rightarrow> (int \<times> 'k) option" where
  "set_vals_loop st i 0 vs k = Some (0, k)"
| "set_vals_loop st i (Suc n) [] k = None"
| "set_vals_loop st i (Suc n) (v # vs) k = do {
     (ret, k') \<leftarrow> st i v k;
     if ret \<noteq> 0 then Some (ret, k') else set_vals_loop st (Suc i) n vs k'
   }"

fun get_vals_loop ::
  "(nat \<Rightarrow> attr_val \<Rightarrow> 'k \<Rightarrow> (int \<times> attr_val \<times> 'k) option) \<Rightarrow> nat \<Rightarrow> nat \<Rightarrow> attr_val list \<Rightarrow> 'k
     \<Rightarrow> (int \<times> attr_val list \<times> 'k) option" where
  "get_vals_loop get i 0 vs k = Some (0, vs, k)"
| "get_vals_loop get i (Suc n) [] k = None"
| "get_vals_loop get i (Suc n) (v # vs) k = do {
     (ret, v', k') \<leftarrow> get i v k;
     if ret \<noteq> 0 then Some (ret, v' # vs, k')
     else do {
       (ret', vs', k'') \<leftarrow> get_vals_loop get (Suc i) n vs k';
       Some (ret', v' # vs', k'')
     }
   }"

definition USBG_F_UVC_CONFIG_ATTR_MAX :: nat where "USBG_F_UVC_CONFIG_ATTR_MAX = 4"
definition USBG_F_UVC_FRAME_ATTR_MAX :: nat where "USBG_F_UVC_FRAME_ATTR_MAX = 9"
definition USBG_F_UVC_FORMAT_ATTR_MAX :: nat where "USBG_F_UVC_FORMAT_ATTR_MAX = 8"

definition usbg_f_uvc_get_config_attrs ::
  "'k kernel \<Rightarrow> usbg_f_uvc \<Rightarrow> uvc_config_attrs \<Rightarrow> 'k \<Rightarrow> (int \<times> attr_val list \<times> 'k) option" where
  "usbg_f_uvc_get_config_attrs K uvcf a k =
     get_vals_loop (usbg_f_uvc_get_config_attr_val K uvcf) 0 USBG_F_UVC_CONFIG_ATTR_MAX (uvc_config_vals a) k"

text \<open>The loop runs to the number of frame attributes.\<close>

definition usbg_f_uvc_set_config_attrs ::
  "'k kernel \<Rightarrow> usbg_f_uvc \<Rightarrow> uvc_config_attrs \<Rightarrow> 'k \<Rightarrow> (int \<times> 'k) option" where
  "usbg_f_uvc_set_config_attrs K uvcf a k =
     set_vals_loop (usbg_f_uvc_set_config_attr_val K uvcf) 0 USBG_F_UVC_FRAME_ATTR_MAX (uvc_config_vals a) k"

text \<open>The index of a frame is set to its number, whatever the file holds.\<close>

definition usbg_f_uvc_get_frame_attrs ::
  "'k kernel \<Rightarrow> usbg_f_uvc \<Rightarrow> string \<Rightarrow> cint \<Rightarrow> uvc_frame_attrs \<Rightarrow> 'k \<Rightarrow> (int \<times> attr_val list \<times> 'k) option" where
  "usbg_f_uvc_get_frame_attrs K uvcf fmt fid a k = do {
     (ret, vs, k') \<leftarrow> get_vals_loop (usbg_f_uvc_get_frame_attr_val K uvcf fmt (sint fid)) 0
                      USBG_F_UVC_FRAME_ATTR_MAX (uvc_frame_vals a) k;
     Some (ret, vs[0 := Int_val fid], k')
   }"

definition usbg_f_uvc_set_frame_attrs ::
  "'k kernel \<Rightarrow> usbg_f_uvc \<Rightarrow> string \<Rightarrow> int \<Rightarrow> uvc_frame_attrs \<Rightarrow> 'k \<Rightarrow> (int \<times> 'k) option" where
  "usbg_f_uvc_set_frame_attrs K uvcf fmt fid a k =
     set_vals_loop (usbg_f_uvc_set_frame_attr_val K uvcf fmt fid) 0 USBG_F_UVC_FRAME_ATTR_MAX (uvc_frame_vals a) k"

definition usbg_f_uvc_get_format_attrs ::
  "'k kernel \<Rightarrow> usbg_f_uvc \<Rightarrow> string \<Rightarrow> uvc_format_attrs \<Rightarrow> 'k \<Rightarrow> (int \<times> attr_val list \<times> 'k) option" where
  "usbg_f_uvc_get_format_attrs K uvcf fmt a k =
     get_vals_loop (usbg_f_uvc_get_format_attr_val K uvcf fmt) 0 USBG_F_UVC_FORMAT_ATTR_MAX (uvc_format_vals a) k"

definition usbg_f_uvc_set_format_attrs ::
  "'k kernel \<Rightarrow> usbg_f_uvc \<Rightarrow> string \<Rightarrow> uvc_format_attrs \<Rightarrow> 'k \<Rightarrow> (int \<times> 'k) option" where
  "usbg_f_uvc_set_format_attrs K uvcf fmt a k =
     set_vals_loop (usbg_f_uvc_set_format_attr_val K uvcf fmt) 0 USBG_F_UVC_FORMAT_ATTR_MAX (uvc_format_vals a) k"

section \<open>Directories and links\<close>

text \<open>\<open>mkdir\<close> where an existing directory is as good as a new one.\<close>

definition mkdir_exist :: "'k kernel \<Rightarrow> string \<Rightarrow> 'k \<Rightarrow> int \<times> 'k" where
  "mkdir_exist K p k =
     (case k_mkdir K p k of
        (None, k') \<Rightarrow> (err USBG_SUCCESS, k')
      | (Some e, k') \<Rightarrow> (if e = EEXIST then err USBG_SUCCESS else usbg_translate_error e, k'))"

fun mkdirs_loop :: "'k kernel \<Rightarrow> string list \<Rightarrow> 'k \<Rightarrow> int \<times> 'k" where
  "mkdirs_loop K [] k = (err USBG_SUCCESS, k)"
| "mkdirs_loop K (p # ps) k =
     (let (ret, k') = mkdir_exist K p k in if ret \<noteq> 0 then (ret, k') else mkdirs_loop K ps k')"

text \<open>The text before each slash after the first character.\<close>

definition dir_prefixes :: "string \<Rightarrow> string list" where
  "dir_prefixes s = map (\<lambda>i. take i s) (filter (\<lambda>i. s ! i = CHR ''/'') [1..<length s])"

definition uvc_create_dir :: "'k kernel \<Rightarrow> string \<Rightarrow> 'k \<Rightarrow> (int \<times> 'k) option" where
  "uvc_create_dir K path k =
     (if \<not> fits path then Some (err USBG_ERROR_PATH_TOO_LONG, k)
      else if path = [] then None
      else let tmp = (if last path = CHR ''/'' then butlast path else path)
           in Some (mkdirs_loop K (dir_prefixes tmp @ [tmp]) k))"

definition uvc_link :: "'k kernel \<Rightarrow> string \<Rightarrow> string \<Rightarrow> string \<Rightarrow> 'k \<Rightarrow> int \<times> 'k" where
  "uvc_link K path to from k =
     (if \<not> fits (path2 path to) then (err USBG_ERROR_PATH_TOO_LONG, k)
      else if \<not> fits (path2 path from) then (err USBG_ERROR_PATH_TOO_LONG, k)
      else let (r, k') = k_symlink K (path2 path to) (path2 path from) k in (errno_ret r, k'))"

text \<open>A format that exists is linked to the streaming header.\<close>

definition link_format :: "'k kernel \<Rightarrow> string \<Rightarrow> string \<Rightarrow> string \<Rightarrow> 'k \<Rightarrow> int \<times> 'k" where
  "link_format K path fmt from k =
     (if \<not> fits (path2 path fmt) then (err USBG_ERROR_PATH_TOO_LONG, k)
      else let (there, k1) = k_stat K (path2 path fmt) k
           in if there then uvc_link K path fmt from k1 else (err USBG_SUCCESS, k1))"

definition uvc_set_class :: "'k kernel \<Rightarrow> usbg_f_uvc \<Rightarrow> string \<Rightarrow> 'k \<Rightarrow> (int \<times> 'k) option" where
  "uvc_set_class K uvcf cs k =
     (let path = path3 (uvcf_path uvcf) (uvcf_name uvcf) cs;
          header_path = path2 path ''header/h''
      in if \<not> fits path then Some (err USBG_ERROR_PATH_TOO_LONG, k)
         else if \<not> fits header_path then Some (err USBG_ERROR_PATH_TOO_LONG, k)
         else do {
           (ret, k1) \<leftarrow> uvc_create_dir K header_path k;
           if ret \<noteq> 0 then Some (ret, k1)
           else let (ret, k2) =
                  (if take (length ''streaming'') cs = ''streaming'' then
                     let (r1, k2) = link_format K path ''uncompressed/u'' ''header/h/u'' k1 in
                     if r1 \<noteq> 0 then (r1, k2)
                     else let (r2, k3) = link_format K path ''mjpeg/m'' ''header/h/m'' k2 in
                     if r2 \<noteq> 0 then (r2, k3)
                     else uvc_link K path ''header/h'' ''class/hs/h'' k3
                   else (0, k1))
                in if ret \<noteq> 0 then Some (ret, k2)
                   else let (ret, k3) = uvc_link K path ''header/h'' ''class/fs/h'' k2
                        in if ret \<noteq> 0 then Some (ret, k3)
                           else Some (uvc_link K path ''header/h'' ''class/ss/h'' k3)
         })"

section \<open>Setting the attributes of the function\<close>

fun write_decs :: "'k kernel \<Rightarrow> string \<Rightarrow> string \<Rightarrow> (string \<times> cint) list \<Rightarrow> 'k \<Rightarrow> int \<times> 'k" where
  "write_decs K path name [] k = (0, k)"
| "write_decs K path name ((n, v) # nvs) k =
     (let (ret, k') = usbg_write_dec K path name n v k
      in if ret \<noteq> 0 then (ret, k') else write_decs K path name nvs k')"

definition uvc_set_frame ::
  "'k kernel \<Rightarrow> string \<Rightarrow> string \<Rightarrow> uvc_frame_attrs \<Rightarrow> 'k \<Rightarrow> (int \<times> 'k) option" where
  "uvc_set_frame K fpath fmt a k =
     (let frame_name = ''frame.'' @ int_str (sint (ur_bFrameIndex a));
          frame_path = path2 fpath fmt;
          full_frame_path = path2 frame_path frame_name
      in if length frame_name \<ge> 32 then Some (err USBG_ERROR_PATH_TOO_LONG, k)
         else if \<not> fits frame_path then Some (err USBG_ERROR_PATH_TOO_LONG, k)
         else if \<not> fits full_frame_path then Some (err USBG_ERROR_PATH_TOO_LONG, k)
         else do {
           (ret, k1) \<leftarrow> uvc_create_dir K full_frame_path k;
           if ret \<noteq> 0 then Some (ret, k1)
           else Some (write_decs K frame_path frame_name
             [(''dwFrameInterval'', ur_dwFrameInterval a),
              (''dwDefaultFrameInterval'', ur_dwDefaultFrameInterval a),
              (''dwMaxVideoFrameBufferSize'', ur_dwMaxVideoFrameBufferSize a),
              (''dwMinBitRate'', ur_dwMinBitRate a),
              (''dwMaxBitRate'', ur_dwMaxBitRate a),
              (''wHeight'', ur_wHeight a),
              (''wWidth'', ur_wWidth a)] k1)
         })"

definition uvc_set_format ::
  "'k kernel \<Rightarrow> string \<Rightarrow> string \<Rightarrow> uvc_format_attrs \<Rightarrow> 'k \<Rightarrow> int \<times> 'k" where
  "uvc_set_format K fpath fmt a k = usbg_write_dec K fpath fmt ''bDefaultFrameIndex'' (uf_bDefaultFrameIndex a) k"

text \<open>The errors of frames are only printed.\<close>

fun set_frames_loop ::
  "'k kernel \<Rightarrow> string \<Rightarrow> string \<Rightarrow> uvc_frame_attrs list \<Rightarrow> 'k \<Rightarrow> 'k option" where
  "set_frames_loop K fpath fmt [] k = Some k"
| "set_frames_loop K fpath fmt (a # as) k = do {
     (ret, k') \<leftarrow> uvc_set_frame K fpath fmt a k;
     set_frames_loop K fpath fmt as k'
   }"

definition uvc_set_streaming ::
  "'k kernel \<Rightarrow> string \<Rightarrow> string \<Rightarrow> uvc_format_attrs \<Rightarrow> 'k \<Rightarrow> (int \<times> 'k) option" where
  "uvc_set_streaming K func_path fmt a k =
     (let streaming_path = path2 func_path ''streaming''
      in if \<not> fits streaming_path then Some (err USBG_ERROR_PATH_TOO_LONG, k)
         else do {
           k1 \<leftarrow> set_frames_loop K streaming_path fmt (uf_frames a) k;
           Some (uvc_set_format K streaming_path fmt a k1)
         })"

text \<open>So are those of formats.\<close>

fun set_formats_loop ::
  "'k kernel \<Rightarrow> string \<Rightarrow> uvc_format_attrs list \<Rightarrow> 'k \<Rightarrow> 'k option" where
  "set_formats_loop K path [] k = Some k"
| "set_formats_loop K path (a # as) k = do {
     (ret, k') \<leftarrow> uvc_set_streaming K path (uf_format a) a k;
     set_formats_loop K path as k'
   }"

definition usbg_f_uvc_set_attrs ::
  "'k kernel \<Rightarrow> usbg_f_uvc \<Rightarrow> uvc_attrs option \<Rightarrow> 'k \<Rightarrow> (int \<times> 'k) option" where
  "usbg_f_uvc_set_attrs K uvcf attrs k =
     (case attrs of None \<Rightarrow> Some (err USBG_ERROR_INVALID_PARAM, k)
      | Some a \<Rightarrow>
          let path = path2 (uvcf_path uvcf) (uvcf_name uvcf)
          in if \<not> fits path then Some (err USBG_ERROR_PATH_TOO_LONG, k)
             else do {
               k1 \<leftarrow> set_formats_loop K path (ua_formats a) k;
               (ret, k2) \<leftarrow> uvc_set_class K uvcf ''control'' k1;
               if ret \<noteq> 0 then Some (ret, k2) else uvc_set_class K uvcf ''streaming'' k2
             })"

text \<open>Nothing is read.\<close>

definition usbg_f_uvc_get_attrs :: "usbg_f_uvc \<Rightarrow> uvc_attrs \<Rightarrow> int \<times> uvc_attrs" where
  "usbg_f_uvc_get_attrs uvcf a = (err USBG_SUCCESS, a)"

section \<open>Removal\<close>

text \<open>The callbacks of \<open>nftw\<close>: what \<open>remove\<close> returns is not used.\<close>

fun remove_visited :: "'k kernel \<Rightarrow> (nat \<Rightarrow> bool) \<Rightarrow> (string \<times> nat) list \<Rightarrow> 'k \<Rightarrow> 'k" where
  "remove_visited K sel [] k = k"
| "remove_visited K sel ((p, level) # ps) k =
     remove_visited K sel ps (if sel level then snd (k_remove K p k) else k)"

definition remove_dir :: "'k kernel \<Rightarrow> string \<Rightarrow> 'k \<Rightarrow> int \<times> 'k" where
  "remove_dir K dirpath k =
     (let ((ps, failed), k1) = k_nftw K dirpath k
      in (if failed then -1 else 0, remove_visited K (\<lambda>_. True) ps k1))"

definition remove_dir_content :: "'k kernel \<Rightarrow> string \<Rightarrow> 'k \<Rightarrow> int \<times> 'k" where
  "remove_dir_content K dirpath k =
     (let ((ps, failed), k1) = k_nftw K dirpath k
      in (if failed then -1 else 0, remove_visited K (\<lambda>level. level \<noteq> 0) ps k1))"

definition uvc_remove :: "'k kernel \<Rightarrow> usbg_f_uvc \<Rightarrow> 'k \<Rightarrow> int \<times> 'k" where
  "uvc_remove K uvcf k =
     (let path = path2 (uvcf_path uvcf) (uvcf_name uvcf);
          streaming_path = path2 path ''streaming'';
          control_path = path2 path ''control''
      in if \<not> fits path \<or> \<not> fits streaming_path \<or> \<not> fits control_path
         then (err USBG_ERROR_PATH_TOO_LONG, k)
         else let (r1, k1) = remove_dir_content K streaming_path k in
         if r1 < 0 then (err USBG_ERROR_PATH_TOO_LONG, k1)
         else let (r2, k2) = remove_dir_content K control_path k1 in
         if r2 < 0 then (err USBG_ERROR_PATH_TOO_LONG, k2)
         else let (r3, k3) = remove_dir K streaming_path k2 in
         if r3 < 0 then (err USBG_ERROR_PATH_TOO_LONG, k3)
         else let (r4, k4) = remove_dir K control_path k3 in
         (if r4 < 0 then err USBG_ERROR_PATH_TOO_LONG else err USBG_SUCCESS, k4))"

section \<open>Facts\<close>

text \<open>The path that reaches \<open>uvc_create_dir\<close> is never empty, so setting always returns.\<close>

lemma uvc_create_dir_total: "path \<noteq> [] \<Longrightarrow> \<exists>ret k'. uvc_create_dir K path k = Some (ret, k')"
  by (auto simp: uvc_create_dir_def Let_def)

lemma uvc_set_frame_total: "\<exists>ret k'. uvc_set_frame K p fmt a k = Some (ret, k')"
  using uvc_create_dir_total [of "path2 (path2 p fmt) (''frame.'' @ int_str (sint (ur_bFrameIndex a)))" K k]
  by (auto simp: uvc_set_frame_def Let_def path2_def simp del: write_decs.simps)

lemma set_frames_total: "\<exists>k'. set_frames_loop K p fmt as k = Some k'"
proof (induction "as" arbitrary: k)
  case (Cons a as)
  then show ?case using uvc_set_frame_total [of K p fmt a k] by auto
qed simp

lemma uvc_set_streaming_total: "\<exists>ret k'. uvc_set_streaming K p fmt a k = Some (ret, k')"
  using set_frames_total [of K "path2 p ''streaming''" fmt "uf_frames a" k]
  by (auto simp: uvc_set_streaming_def Let_def)

lemma set_formats_total: "\<exists>k'. set_formats_loop K p as k = Some k'"
proof (induction "as" arbitrary: k)
  case (Cons a as)
  then show ?case using uvc_set_streaming_total [of K p "uf_format a" a k] by auto
qed simp

lemma uvc_set_class_total: "\<exists>ret k'. uvc_set_class K uvcf cs k = Some (ret, k')"
  using uvc_create_dir_total [of "path2 (path3 (uvcf_path uvcf) (uvcf_name uvcf) cs) ''header/h''" K k]
  by (auto simp: uvc_set_class_def Let_def path2_def split: prod.split)

lemma uvc_set_attrs_total: "\<exists>ret k'. usbg_f_uvc_set_attrs K uvcf a k = Some (ret, k')"
proof (cases a)
  case (Some b)
  obtain k1 where k1: "set_formats_loop K (path2 (uvcf_path uvcf) (uvcf_name uvcf)) (ua_formats b) k = Some k1"
    using set_formats_total [of K _ "ua_formats b" k] by blast
  obtain ret k2 where k2: "uvc_set_class K uvcf ''control'' k1 = Some (ret, k2)"
    using uvc_set_class_total [of K uvcf _ k1] by blast
  show ?thesis
    using Some k1 k2 uvc_set_class_total [of K uvcf "''streaming''" k2]
    by (auto simp: usbg_f_uvc_set_attrs_def Let_def)
qed (simp add: usbg_f_uvc_set_attrs_def)

text \<open>
  The first entry of the format table is read-only and has no setter: setting the
  attributes of a format calls a NULL pointer whenever the path fits.
\<close>

lemma uvc_set_format_attrs_undefined:
  assumes "fits (format_path uvcf fmt)"
  shows "usbg_f_uvc_set_format_attrs K uvcf fmt a k = None"
  using assms
  by (simp add: usbg_f_uvc_set_format_attrs_def USBG_F_UVC_FORMAT_ATTR_MAX_def eval_nat_numeral
      uvc_format_vals_def usbg_f_uvc_set_format_attr_val_def table_set_unchecked_def
      uvc_format_attr_def dec_attr_ro_def)

text \<open>
  Setting the attributes of the function runs over the end of its table, once the four
  writes that are meant succeed.
\<close>

lemma set_vals_loop_overrun:
  assumes "length vs < n" "\<And>i v k ret k'. i < j + length vs \<Longrightarrow> st i v k = Some (ret, k') \<Longrightarrow> ret = 0"
  shows "set_vals_loop st j n vs k = None"
  using assms
proof (induction vs arbitrary: j n k)
  case Nil
  then show ?case by (cases n) auto
next
  case (Cons v vs)
  from Cons.prems(1) obtain m where m: "n = Suc m" "length vs < m" by (cases n) auto
  have IH: "set_vals_loop st (Suc j) m vs k' = None" for k'
    using m(2) Cons.prems(2) by (intro Cons.IH) auto
  show ?case
  proof (cases "st j v k")
    case (Some r)
    obtain ret k' where r: "r = (ret, k')" by (cases r)
    with Some Cons.prems(2) [of j v k ret k'] have "ret = 0" by simp
    with Some r m(1) IH show ?thesis by simp
  qed (simp add: m(1))
qed

lemma set_vals_loop_never_succeeds: "length vs < n \<Longrightarrow> set_vals_loop st j n vs k \<noteq> Some (0, k')"
proof (induction vs arbitrary: j n k)
  case Nil
  then show ?case by (cases n) auto
next
  case (Cons v vs)
  then obtain m where m: "n = Suc m" "length vs < m" by (cases n) auto
  from Cons.IH [OF m(2)] show ?case by (auto simp: m(1) split: bind_splits if_splits)
qed

lemma set_config_attrs_never_succeeds: "usbg_f_uvc_set_config_attrs K uvcf a k \<noteq> Some (0, k')"
  unfolding usbg_f_uvc_set_config_attrs_def
  by (rule set_vals_loop_never_succeeds) (simp add: uvc_config_vals_def USBG_F_UVC_FRAME_ATTR_MAX_def)

end
