(* ===== verification/Usbg_Queries.thy ===== *)
theory Usbg_Queries
  imports Usbg_State
begin

text \<open>
  The read-only API of \<open>src/usbg.c\<close>: lookups by name, first and next members of the
  queues, and the accessors. A NULL argument is \<open>None\<close>. The result \<open>None\<close> of an
  operation is undefined behaviour (a pointer that dangles), \<open>Some None\<close> a NULL result.
\<close>

section \<open>Queues\<close>

text \<open>\<open>TAILQ_FOREACH\<close> up to the first member that satisfies the test.\<close>

fun tailq_find :: "(ptr \<rightharpoonup> 'a) \<Rightarrow> ('a \<Rightarrow> bool) \<Rightarrow> ptr list \<Rightarrow> ptr option option" where
  "tailq_find heap P [] = Some None"
| "tailq_find heap P (p # ps) =
     do { x \<leftarrow> heap p; if P x then Some (Some p) else tailq_find heap P ps }"

definition tailq_first :: "ptr list \<Rightarrow> ptr option" where
  "tailq_first xs = (case xs of [] \<Rightarrow> None | x # _ \<Rightarrow> Some x)"

fun tailq_next :: "ptr \<Rightarrow> ptr list \<Rightarrow> ptr option" where
  "tailq_next p [] = None"
| "tailq_next p (x # xs) = (if x = p then tailq_first xs else tailq_next p xs)"

text \<open>Unlinking an element that is not linked is undefined.\<close>

definition tailq_remove :: "ptr \<Rightarrow> ptr list \<Rightarrow> ptr list option" where
  "tailq_remove p xs = (if p \<in> set xs then Some (remove1 p xs) else None)"

section \<open>Lookups\<close>

definition usbg_get_gadget :: "string \<Rightarrow> 'k world \<Rightarrow> ptr option option" where
  "usbg_get_gadget name w = tailq_find (gadget_at w) (\<lambda>g. strcmp (g_name g) name = 0) (s_gadgets w)"

definition usbg_get_function ::
  "ptr \<Rightarrow> usbg_function_type \<Rightarrow> string \<Rightarrow> 'k world \<Rightarrow> ptr option option" where
  "usbg_get_function g type inst w = do {
     gad \<leftarrow> gadget_at w g;
     tailq_find (function_at w) (\<lambda>f. f_type f = type \<and> strcmp (f_instance f) inst = 0) (g_functions gad)
   }"

definition usbg_get_config ::
  "ptr \<Rightarrow> int \<Rightarrow> string option \<Rightarrow> 'k world \<Rightarrow> ptr option option" where
  "usbg_get_config g i lbl w = do {
     gad \<leftarrow> gadget_at w g;
     tailq_find (config_at w)
       (\<lambda>c. c_id c = i \<and> (case lbl of None \<Rightarrow> True | Some l \<Rightarrow> strcmp (c_label c) l = 0)) (g_configs gad)
   }"

definition usbg_get_udc :: "string \<Rightarrow> 'k world \<Rightarrow> ptr option option" where
  "usbg_get_udc name w = tailq_find (udc_at w) (\<lambda>u. strcmp (u_name u) name = 0) (s_udcs w)"

definition usbg_get_binding :: "ptr \<Rightarrow> string \<Rightarrow> 'k world \<Rightarrow> ptr option option" where
  "usbg_get_binding c name w = do {
     conf \<leftarrow> config_at w c;
     tailq_find (binding_at w) (\<lambda>b. strcmp (b_name b) name = 0) (c_bindings conf)
   }"

definition usbg_get_link_binding :: "ptr \<Rightarrow> ptr \<Rightarrow> 'k world \<Rightarrow> ptr option option" where
  "usbg_get_link_binding c f w = do {
     conf \<leftarrow> config_at w c;
     tailq_find (binding_at w) (\<lambda>b. b_target b = f) (c_bindings conf)
   }"

section \<open>Iteration\<close>

definition usbg_get_first_gadget :: "'k world \<Rightarrow> ptr option" where
  "usbg_get_first_gadget w = tailq_first (s_gadgets w)"

definition usbg_get_first_udc :: "'k world \<Rightarrow> ptr option" where
  "usbg_get_first_udc w = tailq_first (s_udcs w)"

definition usbg_get_first_function :: "ptr option \<Rightarrow> 'k world \<Rightarrow> ptr option option" where
  "usbg_get_first_function g w =
     (case g of None \<Rightarrow> Some None | Some p \<Rightarrow> map_option (\<lambda>g. tailq_first (g_functions g)) (gadget_at w p))"

definition usbg_get_first_config :: "ptr option \<Rightarrow> 'k world \<Rightarrow> ptr option option" where
  "usbg_get_first_config g w =
     (case g of None \<Rightarrow> Some None | Some p \<Rightarrow> map_option (\<lambda>g. tailq_first (g_configs g)) (gadget_at w p))"

definition usbg_get_first_binding :: "ptr option \<Rightarrow> 'k world \<Rightarrow> ptr option option" where
  "usbg_get_first_binding c w =
     (case c of None \<Rightarrow> Some None | Some p \<Rightarrow> map_option (\<lambda>c. tailq_first (c_bindings c)) (config_at w p))"

text \<open>The link to the next member is in the element; here it is its place in the queue.\<close>

definition usbg_get_next_gadget :: "ptr option \<Rightarrow> 'k world \<Rightarrow> ptr option option" where
  "usbg_get_next_gadget g w =
     (case g of None \<Rightarrow> Some None
      | Some p \<Rightarrow> map_option (\<lambda>_. tailq_next p (s_gadgets w)) (gadget_at w p))"

definition usbg_get_next_udc :: "ptr option \<Rightarrow> 'k world \<Rightarrow> ptr option option" where
  "usbg_get_next_udc u w =
     (case u of None \<Rightarrow> Some None
      | Some p \<Rightarrow> map_option (\<lambda>_. tailq_next p (s_udcs w)) (udc_at w p))"

definition usbg_get_next_function :: "ptr option \<Rightarrow> 'k world \<Rightarrow> ptr option option" where
  "usbg_get_next_function f w =
     (case f of None \<Rightarrow> Some None
      | Some p \<Rightarrow> do { fn \<leftarrow> function_at w p; g \<leftarrow> gadget_at w (f_parent fn);
                       Some (tailq_next p (g_functions g)) })"

definition usbg_get_next_config :: "ptr option \<Rightarrow> 'k world \<Rightarrow> ptr option option" where
  "usbg_get_next_config c w =
     (case c of None \<Rightarrow> Some None
      | Some p \<Rightarrow> do { cf \<leftarrow> config_at w p; g \<leftarrow> gadget_at w (c_parent cf);
                       Some (tailq_next p (g_configs g)) })"

definition usbg_get_next_binding :: "ptr option \<Rightarrow> 'k world \<Rightarrow> ptr option option" where
  "usbg_get_next_binding b w =
     (case b of None \<Rightarrow> Some None
      | Some p \<Rightarrow> do { bn \<leftarrow> binding_at w p; c \<leftarrow> config_at w (b_parent bn);
                       Some (tailq_next p (c_bindings c)) })"

section \<open>Accessors\<close>

definition usbg_get_configfs_path :: "'k world \<Rightarrow> string" where
  "usbg_get_configfs_path w = s_configfs_path w"

definition usbg_get_gadget_name :: "ptr option \<Rightarrow> 'k world \<Rightarrow> string option option" where
  "usbg_get_gadget_name g w =
     (case g of None \<Rightarrow> Some None | Some p \<Rightarrow> map_option (\<lambda>g. Some (g_name g)) (gadget_at w p))"

definition usbg_get_udc_name :: "ptr option \<Rightarrow> 'k world \<Rightarrow> string option option" where
  "usbg_get_udc_name u w =
     (case u of None \<Rightarrow> Some None | Some p \<Rightarrow> map_option (\<lambda>u. Some (u_name u)) (udc_at w p))"

definition usbg_get_config_label :: "ptr option \<Rightarrow> 'k world \<Rightarrow> string option option" where
  "usbg_get_config_label c w =
     (case c of None \<Rightarrow> Some None | Some p \<Rightarrow> map_option (\<lambda>c. Some (c_label c)) (config_at w p))"

definition usbg_get_config_id :: "ptr option \<Rightarrow> 'k world \<Rightarrow> int option" where
  "usbg_get_config_id c w =
     (case c of None \<Rightarrow> Some (err USBG_ERROR_INVALID_PARAM) | Some p \<Rightarrow> map_option c_id (config_at w p))"

definition usbg_get_function_instance :: "ptr option \<Rightarrow> 'k world \<Rightarrow> string option option" where
  "usbg_get_function_instance f w =
     (case f of None \<Rightarrow> Some None | Some p \<Rightarrow> map_option (\<lambda>f. Some (f_instance f)) (function_at w p))"

definition usbg_get_function_type :: "ptr option \<Rightarrow> 'k world \<Rightarrow> int option" where
  "usbg_get_function_type f w =
     (case f of None \<Rightarrow> Some (err USBG_ERROR_INVALID_PARAM)
      | Some p \<Rightarrow> map_option (\<lambda>f. int (function_type_code (f_type f))) (function_at w p))"

definition usbg_get_binding_name :: "ptr option \<Rightarrow> 'k world \<Rightarrow> string option option" where
  "usbg_get_binding_name b w =
     (case b of None \<Rightarrow> Some None | Some p \<Rightarrow> map_option (\<lambda>b. Some (b_name b)) (binding_at w p))"

definition usbg_get_binding_target :: "ptr option \<Rightarrow> 'k world \<Rightarrow> ptr option option" where
  "usbg_get_binding_target b w =
     (case b of None \<Rightarrow> Some None | Some p \<Rightarrow> map_option (\<lambda>b. Some (b_target b)) (binding_at w p))"

definition usbg_get_os_desc_binding :: "ptr \<Rightarrow> 'k world \<Rightarrow> ptr option option" where
  "usbg_get_os_desc_binding g w = map_option g_os_desc_binding (gadget_at w g)"

text \<open>
  The accessors that copy into a buffer of the caller: the count \<open>snprintf\<close> returns
  (which may be larger than the buffer) and the text in the buffer.
\<close>

definition copy_name :: "string option option \<Rightarrow> nat option \<Rightarrow> (int \<times> string option) option" where
  "copy_name name buf = do {
     n \<leftarrow> name;
     Some (case (n, buf) of
       (Some s, Some len) \<Rightarrow> map_prod id Some (snprintf_s len s)
     | _ \<Rightarrow> (err USBG_ERROR_INVALID_PARAM, None))
   }"

definition usbg_get_configfs_path_s :: "nat option \<Rightarrow> 'k world \<Rightarrow> (int \<times> string option) option" where
  "usbg_get_configfs_path_s buf w = copy_name (Some (Some (s_configfs_path w))) buf"

definition usbg_get_gadget_name_s :: "ptr option \<Rightarrow> nat option \<Rightarrow> 'k world \<Rightarrow> (int \<times> string option) option" where
  "usbg_get_gadget_name_s g buf w = copy_name (usbg_get_gadget_name g w) buf"

definition usbg_get_udc_name_s :: "ptr option \<Rightarrow> nat option \<Rightarrow> 'k world \<Rightarrow> (int \<times> string option) option" where
  "usbg_get_udc_name_s u buf w = copy_name (usbg_get_udc_name u w) buf"

definition usbg_get_config_label_s :: "ptr option \<Rightarrow> nat option \<Rightarrow> 'k world \<Rightarrow> (int \<times> string option) option" where
  "usbg_get_config_label_s c buf w = copy_name (usbg_get_config_label c w) buf"

definition usbg_get_function_instance_s ::
  "ptr option \<Rightarrow> nat option \<Rightarrow> 'k world \<Rightarrow> (int \<times> string option) option" where
  "usbg_get_function_instance_s f buf w = copy_name (usbg_get_function_instance f w) buf"

definition usbg_get_binding_name_s :: "ptr option \<Rightarrow> nat option \<Rightarrow> 'k world \<Rightarrow> (int \<times> string option) option" where
  "usbg_get_binding_name_s b buf w = copy_name (usbg_get_binding_name b w) buf"

section \<open>What the loops compute\<close>

lemma tailq_find_live:
  assumes "\<forall>p\<in>set xs. heap p \<noteq> None"
  shows "tailq_find heap P xs = Some (find (\<lambda>p. P (the (heap p))) xs)"
  using assms by (induction xs) auto

lemma tailq_find_Some:
  "tailq_find heap P xs = Some (Some p) \<Longrightarrow> p \<in> set xs \<and> (\<exists>x. heap p = Some x \<and> P x)"
  by (induction xs) (auto elim!: bind_Some_elim split: if_splits)

lemma tailq_find_NoneD:
  "tailq_find heap P xs = Some None \<Longrightarrow> p \<in> set xs \<Longrightarrow> \<exists>x. heap p = Some x \<and> \<not> P x"
  by (induction xs) (auto elim!: bind_Some_elim split: if_splits)

lemma tailq_next_nth:
  "distinct xs \<Longrightarrow> i < length xs \<Longrightarrow>
   tailq_next (xs ! i) xs = (if Suc i < length xs then Some (xs ! Suc i) else None)"
proof (induction xs arbitrary: i)
  case (Cons x xs)
  show ?case
  proof (cases i)
    case 0
    then show ?thesis by (cases xs) (simp_all add: tailq_first_def)
  next
    case (Suc j)
    with Cons.prems have "j < length xs" "x \<noteq> xs ! j" by (auto simp: in_set_conv_nth)
    with Cons Suc show ?thesis by simp
  qed
qed simp

text \<open>
  Iterating with first and next visits a queue in order: \<open>n\<close> steps from the first member
  lead to the member with index \<open>n\<close>.
\<close>

fun iterate_next :: "nat \<Rightarrow> ptr list \<Rightarrow> ptr option" where
  "iterate_next 0 xs = tailq_first xs"
| "iterate_next (Suc n) xs = (case iterate_next n xs of None \<Rightarrow> None | Some p \<Rightarrow> tailq_next p xs)"

lemma iterate_next_nth:
  "distinct xs \<Longrightarrow> iterate_next n xs = (if n < length xs then Some (xs ! n) else None)"
  by (induction n) (auto simp: tailq_next_nth tailq_first_def split: list.split)

end
