(* ===== verification/Usbg_Functions.thy ===== *)
theory Usbg_Functions
  imports Usbg_F_Basic Usbg_F_Ms Usbg_F_Uvc Usbg_Queries
begin

text \<open>
  The operations of a function through its \<open>struct usbg_function_type\<close>: which module's
  code \<open>set_attrs\<close>, \<open>get_attrs\<close>, \<open>cleanup_attrs\<close> and \<open>remove\<close> are for each of the 18
  types, and the API functions of \<open>src/usbg.c\<close> that call them. The \<open>void *\<close> argument is
  one of the attribute structures; a structure of another type is undefined.
\<close>

section \<open>Dispatch\<close>

datatype function_attrs =
    Serial_attrs cint
  | Net_attrs net_attrs
  | Phonet_attrs "string option"
  | Ffs_attrs "string option"
  | Ms_attrs ms_attrs
  | Ms_attrs_out "ms_attrs_out option"
  | Midi_attrs midi_attrs
  | Loopback_attrs loopback_attrs
  | Hid_attrs hid_attrs
  | Uac2_attrs uac2_attrs
  | Uvc_attrs uvc_attrs
  | P9fs_attrs "string option"

text \<open>The result of a module that keeps no state, with the function as it was.\<close>

definition keep_fn :: "usbg_function \<Rightarrow> (int \<times> 'k) option \<Rightarrow> (int \<times> usbg_function \<times> 'k) option" where
  "keep_fn fn r = map_option (\<lambda>(ret, k). (ret, fn, k)) r"

text \<open>
  The types whose operations take a structure: the serial types, the network types, and one
  type for every other structure. Mass storage is given one structure and fills another; the
  printer type has no operations on attributes.
\<close>

definition attrs_fit :: "usbg_function_type \<Rightarrow> function_attrs \<Rightarrow> bool" where
  "attrs_fit t a =
     (case a of
        Serial_attrs _ \<Rightarrow> t \<in> {USBG_F_SERIAL, USBG_F_ACM, USBG_F_OBEX}
      | Net_attrs _ \<Rightarrow> t \<in> {USBG_F_ECM, USBG_F_SUBSET, USBG_F_NCM, USBG_F_EEM, USBG_F_RNDIS}
      | Phonet_attrs _ \<Rightarrow> t = USBG_F_PHONET
      | Ffs_attrs _ \<Rightarrow> t = USBG_F_FFS
      | Ms_attrs _ \<Rightarrow> t = USBG_F_MASS_STORAGE
      | Ms_attrs_out _ \<Rightarrow> t = USBG_F_MASS_STORAGE
      | Midi_attrs _ \<Rightarrow> t = USBG_F_MIDI
      | Loopback_attrs _ \<Rightarrow> t = USBG_F_LOOPBACK
      | Hid_attrs _ \<Rightarrow> t = USBG_F_HID
      | Uac2_attrs _ \<Rightarrow> t = USBG_F_UAC2
      | Uvc_attrs _ \<Rightarrow> t = USBG_F_UVC
      | P9fs_attrs _ \<Rightarrow> t = USBG_F_9PFS)"

definition function_set_attrs ::
  "'k kernel \<Rightarrow> usbg_function \<Rightarrow> function_attrs \<Rightarrow> 'k \<Rightarrow> (int \<times> usbg_function \<times> 'k) option" where
  "function_set_attrs K fn attrs k =
     (if \<not> attrs_fit (f_type fn) attrs then None
      else case attrs of
        Serial_attrs p \<Rightarrow> Some (serial_set_attrs p, fn, k)
      | Net_attrs a \<Rightarrow> keep_fn fn (ether_set_attrs K fn a k)
      | Phonet_attrs s \<Rightarrow> Some (phonet_set_attrs s, fn, k)
      | Ffs_attrs s \<Rightarrow> Some (ffs_set_attrs s, fn, k)
      | Ms_attrs a \<Rightarrow> do {
          mf \<leftarrow> usbg_to_ms_function fn;
          (ret, mf', k') \<leftarrow> usbg_f_ms_set_attrs K mf a k;
          Some (ret, ms_update mf' fn, k')
        }
      | Ms_attrs_out a \<Rightarrow> None
      | Midi_attrs a \<Rightarrow> keep_fn fn (usbg_f_midi_set_attrs K fn a k)
      | Loopback_attrs a \<Rightarrow> keep_fn fn (usbg_f_loopback_set_attrs K fn a k)
      | Hid_attrs a \<Rightarrow> keep_fn fn (usbg_f_hid_set_attrs K fn a k)
      | Uac2_attrs a \<Rightarrow> keep_fn fn (usbg_f_uac2_set_attrs K fn a k)
      | Uvc_attrs a \<Rightarrow> do {
          uf \<leftarrow> usbg_to_uvc_function fn;
          keep_fn fn (usbg_f_uvc_set_attrs K uf (Some a) k)
        }
      | P9fs_attrs s \<Rightarrow> Some (p9fs_set_attrs s, fn, k))"

text \<open>\<open>attrs\<close> is the structure before the call.\<close>

definition function_get_attrs ::
  "'k kernel \<Rightarrow> usbg_function \<Rightarrow> function_attrs \<Rightarrow> 'k
     \<Rightarrow> (int \<times> function_attrs \<times> usbg_function \<times> 'k) option" where
  "function_get_attrs K fn attrs k =
     (if \<not> attrs_fit (f_type fn) attrs then None
      else case attrs of
        Serial_attrs p \<Rightarrow>
          (let (ret, p', k') = usbg_f_serial_get_port_num K fn p k in Some (ret, Serial_attrs p', fn, k'))
      | Net_attrs a \<Rightarrow>
          map_option (\<lambda>(ret, a', k'). (ret, Net_attrs a', fn, k')) (usbg_f_net_get_attrs K fn a k)
      | Phonet_attrs s \<Rightarrow>
          (let (ret, s', k') = usbg_f_phonet_get_ifname K (Some fn) k in Some (ret, Phonet_attrs s', fn, k'))
      | Ffs_attrs s \<Rightarrow>
          (let (ret, s', k') = usbg_f_fs_get_dev_name K (Some fn) k in Some (ret, Ffs_attrs s', fn, k'))
      | Ms_attrs a \<Rightarrow> None
      | Ms_attrs_out a \<Rightarrow> do {
          mf \<leftarrow> usbg_to_ms_function fn;
          (ret, a', mf', k') \<leftarrow> usbg_f_ms_get_attrs K mf k;
          Some (ret, Ms_attrs_out a', ms_update mf' fn, k')
        }
      | Midi_attrs a \<Rightarrow>
          map_option (\<lambda>(ret, a', k'). (ret, Midi_attrs a', fn, k')) (usbg_f_midi_get_attrs K fn a k)
      | Loopback_attrs a \<Rightarrow>
          map_option (\<lambda>(ret, a', k'). (ret, Loopback_attrs a', fn, k')) (usbg_f_loopback_get_attrs K fn a k)
      | Hid_attrs a \<Rightarrow>
          map_option (\<lambda>(ret, a', k'). (ret, Hid_attrs a', fn, k')) (usbg_f_hid_get_attrs K fn a k)
      | Uac2_attrs a \<Rightarrow>
          map_option (\<lambda>(ret, a', k'). (ret, Uac2_attrs a', fn, k')) (usbg_f_uac2_get_attrs K fn a k)
      | Uvc_attrs a \<Rightarrow> do {
          uf \<leftarrow> usbg_to_uvc_function fn;
          let (ret, a') = usbg_f_uvc_get_attrs uf a in Some (ret, Uvc_attrs a', fn, k)
        }
      | P9fs_attrs s \<Rightarrow>
          (let (ret, s', k') = usbg_f_9pfs_get_dev_name K (Some fn) k in Some (ret, P9fs_attrs s', fn, k')))"

text \<open>Only mass storage and UVC have a \<open>remove\<close> operation.\<close>

definition function_remove ::
  "'k kernel \<Rightarrow> usbg_function \<Rightarrow> 'k \<Rightarrow> (int \<times> usbg_function \<times> 'k) option" where
  "function_remove K fn k =
     (case f_type fn of
        USBG_F_MASS_STORAGE \<Rightarrow> do {
          mf \<leftarrow> usbg_to_ms_function fn;
          (ret, mf', k') \<leftarrow> ms_remove K mf k;
          Some (ret, ms_update mf' fn, k')
        }
      | USBG_F_UVC \<Rightarrow> do {
          uf \<leftarrow> usbg_to_uvc_function fn;
          let (ret, k') = uvc_remove K uf k in Some (ret, fn, k')
        }
      | _ \<Rightarrow> Some (err USBG_SUCCESS, fn, k))"

section \<open>The API\<close>

definition usbg_set_function_attrs ::
  "'k kernel \<Rightarrow> ptr option \<Rightarrow> function_attrs option \<Rightarrow> 'k world \<Rightarrow> (int \<times> 'k world) option" where
  "usbg_set_function_attrs K f f_attrs w =
     (case (f, f_attrs) of
        (Some p, Some a) \<Rightarrow> do {
          fn \<leftarrow> function_at w p;
          (ret, fn', k') \<leftarrow> function_set_attrs K fn a (os w);
          Some (ret, w\<lparr>function_at := (function_at w)(p \<mapsto> fn'), os := k'\<rparr>)
        }
      | _ \<Rightarrow> Some (err USBG_ERROR_INVALID_PARAM, w))"

definition usbg_get_function_attrs ::
  "'k kernel \<Rightarrow> ptr option \<Rightarrow> function_attrs option \<Rightarrow> 'k world
     \<Rightarrow> (int \<times> function_attrs option \<times> 'k world) option" where
  "usbg_get_function_attrs K f f_attrs w =
     (case (f, f_attrs) of
        (Some p, Some a) \<Rightarrow> do {
          fn \<leftarrow> function_at w p;
          (ret, a', fn', k') \<leftarrow> function_get_attrs K fn a (os w);
          Some (ret, Some a', w\<lparr>function_at := (function_at w)(p \<mapsto> fn'), os := k'\<rparr>)
        }
      | _ \<Rightarrow> Some (err USBG_ERROR_INVALID_PARAM, f_attrs, w))"

section \<open>Which calls are defined\<close>

text \<open>The part of a function that goes with its type.\<close>

definition masks_fit :: "(bool list \<times> bool) list \<Rightarrow> bool" where
  "masks_fit fs \<longleftrightarrow> length fs = MAX_FORMATS \<and> (\<forall>(frames, _)\<in>set fs. length frames = MAX_FRAMES)"

definition ext_fits :: "usbg_function \<Rightarrow> bool" where
  "ext_fits fn \<longleftrightarrow>
     (case f_ext fn of
        Plain_ext \<Rightarrow> f_type fn \<noteq> USBG_F_MASS_STORAGE \<and> f_type fn \<noteq> USBG_F_UVC
      | Ms_ext luns _ \<Rightarrow> f_type fn = USBG_F_MASS_STORAGE \<and> length luns = MAX_LUNS
      | Uvc_ext fs _ \<Rightarrow> f_type fn = USBG_F_UVC \<and> masks_fit fs)"

lemma ext_fits_alloc:
  "usbg_init_function K t inst path parent (alloc_inst_ext t) k = (ret, Some fn, k') \<Longrightarrow> ext_fits fn"
  by (cases t) (auto simp: usbg_init_function_def alloc_inst_ext_def ext_fits_def masks_fit_def Let_def
      split: prod.splits if_splits)

lemma ext_fits_ms:
  assumes "ext_fits fn" "f_type fn = USBG_F_MASS_STORAGE"
  obtains mf where "usbg_to_ms_function fn = Some mf" "length (mf_luns mf) = MAX_LUNS"
    "ms_update mf fn = fn"
  using assms that by (cases "f_ext fn") (auto simp: ext_fits_def usbg_to_ms_function_def ms_update_def)

lemma ext_fits_uvc:
  assumes "ext_fits fn" "f_type fn = USBG_F_UVC"
  obtains uf where "usbg_to_uvc_function fn = Some uf" "masks_fit (uvcf_formats uf)"
  using assms that by (cases "f_ext fn") (auto simp: ext_fits_def usbg_to_uvc_function_def)

lemma ether_set_total: "\<exists>ret k'. ether_set_attrs K fn a k = Some (ret, k')"
  using struct_set_totals(3) [of K fn a k] by (auto simp: ether_set_attrs_def)

text \<open>
  A call with a fitting structure is defined, for every type except mass storage, whose
  directory and structures may name LUNs outside of the mask.
\<close>

lemma function_set_attrs_total:
  assumes "attrs_fit (f_type fn) a" "ext_fits fn" "f_type fn \<noteq> USBG_F_MASS_STORAGE"
  shows "\<exists>ret k'. function_set_attrs K fn a k = Some (ret, fn, k')"
proof (cases a)
  case (Serial_attrs p)
  with assms show ?thesis by (auto simp: function_set_attrs_def attrs_fit_def)
next
  case (Net_attrs b)
  with assms ether_set_total [of K fn b k] show ?thesis
    by (auto simp: function_set_attrs_def attrs_fit_def keep_fn_def)
next
  case (Midi_attrs b)
  with assms struct_set_totals(2) [of K fn b k] show ?thesis
    by (auto simp: function_set_attrs_def attrs_fit_def keep_fn_def)
next
  case (Loopback_attrs b)
  with assms struct_set_totals(1) [of K fn b k] show ?thesis
    by (auto simp: function_set_attrs_def attrs_fit_def keep_fn_def)
next
  case (Hid_attrs b)
  with assms struct_set_totals(4) [of K fn b k] show ?thesis
    by (auto simp: function_set_attrs_def attrs_fit_def keep_fn_def)
next
  case (Uac2_attrs b)
  with assms struct_set_totals(5) [of K fn b k] show ?thesis
    by (auto simp: function_set_attrs_def attrs_fit_def keep_fn_def)
next
  case (Uvc_attrs b)
  with assms(1) have t: "f_type fn = USBG_F_UVC" by (simp add: attrs_fit_def)
  from assms(2) t obtain uf where "usbg_to_uvc_function fn = Some uf" by (rule ext_fits_uvc)
  with t Uvc_attrs uvc_set_attrs_total [of K uf "Some b" k] show ?thesis
    by (auto simp: function_set_attrs_def keep_fn_def attrs_fit_def)
next
  case (Ms_attrs_out b)
  with assms show ?thesis by (simp add: attrs_fit_def)
qed (use assms in \<open>auto simp: function_set_attrs_def attrs_fit_def\<close>)

text \<open>What the operations of a type may change in the function object.\<close>

definition same_fn :: "usbg_function \<Rightarrow> usbg_function \<Rightarrow> bool" where
  "same_fn fn fn' \<longleftrightarrow> f_ext_update (\<lambda>_. f_ext fn') fn = fn'"

lemma same_fn_refl [simp]: "same_fn fn fn"
  by (simp add: same_fn_def)

lemma same_fn_ms_update [simp]: "same_fn fn (ms_update mf fn)"
  by (simp add: same_fn_def ms_update_def)

lemma same_fn_fields:
  assumes "same_fn fn fn'"
  shows "f_name fn' = f_name fn" "f_path fn' = f_path fn" "f_type fn' = f_type fn"
    "f_instance fn' = f_instance fn" "f_parent fn' = f_parent fn" "f_label fn' = f_label fn"
proof -
  from assms have "fn' = f_ext_update (\<lambda>_. f_ext fn') fn" by (simp add: same_fn_def)
  then obtain e where "fn' = fn\<lparr>f_ext := e\<rparr>" by blast
  then show "f_name fn' = f_name fn" "f_path fn' = f_path fn" "f_type fn' = f_type fn"
    "f_instance fn' = f_instance fn" "f_parent fn' = f_parent fn" "f_label fn' = f_label fn" by simp_all
qed

lemma keep_fn_Some [simp]: "keep_fn fn r = Some (ret, fn', k') \<longleftrightarrow> fn' = fn \<and> r = Some (ret, k')"
  by (cases r) (auto simp: keep_fn_def)

lemma function_set_attrs_same:
  "function_set_attrs K fn a k = Some (ret, fn', k') \<Longrightarrow> same_fn fn fn'"
  by (cases a) (auto simp: function_set_attrs_def bind_eq_Some_conv split: if_splits)

lemma function_remove_same:
  "function_remove K fn k = Some (ret, fn', k') \<Longrightarrow> same_fn fn fn'"
  by (cases "f_type fn") (auto simp: function_remove_def bind_eq_Some_conv Let_def case_prod_beta)

end
