(* ===== verification/Usbg_Gadget_Attrs.thy ===== *)
theory Usbg_Gadget_Attrs
  imports Usbg_Attr_Files Usbg_Queries
begin

text \<open>
  Attributes, strings and OS descriptors of gadgets and configurations (the
  \<open>usbg_parse_*_attrs\<close>, \<open>usbg_parse_*_strs\<close> and the get and set functions of
  \<open>src/usbg.c\<close>). All of them read and write files below the directory of an object and
  change nothing in the store, so an operation is one on the environment, run for the object
  that a pointer leads to.
\<close>

section \<open>Running for an object\<close>

definition on_gadget :: "ptr \<Rightarrow> (usbg_gadget \<Rightarrow> 'k \<Rightarrow> 'a \<times> 'k) \<Rightarrow> 'k world \<Rightarrow> ('a \<times> 'k world) option" where
  "on_gadget p m w = map_option (\<lambda>g. on_os (m g) w) (gadget_at w p)"

definition on_config :: "ptr \<Rightarrow> (usbg_config \<Rightarrow> 'k \<Rightarrow> 'a \<times> 'k) \<Rightarrow> 'k world \<Rightarrow> ('a \<times> 'k world) option" where
  "on_config p m w = map_option (\<lambda>c. on_os (m c) w) (config_at w p)"

definition on_function :: "ptr \<Rightarrow> (usbg_function \<Rightarrow> 'k \<Rightarrow> 'a \<times> 'k) \<Rightarrow> 'k world \<Rightarrow> ('a \<times> 'k world) option" where
  "on_function p m w = map_option (\<lambda>f. on_os (m f) w) (function_at w p)"

text \<open>The common NULL test of the API.\<close>

definition nonnull ::
  "'a \<Rightarrow> ptr option \<Rightarrow> (ptr \<Rightarrow> 'k world \<Rightarrow> ((int \<times> 'a) \<times> 'k world) option) \<Rightarrow> 'k world
     \<Rightarrow> ((int \<times> 'a) \<times> 'k world) option" where
  "nonnull d p m w =
     (case p of None \<Rightarrow> Some ((err USBG_ERROR_INVALID_PARAM, d), w) | Some p \<Rightarrow> m p w)"

definition nonnull_ret ::
  "ptr option \<Rightarrow> (ptr \<Rightarrow> 'k world \<Rightarrow> (int \<times> 'k world) option) \<Rightarrow> 'k world \<Rightarrow> (int \<times> 'k world) option" where
  "nonnull_ret p m w =
     (case p of None \<Rightarrow> Some (err USBG_ERROR_INVALID_PARAM, w) | Some p \<Rightarrow> m p w)"

section \<open>Sequences of numbers\<close>

text \<open>
  Chains of \<open>usbg_write_*\<close> and \<open>usbg_read_*\<close> calls that stop at the first error. A read
  number is stored into its member at once.
\<close>

fun write_ints :: "'k kernel \<Rightarrow> string \<Rightarrow> string \<Rightarrow> (string \<times> int_format \<times> cint) list \<Rightarrow> 'k \<Rightarrow> int \<times> 'k" where
  "write_ints K path name [] k = (err USBG_SUCCESS, k)"
| "write_ints K path name ((n, fmt, v) # fs) k =
     (let (ret, k') = usbg_write_int K path name n v fmt k
      in if ret \<noteq> err USBG_SUCCESS then (ret, k') else write_ints K path name fs k')"

fun read_ints ::
  "'k kernel \<Rightarrow> string \<Rightarrow> string \<Rightarrow> (string \<times> nat \<times> (cint \<Rightarrow> 'a \<Rightarrow> 'a)) list \<Rightarrow> 'a \<Rightarrow> 'k \<Rightarrow> int \<times> 'a \<times> 'k" where
  "read_ints K path name [] a k = (err USBG_SUCCESS, a, k)"
| "read_ints K path name ((n, base, upd) # fs) a k =
     (let (ret, v, k') = usbg_read_int K path name n base 0 k
      in if ret \<noteq> err USBG_SUCCESS then (ret, a, k') else read_ints K path name fs (upd v a) k')"

section \<open>Gadget attributes\<close>

record gadget_attrs =
  ga_bcdUSB :: u16
  ga_bDeviceClass :: u8
  ga_bDeviceSubClass :: u8
  ga_bDeviceProtocol :: u8
  ga_bMaxPacketSize0 :: u8
  ga_idVendor :: u16
  ga_idProduct :: u16
  ga_bcdDevice :: u16

definition usbg_parse_gadget_attrs ::
  "'k kernel \<Rightarrow> string \<Rightarrow> string \<Rightarrow> gadget_attrs \<Rightarrow> 'k \<Rightarrow> int \<times> gadget_attrs \<times> 'k" where
  "usbg_parse_gadget_attrs K path name a k =
     read_ints K path name
       [(''bcdUSB'', 16, \<lambda>v a. a\<lparr>ga_bcdUSB := ucast v\<rparr>),
        (''bDeviceClass'', 16, \<lambda>v a. a\<lparr>ga_bDeviceClass := ucast v\<rparr>),
        (''bDeviceSubClass'', 16, \<lambda>v a. a\<lparr>ga_bDeviceSubClass := ucast v\<rparr>),
        (''bDeviceProtocol'', 16, \<lambda>v a. a\<lparr>ga_bDeviceProtocol := ucast v\<rparr>),
        (''bMaxPacketSize0'', 16, \<lambda>v a. a\<lparr>ga_bMaxPacketSize0 := ucast v\<rparr>),
        (''idVendor'', 16, \<lambda>v a. a\<lparr>ga_idVendor := ucast v\<rparr>),
        (''idProduct'', 16, \<lambda>v a. a\<lparr>ga_idProduct := ucast v\<rparr>),
        (''bcdDevice'', 16, \<lambda>v a. a\<lparr>ga_bcdDevice := ucast v\<rparr>)] a k"

definition write_gadget_attrs ::
  "'k kernel \<Rightarrow> string \<Rightarrow> string \<Rightarrow> gadget_attrs \<Rightarrow> 'k \<Rightarrow> int \<times> 'k" where
  "write_gadget_attrs K path name a k =
     write_ints K path name
       [(''bcdUSB'', Fmt_04x, ucast (ga_bcdUSB a)),
        (''bDeviceClass'', Fmt_02x, ucast (ga_bDeviceClass a)),
        (''bDeviceSubClass'', Fmt_02x, ucast (ga_bDeviceSubClass a)),
        (''bDeviceProtocol'', Fmt_02x, ucast (ga_bDeviceProtocol a)),
        (''bMaxPacketSize0'', Fmt_02x, ucast (ga_bMaxPacketSize0 a)),
        (''idVendor'', Fmt_04x, ucast (ga_idVendor a)),
        (''idProduct'', Fmt_04x, ucast (ga_idProduct a)),
        (''bcdDevice'', Fmt_04x, ucast (ga_bcdDevice a))] k"

text \<open>The out parameter is its old and new contents, \<open>None\<close> for NULL.\<close>

definition usbg_get_gadget_attrs ::
  "'k kernel \<Rightarrow> ptr option \<Rightarrow> gadget_attrs option \<Rightarrow> 'k world
     \<Rightarrow> ((int \<times> gadget_attrs option) \<times> 'k world) option" where
  "usbg_get_gadget_attrs K g g_attrs w =
     (case (g, g_attrs) of
        (Some p, Some a) \<Rightarrow> on_gadget p (\<lambda>g k.
            let (ret, a', k') = usbg_parse_gadget_attrs K (g_path g) (g_name g) a k
            in ((ret, Some a'), k')) w
      | _ \<Rightarrow> Some ((err USBG_ERROR_INVALID_PARAM, g_attrs), w))"

definition usbg_set_gadget_attrs ::
  "'k kernel \<Rightarrow> ptr option \<Rightarrow> gadget_attrs option \<Rightarrow> 'k world \<Rightarrow> (int \<times> 'k world) option" where
  "usbg_set_gadget_attrs K g g_attrs w =
     (case (g, g_attrs) of
        (Some p, Some a) \<Rightarrow> on_gadget p (\<lambda>g. write_gadget_attrs K (g_path g) (g_name g) a) w
      | _ \<Rightarrow> Some (err USBG_ERROR_INVALID_PARAM, w))"

definition usbg_set_gadget_attr ::
  "'k kernel \<Rightarrow> ptr option \<Rightarrow> int \<Rightarrow> cint \<Rightarrow> 'k world \<Rightarrow> (int \<times> 'k world) option" where
  "usbg_set_gadget_attr K g attr v w = nonnull_ret g (\<lambda>p w.
     case usbg_get_gadget_attr_str attr of
       None \<Rightarrow> Some (err USBG_ERROR_INVALID_PARAM, w)
     | Some n \<Rightarrow> on_gadget p (\<lambda>g. usbg_write_hex K (g_path g) (g_name g) n v) w) w"

text \<open>
  The value read, or, when it cannot be read, the error of a bad parameter; the return code
  of the read is not used.
\<close>

definition usbg_get_gadget_attr ::
  "'k kernel \<Rightarrow> ptr option \<Rightarrow> int \<Rightarrow> 'k world \<Rightarrow> (int \<times> 'k world) option" where
  "usbg_get_gadget_attr K g attr w = nonnull_ret g (\<lambda>p w.
     case usbg_get_gadget_attr_str attr of
       None \<Rightarrow> Some (err USBG_ERROR_INVALID_PARAM, w)
     | Some n \<Rightarrow> on_gadget p (\<lambda>g k.
         let (ret, v, k') = usbg_read_hex K (g_path g) (g_name g) n
                              (word_of_int (err USBG_ERROR_INVALID_PARAM)) k
         in (sint v, k')) w) w"

definition set_gadget_hex16 ::
  "'k kernel \<Rightarrow> string \<Rightarrow> ptr option \<Rightarrow> u16 \<Rightarrow> 'k world \<Rightarrow> (int \<times> 'k world) option" where
  "set_gadget_hex16 K n g v w = nonnull_ret g
     (\<lambda>p. on_gadget p (\<lambda>g. usbg_write_hex16 K (g_path g) (g_name g) n (ucast v))) w"

definition set_gadget_hex8 ::
  "'k kernel \<Rightarrow> string \<Rightarrow> ptr option \<Rightarrow> u8 \<Rightarrow> 'k world \<Rightarrow> (int \<times> 'k world) option" where
  "set_gadget_hex8 K n g v w = nonnull_ret g
     (\<lambda>p. on_gadget p (\<lambda>g. usbg_write_hex8 K (g_path g) (g_name g) n (ucast v))) w"

definition usbg_set_gadget_vendor_id where
  "usbg_set_gadget_vendor_id K g v w = set_gadget_hex16 K ''idVendor'' g v w"
definition usbg_set_gadget_product_id where
  "usbg_set_gadget_product_id K g v w = set_gadget_hex16 K ''idProduct'' g v w"
definition usbg_set_gadget_device_class where
  "usbg_set_gadget_device_class K g v w = set_gadget_hex8 K ''bDeviceClass'' g v w"
definition usbg_set_gadget_device_protocol where
  "usbg_set_gadget_device_protocol K g v w = set_gadget_hex8 K ''bDeviceProtocol'' g v w"
definition usbg_set_gadget_device_subclass where
  "usbg_set_gadget_device_subclass K g v w = set_gadget_hex8 K ''bDeviceSubClass'' g v w"
definition usbg_set_gadget_device_max_packet where
  "usbg_set_gadget_device_max_packet K g v w = set_gadget_hex8 K ''bMaxPacketSize0'' g v w"
definition usbg_set_gadget_device_bcd_device where
  "usbg_set_gadget_device_bcd_device K g v w = set_gadget_hex16 K ''bcdDevice'' g v w"
definition usbg_set_gadget_device_bcd_usb where
  "usbg_set_gadget_device_bcd_usb K g v w = set_gadget_hex16 K ''bcdUSB'' g v w"

lemmas gadget_setters =
  usbg_set_gadget_device_bcd_usb_def [abs_def] usbg_set_gadget_device_class_def [abs_def]
  usbg_set_gadget_device_subclass_def [abs_def] usbg_set_gadget_device_protocol_def [abs_def]
  usbg_set_gadget_device_max_packet_def [abs_def] usbg_set_gadget_vendor_id_def [abs_def]
  usbg_set_gadget_product_id_def [abs_def] usbg_set_gadget_device_bcd_device_def [abs_def]

section \<open>Strings\<close>

definition STRINGS_DIR :: string where "STRINGS_DIR = ''strings''"
definition CONFIGS_DIR :: string where "CONFIGS_DIR = ''configs''"
definition FUNCTIONS_DIR :: string where "FUNCTIONS_DIR = ''functions''"
definition GADGETS_DIR :: string where "GADGETS_DIR = ''usb_gadget''"
definition OS_DESC_DIR :: string where "OS_DESC_DIR = ''os_desc''"
definition LANG_US_ENG :: cint where "LANG_US_ENG = 0x0409"

text \<open>\<open>"%s/%s/%s/0x%x"\<close> with the strings directory and a language.\<close>

definition lang_path :: "string \<Rightarrow> string \<Rightarrow> cint \<Rightarrow> string" where
  "lang_path path name lang = path3 path name STRINGS_DIR @ ''/0x'' @ nat_str 16 (unat lang)"

record gadget_strs =
  gs_manufacturer :: "string option"
  gs_product :: "string option"
  gs_serial :: "string option"

text \<open>
  The strings of one language. After an error the structure holds no valid string
  (\<open>None\<close>): what was allocated was freed again.
\<close>

definition usbg_parse_gadget_strs ::
  "'k kernel \<Rightarrow> string \<Rightarrow> string \<Rightarrow> cint \<Rightarrow> 'k \<Rightarrow> int \<times> gadget_strs option \<times> 'k" where
  "usbg_parse_gadget_strs K path name lang k =
     (let spath = lang_path path name lang
      in if \<not> fits spath then (err USBG_ERROR_PATH_TOO_LONG, None, k)
         else case k_opendir K spath k of
             (Some e, k1) \<Rightarrow> (usbg_translate_error e, None, k1)
           | (None, k1) \<Rightarrow>
               let (r1, m, k2) = usbg_read_string_alloc K spath [] ''manufacturer'' k1 in
               if r1 \<noteq> err USBG_SUCCESS then (r1, None, k2)
               else let (r2, p, k3) = usbg_read_string_alloc K spath [] ''product'' k2 in
               if r2 \<noteq> err USBG_SUCCESS then (r2, None, k3)
               else let (r3, s, k4) = usbg_read_string_alloc K spath [] ''serialnumber'' k3 in
               if r3 \<noteq> err USBG_SUCCESS then (r3, None, k4)
               else (r3, Some \<lparr>gs_manufacturer = m, gs_product = p, gs_serial = s\<rparr>, k4))"

definition usbg_get_gadget_strs ::
  "'k kernel \<Rightarrow> ptr option \<Rightarrow> cint \<Rightarrow> 'k world \<Rightarrow> ((int \<times> gadget_strs option) \<times> 'k world) option" where
  "usbg_get_gadget_strs K g lang w = nonnull None g
     (\<lambda>p. on_gadget p (\<lambda>g k. let (ret, s, k') = usbg_parse_gadget_strs K (g_path g) (g_name g) lang k
                             in ((ret, s), k'))) w"

text \<open>The directory of the language is created when it is not there.\<close>

definition write_in_lang ::
  "'k kernel \<Rightarrow> string \<Rightarrow> string \<Rightarrow> cint \<Rightarrow> (string \<Rightarrow> 'k \<Rightarrow> int \<times> 'k) \<Rightarrow> 'k \<Rightarrow> int \<times> 'k" where
  "write_in_lang K path name lang wr k =
     (let spath = lang_path path name lang
      in if \<not> fits spath then (err USBG_ERROR_PATH_TOO_LONG, k)
         else let (ret, k1) = usbg_check_dir K spath k
              in if ret \<noteq> err USBG_SUCCESS then (ret, k1) else wr spath k1)"

definition usbg_set_gadget_str ::
  "'k kernel \<Rightarrow> ptr option \<Rightarrow> int \<Rightarrow> cint \<Rightarrow> string option \<Rightarrow> 'k world \<Rightarrow> (int \<times> 'k world) option" where
  "usbg_set_gadget_str K g str lang v w = nonnull_ret g (\<lambda>p w.
     case usbg_get_gadget_str_name str of
       None \<Rightarrow> Some (err USBG_ERROR_INVALID_PARAM, w)
     | Some n \<Rightarrow> on_gadget p (\<lambda>g. write_in_lang K (g_path g) (g_name g) lang
                   (\<lambda>spath. usbg_write_string K spath [] n v)) w) w"

text \<open>Strings that are NULL are left alone.\<close>

fun write_strings :: "'k kernel \<Rightarrow> string \<Rightarrow> (string \<times> string option) list \<Rightarrow> 'k \<Rightarrow> int \<times> 'k" where
  "write_strings K spath [] k = (err USBG_SUCCESS, k)"
| "write_strings K spath ((n, None) # fs) k = write_strings K spath fs k"
| "write_strings K spath ((n, Some s) # fs) k =
     (let (ret, k') = usbg_write_string K spath [] n (Some s) k
      in if ret \<noteq> err USBG_SUCCESS then (ret, k') else write_strings K spath fs k')"

definition usbg_set_gadget_strs ::
  "'k kernel \<Rightarrow> ptr option \<Rightarrow> cint \<Rightarrow> gadget_strs option \<Rightarrow> 'k world \<Rightarrow> (int \<times> 'k world) option" where
  "usbg_set_gadget_strs K g lang g_strs w =
     (case (g, g_strs) of
        (Some p, Some s) \<Rightarrow> on_gadget p (\<lambda>g. write_in_lang K (g_path g) (g_name g) lang
            (\<lambda>spath. write_strings K spath
               [(''manufacturer'', gs_manufacturer s), (''product'', gs_product s),
                (''serialnumber'', gs_serial s)])) w
      | _ \<Rightarrow> Some (err USBG_ERROR_INVALID_PARAM, w))"

definition set_one_str ::
  "'k kernel \<Rightarrow> string \<Rightarrow> ptr option \<Rightarrow> cint \<Rightarrow> string option \<Rightarrow> 'k world \<Rightarrow> (int \<times> 'k world) option" where
  "set_one_str K n g lang v w =
     (case (g, v) of
        (Some p, Some s) \<Rightarrow> on_gadget p (\<lambda>g. write_in_lang K (g_path g) (g_name g) lang
            (\<lambda>spath. usbg_write_string K spath [] n (Some s))) w
      | _ \<Rightarrow> Some (err USBG_ERROR_INVALID_PARAM, w))"

definition usbg_set_gadget_serial_number where
  "usbg_set_gadget_serial_number K g lang serno w = set_one_str K ''serialnumber'' g lang serno w"
definition usbg_set_gadget_manufacturer where
  "usbg_set_gadget_manufacturer K g lang mnf w = set_one_str K ''manufacturer'' g lang mnf w"
definition usbg_set_gadget_product where
  "usbg_set_gadget_product K g lang prd w = set_one_str K ''product'' g lang prd w"

text \<open>
  The languages for which there are strings: the names of the directories as hexadecimal
  numbers. The array that is returned ends with an additional 0.
\<close>

fun langs_loop :: "string list \<Rightarrow> int list option" where
  "langs_loop [] = Some []"
| "langs_loop (d # ds) =
     (let (res, rest) = strtoul 16 d
      in if rest = [] \<and> res < 65535 then map_option (Cons res) (langs_loop ds) else None)"

definition usbg_get_strs_langs_by_path ::
  "'k kernel \<Rightarrow> string \<Rightarrow> string \<Rightarrow> 'k \<Rightarrow> int \<times> int list option \<times> 'k" where
  "usbg_get_strs_langs_by_path K epath name k =
     (let spath = path3 epath name STRINGS_DIR
      in if \<not> fits spath then (err USBG_ERROR_PATH_TOO_LONG, None, k)
         else case scandir K spath file_select k of
             (Inl e, k1) \<Rightarrow> (usbg_translate_error e, None, k1)
           | (Inr ds, k1) \<Rightarrow>
               let (ok, k2) = k_malloc K k1
               in if \<not> ok then (err USBG_ERROR_NO_MEM, None, k2)
                  else case langs_loop ds of
                      None \<Rightarrow> (err USBG_ERROR_OTHER_ERROR, None, k2)
                    | Some ls \<Rightarrow> (err USBG_SUCCESS, Some (ls @ [0]), k2))"

definition usbg_get_gadget_strs_langs ::
  "'k kernel \<Rightarrow> ptr \<Rightarrow> 'k world \<Rightarrow> ((int \<times> int list option) \<times> 'k world) option" where
  "usbg_get_gadget_strs_langs K g w = on_gadget g (\<lambda>g k.
     let (ret, ls, k') = usbg_get_strs_langs_by_path K (g_path g) (g_name g) k in ((ret, ls), k')) w"

definition usbg_get_config_strs_langs ::
  "'k kernel \<Rightarrow> ptr \<Rightarrow> 'k world \<Rightarrow> ((int \<times> int list option) \<times> 'k world) option" where
  "usbg_get_config_strs_langs K c w = on_config c (\<lambda>c k.
     let (ret, ls, k') = usbg_get_strs_langs_by_path K (c_path c) (c_name c) k in ((ret, ls), k')) w"

definition usbg_rm_gadget_strs :: "'k kernel \<Rightarrow> ptr option \<Rightarrow> cint \<Rightarrow> 'k world \<Rightarrow> (int \<times> 'k world) option" where
  "usbg_rm_gadget_strs K g lang w = nonnull_ret g (\<lambda>p. on_gadget p (\<lambda>g k.
     if fits (lang_path (g_path g) (g_name g) lang)
     then usbg_rm_dir K (lang_path (g_path g) (g_name g) lang) [] k
     else (err USBG_ERROR_PATH_TOO_LONG, k))) w"

definition usbg_rm_config_strs :: "'k kernel \<Rightarrow> ptr option \<Rightarrow> cint \<Rightarrow> 'k world \<Rightarrow> (int \<times> 'k world) option" where
  "usbg_rm_config_strs K c lang w = nonnull_ret c (\<lambda>p. on_config p (\<lambda>c k.
     if fits (lang_path (c_path c) (c_name c) lang)
     then usbg_rm_dir K (lang_path (c_path c) (c_name c) lang) [] k
     else (err USBG_ERROR_PATH_TOO_LONG, k))) w"

section \<open>OS descriptors\<close>

record gadget_os_descs =
  od_use :: bool
  od_b_vendor_code :: u8
  od_qw_sign :: "string option"

definition usbg_parse_gadget_os_descs ::
  "'k kernel \<Rightarrow> string \<Rightarrow> string \<Rightarrow> gadget_os_descs \<Rightarrow> 'k \<Rightarrow> int \<times> gadget_os_descs \<times> 'k" where
  "usbg_parse_gadget_os_descs K path name d k =
     (let spath = path3 path name OS_DESC_DIR
      in if \<not> fits spath then (err USBG_ERROR_PATH_TOO_LONG, d, k)
         else let (r1, s, k1) = usbg_read_string_alloc K spath [] ''qw_sign'' k in
         if r1 \<noteq> err USBG_SUCCESS then (r1, d, k1)
         else let d1 = d\<lparr>od_qw_sign := s\<rparr>; (r2, v, k2) = usbg_read_hex K spath [] ''b_vendor_code'' 0 k1 in
         if r2 \<noteq> err USBG_SUCCESS then (r2, d1, k2)
         else let d2 = d1\<lparr>od_b_vendor_code := ucast v\<rparr>; (r3, u, k3) = usbg_read_int K spath [] ''use'' 10 0 k2 in
         if r3 \<noteq> err USBG_SUCCESS then (r3, d2, k3)
         else (r3, d2\<lparr>od_use := (u \<noteq> 0)\<rparr>, k3))"

definition usbg_get_gadget_os_descs ::
  "'k kernel \<Rightarrow> ptr option \<Rightarrow> gadget_os_descs option \<Rightarrow> 'k world
     \<Rightarrow> ((int \<times> gadget_os_descs option) \<times> 'k world) option" where
  "usbg_get_gadget_os_descs K g d w =
     (case (g, d) of
        (Some p, Some d0) \<Rightarrow> on_gadget p (\<lambda>g k.
            let (ret, d', k') = usbg_parse_gadget_os_descs K (g_path g) (g_name g) d0 k
            in ((ret, Some d'), k')) w
      | _ \<Rightarrow> Some ((err USBG_ERROR_INVALID_PARAM, d), w))"

text \<open>Neither argument is tested for NULL.\<close>

definition write_os_descs ::
  "'k kernel \<Rightarrow> string \<Rightarrow> string \<Rightarrow> gadget_os_descs \<Rightarrow> 'k \<Rightarrow> int \<times> 'k" where
  "write_os_descs K path name d k =
     (let spath = path3 path name OS_DESC_DIR
      in if \<not> fits spath then (err USBG_ERROR_PATH_TOO_LONG, k)
         else let (r0, k0) = usbg_check_dir K spath k in
         if r0 \<noteq> err USBG_SUCCESS then (r0, k0)
         else let (r1, k1) = usbg_write_string K spath [] ''qw_sign'' (od_qw_sign d) k0 in
         if r1 \<noteq> err USBG_SUCCESS then (r1, k1)
         else let (r2, k2) = usbg_write_hex8 K spath [] ''b_vendor_code'' (ucast (od_b_vendor_code d)) k1 in
         if r2 \<noteq> err USBG_SUCCESS then (r2, k2)
         else usbg_write_dec K spath [] ''use'' (if od_use d then 1 else 0) k2)"

definition usbg_set_gadget_os_descs ::
  "'k kernel \<Rightarrow> ptr \<Rightarrow> gadget_os_descs \<Rightarrow> 'k world \<Rightarrow> (int \<times> 'k world) option" where
  "usbg_set_gadget_os_descs K g d w = on_gadget g (\<lambda>g. write_os_descs K (g_path g) (g_name g) d) w"

record function_os_desc =
  fo_compatible_id :: "string option"
  fo_sub_compatible_id :: "string option"

definition interf_path :: "usbg_function \<Rightarrow> string \<Rightarrow> string" where
  "interf_path f iname = path3 (f_path f) (f_name f) OS_DESC_DIR @ ''/interface.'' @ iname"

text \<open>After an error the structure holds no valid string.\<close>

definition usbg_get_interf_os_desc ::
  "'k kernel \<Rightarrow> ptr \<Rightarrow> string option \<Rightarrow> 'k world \<Rightarrow> ((int \<times> function_os_desc option) \<times> 'k world) option" where
  "usbg_get_interf_os_desc K f iname w =
     (case iname of
        None \<Rightarrow> Some ((err USBG_ERROR_NOT_SUPPORTED, None), w)
      | Some n \<Rightarrow> on_function f (\<lambda>fn k.
          let spath = interf_path fn n
          in if \<not> fits spath then ((err USBG_ERROR_PATH_TOO_LONG, None), k)
             else let (r1, c, k1) = usbg_read_string_alloc K spath [] ''compatible_id'' k in
             if r1 < 0 then ((r1, None), k1)
             else let (r2, s, k2) = usbg_read_string_alloc K spath [] ''sub_compatible_id'' k1 in
             if r2 < 0 then ((r2, None), k2)
             else ((r2, Some \<lparr>fo_compatible_id = c, fo_sub_compatible_id = s\<rparr>), k2)) w)"

definition usbg_set_interf_os_desc ::
  "'k kernel \<Rightarrow> ptr \<Rightarrow> string option \<Rightarrow> function_os_desc \<Rightarrow> 'k world \<Rightarrow> (int \<times> 'k world) option" where
  "usbg_set_interf_os_desc K f iname d w =
     (case iname of
        None \<Rightarrow> Some (err USBG_ERROR_NOT_SUPPORTED, w)
      | Some n \<Rightarrow> on_function f (\<lambda>fn k.
          let spath = interf_path fn n
          in if \<not> fits spath then (err USBG_ERROR_PATH_TOO_LONG, k)
             else let (r1, k1) = usbg_write_string K spath [] ''compatible_id'' (fo_compatible_id d) k in
             if r1 < 0 then (r1, k1)
             else usbg_write_string K spath [] ''sub_compatible_id'' (fo_sub_compatible_id d) k1) w)"

section \<open>Configurations\<close>

record config_attrs =
  ca_bmAttributes :: u8
  ca_bMaxPower :: u8

definition usbg_parse_config_attrs ::
  "'k kernel \<Rightarrow> string \<Rightarrow> string \<Rightarrow> config_attrs \<Rightarrow> 'k \<Rightarrow> int \<times> config_attrs \<times> 'k" where
  "usbg_parse_config_attrs K path name a k =
     read_ints K path name
       [(''MaxPower'', 10, \<lambda>v a. a\<lparr>ca_bMaxPower := ucast v\<rparr>),
        (''bmAttributes'', 16, \<lambda>v a. a\<lparr>ca_bmAttributes := ucast v\<rparr>)] a k"

definition write_config_attrs ::
  "'k kernel \<Rightarrow> string \<Rightarrow> string \<Rightarrow> config_attrs \<Rightarrow> 'k \<Rightarrow> int \<times> 'k" where
  "write_config_attrs K path name a k =
     write_ints K path name
       [(''MaxPower'', Fmt_d, ucast (ca_bMaxPower a)), (''bmAttributes'', Fmt_02x, ucast (ca_bmAttributes a))] k"

definition usbg_get_config_attrs ::
  "'k kernel \<Rightarrow> ptr option \<Rightarrow> config_attrs option \<Rightarrow> 'k world
     \<Rightarrow> ((int \<times> config_attrs option) \<times> 'k world) option" where
  "usbg_get_config_attrs K c c_attrs w =
     (case (c, c_attrs) of
        (Some p, Some a) \<Rightarrow> on_config p (\<lambda>c k.
            let (ret, a', k') = usbg_parse_config_attrs K (c_path c) (c_name c) a k
            in ((ret, Some a'), k')) w
      | _ \<Rightarrow> Some ((err USBG_ERROR_INVALID_PARAM, c_attrs), w))"

definition usbg_set_config_attrs ::
  "'k kernel \<Rightarrow> ptr option \<Rightarrow> config_attrs option \<Rightarrow> 'k world \<Rightarrow> (int \<times> 'k world) option" where
  "usbg_set_config_attrs K c c_attrs w =
     (case (c, c_attrs) of
        (Some p, Some a) \<Rightarrow> on_config p (\<lambda>c. write_config_attrs K (c_path c) (c_name c) a) w
      | _ \<Rightarrow> Some (err USBG_ERROR_INVALID_PARAM, w))"

definition usbg_set_config_max_power ::
  "'k kernel \<Rightarrow> ptr option \<Rightarrow> cint \<Rightarrow> 'k world \<Rightarrow> (int \<times> 'k world) option" where
  "usbg_set_config_max_power K c v w = nonnull_ret c
     (\<lambda>p. on_config p (\<lambda>c. usbg_write_dec K (c_path c) (c_name c) ''MaxPower'' v)) w"

definition usbg_set_config_bm_attrs ::
  "'k kernel \<Rightarrow> ptr option \<Rightarrow> cint \<Rightarrow> 'k world \<Rightarrow> (int \<times> 'k world) option" where
  "usbg_set_config_bm_attrs K c v w = nonnull_ret c
     (\<lambda>p. on_config p (\<lambda>c. usbg_write_hex8 K (c_path c) (c_name c) ''bmAttributes'' v)) w"

definition usbg_parse_config_strs ::
  "'k kernel \<Rightarrow> string \<Rightarrow> string \<Rightarrow> cint \<Rightarrow> 'k \<Rightarrow> int \<times> string option \<times> 'k" where
  "usbg_parse_config_strs K path name lang k =
     (let spath = lang_path path name lang
      in if \<not> fits spath then (err USBG_ERROR_PATH_TOO_LONG, None, k)
         else case k_opendir K spath k of
             (Some e, k1) \<Rightarrow> (usbg_translate_error e, None, k1)
           | (None, k1) \<Rightarrow> usbg_read_string_alloc K spath [] ''configuration'' k1)"

definition usbg_get_config_strs ::
  "'k kernel \<Rightarrow> ptr option \<Rightarrow> cint \<Rightarrow> 'k world \<Rightarrow> ((int \<times> string option) \<times> 'k world) option" where
  "usbg_get_config_strs K c lang w = nonnull None c
     (\<lambda>p. on_config p (\<lambda>c k. let (ret, s, k') = usbg_parse_config_strs K (c_path c) (c_name c) lang k
                             in ((ret, s), k'))) w"

definition usbg_set_config_string ::
  "'k kernel \<Rightarrow> ptr option \<Rightarrow> cint \<Rightarrow> string option \<Rightarrow> 'k world \<Rightarrow> (int \<times> 'k world) option" where
  "usbg_set_config_string K c lang str w =
     (case (c, str) of
        (Some p, Some s) \<Rightarrow> on_config p (\<lambda>c. write_in_lang K (c_path c) (c_name c) lang
            (\<lambda>spath. usbg_write_string K spath [] ''configuration'' (Some s))) w
      | _ \<Rightarrow> Some (err USBG_ERROR_INVALID_PARAM, w))"

text \<open>The structure is read through without a test for NULL.\<close>

definition usbg_set_config_strs ::
  "'k kernel \<Rightarrow> ptr option \<Rightarrow> cint \<Rightarrow> string option option \<Rightarrow> 'k world \<Rightarrow> (int \<times> 'k world) option" where
  "usbg_set_config_strs K c lang c_strs w = do {
     configuration \<leftarrow> c_strs;
     usbg_set_config_string K c lang configuration w
   }"

end
