(* ===== verification/Usbg_Ops.thy ===== *)
theory Usbg_Ops
  imports Usbg_Functions Usbg_Gadget_Attrs
begin

unbundle bit_operations_syntax

text \<open>
  The operations of \<open>src/usbg.c\<close> that change the objects: creation and removal of gadgets,
  functions, configurations and bindings, the link of a configuration to the OS
  descriptors, and enabling and disabling. Each returns \<open>None\<close> for undefined behaviour and
  otherwise its return code, what it stores through an out parameter (\<open>None\<close>: NULL or
  nothing), and the new world. \<open>out\<close> tells whether the out parameter is not NULL.
\<close>

section \<open>Creation of a gadget\<close>

definition link_udc :: "ptr \<Rightarrow> ptr option \<Rightarrow> 'k world \<Rightarrow> 'k world option" where
  "link_udc g u w = do {
     w1 \<leftarrow> upd_gadget g (g_udc_update (\<lambda>_. u)) w;
     case u of None \<Rightarrow> Some w1 | Some p \<Rightarrow> upd_udc p (u_gadget_update (\<lambda>_. Some g)) w1
   }"

definition usbg_create_empty_gadget ::
  "'k kernel \<Rightarrow> string \<Rightarrow> 'k world \<Rightarrow> (int \<times> ptr option \<times> 'k world) option" where
  "usbg_create_empty_gadget K name w =
     (let gpath = path2 (s_path w) name
      in if \<not> fits gpath then Some (err USBG_ERROR_PATH_TOO_LONG, None, w)
         else let (g, w1) = usbg_allocate_gadget K (s_path w) name w
         in case g of
              None \<Rightarrow> Some (err USBG_ERROR_NO_MEM, None, w1)
            | Some p \<Rightarrow>
                let (r, w2) = on_os (k_mkdir K gpath) w1
                in case r of
                     Some e \<Rightarrow> do { w3 \<leftarrow> usbg_free_gadget p w2; Some (usbg_translate_error e, None, w3) }
                   | None \<Rightarrow>
                       let ((ret, buf), w3) = on_os (\<lambda>k. let (ret, buf, k') =
                               usbg_read_string K (s_path w) name ''UDC'' k in ((ret, buf), k')) w2
                       in if ret \<noteq> err USBG_SUCCESS then do {
                            w5 \<leftarrow> usbg_free_gadget p (snd (on_os (k_rmdir K gpath) w3));
                            Some (ret, None, w5)
                          }
                          else do {
                            u \<leftarrow> usbg_get_udc buf w3;
                            w4 \<leftarrow> link_udc p u w3;
                            Some (0, Some p, w4)
                          })"

text \<open>The end of both creators: into the list on success, else the directory is removed.\<close>

definition finish_gadget ::
  "'k kernel \<Rightarrow> ptr \<Rightarrow> int \<times> 'k world \<Rightarrow> (int \<times> ptr option \<times> 'k world) option" where
  "finish_gadget K p rw =
     (let (ret, w) = rw
      in if ret \<noteq> err USBG_SUCCESS then do {
           g \<leftarrow> gadget_at w p;
           w2 \<leftarrow> usbg_free_gadget p (snd (on_os (usbg_rm_dir K (g_path g) (g_name g)) w));
           Some (ret, Some p, w2)
         }
         else do {
           gs \<leftarrow> insert_string_order (gadget_name_at w) p (s_gadgets w);
           Some (0, Some p, w\<lparr>s_gadgets := gs\<rparr>)
         })"

definition usbg_create_gadget_vid_pid ::
  "'k kernel \<Rightarrow> string \<Rightarrow> u16 \<Rightarrow> u16 \<Rightarrow> bool \<Rightarrow> 'k world \<Rightarrow> (int \<times> ptr option \<times> 'k world) option" where
  "usbg_create_gadget_vid_pid K name idVendor idProduct out w =
     (if \<not> out then Some (err USBG_ERROR_INVALID_PARAM, None, w)
      else do {
        found \<leftarrow> usbg_get_gadget name w;
        if found \<noteq> None then Some (err USBG_ERROR_EXIST, None, w)
        else do {
          (ret, g, w1) \<leftarrow> usbg_create_empty_gadget K name w;
          case g of
            None \<Rightarrow> Some (ret, None, w1)
          | Some p \<Rightarrow> finish_gadget K p
              (on_os (write_ints K (s_path w1) name
                 [(''idVendor'', Fmt_04x, ucast idVendor), (''idProduct'', Fmt_04x, ucast idProduct)]) w1)
        }
      })"

definition usbg_create_gadget ::
  "'k kernel \<Rightarrow> string \<Rightarrow> gadget_attrs option \<Rightarrow> gadget_strs option \<Rightarrow> bool \<Rightarrow> 'k world
     \<Rightarrow> (int \<times> ptr option \<times> 'k world) option" where
  "usbg_create_gadget K name g_attrs g_strs out w =
     (if \<not> out then Some (err USBG_ERROR_INVALID_PARAM, None, w)
      else do {
        found \<leftarrow> usbg_get_gadget name w;
        if found \<noteq> None then Some (err USBG_ERROR_EXIST, None, w)
        else do {
          (ret, g, w1) \<leftarrow> usbg_create_empty_gadget K name w;
          case g of
            None \<Rightarrow> Some (ret, None, w1)
          | Some p \<Rightarrow> do {
              (ret, w2) \<leftarrow> (if g_attrs = None then Some (err USBG_SUCCESS, w1)
                            else usbg_set_gadget_attrs K (Some p) g_attrs w1);
              (ret, w3) \<leftarrow> (if ret \<noteq> err USBG_SUCCESS \<or> g_strs = None then Some (ret, w2)
                            else usbg_set_gadget_strs K (Some p) LANG_US_ENG g_strs w2);
              finish_gadget K p (ret, w3)
            }
        }
      })"

section \<open>Creation of a function\<close>

text \<open>The end of the creation, when the directory is there: attributes and the queue.\<close>

definition finish_function ::
  "'k kernel \<Rightarrow> ptr \<Rightarrow> ptr \<Rightarrow> string \<Rightarrow> function_attrs option \<Rightarrow> 'k world
     \<Rightarrow> (int \<times> ptr option \<times> 'k world) option" where
  "finish_function K g p full f_attrs w2 = do {
      (ret, w3) \<leftarrow> (if f_attrs = None then Some (err USBG_SUCCESS, w2)
                    else usbg_set_function_attrs K (Some p) f_attrs w2);
      if ret \<noteq> err USBG_SUCCESS then do {
        w4 \<leftarrow> usbg_free_function p (snd (on_os (usbg_rm_dir K full []) w3));
        Some (ret, Some p, w4)
      }
      else do {
        gad3 \<leftarrow> gadget_at w3 g;
        fs \<leftarrow> insert_string_order (function_name_at w3) p (g_functions gad3);
        w4 \<leftarrow> upd_gadget g (g_functions_update (\<lambda>_. fs)) w3;
        Some (err USBG_SUCCESS, Some p, w4)
      }
    }"

definition usbg_create_function ::
  "'k kernel \<Rightarrow> ptr option \<Rightarrow> usbg_function_type \<Rightarrow> string option \<Rightarrow> function_attrs option \<Rightarrow> bool
     \<Rightarrow> 'k world \<Rightarrow> (int \<times> ptr option \<times> 'k world) option" where
  "usbg_create_function K g type inst f_attrs out w =
     (case (g, inst) of
        (Some gp, Some i) \<Rightarrow>
          if \<not> out \<or> i = [] then Some (err USBG_ERROR_INVALID_PARAM, None, w)
          else do {
            found \<leftarrow> usbg_get_function gp type i w;
            if found \<noteq> None then Some (err USBG_ERROR_EXIST, None, w)
            else do {
              gad \<leftarrow> gadget_at w gp;
              let fpath = path3 (g_path gad) (g_name gad) FUNCTIONS_DIR in
              if \<not> fits fpath then Some (err USBG_ERROR_PATH_TOO_LONG, None, w)
              else let (f, w1) = usbg_allocate_function K fpath type i gp w in
              case f of
                None \<Rightarrow> Some (err USBG_ERROR_NO_MEM, None, w1)
              | Some p \<Rightarrow> do {
                  fn \<leftarrow> function_at w1 p;
                  let full = path2 fpath (f_name fn) in
                  if \<not> fits full then do {
                    w2 \<leftarrow> usbg_free_function p w1;
                    Some (err USBG_ERROR_PATH_TOO_LONG, Some p, w2)
                  }
                  else let (r, w2) = on_os (k_mkdir K full) w1 in
                  case r of
                    Some e \<Rightarrow> do {
                      w3 \<leftarrow> usbg_free_function p w2;
                      Some (usbg_translate_error e, Some p, w3)
                    }
                  | None \<Rightarrow> finish_function K gp p full f_attrs w2
                }
            }
          }
      | _ \<Rightarrow> Some (err USBG_ERROR_INVALID_PARAM, None, w))"

section \<open>Creation of a configuration\<close>

definition DEFAULT_CONFIG_LABEL :: string where "DEFAULT_CONFIG_LABEL = ''config''"

text \<open>The end of the creation, when the directory is there: attributes, strings, the queue.\<close>

definition finish_config ::
  "'k kernel \<Rightarrow> ptr \<Rightarrow> ptr \<Rightarrow> string \<Rightarrow> config_attrs option \<Rightarrow> string option option \<Rightarrow> 'k world
     \<Rightarrow> (int \<times> ptr option \<times> 'k world) option" where
  "finish_config K g p full c_attrs c_strs w2 = do {
      (ret, w3) \<leftarrow> (if c_attrs = None then Some (err USBG_SUCCESS, w2)
                    else usbg_set_config_attrs K (Some p) c_attrs w2);
      (ret, w4) \<leftarrow> (if ret \<noteq> err USBG_SUCCESS then Some (ret, w3)
                    else case c_strs of None \<Rightarrow> Some (ret, w3)
                    | Some s \<Rightarrow> usbg_set_config_string K (Some p) LANG_US_ENG s w3);
      if ret \<noteq> err USBG_SUCCESS then do {
        w5 \<leftarrow> usbg_free_config p (snd (on_os (k_rmdir K full) w4));
        Some (ret, Some p, w5)
      }
      else do {
        gad4 \<leftarrow> gadget_at w4 g;
        cs \<leftarrow> insert_string_order (config_name_at w4) p (g_configs gad4);
        w5 \<leftarrow> upd_gadget g (g_configs_update (\<lambda>_. cs)) w4;
        Some (0, Some p, w5)
      }
    }"

definition usbg_create_config ::
  "'k kernel \<Rightarrow> ptr option \<Rightarrow> int \<Rightarrow> string option \<Rightarrow> config_attrs option \<Rightarrow> string option option \<Rightarrow> bool
     \<Rightarrow> 'k world \<Rightarrow> (int \<times> ptr option \<times> 'k world) option" where
  "usbg_create_config K g i label c_attrs c_strs out w =
     (case g of
        None \<Rightarrow> Some (err USBG_ERROR_INVALID_PARAM, None, w)
      | Some gp \<Rightarrow>
          if \<not> out \<or> i \<le> 0 \<or> i > 255 then Some (err USBG_ERROR_INVALID_PARAM, None, w)
          else do {
            found \<leftarrow> usbg_get_config gp i None w;
            if found \<noteq> None then Some (err USBG_ERROR_EXIST, None, w)
            else do {
              gad \<leftarrow> gadget_at w gp;
              let lbl = (case label of None \<Rightarrow> DEFAULT_CONFIG_LABEL | Some l \<Rightarrow> l);
                  cpath = path3 (g_path gad) (g_name gad) CONFIGS_DIR in
              if \<not> fits cpath then Some (err USBG_ERROR_PATH_TOO_LONG, None, w)
              else let (c, w1) = usbg_allocate_config K cpath lbl i gp w in
              case c of
                None \<Rightarrow> Some (err USBG_ERROR_NO_MEM, None, w1)
              | Some p \<Rightarrow> do {
                  conf \<leftarrow> config_at w1 p;
                  let full = path2 cpath (c_name conf) in
                  if \<not> fits full then do {
                    w2 \<leftarrow> usbg_free_config p w1;
                    Some (err USBG_ERROR_PATH_TOO_LONG, Some p, w2)
                  }
                  else let (r, w2) = on_os (k_mkdir K full) w1 in
                  case r of
                    Some e \<Rightarrow> do {
                      w3 \<leftarrow> usbg_free_config p w2;
                      Some (usbg_translate_error e, Some p, w3)
                    }
                  | None \<Rightarrow> finish_config K gp p full c_attrs c_strs w2
                }
            }
          })"

section \<open>Bindings\<close>

definition usbg_add_config_function ::
  "'k kernel \<Rightarrow> ptr option \<Rightarrow> string option \<Rightarrow> ptr option \<Rightarrow> 'k world \<Rightarrow> (int \<times> 'k world) option" where
  "usbg_add_config_function K c name f w =
     (case (c, f) of
        (Some cp, Some fp) \<Rightarrow> do {
          fn \<leftarrow> function_at w fp;
          let nm = (case name of None \<Rightarrow> f_name fn | Some n \<Rightarrow> n);
          found \<leftarrow> usbg_get_binding cp nm w;
          if found \<noteq> None then Some (err USBG_ERROR_EXIST, w)
          else do {
            linked \<leftarrow> usbg_get_link_binding cp fp w;
            if linked \<noteq> None then Some (err USBG_ERROR_EXIST, w)
            else do {
              conf \<leftarrow> config_at w cp;
              let fpath = path2 (f_path fn) (f_name fn); bpath = path2 (c_path conf) (c_name conf) in
              if \<not> fits fpath then Some (err USBG_ERROR_PATH_TOO_LONG, w)
              else if \<not> fits bpath then Some (err USBG_ERROR_PATH_TOO_LONG, w)
              else let (b, w1) = usbg_allocate_binding K bpath nm cp fp w in
              case b of
                None \<Rightarrow> Some (err USBG_ERROR_NO_MEM, w1)
              | Some p \<Rightarrow>
                  let full = path2 bpath nm in
                  if \<not> fits full then do {
                    w2 \<leftarrow> usbg_free_binding p w1;
                    Some (err USBG_ERROR_PATH_TOO_LONG, w2)
                  }
                  else let (r, w2) = on_os (k_symlink K fpath full) w1 in
                  case r of
                    Some e \<Rightarrow> do { w3 \<leftarrow> usbg_free_binding p w2; Some (usbg_translate_error e, w3) }
                  | None \<Rightarrow> do {
                      conf2 \<leftarrow> config_at w2 cp;
                      bs \<leftarrow> insert_string_order (binding_name_at w2) p (c_bindings conf2);
                      w3 \<leftarrow> upd_config cp (c_bindings_update (\<lambda>_. bs)) w2;
                      Some (0, w3)
                    }
            }
          }
        }
      | _ \<Rightarrow> Some (err USBG_ERROR_INVALID_PARAM, w))"

definition usbg_rm_binding :: "'k kernel \<Rightarrow> ptr option \<Rightarrow> 'k world \<Rightarrow> (int \<times> 'k world) option" where
  "usbg_rm_binding K b w =
     (case b of None \<Rightarrow> Some (err USBG_ERROR_INVALID_PARAM, w)
      | Some p \<Rightarrow> do {
          bn \<leftarrow> binding_at w p;
          let (ret, w1) = on_os (usbg_rm_file K (b_path bn) (b_name bn)) w in
          if ret \<noteq> 0 then Some (ret, w1)
          else do {
            conf \<leftarrow> config_at w1 (b_parent bn);
            bs \<leftarrow> tailq_remove p (c_bindings conf);
            w2 \<leftarrow> upd_config (b_parent bn) (c_bindings_update (\<lambda>_. bs)) w1;
            w3 \<leftarrow> usbg_free_binding p w2;
            Some (ret, w3)
          }
        })"

section \<open>The configuration of the OS descriptors\<close>

definition usbg_create_os_desc_link :: "'k kernel \<Rightarrow> ptr \<Rightarrow> ptr \<Rightarrow> 'k world \<Rightarrow> (int \<times> 'k world) option" where
  "usbg_create_os_desc_link K g c w = do {
     gad \<leftarrow> gadget_at w g;
     conf \<leftarrow> config_at w c;
     let cpath = path2 (c_path conf) (c_name conf);
         bpath = path3 (g_path gad) (g_name gad) OS_DESC_DIR @ ''/'' @ c_name conf in
     if \<not> fits cpath then Some (err USBG_ERROR_PATH_TOO_LONG, w)
     else if \<not> fits bpath then Some (err USBG_ERROR_PATH_TOO_LONG, w)
     else let (r, w1) = on_os (k_symlink K cpath bpath) w in
     case r of
       Some e \<Rightarrow> Some (usbg_translate_error e, w1)
     | None \<Rightarrow> do {
         w2 \<leftarrow> upd_gadget g (g_os_desc_binding_update (\<lambda>_. Some c)) w1;
         Some (err USBG_SUCCESS, w2)
       }
   }"

definition usbg_rm_os_desc_link :: "'k kernel \<Rightarrow> ptr \<Rightarrow> 'k world \<Rightarrow> (int \<times> 'k world) option" where
  "usbg_rm_os_desc_link K g w = on_gadget g (\<lambda>gad k.
     let bpath = path3 (g_path gad) (g_name gad) OS_DESC_DIR
     in if \<not> fits bpath then (err USBG_ERROR_PATH_TOO_LONG, k)
        else case scandir K bpath bindings_select k of
            (Inl e, k1) \<Rightarrow> (usbg_translate_error e, k1)
          | (Inr [], k1) \<Rightarrow> (err USBG_ERROR_NOT_FOUND, k1)
          | (Inr (d # ds), k1) \<Rightarrow> usbg_rm_file K bpath d k1) w"

definition usbg_set_os_desc_config ::
  "'k kernel \<Rightarrow> ptr option \<Rightarrow> ptr option \<Rightarrow> 'k world \<Rightarrow> (int \<times> 'k world) option" where
  "usbg_set_os_desc_config K g c w = nonnull_ret g (\<lambda>gp w.
     case c of
       None \<Rightarrow> usbg_rm_os_desc_link K gp w
     | Some cp \<Rightarrow> do {
         gad \<leftarrow> gadget_at w gp;
         if g_os_desc_binding gad \<noteq> None then Some (err USBG_ERROR_EXIST, w)
         else usbg_create_os_desc_link K gp cp w
       }) w"

section \<open>Removal\<close>

definition USBG_RM_RECURSE :: int where "USBG_RM_RECURSE = 1"

text \<open>
  The loops over the first member of a queue may run forever if a removal that succeeds
  does not shorten the queue; \<open>None\<close> stands for that, too.
\<close>

partial_function (option) rm_bindings_loop :: "'k kernel \<Rightarrow> ptr \<Rightarrow> 'k world \<Rightarrow> (int \<times> 'k world) option" where
  "rm_bindings_loop K c w = do {
     conf \<leftarrow> config_at w c;
     if c_bindings conf = [] then Some (err USBG_SUCCESS, w)
     else do {
       (ret, w1) \<leftarrow> usbg_rm_binding K (Some (hd (c_bindings conf))) w;
       if ret \<noteq> err USBG_SUCCESS then Some (ret, w1) else rm_bindings_loop K c w1
     }
   }"

definition usbg_rm_config :: "'k kernel \<Rightarrow> ptr option \<Rightarrow> int \<Rightarrow> 'k world \<Rightarrow> (int \<times> 'k world) option" where
  "usbg_rm_config K c opts w = nonnull_ret c (\<lambda>cp w. do {
     conf \<leftarrow> config_at w cp;
     let g = c_parent conf;
     (ret, w4) \<leftarrow>
       (if opts AND USBG_RM_RECURSE = 0 then Some (err USBG_SUCCESS, w)
        else do {
          gad \<leftarrow> gadget_at w g;
          (r1, w1) \<leftarrow> (if g_os_desc_binding gad = Some cp then usbg_set_os_desc_config K (Some g) None w
                       else Some (err USBG_SUCCESS, w));
          if r1 \<noteq> err USBG_SUCCESS then Some (r1, w1)
          else do {
            (r2, w2) \<leftarrow> rm_bindings_loop K cp w1;
            if r2 \<noteq> err USBG_SUCCESS then Some (r2, w2)
            else let spath = path3 (c_path conf) (c_name conf) STRINGS_DIR in
              if \<not> fits spath then Some (err USBG_ERROR_PATH_TOO_LONG, w2)
              else Some (on_os (usbg_rm_all_dirs K spath) w2)
          }
        });
     if ret \<noteq> err USBG_SUCCESS then Some (ret, w4)
     else let (ret, w5) = on_os (usbg_rm_dir K (c_path conf) (c_name conf)) w4 in
       if ret \<noteq> err USBG_SUCCESS then Some (ret, w5)
       else do {
         gad \<leftarrow> gadget_at w5 g;
         cs \<leftarrow> tailq_remove cp (g_configs gad);
         w6 \<leftarrow> upd_gadget g (g_configs_update (\<lambda>_. cs)) w5;
         w7 \<leftarrow> usbg_free_config cp w6;
         Some (ret, w7)
       }
   }) w"

text \<open>The two nested loops over all bindings of a gadget; the next one is read before a removal.\<close>

fun rm_links :: "'k kernel \<Rightarrow> ptr \<Rightarrow> ptr list \<Rightarrow> 'k world \<Rightarrow> (int \<times> 'k world) option" where
  "rm_links K f [] w = Some (err USBG_SUCCESS, w)"
| "rm_links K f (b # bs) w = do {
     bn \<leftarrow> binding_at w b;
     if b_target bn = f then do {
       (ret, w1) \<leftarrow> usbg_rm_binding K (Some b) w;
       if ret \<noteq> err USBG_SUCCESS then Some (ret, w1) else rm_links K f bs w1
     }
     else rm_links K f bs w
   }"

fun rm_links_of_configs :: "'k kernel \<Rightarrow> ptr \<Rightarrow> ptr list \<Rightarrow> 'k world \<Rightarrow> (int \<times> 'k world) option" where
  "rm_links_of_configs K f [] w = Some (err USBG_SUCCESS, w)"
| "rm_links_of_configs K f (c # cs) w = do {
     conf \<leftarrow> config_at w c;
     (ret, w1) \<leftarrow> rm_links K f (c_bindings conf) w;
     if ret \<noteq> err USBG_SUCCESS then Some (ret, w1) else rm_links_of_configs K f cs w1
   }"

definition usbg_rm_function :: "'k kernel \<Rightarrow> ptr option \<Rightarrow> int \<Rightarrow> 'k world \<Rightarrow> (int \<times> 'k world) option" where
  "usbg_rm_function K f opts w = nonnull_ret f (\<lambda>fp w. do {
     fn \<leftarrow> function_at w fp;
     let g = f_parent fn;
     (ret, w1) \<leftarrow>
       (if opts AND USBG_RM_RECURSE = 0 then Some (err USBG_SUCCESS, w)
        else do { gad \<leftarrow> gadget_at w g; rm_links_of_configs K fp (g_configs gad) w });
     if ret \<noteq> err USBG_SUCCESS then Some (ret, w1)
     else do {
       fn1 \<leftarrow> function_at w1 fp;
       (ret, fn2, k2) \<leftarrow> function_remove K fn1 (os w1);
       let w2 = w1\<lparr>function_at := (function_at w1)(fp \<mapsto> fn2), os := k2\<rparr> in
       if ret \<noteq> err USBG_SUCCESS then Some (ret, w2)
       else let (ret, w3) = on_os (usbg_rm_dir K (f_path fn2) (f_name fn2)) w2 in
         if ret \<noteq> err USBG_SUCCESS then Some (ret, w3)
         else do {
           gad \<leftarrow> gadget_at w3 g;
           fs \<leftarrow> tailq_remove fp (g_functions gad);
           w4 \<leftarrow> upd_gadget g (g_functions_update (\<lambda>_. fs)) w3;
           w5 \<leftarrow> usbg_free_function fp w4;
           Some (ret, w5)
         }
     }
   }) w"

partial_function (option) rm_configs_loop :: "'k kernel \<Rightarrow> ptr \<Rightarrow> int \<Rightarrow> 'k world \<Rightarrow> (int \<times> 'k world) option" where
  "rm_configs_loop K g opts w = do {
     gad \<leftarrow> gadget_at w g;
     if g_configs gad = [] then Some (err USBG_SUCCESS, w)
     else do {
       (ret, w1) \<leftarrow> usbg_rm_config K (Some (hd (g_configs gad))) opts w;
       if ret \<noteq> err USBG_SUCCESS then Some (ret, w1) else rm_configs_loop K g opts w1
     }
   }"

partial_function (option) rm_functions_loop :: "'k kernel \<Rightarrow> ptr \<Rightarrow> int \<Rightarrow> 'k world \<Rightarrow> (int \<times> 'k world) option" where
  "rm_functions_loop K g opts w = do {
     gad \<leftarrow> gadget_at w g;
     if g_functions gad = [] then Some (err USBG_SUCCESS, w)
     else do {
       (ret, w1) \<leftarrow> usbg_rm_function K (Some (hd (g_functions gad))) opts w;
       if ret \<noteq> err USBG_SUCCESS then Some (ret, w1) else rm_functions_loop K g opts w1
     }
   }"

definition usbg_rm_gadget :: "'k kernel \<Rightarrow> ptr option \<Rightarrow> int \<Rightarrow> 'k world \<Rightarrow> (int \<times> 'k world) option" where
  "usbg_rm_gadget K g opts w = nonnull_ret g (\<lambda>gp w. do {
     gad \<leftarrow> gadget_at w gp;
     (ret, w3) \<leftarrow>
       (if opts AND USBG_RM_RECURSE = 0 then Some (err USBG_SUCCESS, w)
        else do {
          (r1, w1) \<leftarrow> rm_configs_loop K gp opts w;
          if r1 \<noteq> err USBG_SUCCESS then Some (r1, w1)
          else do {
            (r2, w2) \<leftarrow> rm_functions_loop K gp opts w1;
            if r2 \<noteq> err USBG_SUCCESS then Some (r2, w2)
            else let spath = path3 (g_path gad) (g_name gad) STRINGS_DIR in
              if \<not> fits spath then Some (err USBG_ERROR_PATH_TOO_LONG, w2)
              else Some (on_os (usbg_rm_all_dirs K spath) w2)
          }
        });
     if ret \<noteq> err USBG_SUCCESS then Some (ret, w3)
     else let (ret, w4) = on_os (usbg_rm_dir K (g_path gad) (g_name gad)) w3 in
       if ret \<noteq> err USBG_SUCCESS then Some (ret, w4)
       else do {
         gs \<leftarrow> tailq_remove gp (s_gadgets w4);
         w5 \<leftarrow> usbg_free_gadget gp (w4\<lparr>s_gadgets := gs\<rparr>);
         Some (ret, w5)
       }
   }) w"

declare rm_bindings_loop.simps [code] rm_configs_loop.simps [code] rm_functions_loop.simps [code]

section \<open>Enabling and disabling\<close>

text \<open>\<open>if (g->udc) g->udc->gadget = NULL\<close>\<close>

definition unlink_udc :: "ptr \<Rightarrow> 'k world \<Rightarrow> 'k world option" where
  "unlink_udc g w = do {
     gad \<leftarrow> gadget_at w g;
     case g_udc gad of None \<Rightarrow> Some w | Some u \<Rightarrow> upd_udc u (u_gadget_update (\<lambda>_. None)) w
   }"

definition usbg_enable_gadget ::
  "'k kernel \<Rightarrow> ptr option \<Rightarrow> ptr option \<Rightarrow> 'k world \<Rightarrow> (int \<times> 'k world) option" where
  "usbg_enable_gadget K g udc w = nonnull_ret g (\<lambda>gp w.
     case (case udc of None \<Rightarrow> usbg_get_first_udc w | Some u \<Rightarrow> Some u) of
       None \<Rightarrow> Some (err USBG_ERROR_INVALID_PARAM, w)
     | Some up \<Rightarrow> do {
         gad \<leftarrow> gadget_at w gp;
         u \<leftarrow> udc_at w up;
         let (ret, w1) = on_os (usbg_write_string K (g_path gad) (g_name gad) ''UDC'' (Some (u_name u))) w in
         if ret \<noteq> err USBG_SUCCESS then Some (ret, w1)
         else do {
           w2 \<leftarrow> unlink_udc gp w1;
           w3 \<leftarrow> upd_gadget gp (g_udc_update (\<lambda>_. Some up)) w2;
           w4 \<leftarrow> upd_udc up (u_gadget_update (\<lambda>_. Some gp)) w3;
           Some (ret, w4)
         }
       }) w"

definition usbg_disable_gadget :: "'k kernel \<Rightarrow> ptr option \<Rightarrow> 'k world \<Rightarrow> (int \<times> 'k world) option" where
  "usbg_disable_gadget K g w = nonnull_ret g (\<lambda>gp w. do {
     gad \<leftarrow> gadget_at w gp;
     let (ret, w1) = on_os (usbg_write_string K (g_path gad) (g_name gad) ''UDC'' (Some [CHR 0x0A])) w in
     if ret \<noteq> err USBG_SUCCESS then Some (ret, w1)
     else do {
       w2 \<leftarrow> unlink_udc gp w1;
       w3 \<leftarrow> upd_gadget gp (g_udc_update (\<lambda>_. None)) w2;
       Some (ret, w3)
     }
   }) w"

text \<open>The UDC of a gadget, after a look at whether the kernel still has it attached.\<close>

definition usbg_get_gadget_udc :: "'k kernel \<Rightarrow> ptr option \<Rightarrow> 'k world \<Rightarrow> (ptr option \<times> 'k world) option" where
  "usbg_get_gadget_udc K g w =
     (case g of None \<Rightarrow> Some (None, w)
      | Some gp \<Rightarrow> do {
          gad \<leftarrow> gadget_at w gp;
          case g_udc gad of
            None \<Rightarrow> Some (None, w)
          | Some up \<Rightarrow>
              let ((ret, buf), w1) = on_os (\<lambda>k. let (ret, buf, k') =
                      usbg_read_string K (g_path gad) (g_name gad) ''UDC'' k in ((ret, buf), k')) w in
              if ret \<noteq> err USBG_SUCCESS then Some (None, w1)
              else do {
                u \<leftarrow> udc_at w1 up;
                if strcmp (u_name u) buf = 0 then Some (Some up, w1)
                else do {
                  w2 \<leftarrow> upd_udc up (u_gadget_update (\<lambda>_. None)) w1;
                  w3 \<leftarrow> upd_gadget gp (g_udc_update (\<lambda>_. None)) w2;
                  Some (None, w3)
                }
              }
        })"

text \<open>
  \<open>u->gadget\<close> is read again after the check; a NULL there is followed.
\<close>

definition usbg_get_udc_gadget :: "'k kernel \<Rightarrow> ptr option \<Rightarrow> 'k world \<Rightarrow> (ptr option \<times> 'k world) option" where
  "usbg_get_udc_gadget K u w =
     (case u of None \<Rightarrow> Some (None, w)
      | Some up \<Rightarrow> do {
          udc \<leftarrow> udc_at w up;
          case u_gadget udc of
            None \<Rightarrow> Some (None, w)
          | Some gp \<Rightarrow> do {
              (checked, w1) \<leftarrow> usbg_get_gadget_udc K (Some gp) w;
              udc1 \<leftarrow> udc_at w1 up;
              if checked \<noteq> None then Some (u_gadget udc1, w1)
              else do {
                gp1 \<leftarrow> u_gadget udc1;
                w2 \<leftarrow> upd_gadget gp1 (g_udc_update (\<lambda>_. None)) w1;
                w3 \<leftarrow> upd_udc up (u_gadget_update (\<lambda>_. None)) w2;
                Some (None, w3)
              }
            }
        })"

end
