(* ===== verification/Usbg_Parse.thy ===== *)
theory Usbg_Parse
  imports Usbg_Ops
begin

text \<open>
  \<open>usbg_init\<close>: the library's picture of the gadgets is read from the directories of
  configfs (the \<open>usbg_parse_*\<close> functions of \<open>src/usbg.c\<close>). An entry of a directory that
  cannot be understood ends the reading with an error, and the state is freed.
\<close>

section \<open>Functions\<close>

fun parse_functions_loop ::
  "'k kernel \<Rightarrow> string \<Rightarrow> ptr \<Rightarrow> string list \<Rightarrow> 'k world \<Rightarrow> (int \<times> 'k world) option" where
  "parse_functions_loop K fpath g [] w = Some (err USBG_SUCCESS, w)"
| "parse_functions_loop K fpath g (d # ds) w =
     (let ((ret, ti), w1) = on_os (\<lambda>k. let (ret, ti, k') =
              usbg_split_function_instance_type K d k in ((ret, ti), k')) w
      in if ret \<noteq> err USBG_SUCCESS then Some (ret, w1)
         else do {
           (type, inst) \<leftarrow> ti;
           let (f, w2) = usbg_allocate_function K fpath type inst g w1 in
           case f of
             None \<Rightarrow> Some (err USBG_ERROR_NO_MEM, w2)
           | Some p \<Rightarrow> do {
               w3 \<leftarrow> upd_gadget g (g_functions_update (\<lambda>fs. fs @ [p])) w2;
               parse_functions_loop K fpath g ds w3
             }
         })"

definition usbg_parse_functions :: "'k kernel \<Rightarrow> string \<Rightarrow> ptr \<Rightarrow> 'k world \<Rightarrow> (int \<times> 'k world) option" where
  "usbg_parse_functions K path g w = do {
     gad \<leftarrow> gadget_at w g;
     let fpath = path3 path (g_name gad) FUNCTIONS_DIR in
     if \<not> fits fpath then Some (err USBG_ERROR_PATH_TOO_LONG, w)
     else case on_os (scandir K fpath file_select) w of
         (Inl e, w1) \<Rightarrow> Some (usbg_translate_error e, w1)
       | (Inr ds, w1) \<Rightarrow> parse_functions_loop K fpath g ds w1
   }"

section \<open>Bindings\<close>

text \<open>
  The last component of the target of a link, cut to a path's length; a target without a
  slash is undefined.
\<close>

definition link_target :: "'k kernel \<Rightarrow> string \<Rightarrow> 'k \<Rightarrow> (errno + string option) \<times> 'k" where
  "link_target K bpath k =
     (case k_readlink K bpath (USBG_MAX_PATH_LENGTH - 1) k of
        (Inl e, k') \<Rightarrow> (Inl e, k')
      | (Inr t, k') \<Rightarrow>
          (Inr (map_option snd (split_last (CHR ''/'') (cstr (take (USBG_MAX_PATH_LENGTH - 1) t)))), k'))"

text \<open>\<open>bpath\<close> is the directory of the configuration and \<open>name\<close> the link in it.\<close>

definition usbg_parse_config_binding ::
  "'k kernel \<Rightarrow> ptr \<Rightarrow> string \<Rightarrow> string \<Rightarrow> 'k world \<Rightarrow> (int \<times> 'k world) option" where
  "usbg_parse_config_binding K c bpath name w =
     (case on_os (link_target K (path2 bpath name)) w of
        (Inl e, w1) \<Rightarrow> Some (usbg_translate_error e, w1)
      | (Inr t, w1) \<Rightarrow> do {
          target_name \<leftarrow> t;
          let ((ret, ti), w2) = on_os (\<lambda>k. let (ret, ti, k') =
                  usbg_split_function_instance_type K target_name k in ((ret, ti), k')) w1 in
          if ret \<noteq> err USBG_SUCCESS then Some (ret, w2)
          else do {
            (type, inst) \<leftarrow> ti;
            conf \<leftarrow> config_at w2 c;
            f \<leftarrow> usbg_get_function (c_parent conf) type inst w2;
            case f of
              None \<Rightarrow> Some (err USBG_ERROR_OTHER_ERROR, w2)
            | Some fp \<Rightarrow>
                let (b, w3) = usbg_allocate_binding K bpath name c fp w2 in
                case b of
                  None \<Rightarrow> Some (err USBG_ERROR_NO_MEM, w3)
                | Some p \<Rightarrow> do {
                    w4 \<leftarrow> upd_config c (c_bindings_update (\<lambda>bs. bs @ [p])) w3;
                    Some (err USBG_SUCCESS, w4)
                  }
          }
        })"

fun parse_bindings_loop ::
  "'k kernel \<Rightarrow> ptr \<Rightarrow> string \<Rightarrow> string list \<Rightarrow> 'k world \<Rightarrow> (int \<times> 'k world) option" where
  "parse_bindings_loop K c bpath [] w = Some (err USBG_SUCCESS, w)"
| "parse_bindings_loop K c bpath (d # ds) w =
     (if \<not> fits (path2 bpath d) then Some (err USBG_ERROR_PATH_TOO_LONG, w)
      else do {
        (ret, w1) \<leftarrow> usbg_parse_config_binding K c bpath d w;
        if ret \<noteq> err USBG_SUCCESS then Some (ret, w1) else parse_bindings_loop K c bpath ds w1
      })"

definition usbg_parse_config_bindings :: "'k kernel \<Rightarrow> ptr \<Rightarrow> 'k world \<Rightarrow> (int \<times> 'k world) option" where
  "usbg_parse_config_bindings K c w = do {
     conf \<leftarrow> config_at w c;
     let bpath = path2 (c_path conf) (c_name conf) in
     if \<not> fits bpath then Some (err USBG_ERROR_PATH_TOO_LONG, w)
     else case on_os (scandir K bpath bindings_select) w of
         (Inl e, w1) \<Rightarrow> Some (usbg_translate_error e, w1)
       | (Inr ds, w1) \<Rightarrow> parse_bindings_loop K c bpath ds w1
   }"

section \<open>Configurations\<close>

text \<open>
  An id of 0 is no error: the configuration is passed over. The configuration gets the name
  composed from label and id, which may differ from the directory's.
\<close>

definition usbg_parse_config ::
  "'k kernel \<Rightarrow> string \<Rightarrow> string \<Rightarrow> ptr \<Rightarrow> 'k world \<Rightarrow> (int \<times> 'k world) option" where
  "usbg_parse_config K path name g w =
     (let ((ret, lbl), w1) = on_os (\<lambda>k. let (ret, lbl, k') =
              usbg_split_config_label_id K name k in ((ret, lbl), k')) w
      in if ret \<le> 0 then Some (ret, w1)
         else do {
           label \<leftarrow> lbl;
           let (c, w2) = usbg_allocate_config K path label ret g w1 in
           case c of
             None \<Rightarrow> Some (err USBG_ERROR_NO_MEM, w2)
           | Some p \<Rightarrow> do {
               (ret2, w3) \<leftarrow> usbg_parse_config_bindings K p w2;
               if ret2 \<noteq> err USBG_SUCCESS then do {
                 w4 \<leftarrow> usbg_free_config p w3;
                 Some (ret2, w4)
               }
               else do {
                 w4 \<leftarrow> upd_gadget g (g_configs_update (\<lambda>cs. cs @ [p])) w3;
                 Some (ret2, w4)
               }
             }
         })"

fun parse_configs_loop ::
  "'k kernel \<Rightarrow> string \<Rightarrow> ptr \<Rightarrow> string list \<Rightarrow> 'k world \<Rightarrow> (int \<times> 'k world) option" where
  "parse_configs_loop K cpath g [] w = Some (err USBG_SUCCESS, w)"
| "parse_configs_loop K cpath g (d # ds) w = do {
     (ret, w1) \<leftarrow> usbg_parse_config K cpath d g w;
     if ret \<noteq> err USBG_SUCCESS then Some (ret, w1) else parse_configs_loop K cpath g ds w1
   }"

definition usbg_parse_configs :: "'k kernel \<Rightarrow> string \<Rightarrow> ptr \<Rightarrow> 'k world \<Rightarrow> (int \<times> 'k world) option" where
  "usbg_parse_configs K path g w = do {
     gad \<leftarrow> gadget_at w g;
     let cpath = path3 path (g_name gad) CONFIGS_DIR in
     if \<not> fits cpath then Some (err USBG_ERROR_PATH_TOO_LONG, w)
     else case on_os (scandir K cpath file_select) w of
         (Inl e, w1) \<Rightarrow> Some (usbg_translate_error e, w1)
       | (Inr ds, w1) \<Rightarrow> parse_configs_loop K cpath g ds w1
   }"

section \<open>The OS descriptors\<close>

text \<open>A link to a configuration whose id is 0 is passed over as well.\<close>

definition usbg_parse_gadget_os_desc_binding :: "'k kernel \<Rightarrow> ptr \<Rightarrow> 'k world \<Rightarrow> (int \<times> 'k world) option" where
  "usbg_parse_gadget_os_desc_binding K g w = do {
     gad \<leftarrow> gadget_at w g;
     let bpath = path3 (g_path gad) (g_name gad) OS_DESC_DIR in
     if \<not> fits bpath then Some (err USBG_ERROR_PATH_TOO_LONG, w)
     else case on_os (scandir K bpath bindings_select) w of
         (Inl e, w1) \<Rightarrow> Some (usbg_translate_error e, w1)
       | (Inr [], w1) \<Rightarrow> Some (err USBG_SUCCESS, w1)
       | (Inr (d # ds), w1) \<Rightarrow>
           if \<not> fits (path2 bpath d) then Some (err USBG_ERROR_PATH_TOO_LONG, w1)
           else case on_os (link_target K (path2 bpath d)) w1 of
               (Inl e, w2) \<Rightarrow> Some (usbg_translate_error e, w2)
             | (Inr t, w2) \<Rightarrow> do {
                 target_name \<leftarrow> t;
                 let ((i, lbl), w3) = on_os (\<lambda>k. let (ret, lbl, k') =
                         usbg_split_config_label_id K target_name k in ((ret, lbl), k')) w2 in
                 if i \<le> 0 then Some (i, w3)
                 else do {
                   c \<leftarrow> usbg_get_config g i lbl w3;
                   if c = None then Some (err USBG_ERROR_NO_MEM, w3)
                   else do {
                     w4 \<leftarrow> upd_gadget g (g_os_desc_binding_update (\<lambda>_. c)) w3;
                     Some (err USBG_SUCCESS, w4)
                   }
                 }
               }
   }"

section \<open>Gadgets\<close>

definition usbg_parse_gadget :: "'k kernel \<Rightarrow> ptr \<Rightarrow> 'k world \<Rightarrow> (int \<times> 'k world) option" where
  "usbg_parse_gadget K g w = do {
     gad \<leftarrow> gadget_at w g;
     let ((ret, buf), w1) = on_os (\<lambda>k. let (ret, buf, k') =
             usbg_read_string K (g_path gad) (g_name gad) ''UDC'' k in ((ret, buf), k')) w in
     if ret \<noteq> err USBG_SUCCESS then Some (ret, w1)
     else do {
       u \<leftarrow> usbg_get_udc buf w1;
       w2 \<leftarrow> link_udc g u w1;
       (r3, w3) \<leftarrow> usbg_parse_functions K (g_path gad) g w2;
       if r3 \<noteq> err USBG_SUCCESS then Some (r3, w3)
       else do {
         (r4, w4) \<leftarrow> usbg_parse_configs K (g_path gad) g w3;
         if r4 \<noteq> err USBG_SUCCESS then Some (r4, w4)
         else usbg_parse_gadget_os_desc_binding K g w4
       }
     }
   }"

fun parse_gadgets_loop :: "'k kernel \<Rightarrow> string \<Rightarrow> string list \<Rightarrow> 'k world \<Rightarrow> (int \<times> 'k world) option" where
  "parse_gadgets_loop K path [] w = Some (err USBG_SUCCESS, w)"
| "parse_gadgets_loop K path (d # ds) w =
     (let (g, w1) = usbg_allocate_gadget K path d w
      in case g of
           None \<Rightarrow> Some (err USBG_ERROR_NO_MEM, w1)
         | Some p \<Rightarrow> do {
             (ret, w2) \<leftarrow> usbg_parse_gadget K p w1;
             if ret \<noteq> err USBG_SUCCESS then do {
               w3 \<leftarrow> usbg_free_gadget p w2;
               Some (ret, w3)
             }
             else parse_gadgets_loop K path ds (w2\<lparr>s_gadgets := s_gadgets w2 @ [p]\<rparr>)
           })"

definition usbg_parse_gadgets :: "'k kernel \<Rightarrow> string \<Rightarrow> 'k world \<Rightarrow> (int \<times> 'k world) option" where
  "usbg_parse_gadgets K path w =
     (case on_os (scandir K path file_select) w of
        (Inl e, w1) \<Rightarrow> Some (usbg_translate_error e, w1)
      | (Inr ds, w1) \<Rightarrow> parse_gadgets_loop K path ds w1)"

section \<open>UDCs and the state\<close>

fun parse_udcs_loop :: "'k kernel \<Rightarrow> string list \<Rightarrow> 'k world \<Rightarrow> int \<times> 'k world" where
  "parse_udcs_loop K [] w = (err USBG_SUCCESS, w)"
| "parse_udcs_loop K (d # ds) w =
     (let (u, w1) = usbg_allocate_udc K d w
      in case u of
           None \<Rightarrow> (err USBG_ERROR_NO_MEM, w1)
         | Some p \<Rightarrow> parse_udcs_loop K ds (w1\<lparr>s_udcs := s_udcs w1 @ [p]\<rparr>))"

definition usbg_parse_udcs :: "'k kernel \<Rightarrow> 'k world \<Rightarrow> int \<times> 'k world" where
  "usbg_parse_udcs K w =
     (case on_os (scandir K ''/sys/class/udc'' file_select) w of
        (Inl e, w1) \<Rightarrow> (usbg_translate_error e, w1)
      | (Inr ds, w1) \<Rightarrow> parse_udcs_loop K ds w1)"

definition usbg_parse_state :: "'k kernel \<Rightarrow> 'k world \<Rightarrow> (int \<times> 'k world) option" where
  "usbg_parse_state K w =
     (let (ret, w1) = usbg_parse_udcs K w
      in if ret \<noteq> err USBG_SUCCESS \<and> ret \<noteq> err USBG_ERROR_NOT_FOUND \<and> ret \<noteq> err USBG_ERROR_NO_ACCESS
         then Some (ret, w1) else usbg_parse_gadgets K (s_path w1) w1)"

text \<open>
  \<open>usbg_allocate_state\<close>: the state without objects. What the allocator hands out next is
  the environment's.
\<close>

definition empty_state :: "string \<Rightarrow> string \<Rightarrow> ptr \<Rightarrow> 'k \<Rightarrow> 'k world" where
  "empty_state configfs_path path next k =
     \<lparr>s_configfs_path = configfs_path, s_path = path, s_gadgets = [], s_udcs = [],
      gadget_at = (\<lambda>_. None), config_at = (\<lambda>_. None), function_at = (\<lambda>_. None),
      binding_at = (\<lambda>_. None), udc_at = (\<lambda>_. None), next_ptr = next, os = k\<rparr>"

definition usbg_allocate_state ::
  "'k kernel \<Rightarrow> string \<Rightarrow> string \<Rightarrow> ptr \<Rightarrow> 'k \<Rightarrow> 'k world option \<times> 'k" where
  "usbg_allocate_state K configfs_path path next k =
     (let (ok, k1) = k_malloc K k in
      if \<not> ok then (None, k1)
      else let (ok, k2) = k_malloc K k1 in
      if \<not> ok then (None, k2) else (Some (empty_state configfs_path path next k2), k2))"

text \<open>
  The result of \<open>usbg_init\<close>: a return code, and the world whose state was stored on
  success, or in which the state was freed again.
\<close>

definition usbg_init ::
  "'k kernel \<Rightarrow> string \<Rightarrow> ptr \<Rightarrow> 'k \<Rightarrow> (int \<times> 'k world option \<times> 'k) option" where
  "usbg_init K configfs_path next k =
     (let (ok, k1) = k_malloc K k; path = path2 configfs_path GADGETS_DIR in
      if \<not> ok then Some (err USBG_ERROR_NO_MEM, None, k1)
      else case k_opendir K path k1 of
          (Some e, k2) \<Rightarrow> Some (usbg_translate_error e, None, k2)
        | (None, k2) \<Rightarrow>
            let (s, k3) = usbg_allocate_state K configfs_path path next k2
            in case s of
                 None \<Rightarrow> Some (err USBG_ERROR_NO_MEM, None, k3)
               | Some w \<Rightarrow> do {
                   (ret, w1) \<leftarrow> usbg_parse_state K w;
                   if ret \<noteq> err USBG_SUCCESS then do {
                     w2 \<leftarrow> usbg_free_state w1;
                     Some (ret, None, os w2)
                   }
                   else Some (ret, Some w1, os w1)
                 })"

end
