(* ===== verification/Usbg_Insert.thy ===== *)
theory Usbg_Insert
  imports Usbg_Queries
begin

text \<open>
  The insertion macro \<open>INSERT_TAILQ_STRING_ORDER\<close> against its specification: for any queue
  of live members it inserts exactly once, and for a queue that is sorted by name it is
  the insertion of insertion sort. The queues of the library that it is used on meet the
  contract \<open>name_queue\<close>, whose clients are the lookups.
\<close>

section \<open>The macro\<close>

definition all_named :: "(ptr \<rightharpoonup> string) \<Rightarrow> ptr list \<Rightarrow> bool" where
  "all_named nm xs \<longleftrightarrow> (\<forall>p\<in>set xs. nm p \<noteq> None)"

definition key :: "(ptr \<rightharpoonup> string) \<Rightarrow> ptr \<Rightarrow> string" where
  "key nm p = the (nm p)"

lemma insert_before_loop_insort:
  assumes "all_named nm xs" "\<exists>y\<in>set xs. nx \<le> key nm y" "nx = key nm x"
  shows "insert_before_loop nm x nx xs = Some (insort_key (key nm) x xs)"
  using assms
proof (induction xs)
  case (Cons y ys)
  then obtain ny where ny: "nm y = Some ny" by (auto simp: all_named_def)
  with Cons show ?case
    by (cases "nx \<le> ny") (auto simp: all_named_def key_def not_le)
qed simp

lemma insort_key_append:
  "\<forall>y\<in>set xs. \<not> f x \<le> f y \<Longrightarrow> insort_key f x xs = xs @ [x]"
  by (induction xs) auto

lemma insert_string_order_sorted:
  assumes "all_named nm (x # xs)" "sorted (map (key nm) xs)"
  shows "insert_string_order nm x xs = Some (insort_key (key nm) x xs)"
proof (cases "xs = []")
  case False
  have live: "nm x = Some (key nm x)" "nm (hd xs) = Some (key nm (hd xs))" "nm (last xs) = Some (key nm (last xs))"
    using assms(1) False by (auto simp: all_named_def key_def)
  have "butlast xs @ [last xs] = xs" using False by simp
  then have "sorted (map (key nm) (butlast xs @ [last xs]))" using assms(2) by (simp only:)
  then have "\<forall>z\<in>set (butlast xs @ [last xs]). key nm z \<le> key nm (last xs)"
    unfolding map_append sorted_append by auto
  with \<open>butlast xs @ [last xs] = xs\<close>
  have le_last: "z \<in> set xs \<Longrightarrow> key nm z \<le> key nm (last xs)" for z by metis
  consider (front) "key nm x < key nm (hd xs)" | (rear) "\<not> key nm x < key nm (hd xs)" "key nm (last xs) < key nm x"
    | (mid) "\<not> key nm x < key nm (hd xs)" "key nm x \<le> key nm (last xs)" "\<not> key nm (last xs) < key nm x" by force
  then show ?thesis
  proof cases
    case front
    then have "insort_key (key nm) x xs = x # xs" using False by (cases xs) auto
    with front live False show ?thesis by (simp add: insert_string_order_def)
  next
    case rear
    with le_last have "\<forall>z\<in>set xs. \<not> key nm x \<le> key nm z" by fastforce
    with rear live False show ?thesis by (simp add: insert_string_order_def insort_key_append)
  next
    case mid
    moreover have "last xs \<in> set xs" using False by simp
    ultimately have "\<exists>y\<in>set xs. key nm x \<le> key nm y" by blast
    with assms(1) have "insert_before_loop nm x (key nm x) xs = Some (insort_key (key nm) x xs)"
      by (intro insert_before_loop_insort) (auto simp: all_named_def)
    with mid live False show ?thesis by (simp add: insert_string_order_def)
  qed
qed (simp add: insert_string_order_def)

text \<open>Sorted or not, the element is inserted at one place.\<close>

lemma insort_key_split: "\<exists>ys zs. xs = ys @ zs \<and> insort_key f x xs = ys @ x # zs"
proof (induction xs)
  case (Cons y ys)
  then obtain us vs where "ys = us @ vs" "insort_key f x ys = us @ x # vs" by blast
  note IH = this
  show ?case
  proof (cases "f x \<le> f y")
    case True
    then have "y # ys = [] @ y # ys" "insort_key f x (y # ys) = [] @ x # y # ys" by simp_all
    then show ?thesis by blast
  next
    case False
    with IH have "y # ys = (y # us) @ vs" "insort_key f x (y # ys) = (y # us) @ x # vs" by simp_all
    then show ?thesis by blast
  qed
qed simp

lemma insert_string_order_once:
  assumes "all_named nm (x # xs)"
  shows "\<exists>ys zs. xs = ys @ zs \<and> insert_string_order nm x xs = Some (ys @ x # zs)"
proof (cases "xs = []")
  case False
  have live: "nm x = Some (key nm x)" "nm (hd xs) = Some (key nm (hd xs))" "nm (last xs) = Some (key nm (last xs))"
    using assms False by (auto simp: all_named_def key_def)
  consider (front) "key nm x < key nm (hd xs)" | (rear) "\<not> key nm x < key nm (hd xs)" "key nm (last xs) < key nm x"
    | (mid) "\<not> key nm x < key nm (hd xs)" "key nm x \<le> key nm (last xs)" "\<not> key nm (last xs) < key nm x" by force
  then show ?thesis
  proof cases
    case front
    with live False have "insert_string_order nm x xs = Some ([] @ x # xs)" by (simp add: insert_string_order_def)
    then show ?thesis by (metis append_Nil)
  next
    case rear
    with live False have "insert_string_order nm x xs = Some (xs @ x # [])" by (simp add: insert_string_order_def)
    then show ?thesis by (metis append_Nil2)
  next
    case mid
    moreover have "last xs \<in> set xs" using False by simp
    ultimately have "\<exists>y\<in>set xs. key nm x \<le> key nm y" by blast
    with assms have "insert_before_loop nm x (key nm x) xs = Some (insort_key (key nm) x xs)"
      by (intro insert_before_loop_insort) (auto simp: all_named_def)
    with mid live False have "insert_string_order nm x xs = Some (insort_key (key nm) x xs)"
      by (simp add: insert_string_order_def)
    with insort_key_split [of xs "key nm" x] show ?thesis by auto
  qed
qed (simp add: insert_string_order_def)

lemma insert_string_order_set:
  assumes "all_named nm (x # xs)" "distinct xs" "x \<notin> set xs"
  obtains r where "insert_string_order nm x xs = Some r" "set r = insert x (set xs)" "distinct r"
  using insert_string_order_once [OF assms(1)] assms(2,3) that by auto

text \<open>The macro looks at the names of the members and of the new element only.\<close>

lemma all_named_cong: "(\<And>p. p \<in> set xs \<Longrightarrow> nm p = nm' p) \<Longrightarrow> all_named nm xs = all_named nm' xs"
  by (auto simp: all_named_def)

section \<open>Queues in the order of names\<close>

text \<open>
  A queue of a world: \<open>name_of\<close> reads the name of a member, \<open>members\<close> the queue, and
  \<open>set_members\<close> replaces it. What the library needs is that replacing the queue changes
  no name.
\<close>

locale name_queue =
  fixes name_of :: "'w \<Rightarrow> ptr \<rightharpoonup> string"
    and members :: "'w \<Rightarrow> ptr list"
    and set_members :: "ptr list \<Rightarrow> 'w \<Rightarrow> 'w"
    and there :: "'w \<Rightarrow> bool"
  assumes members_set: "there w \<Longrightarrow> members (set_members xs w) = xs"
    and name_set: "there w \<Longrightarrow> name_of (set_members xs w) = name_of w"
begin

definition in_order :: "'w \<Rightarrow> bool" where
  "in_order w \<longleftrightarrow> all_named (name_of w) (members w) \<and> sorted (map (key (name_of w)) (members w))"

definition find_name :: "string \<Rightarrow> 'w \<Rightarrow> ptr option" where
  "find_name n w = find (\<lambda>p. key (name_of w) p = n) (members w)"

lemma insert_in_order:
  assumes "there w" "in_order w" "name_of w p \<noteq> None"
    and "insert_string_order (name_of w) p (members w) = Some xs"
  shows "in_order (set_members xs w)"
proof -
  have "all_named (name_of w) (p # members w)" using assms(2,3) by (auto simp: all_named_def in_order_def)
  with assms(2,4) have "xs = insort_key (key (name_of w)) p (members w)"
    by (simp add: insert_string_order_sorted in_order_def)
  with assms(2,3) show ?thesis
    unfolding in_order_def members_set [OF assms(1)] name_set [OF assms(1)]
    by (auto simp: all_named_def set_insort_key sorted_insort_key)
qed

lemma remove_in_order:
  assumes "there w" "in_order w"
  shows "in_order (set_members (remove1 p (members w)) w)"
proof -
  have "sorted (map (key (name_of w)) (remove1 p (members w)))"
    using assms(2) by (auto simp: in_order_def sorted_map_remove1)
  with assms show ?thesis
    unfolding in_order_def members_set [OF assms(1)] name_set [OF assms(1)]
    by (auto simp: all_named_def dest: notin_set_remove1)
qed

text \<open>A new name is found where it was inserted, and other names as before.\<close>

lemma find_name_insert:
  assumes "there w" "all_named (name_of w) (p # members w)" "find_name n w = None"
    and "name_of w p = Some n" "insert_string_order (name_of w) p (members w) = Some xs"
  shows "find_name n (set_members xs w) = Some p"
    "m \<noteq> n \<Longrightarrow> find_name m (set_members xs w) = find_name m w"
proof -
  obtain ys zs where sp: "members w = ys @ zs" "xs = ys @ p # zs"
    using insert_string_order_once [OF assms(2)] assms(5) by auto
  have "\<forall>q\<in>set ys. key (name_of w) q \<noteq> n"
    using assms(3) sp(1) by (auto simp: find_name_def find_None_iff)
  then have "find (\<lambda>q. key (name_of w) q = n) (ys @ p # zs) = Some p"
    using assms(4) by (induction ys) (auto simp: key_def)
  then show "find_name n (set_members xs w) = Some p"
    unfolding find_name_def members_set [OF assms(1)] name_set [OF assms(1)] sp(2) .
  assume "m \<noteq> n"
  then have "find (\<lambda>q. key (name_of w) q = m) (ys @ p # zs) = find (\<lambda>q. key (name_of w) q = m) (ys @ zs)"
    using assms(4) by (induction ys) (auto simp: key_def)
  then show "find_name m (set_members xs w) = find_name m w"
    unfolding find_name_def members_set [OF assms(1)] name_set [OF assms(1)] sp(2) sp(1) .
qed

end

text \<open>The queues of the library.\<close>

definition configs_of :: "ptr \<Rightarrow> 'k world \<Rightarrow> ptr list" where
  "configs_of g w = (case gadget_at w g of Some gad \<Rightarrow> g_configs gad | None \<Rightarrow> [])"

definition functions_of :: "ptr \<Rightarrow> 'k world \<Rightarrow> ptr list" where
  "functions_of g w = (case gadget_at w g of Some gad \<Rightarrow> g_functions gad | None \<Rightarrow> [])"

definition bindings_of :: "ptr \<Rightarrow> 'k world \<Rightarrow> ptr list" where
  "bindings_of c w = (case config_at w c of Some conf \<Rightarrow> c_bindings conf | None \<Rightarrow> [])"

definition set_configs :: "ptr \<Rightarrow> ptr list \<Rightarrow> 'k world \<Rightarrow> 'k world" where
  "set_configs g xs w = the (upd_gadget g (g_configs_update (\<lambda>_. xs)) w)"

definition set_functions :: "ptr \<Rightarrow> ptr list \<Rightarrow> 'k world \<Rightarrow> 'k world" where
  "set_functions g xs w = the (upd_gadget g (g_functions_update (\<lambda>_. xs)) w)"

definition set_bindings :: "ptr \<Rightarrow> ptr list \<Rightarrow> 'k world \<Rightarrow> 'k world" where
  "set_bindings c xs w = the (upd_config c (c_bindings_update (\<lambda>_. xs)) w)"

interpretation gadgets_q: name_queue gadget_name_at s_gadgets "\<lambda>xs. s_gadgets_update (\<lambda>_. xs)" "\<lambda>_. True"
  by unfold_locales (simp_all add: gadget_name_at_def fun_eq_iff)

interpretation configs_q: name_queue config_name_at "configs_of g" "set_configs g" "\<lambda>w. g \<in> dom (gadget_at w)"
  by unfold_locales (auto simp: config_name_at_def configs_of_def set_configs_def upd_gadget_def fun_eq_iff)

interpretation functions_q: name_queue function_name_at "functions_of g" "set_functions g"
  "\<lambda>w. g \<in> dom (gadget_at w)"
  by unfold_locales (auto simp: function_name_at_def functions_of_def set_functions_def upd_gadget_def fun_eq_iff)

interpretation bindings_q: name_queue binding_name_at "bindings_of c" "set_bindings c"
  "\<lambda>w. c \<in> dom (config_at w)"
  by unfold_locales (auto simp: binding_name_at_def bindings_of_def set_bindings_def upd_config_def fun_eq_iff)

end
