(* ===== verification/Usbg_Invariant.thy ===== *)
theory Usbg_Invariant
  imports Usbg_Parse Usbg_Insert
begin

text \<open>
  The heap invariant: every object is a member of exactly one queue, that of the parent it
  points to, and every pointer that the code follows leads to a live object. While an
  operation builds or destroys an object, the object is in no queue; it is then one of the
  pending pointers, the parameter \<open>P\<close> of the invariant.
\<close>

section \<open>Ownership\<close>

text \<open>
  \<open>xs\<close> lists, without repetition, the live objects that belong to a parent, except
  the pending ones.
\<close>

definition owns :: "(ptr \<rightharpoonup> 'a) \<Rightarrow> ('a \<Rightarrow> bool) \<Rightarrow> ptr set \<Rightarrow> ptr list \<Rightarrow> bool" where
  "owns heap belongs P xs \<longleftrightarrow>
     distinct xs \<and> (\<forall>p. p \<in> set xs \<longleftrightarrow> p \<notin> P \<and> (\<exists>x. heap p = Some x \<and> belongs x))"

lemma owns_live: "owns heap B P xs \<Longrightarrow> p \<in> set xs \<Longrightarrow> \<exists>x. heap p = Some x \<and> B x"
  by (auto simp: owns_def)

lemma owns_distinct: "owns heap B P xs \<Longrightarrow> distinct xs"
  by (simp add: owns_def)

lemma owns_member: "owns heap B P xs \<Longrightarrow> heap p = Some x \<Longrightarrow> B x \<Longrightarrow> p \<notin> P \<Longrightarrow> p \<in> set xs"
  by (auto simp: owns_def)

lemma owns_Nil: "(\<And>p x. heap p = Some x \<Longrightarrow> B x \<Longrightarrow> p \<in> P) \<Longrightarrow> owns heap B P []"
  by (auto simp: owns_def)

lemma owns_cong:
  assumes "\<And>p. p \<notin> P \<Longrightarrow> (\<exists>x. heap p = Some x \<and> B x) = (\<exists>x. heap' p = Some x \<and> B x)"
  shows "owns heap B P xs = owns heap' B P xs"
  using assms by (simp add: owns_def) blast

text \<open>A pending object does not matter to a queue; a new one is pending at first.\<close>

lemma owns_pend_upd [simp]: "owns (heap(p := y)) B (insert p P) xs = owns heap B (insert p P) xs"
  by (auto simp: owns_def)

lemma owns_pend_fresh: "heap p = None \<Longrightarrow> owns heap B (insert p P) xs = owns heap B P xs"
  unfolding owns_def by (metis insert_iff option.distinct(1))

text \<open>An object that is pending can be freed.\<close>

lemma owns_free [simp]: "owns (heap(p := None)) B P xs = owns heap B (insert p P) xs"
  unfolding owns_def by (metis fun_upd_apply insert_iff option.distinct(1))

text \<open>It is inserted into the queue of its parent,\<close>

lemma owns_insert:
  assumes "owns heap B (insert p P) xs" "heap p = Some x" "B x" "p \<notin> P"
    and "set ys = insert p (set xs)" "distinct ys"
  shows "owns heap B P ys"
  using assms by (auto simp: owns_def)

text \<open>and is not a matter of the queues of others.\<close>

lemma owns_other: "(\<And>x. heap p = Some x \<Longrightarrow> \<not> B x) \<Longrightarrow> owns heap B (insert p P) xs = owns heap B P xs"
  unfolding owns_def by (metis insert_iff)

text \<open>A member that is unlinked is pending.\<close>

lemma owns_remove:
  assumes "owns heap B P xs"
  shows "owns heap B (insert p P) (remove1 p xs)"
  using assms by (auto simp: owns_def)

lemma owns_update:
  assumes "heap p = Some y" "B x = B y"
  shows "owns (heap(p \<mapsto> x)) B P xs = owns heap B P xs"
proof (rule owns_cong)
  fix q
  show "(\<exists>z. (heap(p \<mapsto> x)) q = Some z \<and> B z) = (\<exists>z. heap q = Some z \<and> B z)"
    using assms by (cases "q = p") simp_all
qed

section \<open>The invariant\<close>

definition wf_roots :: "ptr set \<Rightarrow> 'k world \<Rightarrow> bool" where
  "wf_roots P w \<longleftrightarrow>
     owns (gadget_at w) (\<lambda>_. True) P (s_gadgets w) \<and> owns (udc_at w) (\<lambda>_. True) P (s_udcs w)"

definition wf_gadget :: "ptr set \<Rightarrow> 'k world \<Rightarrow> ptr \<Rightarrow> usbg_gadget \<Rightarrow> bool" where
  "wf_gadget P w g gad \<longleftrightarrow>
     owns (config_at w) (\<lambda>c. c_parent c = g) P (g_configs gad) \<and>
     owns (function_at w) (\<lambda>f. f_parent f = g) P (g_functions gad) \<and>
     (\<forall>u. g_udc gad = Some u \<longrightarrow> u \<in> dom (udc_at w))"

definition wf_config :: "ptr set \<Rightarrow> 'k world \<Rightarrow> ptr \<Rightarrow> usbg_config \<Rightarrow> bool" where
  "wf_config P w c conf \<longleftrightarrow>
     c_parent conf \<in> dom (gadget_at w) \<and> owns (binding_at w) (\<lambda>b. b_parent b = c) P (c_bindings conf)"

definition wf_function :: "'k world \<Rightarrow> usbg_function \<Rightarrow> bool" where
  "wf_function w fn \<longleftrightarrow> f_parent fn \<in> dom (gadget_at w) \<and> ext_fits fn"

definition wf_binding :: "'k world \<Rightarrow> usbg_binding \<Rightarrow> bool" where
  "wf_binding w bn \<longleftrightarrow> b_parent bn \<in> dom (config_at w)"

definition fresh_from :: "'k world \<Rightarrow> bool" where
  "fresh_from w \<longleftrightarrow>
     (\<forall>p \<ge> next_ptr w. gadget_at w p = None \<and> config_at w p = None \<and> function_at w p = None
        \<and> binding_at w p = None \<and> udc_at w p = None)"

text \<open>A pointer leads to an object of one type at most.\<close>

definition one_kind :: "'k world \<Rightarrow> bool" where
  "one_kind w \<longleftrightarrow>
     (\<forall>p. (gadget_at w p \<noteq> None \<longrightarrow> config_at w p = None \<and> function_at w p = None \<and> binding_at w p = None
              \<and> udc_at w p = None)
        \<and> (config_at w p \<noteq> None \<longrightarrow> function_at w p = None \<and> binding_at w p = None \<and> udc_at w p = None)
        \<and> (function_at w p \<noteq> None \<longrightarrow> binding_at w p = None \<and> udc_at w p = None)
        \<and> (binding_at w p \<noteq> None \<longrightarrow> udc_at w p = None))"

definition heap_ok :: "ptr set \<Rightarrow> 'k world \<Rightarrow> bool" where
  "heap_ok P w \<longleftrightarrow> wf_roots P w
     \<and> (\<forall>g gad. gadget_at w g = Some gad \<longrightarrow> wf_gadget P w g gad)
     \<and> (\<forall>c conf. config_at w c = Some conf \<longrightarrow> wf_config P w c conf)
     \<and> (\<forall>f fn. function_at w f = Some fn \<longrightarrow> wf_function w fn)
     \<and> (\<forall>b bn. binding_at w b = Some bn \<longrightarrow> wf_binding w bn)
     \<and> fresh_from w \<and> one_kind w"

abbreviation heap_wf :: "'k world \<Rightarrow> bool" where
  "heap_wf w \<equiv> heap_ok {} w"

lemmas wf_defs = heap_ok_def wf_roots_def wf_gadget_def wf_config_def wf_function_def wf_binding_def

lemma wfpD:
  assumes "heap_ok P w"
  shows "owns (gadget_at w) (\<lambda>_. True) P (s_gadgets w)" "owns (udc_at w) (\<lambda>_. True) P (s_udcs w)"
    "gadget_at w g = Some gad \<Longrightarrow> owns (config_at w) (\<lambda>c. c_parent c = g) P (g_configs gad)"
    "gadget_at w g = Some gad \<Longrightarrow> owns (function_at w) (\<lambda>f. f_parent f = g) P (g_functions gad)"
    "gadget_at w g = Some gad \<Longrightarrow> g_udc gad = Some u \<Longrightarrow> \<exists>udc. udc_at w u = Some udc"
    "config_at w c = Some conf \<Longrightarrow> \<exists>gad. gadget_at w (c_parent conf) = Some gad"
    "config_at w c = Some conf \<Longrightarrow> owns (binding_at w) (\<lambda>b. b_parent b = c) P (c_bindings conf)"
    "function_at w f = Some fn \<Longrightarrow> \<exists>gad. gadget_at w (f_parent fn) = Some gad"
    "function_at w f = Some fn \<Longrightarrow> ext_fits fn"
    "binding_at w b = Some bn \<Longrightarrow> \<exists>conf. config_at w (b_parent bn) = Some conf"
    "fresh_from w" "one_kind w"
  using assms by (auto simp: wf_defs)

lemma fresh_fromD:
  assumes "fresh_from w" "next_ptr w \<le> p"
  shows "gadget_at w p = None" "config_at w p = None" "function_at w p = None" "binding_at w p = None"
    "udc_at w p = None"
  using assms by (simp_all add: fresh_from_def)

lemma wfp_os [simp]: "heap_ok P (w\<lparr>os := k\<rparr>) = heap_ok P w"
  by (simp add: wf_defs fresh_from_def one_kind_def)

lemma wfp_paths [simp]: "heap_ok P (w\<lparr>s_path := a\<rparr>) = heap_ok P w"
  by (simp add: wf_defs fresh_from_def one_kind_def)

lemma one_kindD:
  assumes "one_kind w"
  shows "gadget_at w p = Some gad \<Longrightarrow> config_at w p = None \<and> function_at w p = None \<and> binding_at w p = None \<and> udc_at w p = None"
    "config_at w p = Some c \<Longrightarrow> gadget_at w p = None \<and> function_at w p = None \<and> binding_at w p = None \<and> udc_at w p = None"
    "function_at w p = Some f \<Longrightarrow> gadget_at w p = None \<and> config_at w p = None \<and> binding_at w p = None \<and> udc_at w p = None"
    "binding_at w p = Some b \<Longrightarrow> gadget_at w p = None \<and> config_at w p = None \<and> function_at w p = None \<and> udc_at w p = None"
    "udc_at w p = Some u \<Longrightarrow> gadget_at w p = None \<and> config_at w p = None \<and> function_at w p = None \<and> binding_at w p = None"
  using assms [unfolded one_kind_def, rule_format, of p]
  by (cases "gadget_at w p"; cases "config_at w p"; cases "function_at w p"; cases "binding_at w p";
      cases "udc_at w p"; simp)+

section \<open>Allocation\<close>

lemma one_kind_new:
  assumes "one_kind w" "fresh_from w" "p = next_ptr w"
  shows "one_kind (w\<lparr>next_ptr := n, gadget_at := (gadget_at w)(p \<mapsto> gad)\<rparr>)"
    "one_kind (w\<lparr>next_ptr := n, config_at := (config_at w)(p \<mapsto> conf)\<rparr>)"
    "one_kind (w\<lparr>next_ptr := n, function_at := (function_at w)(p \<mapsto> fn)\<rparr>)"
    "one_kind (w\<lparr>next_ptr := n, binding_at := (binding_at w)(p \<mapsto> bn)\<rparr>)"
    "one_kind (w\<lparr>next_ptr := n, udc_at := (udc_at w)(p \<mapsto> udc)\<rparr>)"
  using assms(1) fresh_fromD [OF assms(2), of p] assms(3) unfolding one_kind_def by auto

lemma wfp_new_gadget:
  assumes "heap_ok P w" "p = next_ptr w" "g_configs gad = []" "g_functions gad = []" "g_udc gad = None"
  shows "heap_ok (insert p P) (w\<lparr>next_ptr := Suc p, gadget_at := (gadget_at w)(p \<mapsto> gad)\<rparr>)"
proof -
  note fresh = fresh_fromD [OF wfpD(11) [OF assms(1)], of p]
  have no_child: "config_at w c = Some conf \<Longrightarrow> c_parent conf \<noteq> p"
    "function_at w f = Some fn \<Longrightarrow> f_parent fn \<noteq> p" for c conf f fn
    using wfpD(6,8) [OF assms(1)] fresh assms(2) by fastforce+
  show ?thesis
    using assms fresh no_child wfpD(11) [OF assms(1)]
      one_kind_new [OF wfpD(12) [OF assms(1)] wfpD(11) [OF assms(1)] assms(2)]
    by (auto simp: wf_defs fresh_from_def owns_pend_fresh intro!: owns_Nil)
qed

lemma wfp_new_config:
  assumes "heap_ok P w" "p = next_ptr w" "c_bindings conf = []" "c_parent conf \<in> dom (gadget_at w)"
  shows "heap_ok (insert p P) (w\<lparr>next_ptr := Suc p, config_at := (config_at w)(p \<mapsto> conf)\<rparr>)"
proof -
  note fresh = fresh_fromD [OF wfpD(11) [OF assms(1)], of p]
  have no_child: "binding_at w b = Some bn \<Longrightarrow> b_parent bn \<noteq> p" for b bn
    using wfpD(10) [OF assms(1)] fresh assms(2) by fastforce
  show ?thesis
    using assms fresh no_child wfpD(11) [OF assms(1)]
      one_kind_new [OF wfpD(12) [OF assms(1)] wfpD(11) [OF assms(1)] assms(2)]
    by (auto simp: wf_defs fresh_from_def owns_pend_fresh intro!: owns_Nil)
qed

lemma wfp_new_function:
  assumes "heap_ok P w" "p = next_ptr w" "f_parent fn \<in> dom (gadget_at w)" "ext_fits fn"
  shows "heap_ok (insert p P) (w\<lparr>next_ptr := Suc p, function_at := (function_at w)(p \<mapsto> fn)\<rparr>)"
  using assms fresh_fromD [OF wfpD(11) [OF assms(1)], of p] wfpD(11) [OF assms(1)]
      one_kind_new [OF wfpD(12) [OF assms(1)] wfpD(11) [OF assms(1)] assms(2)]
  by (auto simp: wf_defs fresh_from_def owns_pend_fresh)

lemma wfp_new_binding:
  assumes "heap_ok P w" "p = next_ptr w" "b_parent bn \<in> dom (config_at w)"
  shows "heap_ok (insert p P) (w\<lparr>next_ptr := Suc p, binding_at := (binding_at w)(p \<mapsto> bn)\<rparr>)"
  using assms fresh_fromD [OF wfpD(11) [OF assms(1)], of p] wfpD(11) [OF assms(1)]
      one_kind_new [OF wfpD(12) [OF assms(1)] wfpD(11) [OF assms(1)] assms(2)]
  by (auto simp: wf_defs fresh_from_def owns_pend_fresh)

lemma wfp_new_udc:
  assumes "heap_ok P w" "p = next_ptr w"
  shows "heap_ok (insert p P) (w\<lparr>next_ptr := Suc p, udc_at := (udc_at w)(p \<mapsto> u)\<rparr>)"
  using assms fresh_fromD [OF wfpD(11) [OF assms(1)], of p] wfpD(11) [OF assms(1)]
      one_kind_new [OF wfpD(12) [OF assms(1)] wfpD(11) [OF assms(1)] assms(2)]
  by (auto simp: wf_defs fresh_from_def owns_pend_fresh)

section \<open>Updates that keep parents and queues\<close>

lemma fresh_ok: "fresh_from w \<Longrightarrow> gadget_at w p = Some gad \<Longrightarrow> p < next_ptr w"
  "fresh_from w \<Longrightarrow> config_at w p = Some conf \<Longrightarrow> p < next_ptr w"
  "fresh_from w \<Longrightarrow> function_at w p = Some fn \<Longrightarrow> p < next_ptr w"
  "fresh_from w \<Longrightarrow> binding_at w p = Some bn \<Longrightarrow> p < next_ptr w"
  "fresh_from w \<Longrightarrow> udc_at w p = Some u \<Longrightarrow> p < next_ptr w"
  by (force simp: fresh_from_def not_less [symmetric])+

lemma alloc_ok_gadget:
  assumes "heap_ok P w" "gadget_at w p = Some gad"
  shows "fresh_from (w\<lparr>gadget_at := (gadget_at w)(p \<mapsto> gad')\<rparr>)" "one_kind (w\<lparr>gadget_at := (gadget_at w)(p \<mapsto> gad')\<rparr>)"
  using wfpD(11,12) [OF assms(1)] one_kindD(1) [OF wfpD(12) [OF assms(1)] assms(2)] fresh_ok(1) [OF wfpD(11) [OF assms(1)] assms(2)]
  by (auto simp: fresh_from_def one_kind_def)

lemma alloc_ok_config:
  assumes "heap_ok P w" "config_at w p = Some gad"
  shows "fresh_from (w\<lparr>config_at := (config_at w)(p \<mapsto> gad')\<rparr>)" "one_kind (w\<lparr>config_at := (config_at w)(p \<mapsto> gad')\<rparr>)"
  using wfpD(11,12) [OF assms(1)] one_kindD(2) [OF wfpD(12) [OF assms(1)] assms(2)] fresh_ok(2) [OF wfpD(11) [OF assms(1)] assms(2)]
  by (auto simp: fresh_from_def one_kind_def)

lemma alloc_ok_function:
  assumes "heap_ok P w" "function_at w p = Some gad"
  shows "fresh_from (w\<lparr>function_at := (function_at w)(p \<mapsto> gad')\<rparr>)" "one_kind (w\<lparr>function_at := (function_at w)(p \<mapsto> gad')\<rparr>)"
  using wfpD(11,12) [OF assms(1)] one_kindD(3) [OF wfpD(12) [OF assms(1)] assms(2)] fresh_ok(3) [OF wfpD(11) [OF assms(1)] assms(2)]
  by (auto simp: fresh_from_def one_kind_def)

lemma alloc_ok_udc:
  assumes "heap_ok P w" "udc_at w p = Some gad"
  shows "fresh_from (w\<lparr>udc_at := (udc_at w)(p \<mapsto> gad')\<rparr>)" "one_kind (w\<lparr>udc_at := (udc_at w)(p \<mapsto> gad')\<rparr>)"
  using wfpD(11,12) [OF assms(1)] one_kindD(5) [OF wfpD(12) [OF assms(1)] assms(2)] fresh_ok(5) [OF wfpD(11) [OF assms(1)] assms(2)]
  by (auto simp: fresh_from_def one_kind_def)

lemma wfp_set_gadget:
  assumes "heap_ok P w" "gadget_at w g = Some gad" "g_configs gad' = g_configs gad" "g_functions gad' = g_functions gad"
    and "\<And>u. g_udc gad' = Some u \<Longrightarrow> u \<in> dom (udc_at w)"
  shows "heap_ok P (w\<lparr>gadget_at := (gadget_at w)(g \<mapsto> gad')\<rparr>)"
  using assms alloc_ok_gadget [OF assms(1,2), of gad'] by (auto simp: wf_defs owns_update)

lemma wfp_set_function:
  assumes "heap_ok P w" "function_at w f = Some fn" "f_parent fn' = f_parent fn" "ext_fits fn'"
  shows "heap_ok P (w\<lparr>function_at := (function_at w)(f \<mapsto> fn')\<rparr>)"
  using assms alloc_ok_function [OF assms(1,2), of fn'] by (auto simp: wf_defs owns_update)

lemma wfp_set_udc:
  assumes "heap_ok P w" "udc_at w u = Some udc"
  shows "heap_ok P (w\<lparr>udc_at := (udc_at w)(u \<mapsto> udc')\<rparr>)"
  using assms alloc_ok_udc [OF assms, of udc'] by (auto simp: wf_defs owns_update)

section \<open>Linking\<close>

lemma wfp_link_gadget:
  assumes "heap_ok (insert p P) w" "gadget_at w p = Some gad" "p \<notin> P"
    and "set gs = insert p (set (s_gadgets w))" "distinct gs"
  shows "heap_ok P (w\<lparr>s_gadgets := gs\<rparr>)"
  using assms one_kindD(1) [OF wfpD(12) [OF assms(1)] assms(2)]
  by (auto simp: wf_defs fresh_from_def one_kind_def owns_pend_fresh intro: owns_insert)

lemma wfp_link_udc:
  assumes "heap_ok (insert p P) w" "udc_at w p = Some u" "p \<notin> P"
    and "set us = insert p (set (s_udcs w))" "distinct us"
  shows "heap_ok P (w\<lparr>s_udcs := us\<rparr>)"
  using assms one_kindD(5) [OF wfpD(12) [OF assms(1)] assms(2)]
  by (auto simp: wf_defs fresh_from_def one_kind_def owns_pend_fresh intro: owns_insert)

lemma wfp_link_config:
  assumes "heap_ok (insert p P) w" "config_at w p = Some conf" "c_parent conf = g" "gadget_at w g = Some gad" "p \<notin> P"
    and "set cs = insert p (set (g_configs gad))" "distinct cs"
  shows "heap_ok P (w\<lparr>gadget_at := (gadget_at w)(g \<mapsto> gad\<lparr>g_configs := cs\<rparr>)\<rparr>)"
proof -
  note kinds = one_kindD(2) [OF wfpD(12) [OF assms(1)] assms(2)]
  have own: "owns (config_at w) (\<lambda>c. c_parent c = g) P cs"
    using wfpD(3) [OF assms(1,4)] assms(2,3,5,6,7) by (rule owns_insert)
  have other: "owns (config_at w) (\<lambda>c. c_parent c = h) P xs" if "h \<noteq> g"
    "owns (config_at w) (\<lambda>c. c_parent c = h) (insert p P) xs" for h xs
    using that assms(2,3) owns_other [of "config_at w" p "\<lambda>c. c_parent c = h" P xs] by auto
  show ?thesis
    using assms kinds own other alloc_ok_gadget [OF assms(1,4), of "gad\<lparr>g_configs := cs\<rparr>"]
    by (auto simp: wf_defs owns_pend_fresh owns_update)
qed

lemma wfp_link_function:
  assumes "heap_ok (insert p P) w" "function_at w p = Some fn" "f_parent fn = g" "gadget_at w g = Some gad" "p \<notin> P"
    and "set fs = insert p (set (g_functions gad))" "distinct fs"
  shows "heap_ok P (w\<lparr>gadget_at := (gadget_at w)(g \<mapsto> gad\<lparr>g_functions := fs\<rparr>)\<rparr>)"
proof -
  note kinds = one_kindD(3) [OF wfpD(12) [OF assms(1)] assms(2)]
  have own: "owns (function_at w) (\<lambda>c. f_parent c = g) P fs"
    using wfpD(4) [OF assms(1,4)] assms(2,3,5,6,7) by (rule owns_insert)
  have other: "owns (function_at w) (\<lambda>c. f_parent c = h) P xs" if "h \<noteq> g"
    "owns (function_at w) (\<lambda>c. f_parent c = h) (insert p P) xs" for h xs
    using that assms(2,3) owns_other [of "function_at w" p "\<lambda>c. f_parent c = h" P xs] by auto
  show ?thesis
    using assms kinds own other alloc_ok_gadget [OF assms(1,4), of "gad\<lparr>g_functions := fs\<rparr>"]
    by (auto simp: wf_defs owns_pend_fresh owns_update)
qed

lemma wfp_link_binding:
  assumes "heap_ok (insert p P) w" "binding_at w p = Some bn" "b_parent bn = c" "config_at w c = Some conf" "p \<notin> P"
    and "set bs = insert p (set (c_bindings conf))" "distinct bs"
  shows "heap_ok P (w\<lparr>config_at := (config_at w)(c \<mapsto> conf\<lparr>c_bindings := bs\<rparr>)\<rparr>)"
proof -
  note kinds = one_kindD(4) [OF wfpD(12) [OF assms(1)] assms(2)]
  have own: "owns (binding_at w) (\<lambda>b. b_parent b = c) P bs"
    using wfpD(7) [OF assms(1,4)] assms(2,3,5,6,7) by (rule owns_insert)
  have other: "owns (binding_at w) (\<lambda>b. b_parent b = h) P xs" if "h \<noteq> c"
    "owns (binding_at w) (\<lambda>b. b_parent b = h) (insert p P) xs" for h xs
    using that assms(2,3) owns_other [of "binding_at w" p "\<lambda>b. b_parent b = h" P xs] by auto
  show ?thesis
    using assms kinds own other alloc_ok_config [OF assms(1,4), of "conf\<lparr>c_bindings := bs\<rparr>"]
    by (auto simp: wf_defs owns_pend_fresh owns_update)
qed

section \<open>Unlinking\<close>

lemma wfp_unlink_gadget:
  assumes "heap_ok P w" "gadget_at w p = Some gad"
  shows "heap_ok (insert p P) (w\<lparr>s_gadgets := remove1 p (s_gadgets w)\<rparr>)"
  using assms one_kindD(1) [OF wfpD(12) [OF assms(1)] assms(2)]
  by (auto simp: wf_defs fresh_from_def one_kind_def owns_pend_fresh intro: owns_remove)

lemma wfp_unlink_config:
  assumes "heap_ok P w" "config_at w p = Some conf" "c_parent conf = g" "gadget_at w g = Some gad"
  shows "heap_ok (insert p P) (w\<lparr>gadget_at := (gadget_at w)(g \<mapsto> gad\<lparr>g_configs := remove1 p (g_configs gad)\<rparr>)\<rparr>)"
proof -
  note kinds = one_kindD(2) [OF wfpD(12) [OF assms(1)] assms(2)]
  have other: "owns (config_at w) (\<lambda>c. c_parent c = h) (insert p P) xs = owns (config_at w) (\<lambda>c. c_parent c = h) P xs"
    if "h \<noteq> g" for h xs
    using that assms(2,3) owns_other [of "config_at w" p "\<lambda>c. c_parent c = h" P xs] by auto
  show ?thesis
    using assms kinds other owns_remove [OF wfpD(3) [OF assms(1,4)], of p]
      alloc_ok_gadget [OF assms(1,4), of "gad\<lparr>g_configs := remove1 p (g_configs gad)\<rparr>"]
    by (auto simp: wf_defs owns_pend_fresh owns_update)
qed

lemma wfp_unlink_function:
  assumes "heap_ok P w" "function_at w p = Some fn" "f_parent fn = g" "gadget_at w g = Some gad"
  shows "heap_ok (insert p P) (w\<lparr>gadget_at := (gadget_at w)(g \<mapsto> gad\<lparr>g_functions := remove1 p (g_functions gad)\<rparr>)\<rparr>)"
proof -
  note kinds = one_kindD(3) [OF wfpD(12) [OF assms(1)] assms(2)]
  have other: "owns (function_at w) (\<lambda>c. f_parent c = h) (insert p P) xs = owns (function_at w) (\<lambda>c. f_parent c = h) P xs"
    if "h \<noteq> g" for h xs
    using that assms(2,3) owns_other [of "function_at w" p "\<lambda>c. f_parent c = h" P xs] by auto
  show ?thesis
    using assms kinds other owns_remove [OF wfpD(4) [OF assms(1,4)], of p]
      alloc_ok_gadget [OF assms(1,4), of "gad\<lparr>g_functions := remove1 p (g_functions gad)\<rparr>"]
    by (auto simp: wf_defs owns_pend_fresh owns_update)
qed

lemma wfp_unlink_binding:
  assumes "heap_ok P w" "binding_at w p = Some bn" "b_parent bn = c" "config_at w c = Some conf"
  shows "heap_ok (insert p P) (w\<lparr>config_at := (config_at w)(c \<mapsto> conf\<lparr>c_bindings := remove1 p (c_bindings conf)\<rparr>)\<rparr>)"
proof -
  note kinds = one_kindD(4) [OF wfpD(12) [OF assms(1)] assms(2)]
  have other: "owns (binding_at w) (\<lambda>b. b_parent b = h) (insert p P) xs = owns (binding_at w) (\<lambda>b. b_parent b = h) P xs"
    if "h \<noteq> c" for h xs
    using that assms(2,3) owns_other [of "binding_at w" p "\<lambda>b. b_parent b = h" P xs] by auto
  show ?thesis
    using assms kinds other owns_remove [OF wfpD(7) [OF assms(1,4)], of p]
      alloc_ok_config [OF assms(1,4), of "conf\<lparr>c_bindings := remove1 p (c_bindings conf)\<rparr>"]
    by (auto simp: wf_defs owns_pend_fresh owns_update)
qed

section \<open>Freeing\<close>

lemma fresh_free:
  "fresh_from w \<Longrightarrow> fresh_from (w\<lparr>gadget_at := (gadget_at w)(p := None)\<rparr>)"
  "fresh_from w \<Longrightarrow> fresh_from (w\<lparr>config_at := (config_at w)(p := None)\<rparr>)"
  "fresh_from w \<Longrightarrow> fresh_from (w\<lparr>function_at := (function_at w)(p := None)\<rparr>)"
  "fresh_from w \<Longrightarrow> fresh_from (w\<lparr>binding_at := (binding_at w)(p := None)\<rparr>)"
  "one_kind w \<Longrightarrow> one_kind (w\<lparr>gadget_at := (gadget_at w)(p := None)\<rparr>)"
  "one_kind w \<Longrightarrow> one_kind (w\<lparr>config_at := (config_at w)(p := None)\<rparr>)"
  "one_kind w \<Longrightarrow> one_kind (w\<lparr>function_at := (function_at w)(p := None)\<rparr>)"
  "one_kind w \<Longrightarrow> one_kind (w\<lparr>binding_at := (binding_at w)(p := None)\<rparr>)"
  by (auto simp: fresh_from_def one_kind_def)

lemma wfp_free_binding:
  assumes "heap_ok (insert p P) w" "binding_at w p = Some bn"
  shows "heap_ok P (w\<lparr>binding_at := (binding_at w)(p := None)\<rparr>)"
  using assms one_kindD(4) [OF wfpD(12) [OF assms(1)] assms(2)] fresh_free(4,8) [of w p]
  by (auto simp: wf_defs owns_pend_fresh)

lemma wfp_free_function:
  assumes "heap_ok (insert p P) w" "function_at w p = Some fn"
  shows "heap_ok P (w\<lparr>function_at := (function_at w)(p := None)\<rparr>)"
  using assms one_kindD(3) [OF wfpD(12) [OF assms(1)] assms(2)] fresh_free(3,7) [of w p]
  by (auto simp: wf_defs owns_pend_fresh)

text \<open>An object without children can be freed.\<close>

lemma wfp_free_config:
  assumes "heap_ok (insert p P) w" "config_at w p = Some conf" "\<And>b bn. binding_at w b = Some bn \<Longrightarrow> b_parent bn \<noteq> p"
  shows "heap_ok P (w\<lparr>config_at := (config_at w)(p := None)\<rparr>)"
  using assms one_kindD(2) [OF wfpD(12) [OF assms(1)] assms(2)] fresh_free(2,6) [of w p]
  by (auto simp: wf_defs owns_pend_fresh)

lemma wfp_free_gadget:
  assumes "heap_ok (insert p P) w" "gadget_at w p = Some gad"
    and "\<And>c conf. config_at w c = Some conf \<Longrightarrow> c_parent conf \<noteq> p"
    and "\<And>f fn. function_at w f = Some fn \<Longrightarrow> f_parent fn \<noteq> p"
  shows "heap_ok P (w\<lparr>gadget_at := (gadget_at w)(p := None)\<rparr>)"
  using assms one_kindD(1) [OF wfpD(12) [OF assms(1)] assms(2)] fresh_free(1,5) [of w p]
  by (auto simp: wf_defs owns_pend_fresh)

end
