(* ===== verification/Usbg_Free.thy ===== *)
theory Usbg_Free
  imports Usbg_Invariant
begin

text \<open>
  Freeing an object frees exactly its descendants: under the invariant no pointer is freed
  twice and none that stays is lost, and the invariant holds again afterwards.
\<close>

text \<open>The heap without the objects whose parent is in a set.\<close>

definition without :: "('a \<Rightarrow> ptr) \<Rightarrow> ptr set \<Rightarrow> (ptr \<rightharpoonup> 'a) \<Rightarrow> ptr \<rightharpoonup> 'a" where
  "without par C h = (\<lambda>p. case h p of None \<Rightarrow> None | Some x \<Rightarrow> if par x \<in> C then None else Some x)"

lemma without_Some [simp]: "without par C h p = Some x \<longleftrightarrow> h p = Some x \<and> par x \<notin> C"
  by (auto simp: without_def split: option.splits)

lemma without_None: "without par C h p = None \<longleftrightarrow> h p = None \<or> (\<exists>x. h p = Some x \<and> par x \<in> C)"
  by (auto simp: without_def split: option.splits)

lemma without_empty [simp]: "without par {} h = h"
  by (auto simp: without_def fun_eq_iff split: option.splits)

lemma without_without [simp]: "without par C (without par D h) = without par (D \<union> C) h"
  by (auto simp: without_def fun_eq_iff split: option.splits)

text \<open>The heap without a set of objects.\<close>

definition cut :: "ptr set \<Rightarrow> (ptr \<rightharpoonup> 'a) \<Rightarrow> ptr \<rightharpoonup> 'a" where
  "cut A h = (\<lambda>p. if p \<in> A then None else h p)"

lemma cut_cut [simp]: "cut A (cut B h) = cut (A \<union> B) h"
  by (auto simp: cut_def fun_eq_iff)

lemma cut_empty [simp]: "cut {} h = h"
  by (simp add: cut_def)

lemma cut_single: "h(p := None) = cut {p} h"
  by (auto simp: cut_def fun_eq_iff)

lemma cut_apply: "p \<notin> A \<Longrightarrow> cut A h p = h p"
  by (simp add: cut_def)

section \<open>The loops\<close>

lemma free_bindings:
  assumes "distinct bs" "\<forall>b\<in>set bs. binding_at w b \<noteq> None"
  shows "free_all usbg_free_binding bs w = Some (w\<lparr>binding_at := cut (set bs) (binding_at w)\<rparr>)"
  using assms
proof (induction bs arbitrary: w)
  case (Cons b bs)
  let ?w = "w\<lparr>binding_at := cut {b} (binding_at w)\<rparr>"
  from Cons.prems have "usbg_free_binding b w = Some ?w"
    by (auto simp: usbg_free_binding_def cut_single)
  moreover from Cons.prems have "\<forall>c\<in>set bs. binding_at ?w c \<noteq> None" by (auto simp: cut_def)
  ultimately show ?case using Cons.IH [of ?w] Cons.prems(1) by simp
qed simp

lemma free_functions:
  assumes "distinct fs" "\<forall>f\<in>set fs. function_at w f \<noteq> None"
  shows "free_all usbg_free_function fs w = Some (w\<lparr>function_at := cut (set fs) (function_at w)\<rparr>)"
  using assms
proof (induction fs arbitrary: w)
  case (Cons f fs)
  let ?w = "w\<lparr>function_at := cut {f} (function_at w)\<rparr>"
  from Cons.prems have "usbg_free_function f w = Some ?w"
    by (auto simp: usbg_free_function_def cut_single)
  moreover from Cons.prems have "\<forall>c\<in>set fs. function_at ?w c \<noteq> None" by (auto simp: cut_def)
  ultimately show ?case using Cons.IH [of ?w] Cons.prems(1) by simp
qed simp

lemma restrict_owned:
  assumes "owns h (\<lambda>x. par x = c) P xs" "\<forall>p\<in>P. h p = None"
  shows "cut (set xs) h = without par {c} h"
proof
  fix p
  show "cut (set xs) h p = without par {c} h p"
    using assms by (cases "h p") (auto simp: cut_def without_def owns_def)
qed

lemma free_config_eq:
  assumes "config_at w c = Some conf" "owns (binding_at w) (\<lambda>b. b_parent b = c) P (c_bindings conf)"
    and "\<forall>p\<in>P. binding_at w p = None"
  shows "usbg_free_config c w =
    Some (w\<lparr>binding_at := without b_parent {c} (binding_at w), config_at := cut {c} (config_at w)\<rparr>)"
proof -
  have "free_all usbg_free_binding (c_bindings conf) w =
      Some (w\<lparr>binding_at := without b_parent {c} (binding_at w)\<rparr>)"
    using free_bindings [of "c_bindings conf" w] owns_distinct [OF assms(2)] owns_live [OF assms(2)]
      restrict_owned [OF assms(2,3)] by fastforce
  then show ?thesis using assms(1) by (simp add: usbg_free_config_def cut_single)
qed

lemma free_configs:
  assumes "distinct cs"
    and "\<forall>c\<in>set cs. \<exists>conf. config_at w c = Some conf \<and> owns (binding_at w) (\<lambda>b. b_parent b = c) P (c_bindings conf)"
    and "\<forall>p\<in>P. binding_at w p = None"
  shows "free_all usbg_free_config cs w =
    Some (w\<lparr>binding_at := without b_parent (set cs) (binding_at w), config_at := cut (set cs) (config_at w)\<rparr>)"
  using assms
proof (induction cs arbitrary: w)
  case Nil
  show ?case by simp
next
  case (Cons c cs)
  from Cons.prems(2) obtain conf where c: "config_at w c = Some conf"
    "owns (binding_at w) (\<lambda>b. b_parent b = c) P (c_bindings conf)" by auto
  let ?w = "w\<lparr>binding_at := without b_parent {c} (binding_at w), config_at := cut {c} (config_at w)\<rparr>"
  have step: "usbg_free_config c w = Some ?w" using c Cons.prems(3) by (rule free_config_eq)
  have ok: "\<forall>d\<in>set cs. \<exists>conf. config_at ?w d = Some conf \<and>
      owns (binding_at ?w) (\<lambda>b. b_parent b = d) P (c_bindings conf)"
  proof
    fix d assume d: "d \<in> set cs"
    with Cons.prems(1) have "d \<noteq> c" by auto
    moreover from this have "owns (without b_parent {c} (binding_at w)) (\<lambda>b. b_parent b = d) P xs =
        owns (binding_at w) (\<lambda>b. b_parent b = d) P xs" for xs
      by (intro owns_cong) auto
    ultimately show "\<exists>conf. config_at ?w d = Some conf \<and>
      owns (binding_at ?w) (\<lambda>b. b_parent b = d) P (c_bindings conf)"
      using Cons.prems(2) d by (auto simp: cut_def)
  qed
  have none: "\<forall>p\<in>P. binding_at ?w p = None" using Cons.prems(3) by (simp add: without_None)
  from Cons.IH [OF _ ok none] Cons.prems(1) step show ?case by simp
qed

section \<open>Freeing under the invariant\<close>

text \<open>What is left when a gadget and everything below it is gone.\<close>

definition drop_gadget :: "ptr \<Rightarrow> 'k world \<Rightarrow> 'k world" where
  "drop_gadget g w = w\<lparr>
     binding_at := without b_parent {c. \<exists>conf. config_at w c = Some conf \<and> c_parent conf = g} (binding_at w),
     config_at := without c_parent {g} (config_at w),
     function_at := without f_parent {g} (function_at w),
     gadget_at := (gadget_at w)(g := None)\<rparr>"

definition drop_config :: "ptr \<Rightarrow> 'k world \<Rightarrow> 'k world" where
  "drop_config c w = w\<lparr>
     binding_at := without b_parent {c} (binding_at w),
     config_at := (config_at w)(c := None)\<rparr>"

text \<open>Pending pointers that are no children.\<close>

definition no_pending_children :: "ptr set \<Rightarrow> 'k world \<Rightarrow> bool" where
  "no_pending_children P w \<longleftrightarrow> (\<forall>p\<in>P. binding_at w p = None \<and> function_at w p = None \<and> config_at w p = None)"

lemma wfp_drop_config:
  assumes "heap_ok (insert c P) w" "config_at w c = Some conf"
  shows "heap_ok P (drop_config c w)"
proof -
  note kinds = one_kindD(2) [OF wfpD(12) [OF assms(1)] assms(2)]
  have own: "owns (without b_parent {c} (binding_at w)) (\<lambda>b. b_parent b = d) P xs =
      owns (binding_at w) (\<lambda>b. b_parent b = d) P xs" if "d \<noteq> c" for d xs
    using that by (intro owns_cong) auto
  have "fresh_from (drop_config c w)" "one_kind (drop_config c w)"
    using wfpD(11,12) [OF assms(1)]
    by (auto simp: drop_config_def fresh_from_def one_kind_def without_None)
  with assms kinds own show ?thesis
    by (auto simp: drop_config_def wf_defs owns_pend_fresh)
qed

lemma free_config_wf:
  assumes "heap_ok (insert c P) w" "config_at w c = Some conf" "\<forall>p\<in>P. binding_at w p = None"
  shows "usbg_free_config c w = Some (drop_config c w)" "heap_ok P (drop_config c w)"
proof -
  note kinds = one_kindD(2) [OF wfpD(12) [OF assms(1)] assms(2)]
  from free_config_eq [OF assms(2) wfpD(7) [OF assms(1,2)]] assms(3) kinds
  show "usbg_free_config c w = Some (drop_config c w)" by (simp add: drop_config_def cut_single)
  show "heap_ok P (drop_config c w)" using assms(1,2) by (rule wfp_drop_config)
qed

lemma wfp_drop_gadget:
  assumes "heap_ok (insert g P) w" "gadget_at w g = Some gad"
  shows "heap_ok P (drop_gadget g w)"
proof -
  let ?C = "{c. \<exists>conf. config_at w c = Some conf \<and> c_parent conf = g}"
  note kinds = one_kindD(1) [OF wfpD(12) [OF assms(1)] assms(2)]
  have own: "owns (without b_parent ?C (binding_at w)) (\<lambda>b. b_parent b = d) P xs =
      owns (binding_at w) (\<lambda>b. b_parent b = d) P xs" if "d \<notin> ?C" for d xs
    using that by (intro owns_cong) auto
  have own2: "owns (without c_parent {g} (config_at w)) (\<lambda>b. c_parent b = h) P xs =
      owns (config_at w) (\<lambda>b. c_parent b = h) P xs"
    "owns (without f_parent {g} (function_at w)) (\<lambda>b. f_parent b = h) P xs' =
      owns (function_at w) (\<lambda>b. f_parent b = h) P xs'" if "h \<noteq> g" for h xs xs'
    using that by (intro owns_cong; auto)+
  have "fresh_from (drop_gadget g w)" "one_kind (drop_gadget g w)"
    using wfpD(11,12) [OF assms(1)]
    by (auto simp: drop_gadget_def fresh_from_def one_kind_def without_None)
  moreover have "\<exists>y. config_at w (b_parent bn) = Some y \<and> c_parent y \<noteq> g"
    if "binding_at w b = Some bn" "\<forall>conf. config_at w (b_parent bn) = Some conf \<longrightarrow> c_parent conf \<noteq> g" for b bn
    using wfpD(10) [OF assms(1) that(1)] that(2) by blast
  ultimately show ?thesis
    using assms kinds own own2 by (auto simp: drop_gadget_def wf_defs owns_pend_fresh)
qed

lemma free_gadget_wf:
  assumes "heap_ok (insert g P) w" "gadget_at w g = Some gad" "no_pending_children P w"
  shows "usbg_free_gadget g w = Some (drop_gadget g w)" "heap_ok P (drop_gadget g w)"
proof -
  note kinds = one_kindD(1) [OF wfpD(12) [OF assms(1)] assms(2)]
  have none: "\<forall>p\<in>insert g P. binding_at w p = None" "\<forall>p\<in>insert g P. function_at w p = None"
    "\<forall>p\<in>insert g P. config_at w p = None"
    using kinds assms(3) by (auto simp: no_pending_children_def)
  note oc = wfpD(3) [OF assms(1,2)] and of = wfpD(4) [OF assms(1,2)]
  have cs: "{c. \<exists>conf. config_at w c = Some conf \<and> c_parent conf = g} = set (g_configs gad)"
    using oc none(3) by (auto simp: owns_def)
  have "\<forall>c\<in>set (g_configs gad). \<exists>conf. config_at w c = Some conf \<and>
      owns (binding_at w) (\<lambda>b. b_parent b = c) (insert g P) (c_bindings conf)"
    using owns_live [OF oc] wfpD(7) [OF assms(1)] by blast
  from free_configs [OF owns_distinct [OF oc] this none(1)] restrict_owned [OF oc none(3)]
  have "free_all usbg_free_config (g_configs gad) w =
    Some (w\<lparr>binding_at := without b_parent (set (g_configs gad)) (binding_at w),
            config_at := without c_parent {g} (config_at w)\<rparr>)" by simp
  moreover have "free_all usbg_free_function (g_functions gad) v =
      Some (v\<lparr>function_at := without f_parent {g} (function_at v)\<rparr>)" if "function_at v = function_at w" for v :: "'a world"
    using free_functions [OF owns_distinct [OF of], of v] owns_live [OF of] restrict_owned [OF of none(2)] that
    by fastforce
  ultimately show "usbg_free_gadget g w = Some (drop_gadget g w)"
    using assms(2) by (simp add: usbg_free_gadget_def drop_gadget_def cs)
  show "heap_ok P (drop_gadget g w)" using assms(1,2) by (rule wfp_drop_gadget)
qed

end
