(* ===== verification/Usbg_Safety.thy ===== *)
theory Usbg_Safety
  imports Usbg_Free
begin

text \<open>
  The operations of the library on a world that satisfies the invariant, with arguments that
  are live: each is defined (it follows no dangling pointer and every loop ends), keeps the
  invariant, and changes the objects only as it should. A failing creation changes no object.
\<close>

section \<open>Worlds with the same objects\<close>

definition same_objects :: "'k world \<Rightarrow> 'k world \<Rightarrow> bool" where
  "same_objects w w' \<longleftrightarrow>
     s_gadgets w' = s_gadgets w \<and> s_udcs w' = s_udcs w \<and> gadget_at w' = gadget_at w \<and>
     config_at w' = config_at w \<and> function_at w' = function_at w \<and> binding_at w' = binding_at w \<and>
     udc_at w' = udc_at w \<and> s_path w' = s_path w \<and> s_configfs_path w' = s_configfs_path w \<and>
     next_ptr w \<le> next_ptr w'"

lemma same_objects_refl [simp, intro]: "same_objects w w"
  by (simp add: same_objects_def)

lemma same_objects_os [simp, intro]: "same_objects w (w\<lparr>os := k\<rparr>)"
  by (simp add: same_objects_def)

lemma same_objectsD:
  assumes "same_objects w w'"
  shows "s_gadgets w' = s_gadgets w" "s_udcs w' = s_udcs w" "gadget_at w' = gadget_at w"
    "config_at w' = config_at w" "function_at w' = function_at w" "binding_at w' = binding_at w"
    "udc_at w' = udc_at w" "s_path w' = s_path w" "s_configfs_path w' = s_configfs_path w"
    "next_ptr w \<le> next_ptr w'"
  using assms by (simp_all add: same_objects_def)

lemma same_objects_trans: "same_objects u v \<Longrightarrow> same_objects v w \<Longrightarrow> same_objects u w"
  by (simp add: same_objects_def)

lemma same_objects_heap_ok: "same_objects w w' \<Longrightarrow> heap_ok P w \<Longrightarrow> heap_ok P w'"
  by (auto simp: same_objects_def wf_defs fresh_from_def one_kind_def)

lemma on_os_simps [simp]: "on_os m w = (fst (m (os w)), w\<lparr>os := snd (m (os w))\<rparr>)"
  by (simp add: on_os_def)

section \<open>Removing a binding\<close>

definition del_binding :: "ptr \<Rightarrow> ptr \<Rightarrow> 'k world \<Rightarrow> 'k world" where
  "del_binding b c w = w\<lparr>
     config_at := (config_at w)(c := map_option (\<lambda>conf. conf\<lparr>c_bindings := remove1 b (c_bindings conf)\<rparr>) (config_at w c)),
     binding_at := (binding_at w)(b := None)\<rparr>"

lemma del_binding_wf:
  assumes "heap_ok P w" "binding_at w b = Some bn" "b_parent bn = c" "b \<notin> P"
  shows "heap_ok P (del_binding b c w)"
proof -
  from wfpD(10) [OF assms(1,2)] assms(3) obtain conf where c: "config_at w c = Some conf" by auto
  let ?w = "w\<lparr>config_at := (config_at w)(c \<mapsto> conf\<lparr>c_bindings := remove1 b (c_bindings conf)\<rparr>)\<rparr>"
  have "heap_ok (insert b P) ?w" by (rule wfp_unlink_binding [OF assms(1,2,3) c])
  then have "heap_ok P (?w\<lparr>binding_at := (binding_at ?w)(b := None)\<rparr>)"
    by (rule wfp_free_binding) (simp add: assms(2))
  then show ?thesis by (simp add: del_binding_def c)
qed

lemma rm_binding_cases:
  assumes "heap_wf w" "binding_at w b = Some bn"
  shows "\<exists>ret k. usbg_rm_binding K (Some b) w =
    Some (ret, if ret = 0 then del_binding b (b_parent bn) (w\<lparr>os := k\<rparr>) else w\<lparr>os := k\<rparr>) \<and> ret \<le> 0"
proof -
  from wfpD(10) [OF assms] obtain conf where c: "config_at w (b_parent bn) = Some conf" by auto
  with owns_member [OF wfpD(7) [OF assms(1) c] assms(2)] have "b \<in> set (c_bindings conf)" by simp
  with assms c rm_file_ret [of K "b_path bn" "b_name bn" "os w"] show ?thesis
    by (auto simp: usbg_rm_binding_def Let_def tailq_remove_def upd_config_def usbg_free_binding_def
        del_binding_def)
qed

lemma rm_binding_wf:
  assumes "heap_wf w" "binding_at w b = Some bn"
  shows "\<exists>ret w'. usbg_rm_binding K (Some b) w = Some (ret, w') \<and> ret \<le> 0 \<and> heap_wf w' \<and>
    (if ret = 0 then w' = del_binding b (b_parent bn) (w\<lparr>os := os w'\<rparr>) else w' = w\<lparr>os := os w'\<rparr>)"
proof -
  from rm_binding_cases [OF assms] obtain ret k where
    r: "usbg_rm_binding K (Some b) w =
      Some (ret, if ret = 0 then del_binding b (b_parent bn) (w\<lparr>os := k\<rparr>) else w\<lparr>os := k\<rparr>)" "ret \<le> 0" by blast
  have "heap_wf (del_binding b (b_parent bn) (w\<lparr>os := k\<rparr>))"
    using assms by (intro del_binding_wf [where bn = bn]) simp_all
  with r assms(1) show ?thesis by (cases "ret = 0") (auto simp: del_binding_def)
qed

section \<open>Removing the bindings of a configuration\<close>

text \<open>What removing bindings may change: bindings, and the lists of configurations.\<close>

definition fewer_bindings :: "'k world \<Rightarrow> 'k world \<Rightarrow> bool" where
  "fewer_bindings w w' \<longleftrightarrow>
     s_gadgets w' = s_gadgets w \<and> s_udcs w' = s_udcs w \<and> gadget_at w' = gadget_at w \<and>
     function_at w' = function_at w \<and> udc_at w' = udc_at w \<and> s_path w' = s_path w \<and>
     s_configfs_path w' = s_configfs_path w \<and> next_ptr w' = next_ptr w \<and>
     binding_at w' \<subseteq>\<^sub>m binding_at w \<and>
     (\<forall>c. map_option (c_bindings_update (\<lambda>_. [])) (config_at w' c) =
          map_option (c_bindings_update (\<lambda>_. [])) (config_at w c))"

lemma fewer_bindings_refl [simp]: "fewer_bindings w w"
  by (simp add: fewer_bindings_def)

lemma fewer_bindings_os [simp]: "fewer_bindings w (w\<lparr>os := k\<rparr>)"
  by (simp add: fewer_bindings_def)

lemma fewer_bindings_trans: "fewer_bindings u v \<Longrightarrow> fewer_bindings v w \<Longrightarrow> fewer_bindings u w"
  by (auto simp: fewer_bindings_def intro: map_le_trans)

lemma fewer_bindings_del [simp]: "fewer_bindings w (del_binding b c (w\<lparr>os := k\<rparr>))"
  by (auto simp: fewer_bindings_def del_binding_def map_le_def option.map_comp o_def)

lemma fewer_bindingsD:
  assumes "fewer_bindings w w'"
  shows "gadget_at w' = gadget_at w" "function_at w' = function_at w" "s_gadgets w' = s_gadgets w"
    "udc_at w' = udc_at w" "s_udcs w' = s_udcs w" "s_path w' = s_path w"
    "binding_at w' b = Some bn \<Longrightarrow> binding_at w b = Some bn"
  using assms by (auto simp: fewer_bindings_def map_le_def dom_def)

lemma fewer_bindings_config:
  assumes "fewer_bindings w w'" "config_at w c = Some conf"
  obtains bs where "config_at w' c = Some (conf\<lparr>c_bindings := bs\<rparr>)"
proof -
  from assms have "map_option (c_bindings_update (\<lambda>_. [])) (config_at w' c) = Some (conf\<lparr>c_bindings := []\<rparr>)"
    by (simp add: fewer_bindings_def)
  then obtain conf' where "config_at w' c = Some conf'" "conf'\<lparr>c_bindings := []\<rparr> = conf\<lparr>c_bindings := []\<rparr>"
    by auto
  moreover from this(2) have "conf' = conf\<lparr>c_bindings := c_bindings conf'\<rparr>"
    by (cases conf; cases conf') simp
  ultimately show ?thesis using that by metis
qed

lemma fewer_bindings_config_back:
  assumes "fewer_bindings w w'" "config_at w' c = Some conf"
  obtains conf0 where "config_at w c = Some conf0" "c_parent conf = c_parent conf0" "c_name conf = c_name conf0"
    "c_path conf = c_path conf0" "c_id conf = c_id conf0" "c_label conf = c_label conf0"
proof -
  from assms(1) have "map_option (c_bindings_update (\<lambda>_. [])) (config_at w c) =
      map_option (c_bindings_update (\<lambda>_. [])) (config_at w' c)"
    by (simp add: fewer_bindings_def)
  then have "map_option (c_bindings_update (\<lambda>_. [])) (config_at w c) = Some (conf\<lparr>c_bindings := []\<rparr>)"
    unfolding assms(2) by simp
  then obtain conf' where c: "config_at w c = Some conf'" "conf'\<lparr>c_bindings := []\<rparr> = conf\<lparr>c_bindings := []\<rparr>"
    by auto
  from c(2) have "c_parent conf = c_parent conf'" "c_name conf = c_name conf'" "c_path conf = c_path conf'"
    "c_id conf = c_id conf'" "c_label conf = c_label conf'"
    by (cases conf; cases conf'; simp)+
  with c(1) that show ?thesis by blast
qed

text \<open>The loop ends, with no binding left or at the first one that cannot be removed.\<close>

lemma rm_bindings_loop_wf:
  assumes "heap_wf w" "config_at w c = Some conf"
  shows "\<exists>ret w'. rm_bindings_loop K c w = Some (ret, w') \<and> ret \<le> 0 \<and> heap_wf w' \<and> fewer_bindings w w' \<and>
    (ret = 0 \<longrightarrow> config_at w' c = Some (conf\<lparr>c_bindings := []\<rparr>)) \<and>
    (\<forall>d. d \<noteq> c \<longrightarrow> config_at w' d = config_at w d) \<and>
    without b_parent {c} (binding_at w') = without b_parent {c} (binding_at w)"
  using assms
proof (induction "length (c_bindings conf)" arbitrary: w conf)
  case 0
  then show ?case by (auto simp: rm_bindings_loop.simps [of K c w])
next
  case (Suc n)
  then obtain b bs where bs: "c_bindings conf = b # bs" by (cases "c_bindings conf") auto
  from owns_live [OF wfpD(7) [OF Suc.prems], of b] bs obtain bn where
    b: "binding_at w b = Some bn" "b_parent bn = c" by auto
  from rm_binding_wf [OF Suc.prems(1) b(1), of K] obtain ret w1 where
    r: "usbg_rm_binding K (Some b) w = Some (ret, w1)" "ret \<le> 0" "heap_wf w1"
      "if ret = 0 then w1 = del_binding b c (w\<lparr>os := os w1\<rparr>) else w1 = w\<lparr>os := os w1\<rparr>"
    using b(2) by blast
  have step: "rm_bindings_loop K c w =
      (if ret \<noteq> err USBG_SUCCESS then Some (ret, w1) else rm_bindings_loop K c w1)"
    using Suc.prems(2) bs r(1) by (subst rm_bindings_loop.simps) simp
  show ?case
  proof (cases "ret = 0")
    case False
    with r(4) have w1: "w1 = w\<lparr>os := os w1\<rparr>" by simp
    have "fewer_bindings w w1" "config_at w1 = config_at w" "binding_at w1 = binding_at w" by (subst w1, simp)+
    with step r(2,3) False show ?thesis by auto
  next
    case True
    with r(4) have w1: "w1 = del_binding b c (w\<lparr>os := os w1\<rparr>)" by simp
    let ?conf = "conf\<lparr>c_bindings := bs\<rparr>"
    have c1: "config_at w1 c = Some ?conf" "\<And>d. d \<noteq> c \<Longrightarrow> config_at w1 d = config_at w d"
      by (subst w1, simp add: del_binding_def Suc.prems(2) bs)+
    have f1: "fewer_bindings w w1" by (subst w1, simp)
    have b1: "without b_parent {c} (binding_at w1) = without b_parent {c} (binding_at w)"
      using b by (subst w1) (auto simp: del_binding_def without_def fun_eq_iff split: option.splits)
    from Suc.hyps(1) [OF _ r(3) c1(1)] Suc.hyps(2) bs obtain ret' w' where
      IH: "rm_bindings_loop K c w1 = Some (ret', w')" "ret' \<le> 0" "heap_wf w'" "fewer_bindings w1 w'"
        "ret' = 0 \<longrightarrow> config_at w' c = Some (conf\<lparr>c_bindings := []\<rparr>)"
        "\<forall>d. d \<noteq> c \<longrightarrow> config_at w' d = config_at w1 d"
        "without b_parent {c} (binding_at w') = without b_parent {c} (binding_at w1)" by auto
    with step True c1(2) b1 fewer_bindings_trans [OF f1 IH(4)] show ?thesis by auto
  qed
qed

section \<open>Removing a configuration\<close>

lemma rm_os_desc_link_wf:
  assumes "gadget_at w g = Some gad"
  shows "\<exists>ret k. usbg_rm_os_desc_link K g w = Some (ret, w\<lparr>os := k\<rparr>) \<and> ret \<le> 0"
proof -
  define r where "r = (let bpath = path3 (g_path gad) (g_name gad) OS_DESC_DIR
     in if \<not> fits bpath then (err USBG_ERROR_PATH_TOO_LONG, os w)
        else case scandir K bpath bindings_select (os w) of
            (Inl e, k1) \<Rightarrow> (usbg_translate_error e, k1)
          | (Inr [], k1) \<Rightarrow> (err USBG_ERROR_NOT_FOUND, k1)
          | (Inr (d # ds), k1) \<Rightarrow> usbg_rm_file K bpath d k1)"
  have "fst r \<le> 0"
    by (auto simp: r_def Let_def less_imp_le intro: rm_file_ret split: prod.splits sum.splits list.splits)
  moreover have "usbg_rm_os_desc_link K g w = Some (fst r, w\<lparr>os := snd r\<rparr>)"
    using assms by (simp add: usbg_rm_os_desc_link_def on_gadget_def r_def split: prod.splits)
  ultimately show ?thesis by blast
qed

definition del_config :: "ptr \<Rightarrow> ptr \<Rightarrow> 'k world \<Rightarrow> 'k world" where
  "del_config c g w = drop_config c (w\<lparr>
     gadget_at := (gadget_at w)(g := map_option (\<lambda>gad. gad\<lparr>g_configs := remove1 c (g_configs gad)\<rparr>)
       (gadget_at w g))\<rparr>)"

lemma del_config_wf:
  assumes "heap_wf w" "config_at w c = Some conf" "c_parent conf = g"
  shows "heap_wf (del_config c g w)"
proof -
  from wfpD(6) [OF assms(1,2)] assms(3) obtain gad where g: "gadget_at w g = Some gad" by auto
  have "heap_ok {c} (w\<lparr>gadget_at := (gadget_at w)(g \<mapsto> gad\<lparr>g_configs := remove1 c (g_configs gad)\<rparr>)\<rparr>)"
    using wfp_unlink_config [OF assms(1,2,3) g] by simp
  then show ?thesis
    unfolding del_config_def using g assms(2) by (intro wfp_drop_config [where conf = conf]) simp_all
qed

text \<open>The part of \<open>usbg_rm_config\<close> that follows the recursive removal.\<close>

lemma rm_config_exact:
  assumes "heap_wf w" "config_at w c = Some conf"
  shows "\<exists>ret w'. usbg_rm_config K (Some c) opts w = Some (ret, w') \<and> ret \<le> 0 \<and> heap_wf w' \<and>
    (if ret = 0 then w' = del_config c (c_parent conf) (w\<lparr>os := os w'\<rparr>)
     else fewer_bindings w w' \<and> without b_parent {c} (binding_at w') = without b_parent {c} (binding_at w))"
proof -
  let ?g = "c_parent conf" and ?rec = "opts AND USBG_RM_RECURSE = 0"
  from wfpD(6) [OF assms] obtain gad where g: "gadget_at w ?g = Some gad" by auto
  let ?pre = "(if ?rec then Some (err USBG_SUCCESS, w)
        else do {
          gad \<leftarrow> gadget_at w ?g;
          (r1, w1) \<leftarrow> (if g_os_desc_binding gad = Some c then usbg_set_os_desc_config K (Some ?g) None w
                       else Some (err USBG_SUCCESS, w));
          if r1 \<noteq> err USBG_SUCCESS then Some (r1, w1)
          else do {
            (r2, w2) \<leftarrow> rm_bindings_loop K c w1;
            if r2 \<noteq> err USBG_SUCCESS then Some (r2, w2)
            else let spath = path3 (c_path conf) (c_name conf) STRINGS_DIR in
              if \<not> fits spath then Some (err USBG_ERROR_PATH_TOO_LONG, w2)
              else Some (on_os (usbg_rm_all_dirs K spath) w2)
          }
        })"
  have pre: "\<exists>ret w4. ?pre = Some (ret, w4) \<and> ret \<le> 0 \<and> heap_wf w4 \<and> fewer_bindings w w4 \<and>
      (\<forall>d. d \<noteq> c \<longrightarrow> config_at w4 d = config_at w d) \<and>
      without b_parent {c} (binding_at w4) = without b_parent {c} (binding_at w)"
  proof (cases ?rec)
    case True
    with assms(1) show ?thesis by simp
  next
    case False
    obtain r1 k1 where os1: "(if g_os_desc_binding gad = Some c then usbg_set_os_desc_config K (Some ?g) None w
        else Some (err USBG_SUCCESS, w)) = Some (r1, w\<lparr>os := k1\<rparr>)" "r1 \<le> 0"
    proof (cases "g_os_desc_binding gad = Some c")
      case True
      with that rm_os_desc_link_wf [OF g, of K] show ?thesis
        by (auto simp: usbg_set_os_desc_config_def nonnull_ret_def)
    next
      case False
      with that [of 0 "os w"] show ?thesis by simp
    qed
    from rm_bindings_loop_wf [of "w\<lparr>os := k1\<rparr>" c conf K] assms obtain r2 w2 where
      r2: "rm_bindings_loop K c (w\<lparr>os := k1\<rparr>) = Some (r2, w2)" "r2 \<le> 0" "heap_wf w2"
        "fewer_bindings (w\<lparr>os := k1\<rparr>) w2" "\<forall>d. d \<noteq> c \<longrightarrow> config_at w2 d = config_at w d"
        "without b_parent {c} (binding_at w2) = without b_parent {c} (binding_at w)" by auto
    have f2: "fewer_bindings w w2" by (rule fewer_bindings_trans [OF fewer_bindings_os r2(4)])
    then have f3: "fewer_bindings w (w2\<lparr>os := k\<rparr>)" for k by (rule fewer_bindings_trans) simp
    let ?spath = "path3 (c_path conf) (c_name conf) STRINGS_DIR"
    show ?thesis
    proof (cases "r1 = 0 \<and> r2 = 0 \<and> fits ?spath")
      case True
      then have "?pre = Some (fst (usbg_rm_all_dirs K ?spath (os w2)), w2\<lparr>os := snd (usbg_rm_all_dirs K ?spath (os w2))\<rparr>)"
        by (simp add: False g os1(1) r2(1) Let_def)
      with rm_all_dirs_ret [of K ?spath "os w2"] r2(3,5,6) f3 show ?thesis by simp
    next
      case bad: False
      consider "r1 \<noteq> 0" | "r1 = 0" "r2 \<noteq> 0" | "r1 = 0" "r2 = 0" "\<not> fits ?spath" using bad by blast
      then show ?thesis
      proof cases
        case 1
        then have "?pre = Some (r1, w\<lparr>os := k1\<rparr>)" by (simp add: False g os1(1) Let_def)
        with os1(2) assms(1) show ?thesis by simp
      next
        case 2
        then have "?pre = Some (r2, w2)" by (simp add: False g os1(1) r2(1) Let_def)
        with r2 f2 show ?thesis by simp
      next
        case 3
        then have "?pre = Some (err USBG_ERROR_PATH_TOO_LONG, w2)" by (simp add: False g os1(1) r2(1) Let_def)
        with r2 f2 show ?thesis by simp
      qed
    qed
  qed
  then obtain ret w4 where w4: "?pre = Some (ret, w4)" "ret \<le> 0" "heap_wf w4" "fewer_bindings w w4"
    "\<forall>d. d \<noteq> c \<longrightarrow> config_at w4 d = config_at w d"
    "without b_parent {c} (binding_at w4) = without b_parent {c} (binding_at w)" by blast
  show ?thesis
  proof (cases "ret = 0")
    case False
    with w4 assms(2) show ?thesis
      by (simp add: usbg_rm_config_def nonnull_ret_def)
  next
    case True
    from w4(4) assms(2) obtain bs where c4: "config_at w4 c = Some (conf\<lparr>c_bindings := bs\<rparr>)"
      by (rule fewer_bindings_config)
    have g4: "gadget_at w4 ?g = Some gad" using g fewer_bindingsD(1) [OF w4(4)] by simp
    obtain r5 k5 where rm: "usbg_rm_dir K (c_path conf) (c_name conf) (os w4) = (r5, k5)" by fastforce
    with rm_dir_ret [of K "c_path conf" "c_name conf" "os w4"] have r5: "r5 \<le> 0" by simp
    show ?thesis
    proof (cases "r5 = 0")
      case False
      with r5 w4 True assms(2) rm fewer_bindings_trans [OF w4(4) fewer_bindings_os] show ?thesis
        by (simp add: usbg_rm_config_def nonnull_ret_def)
    next
      case r5z: True
      let ?v = "w4\<lparr>os := k5, gadget_at := (gadget_at w4)(?g \<mapsto> gad\<lparr>g_configs := remove1 c (g_configs gad)\<rparr>)\<rparr>"
      have "c \<in> set (g_configs gad)" using owns_member [OF wfpD(3) [OF w4(3) g4] c4] by simp
      moreover have v: "heap_ok {c} ?v"
        using wfp_unlink_config [of "{}" "w4\<lparr>os := k5\<rparr>" c _ ?g gad] w4(3) c4 g4 by simp
      moreover have "usbg_free_config c ?v = Some (drop_config c ?v)" "heap_wf (drop_config c ?v)"
        using free_config_wf [OF v, of "conf\<lparr>c_bindings := bs\<rparr>"] c4 by simp_all
      moreover have "drop_config c ?v = del_config c ?g (w\<lparr>os := k5\<rparr>)"
        using w4(4,5,6) g
        by (auto simp: del_config_def drop_config_def fewer_bindings_def fun_eq_iff intro!: world.equality)
      ultimately have "usbg_rm_config K (Some c) opts w = Some (0, del_config c ?g (w\<lparr>os := k5\<rparr>))"
        using w4(1) True assms(2) rm r5z g4
        by (simp add: usbg_rm_config_def nonnull_ret_def tailq_remove_def upd_gadget_def Let_def)
      moreover have "heap_wf (del_config c ?g (w\<lparr>os := k5\<rparr>))" by (rule del_config_wf [where conf = conf]) (simp_all add: assms)
      ultimately show ?thesis
        by (intro exI [of _ 0] exI [of _ "del_config c ?g (w\<lparr>os := k5\<rparr>)"]) (simp add: del_config_def drop_config_def)
    qed
  qed
qed

lemma rm_config_wf:
  assumes "heap_wf w" "config_at w c = Some conf"
  shows "\<exists>ret w'. usbg_rm_config K (Some c) opts w = Some (ret, w') \<and> ret \<le> 0 \<and> heap_wf w' \<and>
    (if ret = 0 then w' = del_config c (c_parent conf) (w\<lparr>os := os w'\<rparr>) else fewer_bindings w w')"
proof -
  from rm_config_exact [OF assms, of K opts] obtain ret w' where
    "usbg_rm_config K (Some c) opts w = Some (ret, w')" "ret \<le> 0" "heap_wf w'"
    "if ret = 0 then w' = del_config c (c_parent conf) (w\<lparr>os := os w'\<rparr>)
     else fewer_bindings w w' \<and> without b_parent {c} (binding_at w') = without b_parent {c} (binding_at w)" by blast
  then show ?thesis by (intro exI [of _ ret] exI [of _ w']) (cases "ret = 0"; simp)
qed

end
