(* ===== verification/Usbg_Safety_Bind.thy ===== *)
theory Usbg_Safety_Bind
  imports Usbg_Safety
begin

text \<open>
  Binding a function to a configuration under the invariant, and the pattern all creators
  share: look for an object of the name, allocate, create the directory or link, and link the
  object into the queue of its parent; after any error the objects are as they were.
\<close>

section \<open>Shared facts\<close>

lemma tailq_find_owned:
  assumes "owns heap B P xs"
  shows "\<exists>r. tailq_find heap Q xs = Some r"
  using assms owns_live [OF assms] by (subst tailq_find_live) fastforce+

lemma new_name_inserted:
  assumes "owns heap B P xs" "p \<notin> set xs" "\<And>q. nm q = map_option f (heap q)" "heap p \<noteq> None"
  obtains r where "insert_string_order nm p xs = Some r" "set r = insert p (set xs)" "distinct r"
proof -
  have "all_named nm (p # xs)"
    using owns_live [OF assms(1)] assms(3,4) by (fastforce simp: all_named_def)
  with owns_distinct [OF assms(1)] assms(2) that show ?thesis by (metis insert_string_order_set)
qed

text \<open>The names of a world in which an object was changed or added.\<close>

lemma name_at_simps [simp]:
  "binding_name_at (w\<lparr>os := k\<rparr>) = binding_name_at w" "config_name_at (w\<lparr>os := k\<rparr>) = config_name_at w"
  "function_name_at (w\<lparr>os := k\<rparr>) = function_name_at w" "gadget_name_at (w\<lparr>os := k\<rparr>) = gadget_name_at w"
  "binding_name_at (u\<lparr>binding_at := (binding_at w)(p \<mapsto> bn)\<rparr>) = (binding_name_at w)(p \<mapsto> b_name bn)"
  "config_name_at (u\<lparr>config_at := (config_at w)(p \<mapsto> conf)\<rparr>) = (config_name_at w)(p \<mapsto> c_name conf)"
  "function_name_at (u\<lparr>function_at := (function_at w)(p \<mapsto> fn)\<rparr>) = (function_name_at w)(p \<mapsto> f_name fn)"
  "gadget_name_at (u\<lparr>gadget_at := (gadget_at w)(p \<mapsto> gad)\<rparr>) = (gadget_name_at w)(p \<mapsto> g_name gad)"
  by (simp_all add: binding_name_at_def config_name_at_def function_name_at_def gadget_name_at_def fun_eq_iff)

lemma fresh_pointer:
  assumes "heap_ok P w"
  shows "gadget_at w (next_ptr w) = None" "config_at w (next_ptr w) = None" "function_at w (next_ptr w) = None"
    "binding_at w (next_ptr w) = None" "udc_at w (next_ptr w) = None"
  using fresh_fromD [OF wfpD(11) [OF assms] order_refl] by simp_all

section \<open>Adding a binding\<close>

definition add_binding :: "ptr \<Rightarrow> ptr \<Rightarrow> usbg_binding \<Rightarrow> ptr list \<Rightarrow> 'k world \<Rightarrow> 'k world" where
  "add_binding c p bn bs w = w\<lparr>
     next_ptr := Suc p, binding_at := (binding_at w)(p \<mapsto> bn),
     config_at := (config_at w)(c := map_option (c_bindings_update (\<lambda>_. bs)) (config_at w c))\<rparr>"

lemma add_binding_wf:
  assumes "heap_wf w" "config_at w c = Some conf" "p = next_ptr w" "b_parent bn = c"
    and "set bs = insert p (set (c_bindings conf))" "distinct bs"
  shows "heap_wf (add_binding c p bn bs w)"
proof -
  let ?w = "w\<lparr>next_ptr := Suc p, binding_at := (binding_at w)(p \<mapsto> bn)\<rparr>"
  have "heap_ok {p} ?w" using assms(1-4) by (intro wfp_new_binding) auto
  then have "heap_wf (?w\<lparr>config_at := (config_at ?w)(c \<mapsto> conf\<lparr>c_bindings := bs\<rparr>)\<rparr>)"
    using assms(2,4-6) by (intro wfp_link_binding [of p "{}" ?w bn c conf bs]) simp_all
  with assms(2) show ?thesis by (simp add: add_binding_def)
qed

text \<open>
  On success the binding is new, has the name given (or the function's) and the function as
  its target, and is in the configuration's queue where the macro puts it; no other object
  changed. After an error no object changed.
\<close>

definition binding_added :: "ptr \<Rightarrow> string \<Rightarrow> ptr \<Rightarrow> usbg_config \<Rightarrow> 'k world \<Rightarrow> 'k world \<Rightarrow> bool" where
  "binding_added c nm f conf w w' \<longleftrightarrow>
     (let p = next_ptr w;
          bn = \<lparr>b_name = nm, b_path = path2 (c_path conf) (c_name conf), b_target = f, b_parent = c\<rparr>
      in \<exists>bs. insert_string_order ((binding_name_at w)(p \<mapsto> nm)) p (c_bindings conf) = Some bs \<and>
           w' = add_binding c p bn bs (w\<lparr>os := os w'\<rparr>))"

lemma add_config_function_wf:
  assumes w: "heap_wf w" and c: "config_at w c = Some conf" and f: "function_at w f = Some fn"
    and nm: "nm = (case name of None \<Rightarrow> f_name fn | Some n \<Rightarrow> n)"
  shows "\<exists>ret w'. usbg_add_config_function K (Some c) name (Some f) w = Some (ret, w') \<and> ret \<le> 0 \<and> heap_wf w' \<and>
    (ret \<noteq> 0 \<and> same_objects w w' \<or>
     ret = 0 \<and> usbg_get_binding c nm w = Some None \<and> usbg_get_link_binding c f w = Some None \<and> binding_added c nm f conf w w')"
proof -
  let ?bp = "path2 (c_path conf) (c_name conf)" and ?p = "next_ptr w"
  let ?bn = "\<lparr>b_name = nm, b_path = ?bp, b_target = f, b_parent = c\<rparr>"
  note own = wfpD(7) [OF w c]
  obtain r1 r2 where found: "usbg_get_binding c nm w = Some r1" "usbg_get_link_binding c f w = Some r2"
    using tailq_find_owned [OF own, of "\<lambda>b. b_name b = nm"] tailq_find_owned [OF own, of "\<lambda>b. b_target b = f"] c
    by (auto simp: usbg_get_binding_def usbg_get_link_binding_def)
  let ?go = "usbg_add_config_function K (Some c) name (Some f) w"
  have fail: "?thesis" if "?go = Some (r, w')" "r < 0" "same_objects w w'" for r w'
    using that same_objects_heap_ok [OF that(3) w] by force
  show ?thesis
  proof (cases "r1 \<noteq> None \<or> r2 \<noteq> None \<or> \<not> fits (path2 (f_path fn) (f_name fn)) \<or> \<not> fits ?bp")
    case True
    then consider (exist) "r1 \<noteq> None \<or> r2 \<noteq> None"
      | (long) "r1 = None" "r2 = None" "\<not> fits (path2 (f_path fn) (f_name fn)) \<or> \<not> fits ?bp" by blast
    then show ?thesis
    proof cases
      case exist
      with c f found nm have "?go = Some (err USBG_ERROR_EXIST, w)"
        by (cases r1; cases r2) (simp_all add: usbg_add_config_function_def Let_def)
      then show ?thesis by (rule fail) simp_all
    next
      case long
      with c f found nm have "?go = Some (err USBG_ERROR_PATH_TOO_LONG, w)"
        by (cases "fits (path2 (f_path fn) (f_name fn))") (simp_all add: usbg_add_config_function_def Let_def)
      then show ?thesis by (rule fail) simp_all
    qed
  next
    case ok: False
    obtain m k1 where m: "malloc_then2 K (os w) = (m, k1)" by fastforce
    show ?thesis
    proof (cases m)
      case False
      with ok m c f found nm have "?go = Some (err USBG_ERROR_NO_MEM, w\<lparr>os := k1\<rparr>)"
        by (simp add: usbg_add_config_function_def usbg_allocate_binding_def Let_def)
      then show ?thesis by (rule fail) simp_all
    next
      case True
      let ?w1 = "w\<lparr>os := k1, next_ptr := Suc ?p, binding_at := (binding_at w)(?p \<mapsto> ?bn)\<rparr>"
      have alloc: "usbg_allocate_binding K ?bp nm c f w = (Some ?p, ?w1)"
        using m True by (simp add: usbg_allocate_binding_def Let_def)
      have undone: "same_objects w (?w1\<lparr>os := k, binding_at := (binding_at ?w1)(?p := None)\<rparr>)" for k
        using fresh_pointer(4) [OF w] by (simp add: same_objects_def fun_upd_idem)
      show ?thesis
      proof (cases "fits (path2 ?bp nm)")
        case False
        with ok alloc c f found nm have "?go = Some (err USBG_ERROR_PATH_TOO_LONG,
            ?w1\<lparr>os := k1, binding_at := (binding_at ?w1)(?p := None)\<rparr>)"
          by (simp add: usbg_add_config_function_def Let_def usbg_free_binding_def)
        then show ?thesis by (rule fail) (use undone [of k1] in simp_all)
      next
        case fit: True
        obtain e k2 where s: "k_symlink K (path2 (f_path fn) (f_name fn)) (path2 ?bp nm) k1 = (e, k2)" by fastforce
        show ?thesis
        proof (cases e)
          case (Some x)
          with fit s ok alloc c f found nm have "?go = Some (usbg_translate_error x,
              ?w1\<lparr>os := k2, binding_at := (binding_at ?w1)(?p := None)\<rparr>)"
            by (simp add: usbg_add_config_function_def Let_def usbg_free_binding_def)
          then show ?thesis by (rule fail) (use undone [of k2] in simp_all)
        next
          case None
          let ?nm = "(binding_name_at w)(?p \<mapsto> nm)"
          have new: "?p \<notin> set (c_bindings conf)" using owns_live [OF own] fresh_pointer(4) [OF w] by fastforce
          have own': "owns ((binding_at w)(?p \<mapsto> ?bn)) (\<lambda>b. b_parent b = c) {?p} (c_bindings conf)"
            using own fresh_pointer(4) [OF w] by (simp add: owns_pend_fresh)
          obtain bs where bs: "insert_string_order ?nm ?p (c_bindings conf) = Some bs"
            "set bs = insert ?p (set (c_bindings conf))" "distinct bs"
            using own' new by (rule new_name_inserted [where nm = ?nm and f = b_name]) (auto simp: binding_name_at_def)
          from bs(1) None fit s ok alloc c f found nm
          have "?go = Some (0, add_binding c ?p ?bn bs (w\<lparr>os := k2\<rparr>))"
            by (simp add: usbg_add_config_function_def Let_def upd_config_def add_binding_def)
          moreover have "heap_wf (add_binding c ?p ?bn bs (w\<lparr>os := k2\<rparr>))"
            using w c bs(2,3) by (intro add_binding_wf [where conf = conf]) simp_all
          moreover have "binding_added c nm f conf w (add_binding c ?p ?bn bs (w\<lparr>os := k2\<rparr>))"
            using bs(1) by (simp add: binding_added_def add_binding_def)
          ultimately show ?thesis using found ok by auto
        qed
      qed
    qed
  qed
qed

end
