(* ===== verification/Usbg_Ms_Total.thy ===== *)
theory Usbg_Ms_Total
  imports Usbg_Functions
begin

text \<open>
  The operations of the mass storage function are defined, whether its mask was read already
  or not, on a kernel that gives the LUNs' directories the names and numbers that configfs
  allows.
\<close>

section \<open>The kernel's numbered directories\<close>

text \<open>
  An entry that the library takes for a LUN has a number, and the number is one of the mask:
  the kernel's mass storage function has 16 LUNs at most (\<open>FSG_MAX_LUNS\<close>). The library
  reads the LUNs' directory, and no other, under a path that ends in a slash.
\<close>

definition lun_named :: "dirent \<Rightarrow> bool" where
  "lun_named d \<longleftrightarrow> (lun_select d \<longrightarrow>
     (case snd (sscanf_prefix_d ''lun.'' (d_name d)) of
        None \<Rightarrow> False | Some i \<Rightarrow> 0 \<le> i \<and> i < int MAX_LUNS))"

definition luns_named :: "'k kernel \<Rightarrow> bool" where
  "luns_named K \<longleftrightarrow> (\<forall>p k ds k'. k_readdir K (p @ ''/'') k = (Inr ds, k') \<longrightarrow> list_all lun_named ds)"

text \<open>
  Frames are numbered by whoever makes their directories: this library does with numbers of
  the mask only, and the code takes the number of every directory it finds for an index.
\<close>

definition frame_named :: "dirent \<Rightarrow> bool" where
  "frame_named d \<longleftrightarrow> (frame_select d \<longrightarrow>
     (case snd (sscanf_prefix_d ''frame.'' (d_name d)) of
        None \<Rightarrow> False | Some i \<Rightarrow> 0 \<le> i \<and> i < int MAX_FRAMES))"

definition frames_named :: "'k kernel \<Rightarrow> bool" where
  "frames_named K \<longleftrightarrow> (\<forall>p k ds k'. k_readdir K (p @ ''/'') k = (Inr ds, k') \<longrightarrow> list_all frame_named ds)"

lemma mark_ids_total:
  assumes "length msk = MAX_LUNS"
    and "\<forall>d\<in>set ds. \<exists>i. snd (sscanf_prefix_d pre d) = Some i \<and> 0 \<le> i \<and> i < int MAX_LUNS"
  shows "\<exists>m. mark_ids pre ds msk = Some m \<and> length m = MAX_LUNS"
  using assms by (induction ds arbitrary: msk) fastforce+

lemma init_luns_total:
  assumes "luns_named K" "length (mf_luns ms) = MAX_LUNS"
  shows "\<exists>ret ms' k'. init_luns K ms k = Some (ret, ms', k') \<and> length (mf_luns ms') = MAX_LUNS \<and>
    (ret \<noteq> 0 \<longrightarrow> ms' = ms)"
proof -
  let ?p = "path2 (mf_path ms) (mf_name ms) @ ''/''"
  show ?thesis
  proof (cases "scandir K ?p lun_select k")
    case (Pair r k')
    show ?thesis
    proof (cases r)
      case (Inr ns)
      with Pair obtain ds where ds: "k_readdir K ?p k = (Inr ds, k')"
        "ns = sort (map d_name (filter lun_select ds))"
        by (auto simp: scandir_def split: prod.splits sum.splits)
      with assms(1) have "\<forall>d\<in>set ds. lun_named d" by (auto simp: luns_named_def list_all_iff)
      then have "\<forall>d\<in>set ns. \<exists>i. snd (sscanf_prefix_d ''lun.'' d) = Some i \<and> 0 \<le> i \<and> i < int MAX_LUNS"
        by (auto simp: ds(2) lun_named_def split: option.splits)
      from mark_ids_total [OF assms(2) this] Pair Inr assms(2) show ?thesis
        by (auto simp: init_luns_def Let_def)
    qed (use Pair assms(2) in \<open>auto simp: init_luns_def Let_def\<close>)
  qed
qed

lemma get_lun_mask_total:
  assumes "luns_named K" "length (mf_luns ms) = MAX_LUNS"
  shows "\<exists>ms' k'. get_lun_mask K ms k = Some (ms', k') \<and> length (mf_luns ms') = MAX_LUNS"
  using init_luns_total [OF assms, of k] assms(2) by (auto simp: get_lun_mask_def)

lemma lun_at_total: "length (mf_luns ms) = MAX_LUNS \<Longrightarrow> i < MAX_LUNS \<Longrightarrow> \<exists>b. lun_at ms (int i) = Some b"
  by (simp add: lun_at_def)

lemma rm_lun_total:
  assumes "luns_named K" "length (mf_luns ms) = MAX_LUNS" "i < MAX_LUNS"
  shows "\<exists>ret ms' k'. usbg_f_ms_rm_lun K ms (int i) k = Some (ret, ms', k') \<and> length (mf_luns ms') = MAX_LUNS"
  using get_lun_mask_total [OF assms(1,2), of k] assms(3)
  by (auto simp: usbg_f_ms_rm_lun_def lun_at_def split: option.split prod.split)

lemma create_lun_total:
  assumes "luns_named K" "length (mf_luns ms) = MAX_LUNS" "i < MAX_LUNS"
  shows "\<exists>ret ms' k'. usbg_f_ms_create_lun K ms (int i) a k = Some (ret, ms', k') \<and> length (mf_luns ms') = MAX_LUNS"
proof -
  from get_lun_mask_total [OF assms(1,2), of k] obtain ms1 k1 where
    m: "get_lun_mask K ms k = Some (ms1, k1)" "length (mf_luns ms1) = MAX_LUNS" by blast
  have "\<exists>ret k3. (case a of None \<Rightarrow> Some (0, k2) | Some a \<Rightarrow> usbg_f_ms_set_lun_attrs K ms1 (int i) a k2) = Some (ret, k3)"
    for k2 using set_lun_attrs_total [of K ms1 "int i" _ k2] by (cases a) auto
  then obtain R S where "\<And>k2. (case a of None \<Rightarrow> Some (0, k2) | Some a \<Rightarrow> usbg_f_ms_set_lun_attrs K ms1 (int i) a k2) = Some (R k2, S k2)"
    by metis
  with m assms(3) show ?thesis
    by (auto simp: usbg_f_ms_create_lun_def lun_at_def split: option.split prod.split)
qed

lemma ms_remove_loop_total:
  assumes "luns_named K" "length (mf_luns ms) = MAX_LUNS" "\<forall>i\<in>set is. i < MAX_LUNS"
  shows "\<exists>ret ms' k'. ms_remove_loop K is ms k = Some (ret, ms', k') \<and> length (mf_luns ms') = MAX_LUNS"
  using assms(2,3)
proof (induction "is" arbitrary: ms k)
  case (Cons i "is")
  then obtain b where b: "lun_at ms (int i) = Some b" using lun_at_total by fastforce
  obtain ret ms1 k1 where rm: "usbg_f_ms_rm_lun K ms (int i) k = Some (ret, ms1, k1)" "length (mf_luns ms1) = MAX_LUNS"
    using rm_lun_total [OF assms(1) Cons.prems(1), of i k] Cons.prems(2) by auto
  have "\<forall>i\<in>set is. i < MAX_LUNS" using Cons.prems(2) by simp
  note IH = Cons.IH [OF Cons.prems(1) this, of k] Cons.IH [OF rm(2) this, of k1]
  show ?case using b rm IH by (cases b; cases "ret = 0") auto
qed simp

lemma ms_remove_total:
  assumes "luns_named K" "length (mf_luns ms) = MAX_LUNS"
  shows "\<exists>ret ms' k'. ms_remove K ms k = Some (ret, ms', k') \<and> length (mf_luns ms') = MAX_LUNS"
proof -
  from get_lun_mask_total [OF assms, of k] obtain ms1 k1 where
    "get_lun_mask K ms k = Some (ms1, k1)" "length (mf_luns ms1) = MAX_LUNS" by blast
  with ms_remove_loop_total [OF assms(1), of ms1 "[1..<MAX_LUNS]" k1] show ?thesis
    by (simp add: ms_remove_def)
qed

section \<open>Removal and attributes of any function\<close>

lemma ext_fits_update:
  "ext_fits fn \<Longrightarrow> f_type fn = USBG_F_MASS_STORAGE \<Longrightarrow> length (mf_luns mf) = MAX_LUNS \<Longrightarrow> ext_fits (ms_update mf fn)"
  by (cases "f_ext fn") (auto simp: ext_fits_def ms_update_def)

lemma function_remove_total:
  assumes "luns_named K" "ext_fits fn"
  shows "\<exists>ret fn' k'. function_remove K fn k = Some (ret, fn', k') \<and> ext_fits fn' \<and> same_fn fn fn'"
proof -
  consider (ms) "f_type fn = USBG_F_MASS_STORAGE" | (uvc) "f_type fn = USBG_F_UVC"
    | (other) "f_type fn \<noteq> USBG_F_MASS_STORAGE" "f_type fn \<noteq> USBG_F_UVC" by blast
  then show ?thesis
  proof cases
    case ms
    from assms(2) ms obtain mf where mf: "usbg_to_ms_function fn = Some mf" "length (mf_luns mf) = MAX_LUNS"
      by (rule ext_fits_ms)
    from ms_remove_total [OF assms(1) mf(2), of k] mf(1) ms assms(2) ext_fits_update show ?thesis
      by (fastforce simp: function_remove_def)
  next
    case uvc
    from assms(2) uvc obtain uf where "usbg_to_uvc_function fn = Some uf" by (rule ext_fits_uvc)
    with uvc assms(2) show ?thesis by (auto simp: function_remove_def split: prod.split)
  next
    case other
    then have "function_remove K fn k = Some (err USBG_SUCCESS, fn, k)"
      by (cases "f_type fn") (simp_all add: function_remove_def)
    with assms(2) show ?thesis by simp
  qed
qed

lemma ms_cleanup_total:
  assumes "luns_named K" "length (mf_luns ms) = MAX_LUNS" "\<forall>j\<in>set js. j < MAX_LUNS"
  shows "\<exists>ms' k'. ms_cleanup_loop K tb js ms k = Some (ms', k') \<and> length (mf_luns ms') = MAX_LUNS"
  using assms(2,3)
proof (induction js arbitrary: ms k)
  case (Cons j js)
  then obtain b where b: "lun_at ms (int j) = Some b" using lun_at_total by fastforce
  obtain ret ms1 k1 where rm: "usbg_f_ms_rm_lun K ms (int j) k = Some (ret, ms1, k1)" "length (mf_luns ms1) = MAX_LUNS"
    using rm_lun_total [OF assms(1) Cons.prems(1), of j k] Cons.prems(2) by auto
  have "\<forall>j\<in>set js. j < MAX_LUNS" using Cons.prems(2) by simp
  note IH = Cons.IH [OF Cons.prems(1) this, of k] Cons.IH [OF rm(2) this, of k1]
  show ?case using b rm(1) IH by (cases "\<not> b \<and> tb ! j \<ge> 0") auto
qed simp

lemma ms_set_lun_total:
  assumes "luns_named K" "length (mf_luns ms) = MAX_LUNS" "i < MAX_LUNS" "0 \<le> tb ! i \<longleftrightarrow> i < length as"
  shows "\<exists>ret ms' k'. ms_set_lun K as tb i ms k = Some (ret, ms', k') \<and> length (mf_luns ms') = MAX_LUNS"
proof -
  from lun_at_total [OF assms(2,3)] obtain b where b: "lun_at ms (int i) = Some b" by blast
  consider "b" "i < length as" | "b" "\<not> i < length as" | "\<not> b" "i < length as" | "\<not> b" "\<not> i < length as" by blast
  then show ?thesis
  proof cases
    case 1
    with b assms set_lun_attrs_total [of K ms "int i" "as ! i" k] show ?thesis
      by (auto simp: ms_set_lun_def lun_arg_def)
  next
    case 2
    with b assms rm_lun_total [OF assms(1-3), of k] show ?thesis by (auto simp: ms_set_lun_def)
  next
    case 3
    with b assms create_lun_total [OF assms(1-3), of "Some (as ! i)" k] show ?thesis
      by (auto simp: ms_set_lun_def lun_arg_def)
  next
    case 4
    with b assms show ?thesis by (auto simp: ms_set_lun_def)
  qed
qed

lemma ms_set_loop_total:
  assumes "luns_named K" "\<And>i. i < MAX_LUNS \<Longrightarrow> 0 \<le> tb ! i \<longleftrightarrow> i < length as"
    and "length (mf_luns ms) = MAX_LUNS" "\<forall>i\<in>set is. i < MAX_LUNS"
  shows "\<exists>ret ms' k'. ms_set_loop K as tb is ms k = Some (ret, ms', k') \<and> length (mf_luns ms') = MAX_LUNS"
  using assms(3,4)
proof (induction "is" arbitrary: ms k)
  case (Cons i "is")
  then have i: "i < MAX_LUNS" by simp
  from ms_set_lun_total [OF assms(1) Cons.prems(1) i assms(2) [OF i], of k] obtain ret ms1 k1 where
    s: "ms_set_lun K as tb i ms k = Some (ret, ms1, k1)" "length (mf_luns ms1) = MAX_LUNS" by blast
  have "\<forall>i\<in>set is. i < MAX_LUNS" using Cons.prems(2) by simp
  note IH = Cons.IH [OF s(2) this, of k1]
  from i have "\<forall>j\<in>set [0..<i]. j < MAX_LUNS" by simp
  from ms_cleanup_total [OF assms(1) s(2) this, of tb k1] s(1) IH show ?case by (cases "ret = 0") auto
qed simp

lemma ms_set_attrs_total:
  assumes "luns_named K" "length (mf_luns mf) = MAX_LUNS" "luns_in_order (ms_lun_list a)"
    "length (ms_lun_list a) \<le> MAX_LUNS"
  shows "\<exists>ret mf' k'. usbg_f_ms_set_attrs K mf a k = Some (ret, mf', k') \<and> length (mf_luns mf') = MAX_LUNS"
proof -
  obtain r1 k1 where st: "usbg_f_ms_set_stall K mf (ms_stall a) k = (r1, k1)" by fastforce
  let ?tb = "map int [0..<length (ms_lun_list a)] @ drop (length (ms_lun_list a)) (replicate MAX_LUNS (- 1))"
  have tb: "luns_to_be_loop (ms_lun_list a) 0 (replicate MAX_LUNS (-1)) = Some ?tb"
    using luns_to_be_in_order [of "ms_lun_list a" 0 "replicate MAX_LUNS (-1)"] assms(3,4)
    by (simp add: luns_in_order_def)
  have ids: "0 \<le> ?tb ! i \<longleftrightarrow> i < length (ms_lun_list a)" if "i < MAX_LUNS" for i
    using that by (simp add: nth_append)
  from get_lun_mask_total [OF assms(1,2), of k1] obtain ms k2 where
    m: "get_lun_mask K mf k1 = Some (ms, k2)" "length (mf_luns ms) = MAX_LUNS" by blast
  from ms_set_loop_total [OF assms(1) ids m(2), of "[0..<MAX_LUNS]" k2] m tb st assms(2) show ?thesis
    by (cases "r1 = 0") (auto simp: usbg_f_ms_set_attrs_def)
qed

text \<open>A structure that may be passed for a type: the LUNs of mass storage are in order.\<close>

definition attrs_ok :: "usbg_function_type \<Rightarrow> function_attrs \<Rightarrow> bool" where
  "attrs_ok t a \<longleftrightarrow> attrs_fit t a \<and>
     (case a of
        Ms_attrs m \<Rightarrow> luns_in_order (ms_lun_list m) \<and> length (ms_lun_list m) \<le> MAX_LUNS
      | Ms_attrs_out _ \<Rightarrow> False
      | _ \<Rightarrow> True)"

lemma function_set_attrs_defined:
  assumes "luns_named K" "ext_fits fn" "attrs_ok (f_type fn) a"
  shows "\<exists>ret fn' k'. function_set_attrs K fn a k = Some (ret, fn', k') \<and> ext_fits fn' \<and> same_fn fn fn'"
proof (cases "f_type fn = USBG_F_MASS_STORAGE")
  case False
  from assms(3) have "attrs_fit (f_type fn) a" by (simp add: attrs_ok_def)
  from function_set_attrs_total [OF this assms(2) False, of K k] assms(2) show ?thesis by auto
next
  case True
  with assms(3) obtain m where m: "a = Ms_attrs m" "luns_in_order (ms_lun_list m)" "length (ms_lun_list m) \<le> MAX_LUNS"
    by (cases a) (auto simp: attrs_ok_def attrs_fit_def)
  from assms(2) True obtain mf where mf: "usbg_to_ms_function fn = Some mf" "length (mf_luns mf) = MAX_LUNS"
    by (rule ext_fits_ms)
  from ms_set_attrs_total [OF assms(1) mf(2) m(2,3), of k] obtain ret mf' k' where
    "usbg_f_ms_set_attrs K mf m k = Some (ret, mf', k')" "length (mf_luns mf') = MAX_LUNS" by blast
  with mf(1) True m(1) ext_fits_update [OF assms(2) True] show ?thesis
    by (auto simp: function_set_attrs_def attrs_fit_def)
qed

end
