(* ===== verification/Usbg_Safety_Create.thy ===== *)
theory Usbg_Safety_Create
  imports Usbg_Safety_Bind Usbg_Ms_Total
begin

text \<open>
  Creation of configurations, functions and gadgets under the invariant: defined, and either
  the one new object is there, in the queue of its parent, or no object changed.
\<close>

section \<open>Steps of the creators\<close>

lemma on_config_live:
  assumes "config_at w p = Some conf"
  shows "\<exists>r k. on_config p m w = Some (r, w\<lparr>os := k\<rparr>)"
  using assms by (auto simp: on_config_def)

lemma on_gadget_live:
  assumes "gadget_at w p = Some gad"
  shows "\<exists>r k. on_gadget p m w = Some (r, w\<lparr>os := k\<rparr>)"
  using assms by (auto simp: on_gadget_def)

lemma self_os: "\<exists>k. w = w\<lparr>os := k\<rparr>"
  by (rule exI [of _ "os w"]) simp

lemma set_config_attrs_os:
  assumes "config_at w p = Some conf"
  shows "\<exists>r k. usbg_set_config_attrs K (Some p) a w = Some (r, w\<lparr>os := k\<rparr>)"
  using on_config_live [OF assms] self_os [of w]
  by (cases a) (simp_all add: usbg_set_config_attrs_def)

lemma set_config_string_os:
  assumes "config_at w p = Some conf"
  shows "\<exists>r k. usbg_set_config_string K (Some p) lang s w = Some (r, w\<lparr>os := k\<rparr>)"
  using on_config_live [OF assms] self_os [of w]
  by (cases s) (simp_all add: usbg_set_config_string_def)

lemma set_gadget_attrs_os:
  assumes "gadget_at w p = Some gad"
  shows "\<exists>r k. usbg_set_gadget_attrs K (Some p) a w = Some (r, w\<lparr>os := k\<rparr>)"
  using on_gadget_live [OF assms] self_os [of w]
  by (cases a) (simp_all add: usbg_set_gadget_attrs_def)

lemma set_gadget_strs_os:
  assumes "gadget_at w p = Some gad"
  shows "\<exists>r k. usbg_set_gadget_strs K (Some p) lang s w = Some (r, w\<lparr>os := k\<rparr>)"
  using on_gadget_live [OF assms] self_os [of w]
  by (cases s) (simp_all add: usbg_set_gadget_strs_def)

section \<open>Configurations\<close>

definition add_config :: "ptr \<Rightarrow> ptr \<Rightarrow> usbg_config \<Rightarrow> ptr list \<Rightarrow> 'k world \<Rightarrow> 'k world" where
  "add_config g p conf cs w = w\<lparr>
     next_ptr := Suc p, config_at := (config_at w)(p \<mapsto> conf),
     gadget_at := (gadget_at w)(g := map_option (g_configs_update (\<lambda>_. cs)) (gadget_at w g))\<rparr>"

lemma add_config_wf:
  assumes "heap_wf w" "gadget_at w g = Some gad" "p = next_ptr w" "c_parent conf = g" "c_bindings conf = []"
    and "set cs = insert p (set (g_configs gad))" "distinct cs"
  shows "heap_wf (add_config g p conf cs w)"
proof -
  let ?w = "w\<lparr>next_ptr := Suc p, config_at := (config_at w)(p \<mapsto> conf)\<rparr>"
  have "heap_ok {p} ?w" using assms(1-5) by (intro wfp_new_config) auto
  then have "heap_wf (?w\<lparr>gadget_at := (gadget_at ?w)(g \<mapsto> gad\<lparr>g_configs := cs\<rparr>)\<rparr>)"
    using assms(2,4,6,7) by (intro wfp_link_config [of p "{}" ?w conf g gad cs]) simp_all
  with assms(2) show ?thesis by (simp add: add_config_def)
qed

definition new_config :: "usbg_gadget \<Rightarrow> string \<Rightarrow> int \<Rightarrow> ptr \<Rightarrow> usbg_config" where
  "new_config gad lbl i g =
     \<lparr>c_name = config_name lbl i, c_path = path3 (g_path gad) (g_name gad) CONFIGS_DIR, c_label = lbl,
      c_id = i, c_bindings = [], c_parent = g\<rparr>"

definition config_added :: "ptr \<Rightarrow> string \<Rightarrow> int \<Rightarrow> usbg_gadget \<Rightarrow> 'k world \<Rightarrow> 'k world \<Rightarrow> bool" where
  "config_added g lbl i gad w w' \<longleftrightarrow>
     (\<exists>cs. insert_string_order ((config_name_at w)(next_ptr w \<mapsto> config_name lbl i)) (next_ptr w) (g_configs gad) = Some cs \<and>
        w' = add_config g (next_ptr w) (new_config gad lbl i g) cs (w\<lparr>os := os w'\<rparr>))"

lemma finish_config_cases:
  assumes "config_at w2 p = Some conf" "c_bindings conf = []" "gadget_at w2 g = Some gad"
    "insert_string_order (config_name_at w2) p (g_configs gad) = Some cs"
  shows "\<exists>ret k. finish_config K g p full c_attrs c_strs w2 =
    Some (ret, Some p, if ret = 0 then w2\<lparr>os := k, gadget_at := (gadget_at w2)(g \<mapsto> gad\<lparr>g_configs := cs\<rparr>)\<rparr>
      else w2\<lparr>os := k, config_at := (config_at w2)(p := None)\<rparr>)"
proof -
  obtain r3 k3 where s3: "(if c_attrs = None then Some (err USBG_SUCCESS, w2)
      else usbg_set_config_attrs K (Some p) c_attrs w2) = Some (r3, w2\<lparr>os := k3\<rparr>)"
    using set_config_attrs_os [OF assms(1), of K c_attrs] self_os [of w2] by (cases "c_attrs = None") force+
  have c3: "config_at (w2\<lparr>os := k3\<rparr>) p = Some conf" using assms(1) by simp
  have "\<exists>r4 k4. (if r3 \<noteq> err USBG_SUCCESS then Some (r3, w2\<lparr>os := k3\<rparr>) else case c_strs of None \<Rightarrow> Some (r3, w2\<lparr>os := k3\<rparr>)
      | Some s \<Rightarrow> usbg_set_config_string K (Some p) LANG_US_ENG s (w2\<lparr>os := k3\<rparr>)) = Some (r4, w2\<lparr>os := k4\<rparr>)"
  proof (cases "r3 = 0 \<and> c_strs \<noteq> None")
    case True
    then obtain s where "c_strs = Some s" by blast
    with set_config_string_os [OF c3, of K LANG_US_ENG s] True show ?thesis by auto
  qed auto
  then obtain r4 k4 where s4: "(if r3 \<noteq> err USBG_SUCCESS then Some (r3, w2\<lparr>os := k3\<rparr>) else case c_strs of None \<Rightarrow> Some (r3, w2\<lparr>os := k3\<rparr>)
      | Some s \<Rightarrow> usbg_set_config_string K (Some p) LANG_US_ENG s (w2\<lparr>os := k3\<rparr>)) = Some (r4, w2\<lparr>os := k4\<rparr>)" by blast
  have start: "finish_config K g p full c_attrs c_strs w2 =
     (if r4 \<noteq> err USBG_SUCCESS then do {
        w5 \<leftarrow> usbg_free_config p (snd (on_os (k_rmdir K full) (w2\<lparr>os := k4\<rparr>)));
        Some (r4, Some p, w5)
      }
      else do {
        gad4 \<leftarrow> gadget_at (w2\<lparr>os := k4\<rparr>) g;
        cs \<leftarrow> insert_string_order (config_name_at (w2\<lparr>os := k4\<rparr>)) p (g_configs gad4);
        w5 \<leftarrow> upd_gadget g (g_configs_update (\<lambda>_. cs)) (w2\<lparr>os := k4\<rparr>);
        Some (0, Some p, w5)
      })"
    unfolding finish_config_def s3 bind.bind_lunit prod.case s4 by simp
  show ?thesis
  proof (cases "r4 = 0")
    case True
    with start assms(3,4) show ?thesis
      by (intro exI [of _ 0] exI [of _ k4]) (simp add: upd_gadget_def)
  next
    case False
    with start assms(1,2) show ?thesis
      by (intro exI [of _ r4] exI [of _ "snd (k_rmdir K full k4)"]) (simp add: usbg_free_config_def)
  qed
qed

lemma create_config_wf:
  assumes w: "heap_wf w" and g: "gadget_at w g = Some gad" and l: "lbl = (case label of None \<Rightarrow> DEFAULT_CONFIG_LABEL | Some l \<Rightarrow> l)"
  shows "\<exists>ret c w'. usbg_create_config K (Some g) i label c_attrs c_strs True w = Some (ret, c, w') \<and> heap_wf w' \<and>
    (ret \<noteq> 0 \<and> same_objects w w' \<or>
     ret = 0 \<and> 0 < i \<and> i \<le> 255 \<and> usbg_get_config g i None w = Some None \<and> c = Some (next_ptr w) \<and> config_added g lbl i gad w w')"
proof -
  let ?p = "next_ptr w" and ?conf = "new_config gad lbl i g"
  let ?cpath = "path3 (g_path gad) (g_name gad) CONFIGS_DIR"
  let ?full = "path2 ?cpath (config_name lbl i)"
  note own = wfpD(3) [OF w g]
  let ?go = "usbg_create_config K (Some g) i label c_attrs c_strs True w"
  have fail: "?thesis" if "?go = Some (r, c, w')" "r \<noteq> 0" "same_objects w w'" for r c w'
    using that same_objects_heap_ok [OF that(3) w] by force
  obtain r1 where found: "usbg_get_config g i None w = Some r1"
    using tailq_find_owned [OF own, of "\<lambda>c. c_id c = i"] g by (auto simp: usbg_get_config_def)
  show ?thesis
  proof (cases "i \<le> 0 \<or> 255 < i")
    case True
    then have "?go = Some (err USBG_ERROR_INVALID_PARAM, None, w)" by (simp add: usbg_create_config_def)
    then show ?thesis by (rule fail) simp_all
  next
    case i: False
    show ?thesis
    proof (cases "r1 = None \<and> fits ?cpath")
      case False
      then have "?go = Some (err (if r1 = None then USBG_ERROR_PATH_TOO_LONG else USBG_ERROR_EXIST), None, w)"
        using i found g by (cases r1) (simp_all add: usbg_create_config_def Let_def)
      then show ?thesis by (rule fail) simp_all
    next
      case ok: True
      obtain m1 k1 m2 k2 where m: "k_malloc K (os w) = (m1, k1)" "malloc_then2 K k1 = (m2, k2)"
        by fastforce
      show ?thesis
      proof (cases "m1 \<and> m2")
        case False
        then have "?go = Some (err USBG_ERROR_NO_MEM, None, w\<lparr>os := if m1 then k2 else k1\<rparr>)"
          using i ok m found g
          by (cases m1) (simp_all add: usbg_create_config_def usbg_allocate_config_def Let_def)
        then show ?thesis by (rule fail) simp_all
      next
        case mem: True
        let ?w1 = "w\<lparr>os := k2, next_ptr := Suc ?p, config_at := (config_at w)(?p \<mapsto> ?conf)\<rparr>"
        have alloc: "usbg_allocate_config K ?cpath lbl i g w = (Some ?p, ?w1)"
          using m mem by (simp add: usbg_allocate_config_def Let_def new_config_def)
        have undone: "same_objects w (?w1\<lparr>os := k, config_at := (config_at ?w1)(?p := None)\<rparr>)" for k
          using fresh_pointer(2) [OF w] by (simp add: same_objects_def fun_upd_idem)
        show ?thesis
        proof (cases "fits ?full")
          case False
          with ok i l alloc g found have "?go = Some (err USBG_ERROR_PATH_TOO_LONG, Some ?p,
              ?w1\<lparr>os := k2, config_at := (config_at ?w1)(?p := None)\<rparr>)"
            by (simp add: usbg_create_config_def Let_def usbg_free_config_def new_config_def)
          then show ?thesis by (rule fail) (use undone [of k2] in simp_all)
        next
          case fit: True
          obtain e k3 where s: "k_mkdir K ?full k2 = (e, k3)" by fastforce
          show ?thesis
          proof (cases e)
            case (Some x)
            with ok i l alloc g found fit s have "?go = Some (usbg_translate_error x, Some ?p,
                ?w1\<lparr>os := k3, config_at := (config_at ?w1)(?p := None)\<rparr>)"
              by (simp add: usbg_create_config_def Let_def usbg_free_config_def new_config_def)
            then show ?thesis by (rule fail) (use undone [of k3] in simp_all)
          next
            case None
            let ?nm = "(config_name_at w)(?p \<mapsto> config_name lbl i)" and ?w2 = "?w1\<lparr>os := k3\<rparr>"
            have new: "?p \<notin> set (g_configs gad)" using owns_live [OF own] fresh_pointer(2) [OF w] by fastforce
            have own': "owns ((config_at w)(?p \<mapsto> ?conf)) (\<lambda>c. c_parent c = g) {?p} (g_configs gad)"
              using own fresh_pointer(2) [OF w] by (simp add: owns_pend_fresh)
            obtain cs where cs: "insert_string_order ?nm ?p (g_configs gad) = Some cs"
              "set cs = insert ?p (set (g_configs gad))" "distinct cs"
              using own' new
              by (rule new_name_inserted [where nm = ?nm and f = c_name]) (auto simp: config_name_at_def new_config_def)
            have go: "?go = finish_config K g ?p ?full c_attrs c_strs ?w2"
              using ok i l alloc g found fit s None by (simp add: usbg_create_config_def Let_def new_config_def)
            have "insert_string_order (config_name_at ?w2) ?p (g_configs gad) = Some cs"
              using cs(1) by (simp add: new_config_def)
            then obtain ret k where fin: "finish_config K g ?p ?full c_attrs c_strs ?w2 =
                Some (ret, Some ?p, if ret = 0 then ?w2\<lparr>os := k, gadget_at := (gadget_at ?w2)(g \<mapsto> gad\<lparr>g_configs := cs\<rparr>)\<rparr>
                  else ?w2\<lparr>os := k, config_at := (config_at ?w2)(?p := None)\<rparr>)"
              using finish_config_cases [of ?w2 ?p ?conf g gad cs K ?full c_attrs c_strs] g
              by (auto simp: new_config_def)
            show ?thesis
            proof (cases "ret = 0")
              case False
              with go fin have "?go = Some (ret, Some ?p, ?w1\<lparr>os := k, config_at := (config_at ?w1)(?p := None)\<rparr>)" by simp
              then show ?thesis by (rule fail) (use False undone [of k] in simp_all)
            next
              case True
              let ?w' = "add_config g ?p ?conf cs (w\<lparr>os := k\<rparr>)"
              have "?go = Some (0, Some ?p, ?w')" using True go fin g by (simp add: add_config_def)
              moreover have "heap_wf ?w'"
                using w g cs(2,3) by (intro add_config_wf [where gad = gad]) (simp_all add: new_config_def)
              moreover have "config_added g lbl i gad w ?w'"
                using cs(1) by (simp add: config_added_def add_config_def)
              ultimately show ?thesis using found ok i by auto
            qed
          qed
        qed
      qed
    qed
  qed
qed

section \<open>Functions\<close>

definition add_function :: "ptr \<Rightarrow> ptr \<Rightarrow> usbg_function \<Rightarrow> ptr list \<Rightarrow> 'k world \<Rightarrow> 'k world" where
  "add_function g p fn fs w = w\<lparr>
     next_ptr := Suc p, function_at := (function_at w)(p \<mapsto> fn),
     gadget_at := (gadget_at w)(g := map_option (g_functions_update (\<lambda>_. fs)) (gadget_at w g))\<rparr>"

lemma add_function_wf:
  assumes "heap_wf w" "gadget_at w g = Some gad" "p = next_ptr w" "f_parent fn = g" "ext_fits fn"
    and "set fs = insert p (set (g_functions gad))" "distinct fs"
  shows "heap_wf (add_function g p fn fs w)"
proof -
  let ?w = "w\<lparr>next_ptr := Suc p, function_at := (function_at w)(p \<mapsto> fn)\<rparr>"
  have "heap_ok {p} ?w" using assms(1-5) by (intro wfp_new_function) auto
  then have "heap_wf (?w\<lparr>gadget_at := (gadget_at ?w)(g \<mapsto> gad\<lparr>g_functions := fs\<rparr>)\<rparr>)"
    using assms(2,4,6,7) by (intro wfp_link_function [of p "{}" ?w fn g gad fs]) simp_all
  with assms(2) show ?thesis by (simp add: add_function_def)
qed

text \<open>
  A new function of a type: its path is that of the functions of the gadget, unless the copy
  of it was not allocated.
\<close>

definition new_function :: "usbg_gadget \<Rightarrow> ptr \<Rightarrow> usbg_function_type \<Rightarrow> string \<Rightarrow> usbg_function \<Rightarrow> bool" where
  "new_function gad g type inst fn \<longleftrightarrow>
     f_name fn = function_type_name type @ ''.'' @ inst \<and> f_instance fn = inst \<and> f_type fn = type \<and>
     f_label fn = None \<and> f_parent fn = g \<and> ext_fits fn \<and>
     f_path fn \<in> {path3 (g_path gad) (g_name gad) FUNCTIONS_DIR, ''(null)''}"

definition function_added ::
  "ptr \<Rightarrow> usbg_function_type \<Rightarrow> string \<Rightarrow> usbg_gadget \<Rightarrow> 'k world \<Rightarrow> 'k world \<Rightarrow> bool" where
  "function_added g type inst gad w w' \<longleftrightarrow>
     (\<exists>fn fs. new_function gad g type inst fn \<and>
        insert_string_order ((function_name_at w)(next_ptr w \<mapsto> f_name fn)) (next_ptr w) (g_functions gad) = Some fs \<and>
        w' = add_function g (next_ptr w) fn fs (w\<lparr>os := os w'\<rparr>))"

lemma allocate_function_cases:
  assumes "path = path3 (g_path gad) (g_name gad) FUNCTIONS_DIR"
  shows "\<exists>k. usbg_allocate_function K path type inst g w = (None, w\<lparr>os := k\<rparr>) \<or>
    (\<exists>fn. new_function gad g type inst fn \<and> usbg_allocate_function K path type inst g w =
       (Some (next_ptr w), w\<lparr>os := k, next_ptr := Suc (next_ptr w), function_at := (function_at w)(next_ptr w \<mapsto> fn)\<rparr>))"
proof -
  obtain m1 k1 where m1: "k_malloc K (os w) = (m1, k1)" by fastforce
  obtain r f k2 where i: "usbg_init_function K type inst path g (alloc_inst_ext type) k1 = (r, f, k2)"
    by (metis prod_cases3)
  show ?thesis
  proof (cases "m1 \<and> f \<noteq> None")
    case False
    then have "usbg_allocate_function K path type inst g w = (None, w\<lparr>os := if m1 then k2 else k1\<rparr>)"
      using m1 i by (cases m1; cases f) (simp_all add: usbg_allocate_function_def Let_def)
    then show ?thesis by blast
  next
    case True
    then obtain fn where fn: "f = Some fn" by blast
    have "new_function gad g type inst fn"
      using i fn ext_fits_alloc [of K type inst path g k1 r fn k2] assms
      by (auto simp: usbg_init_function_def new_function_def Let_def split: prod.splits if_splits)
    moreover have "usbg_allocate_function K path type inst g w =
       (Some (next_ptr w), w\<lparr>os := k2, next_ptr := Suc (next_ptr w), function_at := (function_at w)(next_ptr w \<mapsto> fn)\<rparr>)"
      using m1 i fn True by (simp add: usbg_allocate_function_def Let_def)
    ultimately show ?thesis by blast
  qed
qed

lemma new_function_same: "new_function gad g type inst fn \<Longrightarrow> same_fn fn fn' \<Longrightarrow> ext_fits fn' \<Longrightarrow> new_function gad g type inst fn'"
  using same_fn_fields [of fn fn'] by (simp add: new_function_def)

lemma finish_function_cases:
  assumes "luns_named K" "function_at w2 p = Some fn" "ext_fits fn" "\<forall>a. f_attrs = Some a \<longrightarrow> attrs_ok (f_type fn) a"
    "gadget_at w2 g = Some gad" "insert_string_order (function_name_at w2) p (g_functions gad) = Some fs"
  shows "\<exists>ret k fn'. same_fn fn fn' \<and> ext_fits fn' \<and> finish_function K g p full f_attrs w2 =
    Some (ret, Some p, if ret = 0 then w2\<lparr>os := k, function_at := (function_at w2)(p \<mapsto> fn'),
                          gadget_at := (gadget_at w2)(g \<mapsto> gad\<lparr>g_functions := fs\<rparr>)\<rparr>
      else w2\<lparr>os := k, function_at := (function_at w2)(p := None)\<rparr>)"
proof -
  obtain r3 k3 fn' where s3: "(if f_attrs = None then Some (err USBG_SUCCESS, w2)
      else usbg_set_function_attrs K (Some p) f_attrs w2) = Some (r3, w2\<lparr>function_at := (function_at w2)(p \<mapsto> fn'), os := k3\<rparr>)"
    "same_fn fn fn'" "ext_fits fn'"
  proof (cases f_attrs)
    case None
    with that [of 0 "os w2" fn] assms(2,3) show ?thesis by (simp add: fun_upd_idem)
  next
    case (Some a)
    with function_set_attrs_defined [OF assms(1,3), of a "os w2"] assms(4) obtain r f' k where
      "function_set_attrs K fn a (os w2) = Some (r, f', k)" "ext_fits f'" "same_fn fn f'" by auto
    with that [of r k f'] Some assms(2) show ?thesis by (simp add: usbg_set_function_attrs_def)
  qed
  let ?w3 = "w2\<lparr>function_at := (function_at w2)(p \<mapsto> fn'), os := k3\<rparr>"
  have nm: "function_name_at ?w3 = function_name_at w2"
    using assms(2) same_fn_fields(1) [OF s3(2)] by (simp add: function_name_at_def fun_eq_iff)
  have start: "finish_function K g p full f_attrs w2 =
     (if r3 \<noteq> err USBG_SUCCESS then do {
        w4 \<leftarrow> usbg_free_function p (snd (on_os (usbg_rm_dir K full []) ?w3));
        Some (r3, Some p, w4)
      }
      else do {
        gad3 \<leftarrow> gadget_at ?w3 g;
        fs \<leftarrow> insert_string_order (function_name_at ?w3) p (g_functions gad3);
        w4 \<leftarrow> upd_gadget g (g_functions_update (\<lambda>_. fs)) ?w3;
        Some (err USBG_SUCCESS, Some p, w4)
      })"
    unfolding finish_function_def s3(1) by simp
  show ?thesis
  proof (cases "r3 = 0")
    case True
    with start assms(5,6) s3(2,3) nm show ?thesis
      by (intro exI [of _ 0] exI [of _ k3] exI [of _ fn']) (simp add: upd_gadget_def del: name_at_simps)
  next
    case False
    with start s3(2,3) show ?thesis
      by (intro exI [of _ r3] exI [of _ "snd (usbg_rm_dir K full [] k3)"] exI [of _ fn']) (simp add: usbg_free_function_def)
  qed
qed

lemma create_function_wf:
  assumes K: "luns_named K" and w: "heap_wf w" and g: "gadget_at w g = Some gad"
    and a: "\<forall>a. f_attrs = Some a \<longrightarrow> attrs_ok type a"
  shows "\<exists>ret f w'. usbg_create_function K (Some g) type (Some inst) f_attrs True w = Some (ret, f, w') \<and> heap_wf w' \<and>
    (ret \<noteq> 0 \<and> same_objects w w' \<or>
     ret = 0 \<and> inst \<noteq> [] \<and> usbg_get_function g type inst w = Some None \<and> f = Some (next_ptr w) \<and>
       function_added g type inst gad w w')"
proof -
  let ?p = "next_ptr w" and ?fpath = "path3 (g_path gad) (g_name gad) FUNCTIONS_DIR"
  note own = wfpD(4) [OF w g]
  let ?go = "usbg_create_function K (Some g) type (Some inst) f_attrs True w"
  have fail: "?thesis" if "?go = Some (r, f, w')" "r \<noteq> 0" "same_objects w w'" for r f w'
    using that same_objects_heap_ok [OF that(3) w] by force
  obtain r1 where found: "usbg_get_function g type inst w = Some r1"
    using tailq_find_owned [OF own, of "\<lambda>f. f_type f = type \<and> f_instance f = inst"] g by (auto simp: usbg_get_function_def)
  show ?thesis
  proof (cases "inst = []")
    case True
    then have "?go = Some (err USBG_ERROR_INVALID_PARAM, None, w)" by (simp add: usbg_create_function_def)
    then show ?thesis by (rule fail) simp_all
  next
    case i: False
    show ?thesis
    proof (cases "r1 = None \<and> fits ?fpath")
      case False
      then have "?go = Some (err (if r1 = None then USBG_ERROR_PATH_TOO_LONG else USBG_ERROR_EXIST), None, w)"
        using i found g by (cases r1) (simp_all add: usbg_create_function_def Let_def)
      then show ?thesis by (rule fail) simp_all
    next
      case ok: True
      from allocate_function_cases [OF refl, of K gad type inst g w] consider
          (none) k where "usbg_allocate_function K ?fpath type inst g w = (None, w\<lparr>os := k\<rparr>)"
        | (some) k fn where "new_function gad g type inst fn" "usbg_allocate_function K ?fpath type inst g w =
            (Some ?p, w\<lparr>os := k, next_ptr := Suc ?p, function_at := (function_at w)(?p \<mapsto> fn)\<rparr>)" by blast
      then show ?thesis
      proof cases
        case none
        then have "?go = Some (err USBG_ERROR_NO_MEM, None, w\<lparr>os := k\<rparr>)"
          using i ok found g by (simp add: usbg_create_function_def Let_def)
        then show ?thesis by (rule fail) simp_all
      next
        case some
        let ?w1 = "w\<lparr>os := k, next_ptr := Suc ?p, function_at := (function_at w)(?p \<mapsto> fn)\<rparr>"
          and ?full = "path2 ?fpath (f_name fn)"
        have undone: "same_objects w (?w1\<lparr>os := k, function_at := (function_at ?w1)(?p := None)\<rparr>)" for k
          using fresh_pointer(3) [OF w] by (simp add: same_objects_def fun_upd_idem)
        show ?thesis
        proof (cases "fits ?full")
          case False
          with ok i some(2) g found have "?go = Some (err USBG_ERROR_PATH_TOO_LONG, Some ?p,
              ?w1\<lparr>os := k, function_at := (function_at ?w1)(?p := None)\<rparr>)"
            by (simp add: usbg_create_function_def Let_def usbg_free_function_def)
          then show ?thesis by (rule fail) (use undone [of k] in simp_all)
        next
          case fit: True
          obtain e k3 where s: "k_mkdir K ?full k = (e, k3)" by fastforce
          show ?thesis
          proof (cases e)
            case (Some x)
            with ok i some(2) g found fit s have "?go = Some (usbg_translate_error x, Some ?p,
                ?w1\<lparr>os := k3, function_at := (function_at ?w1)(?p := None)\<rparr>)"
              by (simp add: usbg_create_function_def Let_def usbg_free_function_def)
            then show ?thesis by (rule fail) (use undone [of k3] in simp_all)
          next
            case None
            let ?nm = "(function_name_at w)(?p \<mapsto> f_name fn)" and ?w2 = "?w1\<lparr>os := k3\<rparr>"
            have new: "?p \<notin> set (g_functions gad)" using owns_live [OF own] fresh_pointer(3) [OF w] by fastforce
            have own': "owns ((function_at w)(?p \<mapsto> fn)) (\<lambda>f. f_parent f = g) {?p} (g_functions gad)"
              using own fresh_pointer(3) [OF w] by (simp add: owns_pend_fresh)
            obtain fs where fs: "insert_string_order ?nm ?p (g_functions gad) = Some fs"
              "set fs = insert ?p (set (g_functions gad))" "distinct fs"
              using own' new
              by (rule new_name_inserted [where nm = ?nm and f = f_name]) (auto simp: function_name_at_def)
            have go: "?go = finish_function K g ?p ?full f_attrs ?w2"
              using ok i some(2) g found fit s None by (simp add: usbg_create_function_def Let_def)
            have fn: "ext_fits fn" "f_type fn = type" using some(1) by (simp_all add: new_function_def)
            obtain ret k fn' where fin: "same_fn fn fn'" "ext_fits fn'" "finish_function K g ?p ?full f_attrs ?w2 =
                Some (ret, Some ?p, if ret = 0 then ?w2\<lparr>os := k, function_at := (function_at ?w2)(?p \<mapsto> fn'),
                      gadget_at := (gadget_at ?w2)(g \<mapsto> gad\<lparr>g_functions := fs\<rparr>)\<rparr>
                  else ?w2\<lparr>os := k, function_at := (function_at ?w2)(?p := None)\<rparr>)"
              using finish_function_cases [OF K, of ?w2 ?p fn f_attrs g gad fs ?full] fn a fs(1) g by auto
            show ?thesis
            proof (cases "ret = 0")
              case False
              with go fin(3) have "?go = Some (ret, Some ?p, ?w1\<lparr>os := k, function_at := (function_at ?w1)(?p := None)\<rparr>)" by simp
              then show ?thesis by (rule fail) (use False undone [of k] in simp_all)
            next
              case True
              let ?w' = "add_function g ?p fn' fs (w\<lparr>os := k\<rparr>)"
              note fn' = new_function_same [OF some(1) fin(1,2)]
              have "?go = Some (0, Some ?p, ?w')" using True go fin(3) g by (simp add: add_function_def)
              moreover have "heap_wf ?w'"
                using w g fs(2,3) fin(2) fn' by (intro add_function_wf [where gad = gad]) (simp_all add: new_function_def)
              moreover have "function_added g type inst gad w ?w'"
                unfolding function_added_def using fs(1) fn' same_fn_fields(1) [OF fin(1)]
                by (intro exI [of _ fn'] exI [of _ fs]) (simp add: add_function_def)
              ultimately show ?thesis using found ok i by auto
            qed
          qed
        qed
      qed
    qed
  qed
qed

end
