(* ===== verification/Usbg_Safety_Gadget.thy ===== *)
theory Usbg_Safety_Gadget
  imports Usbg_Safety_Create
begin

text \<open>
  Creation of gadgets, and attaching them to a device controller, under the invariant. When
  the creation fails after the new directory was found attached, the controller keeps a
  pointer to the gadget that was freed; nothing else changes.
\<close>

section \<open>The controller of a new gadget\<close>

definition attach :: "ptr \<Rightarrow> ptr option \<Rightarrow> (ptr \<rightharpoonup> usbg_udc) \<Rightarrow> ptr \<rightharpoonup> usbg_udc" where
  "attach p u udcs =
     (case u of None \<Rightarrow> udcs | Some q \<Rightarrow> udcs(q := map_option (u_gadget_update (\<lambda>_. Some p)) (udcs q)))"

lemma attach_dom [simp]: "(attach p u udcs q = None) = (udcs q = None)"
  by (auto simp: attach_def split: option.split)

lemma wfp_attach:
  assumes "heap_ok P w"
  shows "heap_ok P (w\<lparr>udc_at := attach p u (udc_at w)\<rparr>)"
proof (cases u)
  case (Some q)
  then show ?thesis
  proof (cases "udc_at w q")
    case None
    then show ?thesis using assms Some by (simp add: attach_def fun_upd_idem)
  next
    case udc: (Some udc)
    from wfp_set_udc [OF assms udc, of "udc\<lparr>u_gadget := Some p\<rparr>"] show ?thesis
      using Some udc by (simp add: attach_def)
  qed
qed (use assms in \<open>simp add: attach_def\<close>)

definition new_gadget :: "string \<Rightarrow> string \<Rightarrow> ptr option \<Rightarrow> usbg_gadget" where
  "new_gadget path name u =
     \<lparr>g_name = name, g_path = path, g_configs = [], g_functions = [], g_udc = u, g_os_desc_binding = None\<rparr>"

text \<open>The world after the first half of a creation: the gadget is there, in no queue.\<close>

definition pending_gadget :: "string \<Rightarrow> ptr option \<Rightarrow> 'k world \<Rightarrow> 'k world" where
  "pending_gadget name u w = w\<lparr>
     next_ptr := Suc (next_ptr w),
     gadget_at := (gadget_at w)(next_ptr w \<mapsto> new_gadget (s_path w) name u),
     udc_at := attach (next_ptr w) u (udc_at w)\<rparr>"

lemma pending_gadget_wf:
  assumes "heap_wf w" "\<And>q. u = Some q \<Longrightarrow> q \<in> dom (udc_at w)"
  shows "heap_ok {next_ptr w} (pending_gadget name u w)"
proof -
  let ?p = "next_ptr w"
  let ?w1 = "w\<lparr>next_ptr := Suc ?p, gadget_at := (gadget_at w)(?p \<mapsto> new_gadget (s_path w) name None)\<rparr>"
  have "heap_ok {?p} ?w1" by (rule wfp_new_gadget [OF assms(1) refl]) (simp_all add: new_gadget_def)
  then have "heap_ok {?p} (?w1\<lparr>gadget_at := (gadget_at ?w1)(?p \<mapsto> new_gadget (s_path w) name u)\<rparr>)"
    by (rule wfp_set_gadget [where gad = "new_gadget (s_path w) name None"]) (use assms(2) in \<open>auto simp: new_gadget_def\<close>)
  from wfp_attach [OF this, of ?p u] show ?thesis by (simp add: pending_gadget_def)
qed

definition gadget_cancelled :: "'k world \<Rightarrow> 'k world \<Rightarrow> bool" where
  "gadget_cancelled w w' \<longleftrightarrow>
     same_objects (w\<lparr>udc_at := udc_at w'\<rparr>) w' \<and> (\<exists>u. udc_at w' = attach (next_ptr w) u (udc_at w))"

lemma gadget_cancelled_same: "same_objects w w' \<Longrightarrow> gadget_cancelled w w'"
  by (auto simp: gadget_cancelled_def same_objects_def attach_def intro: exI [of _ None])

lemma gadget_cancelled_wf:
  assumes "heap_wf w" "gadget_cancelled w w'"
  shows "heap_wf w'"
proof -
  from assms(2) obtain u where u: "udc_at w' = attach (next_ptr w) u (udc_at w)"
    "same_objects (w\<lparr>udc_at := udc_at w'\<rparr>) w'" by (auto simp: gadget_cancelled_def)
  from wfp_attach [OF assms(1), of "next_ptr w" u] have "heap_wf (w\<lparr>udc_at := udc_at w'\<rparr>)" by (simp add: u(1))
  with u(2) show ?thesis by (rule same_objects_heap_ok)
qed

lemma cancel_pending:
  assumes "heap_wf w"
  shows "usbg_free_gadget (next_ptr w) ((pending_gadget name u w)\<lparr>os := k\<rparr>) =
      Some ((pending_gadget name u w)\<lparr>os := k, gadget_at := gadget_at w\<rparr>)"
    "gadget_cancelled w ((pending_gadget name u w)\<lparr>os := k, gadget_at := gadget_at w\<rparr>)"
proof -
  show "usbg_free_gadget (next_ptr w) ((pending_gadget name u w)\<lparr>os := k\<rparr>) =
      Some ((pending_gadget name u w)\<lparr>os := k, gadget_at := gadget_at w\<rparr>)"
    using fresh_pointer(1) [OF assms]
    by (simp add: usbg_free_gadget_def pending_gadget_def new_gadget_def fun_upd_idem)
  show "gadget_cancelled w ((pending_gadget name u w)\<lparr>os := k, gadget_at := gadget_at w\<rparr>)"
    by (auto simp: gadget_cancelled_def same_objects_def pending_gadget_def)
qed

lemma link_udc_pending:
  assumes "heap_wf w" "\<And>q. u = Some q \<Longrightarrow> q \<in> dom (udc_at w)"
  shows "link_udc (next_ptr w) u ((pending_gadget name None w)\<lparr>os := k\<rparr>) = Some ((pending_gadget name u w)\<lparr>os := k\<rparr>)"
  using assms(2)
  by (cases u) (auto simp: link_udc_def pending_gadget_def upd_gadget_def upd_udc_def attach_def new_gadget_def)

section \<open>The empty gadget\<close>

lemma create_empty_gadget_cases:
  assumes w: "heap_wf w"
  shows "\<exists>ret w'. usbg_create_empty_gadget K name w = Some (ret, None, w') \<and> ret < 0 \<and> same_objects w w' \<or>
    (\<exists>u k. usbg_create_empty_gadget K name w = Some (0, Some (next_ptr w), (pending_gadget name u w)\<lparr>os := k\<rparr>) \<and>
       (\<forall>q. u = Some q \<longrightarrow> q \<in> dom (udc_at w)))"
proof -
  let ?p = "next_ptr w" and ?gpath = "path2 (s_path w) name"
  let ?go = "usbg_create_empty_gadget K name w"
  have fail: "?thesis" if "?go = Some (r, None, w')" "r < 0" "same_objects w w'" for r w' using that by blast
  show ?thesis
  proof (cases "fits ?gpath")
    case False
    then have "?go = Some (err USBG_ERROR_PATH_TOO_LONG, None, w)" by (simp add: usbg_create_empty_gadget_def)
    then show ?thesis by (rule fail) simp_all
  next
    case fit: True
    obtain m k1 where m: "malloc_then2 K (os w) = (m, k1)" by fastforce
    show ?thesis
    proof (cases m)
      case False
      with fit m have "?go = Some (err USBG_ERROR_NO_MEM, None, w\<lparr>os := k1\<rparr>)"
        by (simp add: usbg_create_empty_gadget_def usbg_allocate_gadget_def Let_def)
      then show ?thesis by (rule fail) simp_all
    next
      case True
      let ?w1 = "\<lambda>k. (pending_gadget name None w)\<lparr>os := k\<rparr>"
      have alloc: "usbg_allocate_gadget K (s_path w) name w = (Some ?p, ?w1 k1)"
        using m True by (simp add: usbg_allocate_gadget_def Let_def pending_gadget_def new_gadget_def attach_def)
      have same: "same_objects w ((?w1 k)\<lparr>gadget_at := gadget_at w\<rparr>)" for k
        by (simp add: same_objects_def pending_gadget_def attach_def)
      obtain e k2 where mk: "k_mkdir K ?gpath k1 = (e, k2)" by fastforce
      show ?thesis
      proof (cases e)
        case (Some x)
        have "?go = Some (usbg_translate_error x, None, (?w1 k2)\<lparr>gadget_at := gadget_at w\<rparr>)"
          using fit alloc mk Some cancel_pending(1) [OF w, where name = name and u = None and k = "k2"]
          by (simp add: usbg_create_empty_gadget_def)
        then show ?thesis by (rule fail) (use same [of k2] in simp_all)
      next
        case None
        obtain ret buf k3 where rd: "usbg_read_string K (s_path w) name ''UDC'' k2 = (ret, buf, k3)" by (metis prod_cases3)
        have ret: "ret \<le> 0" using read_string_limited_ret [of K "s_path w" name "''UDC''" USBG_MAX_STR_LENGTH k2] rd
          by (simp add: usbg_read_string_def)
        show ?thesis
        proof (cases "ret = 0")
          case False
          let ?k = "snd (k_rmdir K ?gpath k3)"
          have "?go = Some (ret, None, (?w1 ?k)\<lparr>gadget_at := gadget_at w\<rparr>)"
            using fit alloc mk None rd False cancel_pending(1) [OF w, where name = name and u = None and k = "?k"]
            by (simp add: usbg_create_empty_gadget_def)
          then show ?thesis by (rule fail) (use same [of ?k] ret False in simp_all)
        next
          case ok: True
          have udcs: "udc_at (?w1 k3) = udc_at w" "s_udcs (?w1 k3) = s_udcs w" by (simp_all add: pending_gadget_def attach_def)
          obtain u where u: "usbg_get_udc buf (?w1 k3) = Some u"
            using tailq_find_owned [OF wfpD(2) [OF w], of "\<lambda>u. u_name u = buf"] udcs by (auto simp: usbg_get_udc_def)
          then have live: "q \<in> dom (udc_at w)" if "u = Some q" for q
            using that udcs tailq_find_Some [of "udc_at w" _ "s_udcs w" q] by (auto simp: usbg_get_udc_def)
          have "?go = Some (0, Some ?p, (pending_gadget name u w)\<lparr>os := k3\<rparr>)"
            using fit alloc mk None rd ok u link_udc_pending [OF w live, where name = name and k = k3]
            by (simp add: usbg_create_empty_gadget_def)
          with live show ?thesis by blast
        qed
      qed
    qed
  qed
qed

section \<open>Both creators\<close>

text \<open>On success the new gadget is in the list of gadgets, attached to a controller or not.\<close>

definition gadget_added :: "string \<Rightarrow> 'k world \<Rightarrow> 'k world \<Rightarrow> bool" where
  "gadget_added name w w' \<longleftrightarrow>
     (\<exists>u gs. (\<forall>q. u = Some q \<longrightarrow> q \<in> dom (udc_at w)) \<and>
        insert_string_order ((gadget_name_at w)(next_ptr w \<mapsto> name)) (next_ptr w) (s_gadgets w) = Some gs \<and>
        w' = (pending_gadget name u w)\<lparr>s_gadgets := gs, os := os w'\<rparr>)"

lemma pending_simps:
  "gadget_at (pending_gadget name u w) (next_ptr w) = Some (new_gadget (s_path w) name u)"
  "s_gadgets (pending_gadget name u w) = s_gadgets w"
  "gadget_name_at (pending_gadget name u w) = (gadget_name_at w)(next_ptr w \<mapsto> name)"
  by (simp_all add: pending_gadget_def gadget_name_at_def new_gadget_def fun_eq_iff)

lemma finish_gadget_cases:
  assumes w: "heap_wf w" and u: "\<And>q. u = Some q \<Longrightarrow> q \<in> dom (udc_at w)"
  shows "\<exists>r w'. finish_gadget K (next_ptr w) (ret, (pending_gadget name u w)\<lparr>os := k\<rparr>) = Some (r, Some (next_ptr w), w') \<and>
    r = ret \<and> heap_wf w' \<and> (ret \<noteq> 0 \<and> gadget_cancelled w w' \<or> ret = 0 \<and> gadget_added name w w')"
proof -
  let ?p = "next_ptr w" and ?w = "(pending_gadget name u w)\<lparr>os := k\<rparr>"
  show ?thesis
  proof (cases "ret = 0")
    case False
    let ?k = "snd (usbg_rm_dir K (s_path w) name k)"
    let ?w' = "(pending_gadget name u w)\<lparr>os := ?k, gadget_at := gadget_at w\<rparr>"
    have "finish_gadget K ?p (ret, ?w) = Some (ret, Some ?p, ?w')"
      using False cancel_pending(1) [OF w, where name = name and u = u and k = ?k]
      by (simp add: finish_gadget_def pending_simps new_gadget_def)
    with cancel_pending(2) [OF w, where name = name and u = u and k = ?k] gadget_cancelled_wf [OF w] False show ?thesis by blast
  next
    case True
    have new: "?p \<notin> set (s_gadgets w)" using owns_live [OF wfpD(1) [OF w]] fresh_pointer(1) [OF w] by fastforce
    let ?nm = "(gadget_name_at w)(?p \<mapsto> name)"
    have own': "owns ((gadget_at w)(?p \<mapsto> new_gadget (s_path w) name u)) (\<lambda>_. True) {?p} (s_gadgets w)"
      using wfpD(1) [OF w] fresh_pointer(1) [OF w] by (simp add: owns_pend_fresh)
    obtain gs where gs: "insert_string_order ?nm ?p (s_gadgets w) = Some gs"
      "set gs = insert ?p (set (s_gadgets w))" "distinct gs"
      using own' new by (rule new_name_inserted [where nm = ?nm and f = g_name]) (auto simp: gadget_name_at_def new_gadget_def)
    let ?w' = "(pending_gadget name u w)\<lparr>s_gadgets := gs, os := k\<rparr>"
    have "finish_gadget K ?p (ret, ?w) = Some (0, Some ?p, ?w')"
      using True gs(1) by (simp add: finish_gadget_def pending_simps)
    moreover have "heap_wf ?w'"
    proof -
      have "heap_wf ((pending_gadget name u w)\<lparr>s_gadgets := gs\<rparr>)"
        by (rule wfp_link_gadget [where P = "{}", OF pending_gadget_wf [OF w u] pending_simps(1)]) (use gs in \<open>simp_all add: pending_simps(2)\<close>)
      then show ?thesis by simp
    qed
    moreover have "gadget_added name w ?w'" unfolding gadget_added_def
      by (rule exI [of _ u], rule exI [of _ gs]) (use u gs(1) in auto)
    ultimately show ?thesis using True by blast
  qed
qed

definition gadget_created :: "string \<Rightarrow> 'k world \<Rightarrow> int \<Rightarrow> ptr option \<Rightarrow> 'k world \<Rightarrow> bool" where
  "gadget_created name w ret g w' \<longleftrightarrow>
     ret \<noteq> 0 \<and> gadget_cancelled w w' \<or>
     ret = 0 \<and> usbg_get_gadget name w = Some None \<and> g = Some (next_ptr w) \<and> gadget_added name w w'"

lemma get_gadget_defined:
  assumes "heap_wf w"
  shows "\<exists>r. usbg_get_gadget name w = Some r"
  using tailq_find_owned [OF wfpD(1) [OF assms], of "\<lambda>g. g_name g = name"] by (simp add: usbg_get_gadget_def)

lemma create_gadget_vid_pid_wf:
  assumes w: "heap_wf w"
  shows "\<exists>ret g w'. usbg_create_gadget_vid_pid K name v p True w = Some (ret, g, w') \<and> heap_wf w' \<and>
    gadget_created name w ret g w'"
proof -
  let ?go = "usbg_create_gadget_vid_pid K name v p True w"
  obtain r where found: "usbg_get_gadget name w = Some r" using get_gadget_defined [OF w] by blast
  show ?thesis
  proof (cases r)
    case (Some x)
    then have "?go = Some (err USBG_ERROR_EXIST, None, w)" using found by (simp add: usbg_create_gadget_vid_pid_def)
    with w show ?thesis by (simp add: gadget_created_def gadget_cancelled_same)
  next
    case None
    from create_empty_gadget_cases [OF w, of K name] consider
        (fail) ret w' where "usbg_create_empty_gadget K name w = Some (ret, None, w')" "ret < 0" "same_objects w w'"
      | (ok) u k where "usbg_create_empty_gadget K name w = Some (0, Some (next_ptr w), (pending_gadget name u w)\<lparr>os := k\<rparr>)"
          "\<forall>q. u = Some q \<longrightarrow> q \<in> dom (udc_at w)" by blast
    then show ?thesis
    proof cases
      case fail
      then have "?go = Some (ret, None, w')" using found None by (simp add: usbg_create_gadget_vid_pid_def)
      with fail(2,3) same_objects_heap_ok [OF fail(3) w] show ?thesis by (simp add: gadget_created_def gadget_cancelled_same)
    next
      case ok
      obtain r2 k2 where "write_ints K (s_path w) name
          [(''idVendor'', Fmt_04x, ucast v), (''idProduct'', Fmt_04x, ucast p)] k = (r2, k2)" by fastforce
      then have "?go = finish_gadget K (next_ptr w) (r2, (pending_gadget name u w)\<lparr>os := k2\<rparr>)"
        using found None ok(1)
        by (simp add: usbg_create_gadget_vid_pid_def pending_gadget_def del: write_ints.simps)
      with finish_gadget_cases [OF w, of u K r2 k2 name] ok(2) found None show ?thesis
        by (auto simp: gadget_created_def)
    qed
  qed
qed

lemma create_gadget_wf:
  assumes w: "heap_wf w"
  shows "\<exists>ret g w'. usbg_create_gadget K name a s True w = Some (ret, g, w') \<and> heap_wf w' \<and> gadget_created name w ret g w'"
proof -
  let ?go = "usbg_create_gadget K name a s True w"
  obtain r where found: "usbg_get_gadget name w = Some r" using get_gadget_defined [OF w] by blast
  show ?thesis
  proof (cases r)
    case (Some x)
    then have "?go = Some (err USBG_ERROR_EXIST, None, w)" using found by (simp add: usbg_create_gadget_def)
    with w show ?thesis by (simp add: gadget_created_def gadget_cancelled_same)
  next
    case None
    from create_empty_gadget_cases [OF w, of K name] consider
        (fail) ret w' where "usbg_create_empty_gadget K name w = Some (ret, None, w')" "ret < 0" "same_objects w w'"
      | (ok) u k where "usbg_create_empty_gadget K name w = Some (0, Some (next_ptr w), (pending_gadget name u w)\<lparr>os := k\<rparr>)"
          "\<forall>q. u = Some q \<longrightarrow> q \<in> dom (udc_at w)" by blast
    then show ?thesis
    proof cases
      case fail
      then have "?go = Some (ret, None, w')" using found None by (simp add: usbg_create_gadget_def)
      with fail(2,3) same_objects_heap_ok [OF fail(3) w] show ?thesis by (simp add: gadget_created_def gadget_cancelled_same)
    next
      case ok
      let ?w1 = "\<lambda>k. (pending_gadget name u w)\<lparr>os := k\<rparr>"
      have live: "gadget_at (?w1 k) (next_ptr w) = Some (new_gadget (s_path w) name u)" for k by (simp add: pending_simps)
      have "\<exists>r2 k2. (if a = None then Some (err USBG_SUCCESS, ?w1 k) else usbg_set_gadget_attrs K (Some (next_ptr w)) a (?w1 k))
          = Some (r2, ?w1 k2)"
        using set_gadget_attrs_os [OF live, of K a k] by auto
      then obtain r2 k2 where s2: "(if a = None then Some (err USBG_SUCCESS, ?w1 k)
          else usbg_set_gadget_attrs K (Some (next_ptr w)) a (?w1 k)) = Some (r2, ?w1 k2)" by blast
      have "\<exists>r3 k3. (if r2 \<noteq> err USBG_SUCCESS \<or> s = None then Some (r2, ?w1 k2)
          else usbg_set_gadget_strs K (Some (next_ptr w)) LANG_US_ENG s (?w1 k2)) = Some (r3, ?w1 k3)"
        using set_gadget_strs_os [OF live, of K LANG_US_ENG s k2] by auto
      then obtain r3 k3 where s3: "(if r2 \<noteq> err USBG_SUCCESS \<or> s = None then Some (r2, ?w1 k2)
          else usbg_set_gadget_strs K (Some (next_ptr w)) LANG_US_ENG s (?w1 k2)) = Some (r3, ?w1 k3)" by blast
      have "?go = Option.bind (if r2 \<noteq> err USBG_SUCCESS \<or> s = None then Some (r2, ?w1 k2)
          else usbg_set_gadget_strs K (Some (next_ptr w)) LANG_US_ENG s (?w1 k2)) (finish_gadget K (next_ptr w))"
        using found None ok(1) by (simp add: usbg_create_gadget_def s2 del: err.simps(1))
      also have "\<dots> = finish_gadget K (next_ptr w) (r3, ?w1 k3)" unfolding s3 by simp
      finally have "?go = finish_gadget K (next_ptr w) (r3, ?w1 k3)" .
      with finish_gadget_cases [OF w, of u K r3 k3 name] ok(2) found None show ?thesis
        by (auto simp: gadget_created_def)
    qed
  qed
qed

end
