(* ===== verification/Usbg_Safety_Udc.thy ===== *)
theory Usbg_Safety_Udc
  imports Usbg_Safety_Gadget
begin

text \<open>
  Enabling and disabling a gadget, the look at its controller, the link of the OS
  descriptors, and the attributes of functions, under the invariant.
\<close>

section \<open>Pointers between a gadget and its controller\<close>

definition set_udc :: "ptr \<Rightarrow> ptr option \<Rightarrow> 'k world \<Rightarrow> 'k world" where
  "set_udc g u w = w\<lparr>gadget_at := (gadget_at w)(g := map_option (g_udc_update (\<lambda>_. u)) (gadget_at w g))\<rparr>"

definition set_gadget_of :: "ptr \<Rightarrow> ptr option \<Rightarrow> 'k world \<Rightarrow> 'k world" where
  "set_gadget_of u g w = w\<lparr>udc_at := (udc_at w)(u := map_option (u_gadget_update (\<lambda>_. g)) (udc_at w u))\<rparr>"

definition detach :: "ptr option \<Rightarrow> 'k world \<Rightarrow> 'k world" where
  "detach u w = (case u of None \<Rightarrow> w | Some q \<Rightarrow> set_gadget_of q None w)"

lemma set_udc_wf:
  assumes "heap_ok P w" "gadget_at w g = Some gad" "\<And>q. u = Some q \<Longrightarrow> q \<in> dom (udc_at w)"
  shows "heap_ok P (set_udc g u w)"
  using wfp_set_gadget [OF assms(1,2), of "gad\<lparr>g_udc := u\<rparr>"] assms(2,3) by (simp add: set_udc_def)

lemma set_gadget_of_wf:
  assumes "heap_ok P w" "udc_at w u = Some udc"
  shows "heap_ok P (set_gadget_of u g w)"
  using wfp_set_udc [OF assms, of "udc\<lparr>u_gadget := g\<rparr>"] assms(2) by (simp add: set_gadget_of_def)

lemma detach_wf:
  assumes "heap_ok P w" "gadget_at w g = Some gad"
  shows "heap_ok P (detach (g_udc gad) w)"
  using assms(1) set_gadget_of_wf wfpD(5) [OF assms] by (auto simp: detach_def split: option.split)

lemma detach_simps [simp]:
  "gadget_at (detach u w) = gadget_at w" "os (detach u w) = os w" "config_at (detach u w) = config_at w"
  "(udc_at (detach u w) q = None) = (udc_at w q = None)"
  by (auto simp: detach_def set_gadget_of_def split: option.split)

lemma unlink_udc_eq:
  assumes "heap_ok P w" "gadget_at w g = Some gad"
  shows "unlink_udc g w = Some (detach (g_udc gad) w)"
  using assms(2) wfpD(5) [OF assms]
  by (auto simp: unlink_udc_def detach_def set_gadget_of_def upd_udc_def split: option.split)

section \<open>Enabling and disabling\<close>

text \<open>The controller that is meant: the one given, or the first of the state.\<close>

definition chosen_udc :: "ptr option \<Rightarrow> 'k world \<Rightarrow> ptr option" where
  "chosen_udc udc w = (case udc of None \<Rightarrow> usbg_get_first_udc w | Some u \<Rightarrow> Some u)"

lemma chosen_udc_live:
  assumes "heap_wf w" "\<And>u. udc = Some u \<Longrightarrow> u \<in> dom (udc_at w)" "chosen_udc udc w = Some u"
  shows "\<exists>x. udc_at w u = Some x"
  using assms owns_live [OF wfpD(2) [OF assms(1)], of u]
  by (cases udc) (auto simp: chosen_udc_def usbg_get_first_udc_def tailq_first_def split: list.splits)

lemma enable_gadget_wf:
  assumes w: "heap_wf w" and g: "gadget_at w g = Some gad" and u: "\<And>u. udc = Some u \<Longrightarrow> u \<in> dom (udc_at w)"
  shows "\<exists>ret w'. usbg_enable_gadget K (Some g) udc w = Some (ret, w') \<and> heap_wf w' \<and>
    (ret \<noteq> 0 \<and> same_objects w w' \<or>
     ret = 0 \<and> (\<exists>q. chosen_udc udc w = Some q \<and>
       w' = set_gadget_of q (Some g) (set_udc g (Some q) (detach (g_udc gad) (w\<lparr>os := os w'\<rparr>)))))"
proof (cases "chosen_udc udc w")
  case None
  then have "usbg_enable_gadget K (Some g) udc w = Some (err USBG_ERROR_INVALID_PARAM, w)"
    by (simp add: usbg_enable_gadget_def nonnull_ret_def chosen_udc_def)
  with w show ?thesis by simp
next
  case (Some q)
  from chosen_udc_live [OF w u Some] obtain x where x: "udc_at w q = Some x" by blast
  obtain r k where wr: "usbg_write_string K (g_path gad) (g_name gad) ''UDC'' (Some (u_name x)) (os w) = (r, k)"
    by fastforce
  have start: "usbg_enable_gadget K (Some g) udc w =
    (if r \<noteq> err USBG_SUCCESS then Some (r, w\<lparr>os := k\<rparr>)
     else do {
       w2 \<leftarrow> unlink_udc g (w\<lparr>os := k\<rparr>);
       w3 \<leftarrow> upd_gadget g (g_udc_update (\<lambda>_. Some q)) w2;
       w4 \<leftarrow> upd_udc q (u_gadget_update (\<lambda>_. Some g)) w3;
       Some (r, w4)
     })"
    using Some x g wr by (simp add: usbg_enable_gadget_def nonnull_ret_def chosen_udc_def)
  show ?thesis
  proof (cases "r = 0")
    case False
    with start w show ?thesis by simp
  next
    case True
    let ?d = "detach (g_udc gad) (w\<lparr>os := k\<rparr>)"
    let ?w' = "set_gadget_of q (Some g) (set_udc g (Some q) ?d)"
    have ok: "heap_wf (w\<lparr>os := k\<rparr>)" "gadget_at (w\<lparr>os := k\<rparr>) g = Some gad" using w g by simp_all
    have d: "heap_wf ?d" "gadget_at ?d g = Some gad" using detach_wf [OF ok] g by simp_all
    have "udc_at ?d q \<noteq> None" using x by simp
    then obtain y where y: "udc_at ?d q = Some y" by blast
    then have s: "heap_wf (set_udc g (Some q) ?d)" by (intro set_udc_wf [OF d]) auto
    have y': "udc_at (set_udc g (Some q) ?d) q = Some y" using y by (simp add: set_udc_def)
    have "usbg_enable_gadget K (Some g) udc w = Some (0, ?w')"
      using start True unlink_udc_eq [OF ok] d(2) y
      by (simp add: upd_gadget_def upd_udc_def set_udc_def set_gadget_of_def)
    moreover have "heap_wf ?w'" by (rule set_gadget_of_wf [OF s y'])
    moreover have "os ?w' = k" by (simp add: set_gadget_of_def set_udc_def)
    ultimately show ?thesis using Some by auto
  qed
qed

lemma disable_gadget_wf:
  assumes w: "heap_wf w" and g: "gadget_at w g = Some gad"
  shows "\<exists>ret w'. usbg_disable_gadget K (Some g) w = Some (ret, w') \<and> heap_wf w' \<and>
    (ret \<noteq> 0 \<and> same_objects w w' \<or> ret = 0 \<and> w' = set_udc g None (detach (g_udc gad) (w\<lparr>os := os w'\<rparr>)))"
proof -
  obtain r k where wr: "usbg_write_string K (g_path gad) (g_name gad) ''UDC'' (Some [CHR 0x0A]) (os w) = (r, k)"
    by fastforce
  have start: "usbg_disable_gadget K (Some g) w =
    (if r \<noteq> err USBG_SUCCESS then Some (r, w\<lparr>os := k\<rparr>)
     else do {
       w2 \<leftarrow> unlink_udc g (w\<lparr>os := k\<rparr>);
       w3 \<leftarrow> upd_gadget g (g_udc_update (\<lambda>_. None)) w2;
       Some (r, w3)
     })"
    using g wr by (simp add: usbg_disable_gadget_def nonnull_ret_def)
  show ?thesis
  proof (cases "r = 0")
    case False
    with start w show ?thesis by simp
  next
    case True
    let ?d = "detach (g_udc gad) (w\<lparr>os := k\<rparr>)"
    have ok: "heap_wf (w\<lparr>os := k\<rparr>)" "gadget_at (w\<lparr>os := k\<rparr>) g = Some gad" using w g by simp_all
    have d: "heap_wf ?d" "gadget_at ?d g = Some gad" using detach_wf [OF ok] g by simp_all
    have "usbg_disable_gadget K (Some g) w = Some (0, set_udc g None ?d)"
      using start True unlink_udc_eq [OF ok] d(2) by (simp add: upd_gadget_def set_udc_def)
    moreover have "heap_wf (set_udc g None ?d)" by (rule set_udc_wf [OF d]) simp
    ultimately show ?thesis by (auto simp: set_udc_def)
  qed
qed

section \<open>Looking at the controller\<close>

lemma get_gadget_udc_wf:
  assumes w: "heap_wf w" and g: "gadget_at w g = Some gad"
  shows "\<exists>r w'. usbg_get_gadget_udc K (Some g) w = Some (r, w') \<and> heap_wf w' \<and>
    (same_objects w w' \<and> (r = g_udc gad \<or> r = None) \<or>
     r = None \<and> (\<exists>q. g_udc gad = Some q \<and> w' = set_udc g None (set_gadget_of q None (w\<lparr>os := os w'\<rparr>))))"
proof (cases "g_udc gad")
  case None
  with w g show ?thesis by (simp add: usbg_get_gadget_udc_def)
next
  case (Some q)
  from wfpD(5) [OF w g Some] obtain x where x: "udc_at w q = Some x" by blast
  obtain r buf k where rd: "usbg_read_string K (g_path gad) (g_name gad) ''UDC'' (os w) = (r, buf, k)"
    by (metis prod_cases3)
  have start: "usbg_get_gadget_udc K (Some g) w =
    (if r \<noteq> err USBG_SUCCESS then Some (None, w\<lparr>os := k\<rparr>)
     else if u_name x = buf then Some (Some q, w\<lparr>os := k\<rparr>)
     else do {
       w2 \<leftarrow> upd_udc q (u_gadget_update (\<lambda>_. None)) (w\<lparr>os := k\<rparr>);
       w3 \<leftarrow> upd_gadget g (g_udc_update (\<lambda>_. None)) w2;
       Some (None, w3)
     })"
    using g Some x rd by (simp add: usbg_get_gadget_udc_def)
  consider "r \<noteq> 0" | "r = 0" "u_name x = buf" | "r = 0" "u_name x \<noteq> buf" by blast
  then show ?thesis
  proof cases
    case 3
    let ?w1 = "w\<lparr>os := k\<rparr>" and ?w' = "set_udc g None (set_gadget_of q None (w\<lparr>os := k\<rparr>))"
    have "heap_wf ?w1" "udc_at ?w1 q = Some x" using w x by simp_all
    then have s: "heap_wf (set_gadget_of q None ?w1)" by (rule set_gadget_of_wf)
    have "heap_wf ?w'" by (rule set_udc_wf [OF s, where gad = gad]) (simp_all add: set_gadget_of_def g)
    moreover have "usbg_get_gadget_udc K (Some g) w = Some (None, ?w')"
      using start 3 x g by (simp add: upd_udc_def upd_gadget_def set_udc_def set_gadget_of_def)
    moreover have "os ?w' = k" by (simp add: set_udc_def set_gadget_of_def)
    ultimately show ?thesis using Some by auto
  qed (use start w Some in auto)
qed

text \<open>
  \<open>usbg_get_udc_gadget\<close> when the kernel detached the controller since: the check clears
  the controller's pointer to the gadget, which is then followed.
\<close>

lemma get_udc_gadget_detached:
  assumes "udc_at w u = Some udc" "u_gadget udc = Some g" "gadget_at w g = Some gad" "g_udc gad = Some u"
    and "usbg_read_string K (g_path gad) (g_name gad) ''UDC'' (os w) = (0, buf, k)" "buf \<noteq> u_name udc"
  shows "usbg_get_udc_gadget K (Some u) w = None"
  using assms by (simp add: usbg_get_udc_gadget_def usbg_get_gadget_udc_def upd_udc_def upd_gadget_def)

lemma get_udc_gadget_attached:
  assumes "udc_at w u = Some udc" "u_gadget udc = Some g" "gadget_at w g = Some gad" "g_udc gad = Some u"
    and "usbg_read_string K (g_path gad) (g_name gad) ''UDC'' (os w) = (0, u_name udc, k)"
  shows "usbg_get_udc_gadget K (Some u) w = Some (Some g, w\<lparr>os := k\<rparr>)"
  using assms by (simp add: usbg_get_udc_gadget_def usbg_get_gadget_udc_def)

section \<open>The OS descriptors and attributes of functions\<close>

lemma wfp_os_desc:
  assumes "heap_ok P w" "gadget_at w g = Some gad"
  shows "heap_ok P (w\<lparr>gadget_at := (gadget_at w)(g \<mapsto> gad\<lparr>g_os_desc_binding := b\<rparr>)\<rparr>)"
  using wfp_set_gadget [OF assms, of "gad\<lparr>g_os_desc_binding := b\<rparr>"] wfpD(5) [OF assms] by auto

lemma set_os_desc_config_wf:
  assumes w: "heap_wf w" and g: "gadget_at w g = Some gad" and c: "\<And>p. c = Some p \<Longrightarrow> p \<in> dom (config_at w)"
  shows "\<exists>ret w'. usbg_set_os_desc_config K (Some g) c w = Some (ret, w') \<and> heap_wf w'"
proof (cases c)
  case None
  with rm_os_desc_link_wf [OF g, of K] w show ?thesis by (auto simp: usbg_set_os_desc_config_def nonnull_ret_def)
next
  case (Some p)
  with c obtain conf where conf: "config_at w p = Some conf" by auto
  show ?thesis
  proof (cases "g_os_desc_binding gad = None")
    case False
    with Some g w show ?thesis by (auto simp: usbg_set_os_desc_config_def nonnull_ret_def)
  next
    case True
    have "heap_wf (w\<lparr>os := k, gadget_at := (gadget_at w)(g \<mapsto> gad\<lparr>g_os_desc_binding := Some p\<rparr>)\<rparr>)" for k
      using wfp_os_desc [of "{}" "w\<lparr>os := k\<rparr>" g gad "Some p"] w g by simp
    with True Some g conf w show ?thesis
      by (auto simp: usbg_set_os_desc_config_def nonnull_ret_def usbg_create_os_desc_link_def Let_def upd_gadget_def
          split: option.split)
  qed
qed

lemma set_function_attrs_wf:
  assumes "luns_named K" "heap_wf w" "function_at w f = Some fn" "\<forall>a. f_attrs = Some a \<longrightarrow> attrs_ok (f_type fn) a"
  shows "\<exists>ret w'. usbg_set_function_attrs K (Some f) f_attrs w = Some (ret, w') \<and> heap_wf w' \<and>
    (\<exists>fn'. same_fn fn fn' \<and> w' = w\<lparr>function_at := (function_at w)(f \<mapsto> fn'), os := os w'\<rparr>)"
proof (cases f_attrs)
  case None
  then have "usbg_set_function_attrs K (Some f) f_attrs w = Some (err USBG_ERROR_INVALID_PARAM, w)"
    by (simp add: usbg_set_function_attrs_def)
  moreover have "same_fn fn fn \<and> w = w\<lparr>function_at := (function_at w)(f \<mapsto> fn), os := os w\<rparr>"
    using assms(3) by (simp add: fun_upd_idem)
  ultimately show ?thesis using assms(2) by blast
next
  case (Some a)
  from function_set_attrs_defined [OF assms(1) wfpD(9) [OF assms(2,3)], of a "os w"] assms(4) Some
  obtain r fn' k where r: "function_set_attrs K fn a (os w) = Some (r, fn', k)" "ext_fits fn'" "same_fn fn fn'" by auto
  have "heap_wf (w\<lparr>function_at := (function_at w)(f \<mapsto> fn')\<rparr>\<lparr>os := k\<rparr>)"
    unfolding wfp_os by (rule wfp_set_function [OF assms(2,3) same_fn_fields(5) [OF r(3)] r(2)])
  with r Some assms(3) show ?thesis by (auto simp: usbg_set_function_attrs_def)
qed

end
