(* ===== verification/Usbg_Safety_Rm.thy ===== *)
theory Usbg_Safety_Rm
  imports Usbg_Safety Usbg_Ms_Total
begin

text \<open>
  Removal of functions and gadgets under the invariant. A function is removed after the links
  to it, a gadget after everything below it; the loops end, and what is left afterwards is the
  world without the object and its descendants.
\<close>

section \<open>Removing the links to a function\<close>

text \<open>No binding of a configuration leads to the function.\<close>

definition unlinked :: "ptr \<Rightarrow> ptr \<Rightarrow> 'k world \<Rightarrow> bool" where
  "unlinked f c w \<longleftrightarrow> (\<forall>b bn. binding_at w b = Some bn \<and> b_parent bn = c \<longrightarrow> b_target bn \<noteq> f)"

lemma unlinked_fewer: "unlinked f c w \<Longrightarrow> fewer_bindings w w' \<Longrightarrow> unlinked f c w'"
  using fewer_bindingsD(7) unfolding unlinked_def by blast

lemma rm_links_wf:
  assumes "heap_wf w" "config_at w c = Some conf" "set bs \<subseteq> set (c_bindings conf)" "distinct bs"
    and "\<forall>b\<in>set (c_bindings conf) - set bs. \<forall>bn. binding_at w b = Some bn \<longrightarrow> b_target bn \<noteq> f"
  shows "\<exists>ret w'. rm_links K f bs w = Some (ret, w') \<and> ret \<le> 0 \<and> heap_wf w' \<and> fewer_bindings w w' \<and>
    (ret = 0 \<longrightarrow> unlinked f c w')"
  using assms
proof (induction bs arbitrary: w conf)
  case Nil
  have "unlinked f c w"
    unfolding unlinked_def
    using owns_member [OF wfpD(7) [OF Nil.prems(1,2)]] Nil.prems(5) by fastforce
  with Nil.prems(1) show ?case by simp
next
  case (Cons b bs)
  from owns_live [OF wfpD(7) [OF Cons.prems(1,2)], of b] Cons.prems(3) obtain bn where
    b: "binding_at w b = Some bn" "b_parent bn = c" by auto
  show ?case
  proof (cases "b_target bn = f")
    case False
    with Cons.prems b have "\<forall>b\<in>set (c_bindings conf) - set bs. \<forall>bn. binding_at w b = Some bn \<longrightarrow> b_target bn \<noteq> f"
      by auto
    with Cons.IH [OF Cons.prems(1,2) _ _ this] Cons.prems(3,4) b(1) False show ?thesis by auto
  next
    case True
    from rm_binding_wf [OF Cons.prems(1) b(1), of K] obtain ret w1 where
      r: "usbg_rm_binding K (Some b) w = Some (ret, w1)" "ret \<le> 0" "heap_wf w1"
        "if ret = 0 then w1 = del_binding b c (w\<lparr>os := os w1\<rparr>) else w1 = w\<lparr>os := os w1\<rparr>"
      using b(2) by blast
    have step: "rm_links K f (b # bs) w = (if ret \<noteq> err USBG_SUCCESS then Some (ret, w1) else rm_links K f bs w1)"
      using b(1) True r(1) by simp
    show ?thesis
    proof (cases "ret = 0")
      case False
      with r(4) have "w1 = w\<lparr>os := os w1\<rparr>" by simp
      then have "fewer_bindings w w1" by (metis fewer_bindings_os)
      with step r(2,3) False show ?thesis by simp
    next
      case rz: True
      with r(4) have w1: "w1 = del_binding b c (w\<lparr>os := os w1\<rparr>)" by simp
      let ?conf = "conf\<lparr>c_bindings := remove1 b (c_bindings conf)\<rparr>"
      have c1: "config_at w1 c = Some ?conf" "\<And>x xn. binding_at w1 x = Some xn \<Longrightarrow> binding_at w x = Some xn"
        by (subst w1, simp add: del_binding_def Cons.prems(2)) (subst (asm) w1, simp add: del_binding_def split: if_splits)
      have f1: "fewer_bindings w w1" by (subst w1, simp)
      have d: "distinct (c_bindings conf)" by (rule owns_distinct [OF wfpD(7) [OF Cons.prems(1,2)]])
      have sub: "set bs \<subseteq> set (c_bindings ?conf)" using Cons.prems(3,4) d by auto
      have rest: "\<forall>x\<in>set (c_bindings ?conf) - set bs. \<forall>xn. binding_at w1 x = Some xn \<longrightarrow> b_target xn \<noteq> f"
        using Cons.prems(5) c1(2) d by auto
      from Cons.IH [OF r(3) c1(1) sub _ rest] Cons.prems(4) step rz fewer_bindings_trans [OF f1] show ?thesis
        by auto
    qed
  qed
qed

lemma rm_links_of_configs_wf:
  assumes "heap_wf w" "\<forall>c\<in>set cs. config_at w c \<noteq> None"
  shows "\<exists>ret w'. rm_links_of_configs K f cs w = Some (ret, w') \<and> ret \<le> 0 \<and> heap_wf w' \<and> fewer_bindings w w' \<and>
    (ret = 0 \<longrightarrow> (\<forall>c\<in>set cs. unlinked f c w'))"
  using assms
proof (induction cs arbitrary: w)
  case (Cons c cs)
  then obtain conf where c: "config_at w c = Some conf" by auto
  from rm_links_wf [OF Cons.prems(1) c order_refl owns_distinct [OF wfpD(7) [OF Cons.prems(1) c]], of f K]
  obtain ret w1 where r: "rm_links K f (c_bindings conf) w = Some (ret, w1)" "ret \<le> 0" "heap_wf w1"
    "fewer_bindings w w1" "ret = 0 \<longrightarrow> unlinked f c w1" by auto
  have live: "\<forall>d\<in>set cs. config_at w1 d \<noteq> None"
  proof
    fix d assume "d \<in> set cs"
    with Cons.prems(2) obtain dn where "config_at w d = Some dn" by auto
    with r(4) show "config_at w1 d \<noteq> None" by (rule fewer_bindings_config) simp
  qed
  from Cons.IH [OF r(3) live] obtain ret' w' where
    IH: "rm_links_of_configs K f cs w1 = Some (ret', w')" "ret' \<le> 0" "heap_wf w'" "fewer_bindings w1 w'"
      "ret' = 0 \<longrightarrow> (\<forall>c\<in>set cs. unlinked f c w')" by blast
  show ?case
  proof (cases "ret = 0")
    case True
    have f: "fewer_bindings w w'" by (rule fewer_bindings_trans [OF r(4) IH(4)])
    from r(1) c True IH(1) have "rm_links_of_configs K f (c # cs) w = Some (ret', w')" by simp
    with IH(2,3,5) f r(5) True unlinked_fewer [OF _ IH(4)] show ?thesis by simp
  next
    case False
    with r c have "rm_links_of_configs K f (c # cs) w = Some (ret, w1)" by simp
    with r False show ?thesis by simp
  qed
qed simp

section \<open>Removing a function\<close>

definition del_function :: "ptr \<Rightarrow> ptr \<Rightarrow> 'k world \<Rightarrow> 'k world" where
  "del_function f g w = w\<lparr>
     gadget_at := (gadget_at w)(g := map_option (\<lambda>gad. gad\<lparr>g_functions := remove1 f (g_functions gad)\<rparr>)
       (gadget_at w g)),
     function_at := (function_at w)(f := None)\<rparr>"

lemma del_function_wf:
  assumes "heap_wf w" "function_at w f = Some fn" "f_parent fn = g"
  shows "heap_wf (del_function f g w)"
proof -
  from wfpD(8) [OF assms(1,2)] assms(3) obtain gad where g: "gadget_at w g = Some gad" by auto
  have "heap_ok {f} (w\<lparr>gadget_at := (gadget_at w)(g \<mapsto> gad\<lparr>g_functions := remove1 f (g_functions gad)\<rparr>)\<rparr>)"
    using wfp_unlink_function [OF assms(1,2,3) g] by simp
  from wfp_free_function [of f "{}", OF this] assms(2) g show ?thesis by (simp add: del_function_def)
qed

text \<open>
  The result of a removal: the links are gone first (none is touched if the gadget has no
  configuration), then the function, or the function is there with its LUN mask updated.
\<close>

definition function_removed ::
  "ptr \<Rightarrow> usbg_function \<Rightarrow> usbg_gadget \<Rightarrow> int \<Rightarrow> 'k world \<Rightarrow> int \<Rightarrow> 'k world \<Rightarrow> bool" where
  "function_removed f fn gad opts w ret w' \<longleftrightarrow>
     (\<exists>w0. fewer_bindings w w0 \<and> (g_configs gad = [] \<longrightarrow> w0 = w\<lparr>os := os w0\<rparr>) \<and>
       (opts AND USBG_RM_RECURSE \<noteq> 0 \<and> ret = 0 \<longrightarrow> (\<forall>c\<in>set (g_configs gad). unlinked f c w0)) \<and>
       (ret = 0 \<and> w' = del_function f (f_parent fn) (w0\<lparr>os := os w'\<rparr>) \<or>
        ret \<noteq> 0 \<and> (\<exists>fn'. same_fn fn fn' \<and> w' = w0\<lparr>function_at := (function_at w0)(f \<mapsto> fn'), os := os w'\<rparr>)))"

lemma fewer_bindings_self: "w' = w\<lparr>os := os w'\<rparr> \<Longrightarrow> fewer_bindings w w'"
  by (metis fewer_bindings_os)

lemma rm_function_wf:
  assumes K: "luns_named K" and w: "heap_wf w" and f: "function_at w f = Some fn"
    and g: "gadget_at w (f_parent fn) = Some gad"
  shows "\<exists>ret w'. usbg_rm_function K (Some f) opts w = Some (ret, w') \<and> heap_wf w' \<and>
    function_removed f fn gad opts w ret w'"
proof -
  let ?g = "f_parent fn" and ?rec = "opts AND USBG_RM_RECURSE = 0"
  let ?pre = "if ?rec then Some (err USBG_SUCCESS, w)
      else do { gad \<leftarrow> gadget_at w ?g; rm_links_of_configs K f (g_configs gad) w }"
  have live: "\<forall>c\<in>set (g_configs gad). config_at w c \<noteq> None"
    using owns_live [OF wfpD(3) [OF w g]] by fastforce
  have "\<exists>ret w1. ?pre = Some (ret, w1) \<and> heap_wf w1 \<and> fewer_bindings w w1 \<and> (g_configs gad = [] \<longrightarrow> w1 = w \<and> ret = 0) \<and>
      (\<not> ?rec \<and> ret = 0 \<longrightarrow> (\<forall>c\<in>set (g_configs gad). unlinked f c w1))"
  proof (cases ?rec)
    case True
    with w show ?thesis by simp
  next
    case False
    with rm_links_of_configs_wf [OF w live, of K f] g show ?thesis by auto
  qed
  then obtain ret w1 where pre: "?pre = Some (ret, w1)" "heap_wf w1" "fewer_bindings w w1"
    "g_configs gad = [] \<longrightarrow> w1 = w \<and> ret = 0" "\<not> ?rec \<and> ret = 0 \<longrightarrow> (\<forall>c\<in>set (g_configs gad). unlinked f c w1)" by blast
  have f1: "function_at w1 f = Some fn" and g1: "gadget_at w1 ?g = Some gad"
    using f g fewer_bindingsD(1,2) [OF pre(3)] by simp_all
  have start: "usbg_rm_function K (Some f) opts w =
    (if ret \<noteq> err USBG_SUCCESS then Some (ret, w1)
     else do {
       fn1 \<leftarrow> function_at w1 f;
       (ret, fn2, k2) \<leftarrow> function_remove K fn1 (os w1);
       let w2 = w1\<lparr>function_at := (function_at w1)(f \<mapsto> fn2), os := k2\<rparr> in
       if ret \<noteq> err USBG_SUCCESS then Some (ret, w2)
       else let (ret, w3) = on_os (usbg_rm_dir K (f_path fn2) (f_name fn2)) w2 in
         if ret \<noteq> err USBG_SUCCESS then Some (ret, w3)
         else do {
           gad \<leftarrow> gadget_at w3 ?g;
           fs \<leftarrow> tailq_remove f (g_functions gad);
           w4 \<leftarrow> upd_gadget ?g (g_functions_update (\<lambda>_. fs)) w3;
           w5 \<leftarrow> usbg_free_function f w4;
           Some (ret, w5)
         }
     })"
    using f pre(1) by (simp add: usbg_rm_function_def nonnull_ret_def Let_def)
  show ?thesis
  proof (cases "ret = 0")
    case False
    from False start have "usbg_rm_function K (Some f) opts w = Some (ret, w1)" by simp
    moreover have "w1 = w1\<lparr>function_at := (function_at w1)(f \<mapsto> fn), os := os w1\<rparr>" using f1 by (simp add: fun_upd_idem)
    ultimately show ?thesis using False pre(2,3,4) unfolding function_removed_def by (metis same_fn_refl)
  next
    case True
    have fits: "ext_fits fn" by (rule wfpD(9) [OF w f])
    from function_remove_total [OF K fits, of "os w1"] obtain r2 fn2 k2 where
      r2: "function_remove K fn (os w1) = Some (r2, fn2, k2)" "ext_fits fn2" "same_fn fn fn2" by blast
    have par: "f_parent fn2 = f_parent fn" by (rule same_fn_fields(5) [OF r2(3)])
    obtain r3 k3 where r3: "usbg_rm_dir K (f_path fn2) (f_name fn2) k2 = (r3, k3)" by fastforce
    let ?upd = "\<lambda>k. w1\<lparr>function_at := (function_at w1)(f \<mapsto> fn2), os := k\<rparr>"
    have "heap_wf (w1\<lparr>function_at := (function_at w1)(f \<mapsto> fn2)\<rparr>\<lparr>os := k\<rparr>)" for k
      unfolding wfp_os by (rule wfp_set_function [OF pre(2) f1 par r2(2)])
    then have wf: "heap_wf (?upd k)" for k by simp
    have fail: "?thesis" if "usbg_rm_function K (Some f) opts w = Some (r, ?upd k)" "r \<noteq> 0" for r k
    proof -
      have "function_removed f fn gad opts w r (?upd k)"
        unfolding function_removed_def using that(2) pre(3,4) r2(3)
        by (intro exI [of _ w1]) auto
      with that(1) wf show ?thesis by blast
    qed
    consider "r2 \<noteq> 0" | "r2 = 0" "r3 \<noteq> 0" | "r2 = 0" "r3 = 0" by blast
    then show ?thesis
    proof cases
      case 1
      with start True f1 r2(1) show ?thesis by (intro fail [of r2 k2]) simp_all
    next
      case 2
      with start True f1 r2(1) r3 show ?thesis by (intro fail [of r3 k3]) simp_all
    next
      case 3
      have mem: "f \<in> set (g_functions gad)" by (rule owns_member [OF wfpD(4) [OF w g] f]) simp_all
      let ?w = "del_function f ?g (w1\<lparr>os := k3\<rparr>)"
      have "usbg_rm_function K (Some f) opts w = Some (0, ?w)"
        using start True f1 r2(1) r3 3 g1 mem
        by (simp add: tailq_remove_def upd_gadget_def usbg_free_function_def del_function_def)
      moreover have "heap_wf ?w" by (rule del_function_wf [where fn = fn]) (use pre(2) f1 in simp_all)
      moreover have "function_removed f fn gad opts w 0 ?w"
        unfolding function_removed_def using pre(3,4,5) True
        by (intro exI [of _ "w1\<lparr>os := k3\<rparr>"])
           (auto simp: unlinked_def del_function_def intro: fewer_bindings_trans [OF pre(3)])
      ultimately show ?thesis by blast
    qed
  qed
qed

section \<open>Removing everything below a gadget\<close>

definition children :: "ptr \<Rightarrow> 'k world \<Rightarrow> ptr set" where
  "children g w = {c. \<exists>conf. config_at w c = Some conf \<and> c_parent conf = g}"

definition drop_configs :: "ptr \<Rightarrow> 'k world \<Rightarrow> 'k world" where
  "drop_configs g w = w\<lparr>
     gadget_at := (gadget_at w)(g := map_option (g_configs_update (\<lambda>_. [])) (gadget_at w g)),
     config_at := without c_parent {g} (config_at w),
     binding_at := without b_parent (children g w) (binding_at w)\<rparr>"

definition drop_functions :: "ptr \<Rightarrow> 'k world \<Rightarrow> 'k world" where
  "drop_functions g w = w\<lparr>
     gadget_at := (gadget_at w)(g := map_option (g_functions_update (\<lambda>_. [])) (gadget_at w g)),
     function_at := without f_parent {g} (function_at w)\<rparr>"

lemma without_id: "(\<And>p x. h p = Some x \<Longrightarrow> par x \<notin> C) \<Longrightarrow> without par C h = h"
  by (auto simp: without_def fun_eq_iff split: option.splits)

lemma drop_configs_none:
  assumes "heap_wf w" "gadget_at w g = Some gad" "g_configs gad = []"
  shows "drop_configs g w = w"
proof -
  have no: "c_parent conf \<noteq> g" if "config_at w c = Some conf" for c conf
    using owns_member [OF wfpD(3) [OF assms(1,2)] that] assms(3) by auto
  then have "children g w = {}" by (auto simp: children_def)
  moreover have "without c_parent {g} (config_at w) = config_at w" using no by (intro without_id) auto
  moreover have "g_configs_update (\<lambda>_. []) gad = gad" using assms(3) by (cases gad) simp
  ultimately show ?thesis using assms(2) by (auto simp: drop_configs_def fun_upd_idem intro: world.equality)
qed

lemma drop_functions_none:
  assumes "heap_wf w" "gadget_at w g = Some gad" "g_functions gad = []"
  shows "drop_functions g w = w"
proof -
  have no: "f_parent fn \<noteq> g" if "function_at w f = Some fn" for f fn
    using owns_member [OF wfpD(4) [OF assms(1,2)] that] assms(3) by auto
  then have "without f_parent {g} (function_at w) = function_at w" by (intro without_id) auto
  moreover have "g_functions_update (\<lambda>_. []) gad = gad" using assms(3) by (cases gad) simp
  ultimately show ?thesis using assms(2) by (auto simp: drop_functions_def fun_upd_idem intro: world.equality)
qed

lemma drop_configs_del:
  assumes "config_at w c = Some conf" "c_parent conf = g"
  shows "drop_configs g (del_config c g w) = drop_configs g w"
proof -
  have ch: "children g w = insert c (children g (del_config c g w))"
    using assms by (auto simp: children_def del_config_def drop_config_def)
  have "without c_parent {g} ((config_at w)(c := None)) = without c_parent {g} (config_at w)"
    using assms by (auto simp: without_def fun_eq_iff split: option.splits)
  moreover have "without b_parent (children g (del_config c g w)) (without b_parent {c} (binding_at w)) =
      without b_parent (children g w) (binding_at w)" by (simp add: ch)
  ultimately show ?thesis
    by (auto simp: drop_configs_def del_config_def drop_config_def option.map_comp o_def intro: world.equality)
qed

lemma drop_functions_del:
  assumes "function_at w f = Some fn" "f_parent fn = g"
  shows "drop_functions g (del_function f g w) = drop_functions g w"
proof -
  have "without f_parent {g} ((function_at w)(f := None)) = without f_parent {g} (function_at w)"
    using assms by (auto simp: without_def fun_eq_iff split: option.splits)
  then show ?thesis
    by (auto simp: drop_functions_def del_function_def option.map_comp o_def intro: world.equality)
qed

lemma drop_configs_os [simp]: "drop_configs g (w\<lparr>os := k\<rparr>) = (drop_configs g w)\<lparr>os := k\<rparr>"
  by (simp add: drop_configs_def children_def)

lemma drop_functions_os [simp]: "drop_functions g (w\<lparr>os := k\<rparr>) = (drop_functions g w)\<lparr>os := k\<rparr>"
  by (simp add: drop_functions_def)

lemma rm_configs_loop_wf:
  assumes "heap_wf w" "gadget_at w g = Some gad"
  shows "\<exists>ret w'. rm_configs_loop K g opts w = Some (ret, w') \<and> ret \<le> 0 \<and> heap_wf w' \<and>
    (ret = 0 \<longrightarrow> w' = (drop_configs g w)\<lparr>os := os w'\<rparr>)"
  using assms
proof (induction "length (g_configs gad)" arbitrary: w gad)
  case 0
  from 0 have "drop_configs g w = w" by (intro drop_configs_none) simp_all
  with 0 show ?case by (auto simp: rm_configs_loop.simps [of K g opts w])
next
  case (Suc n)
  then obtain c cs where cs: "g_configs gad = c # cs" by (cases "g_configs gad") auto
  from owns_live [OF wfpD(3) [OF Suc.prems], of c] cs obtain conf where
    c: "config_at w c = Some conf" "c_parent conf = g" by auto
  from rm_config_wf [OF Suc.prems(1) c(1), of K opts] c(2) obtain ret w1 where
    r: "usbg_rm_config K (Some c) opts w = Some (ret, w1)" "ret \<le> 0" "heap_wf w1"
      "ret = 0 \<longrightarrow> w1 = del_config c g (w\<lparr>os := os w1\<rparr>)" by metis
  have step: "rm_configs_loop K g opts w =
      (if ret \<noteq> err USBG_SUCCESS then Some (ret, w1) else rm_configs_loop K g opts w1)"
    using Suc.prems(2) cs r(1) by (subst rm_configs_loop.simps) simp
  show ?case
  proof (cases "ret = 0")
    case False
    with step r(2,3) show ?thesis by simp
  next
    case True
    with r(4) have w1: "w1 = del_config c g (w\<lparr>os := os w1\<rparr>)" by simp
    have g1: "gadget_at w1 g = Some (gad\<lparr>g_configs := cs\<rparr>)"
      by (subst w1, simp add: del_config_def drop_config_def Suc.prems(2) cs)
    from Suc.hyps(1) [OF _ r(3) g1] Suc.hyps(2) cs obtain ret' w' where
      IH: "rm_configs_loop K g opts w1 = Some (ret', w')" "ret' \<le> 0" "heap_wf w'"
        "ret' = 0 \<longrightarrow> w' = (drop_configs g w1)\<lparr>os := os w'\<rparr>" by auto
    have "drop_configs g w1 = (drop_configs g w)\<lparr>os := os w1\<rparr>"
      using drop_configs_del [of "w\<lparr>os := os w1\<rparr>" c conf g] c by (subst w1) simp
    with step True IH show ?thesis by simp
  qed
qed

lemma rm_functions_loop_wf:
  assumes "luns_named K" "heap_wf w" "gadget_at w g = Some gad" "g_configs gad = []"
  shows "\<exists>ret w'. rm_functions_loop K g opts w = Some (ret, w') \<and> heap_wf w' \<and>
    (ret = 0 \<longrightarrow> w' = (drop_functions g w)\<lparr>os := os w'\<rparr>)"
  using assms(2-4)
proof (induction "length (g_functions gad)" arbitrary: w gad)
  case 0
  from 0 have "drop_functions g w = w" by (intro drop_functions_none) simp_all
  with 0 show ?case by (auto simp: rm_functions_loop.simps [of K g opts w])
next
  case (Suc n)
  then obtain f fs where fs: "g_functions gad = f # fs" by (cases "g_functions gad") auto
  from owns_live [OF wfpD(4) [OF Suc.prems(1,2)], of f] fs obtain fn where
    f: "function_at w f = Some fn" "f_parent fn = g" by auto
  from rm_function_wf [OF assms(1) Suc.prems(1) f(1), of gad opts] f(2) Suc.prems(2) obtain ret w1 where
    r: "usbg_rm_function K (Some f) opts w = Some (ret, w1)" "heap_wf w1" "function_removed f fn gad opts w ret w1"
    by auto
  have step: "rm_functions_loop K g opts w =
      (if ret \<noteq> err USBG_SUCCESS then Some (ret, w1) else rm_functions_loop K g opts w1)"
    using Suc.prems(2) fs r(1) by (subst rm_functions_loop.simps) simp
  show ?case
  proof (cases "ret = 0")
    case False
    with step r(2) show ?thesis by simp
  next
    case True
    with r(3) Suc.prems(3) f(2) obtain w0 where
      w0: "w0 = w\<lparr>os := os w0\<rparr>" "w1 = del_function f g (w0\<lparr>os := os w1\<rparr>)"
      unfolding function_removed_def by auto
    have "w0\<lparr>os := os w1\<rparr> = w\<lparr>os := os w1\<rparr>" by (subst w0(1)) simp
    with w0(2) have w1: "w1 = del_function f g (w\<lparr>os := os w1\<rparr>)" by simp
    have g1: "gadget_at w1 g = Some (gad\<lparr>g_functions := fs\<rparr>)"
      by (subst w1, simp add: del_function_def Suc.prems(2) fs)
    from Suc.hyps(1) [OF _ r(2) g1] Suc.hyps(2) Suc.prems(3) fs obtain ret' w' where
      IH: "rm_functions_loop K g opts w1 = Some (ret', w')" "heap_wf w'"
        "ret' = 0 \<longrightarrow> w' = (drop_functions g w1)\<lparr>os := os w'\<rparr>" by auto
    have "drop_functions g w1 = (drop_functions g w)\<lparr>os := os w1\<rparr>"
      using drop_functions_del [of "w\<lparr>os := os w1\<rparr>" f fn g] f by (subst w1) simp
    with step True IH show ?thesis by simp
  qed
qed

section \<open>Removing a gadget\<close>

lemma drop_gadget_empty:
  "drop_gadget g (drop_functions g (drop_configs g w)) = drop_gadget g w"
proof -
  have none: "{c. \<exists>conf. without c_parent {g} (config_at w) c = Some conf \<and> c_parent conf = g} = {}"
    by auto
  show ?thesis
    by (simp add: drop_gadget_def drop_functions_def drop_configs_def children_def none del: without_Some)
qed

lemma drop_gadget_os [simp]: "drop_gadget g (w\<lparr>os := k\<rparr>) = (drop_gadget g w)\<lparr>os := k\<rparr>"
  by (simp add: drop_gadget_def)

lemma drop_gadget_queue: "drop_gadget g (w\<lparr>s_gadgets := gs\<rparr>) = (drop_gadget g w)\<lparr>s_gadgets := gs\<rparr>"
  by (simp add: drop_gadget_def)

text \<open>The end of the removal, after the directory is gone.\<close>

lemma unlink_free_gadget:
  assumes "heap_wf w" "gadget_at w g = Some gad"
  shows "tailq_remove g (s_gadgets w) = Some (remove1 g (s_gadgets w))"
    "usbg_free_gadget g (w\<lparr>s_gadgets := remove1 g (s_gadgets w)\<rparr>) =
      Some ((drop_gadget g w)\<lparr>s_gadgets := remove1 g (s_gadgets w)\<rparr>)"
    "heap_wf ((drop_gadget g w)\<lparr>s_gadgets := remove1 g (s_gadgets w)\<rparr>)"
proof -
  have "g \<in> set (s_gadgets w)" by (rule owns_member [OF wfpD(1) [OF assms(1)] assms(2)]) simp_all
  then show "tailq_remove g (s_gadgets w) = Some (remove1 g (s_gadgets w))" by (simp add: tailq_remove_def)
  have u: "heap_ok {g} (w\<lparr>s_gadgets := remove1 g (s_gadgets w)\<rparr>)" by (rule wfp_unlink_gadget [OF assms])
  from free_gadget_wf [OF u, of gad] assms(2)
  show "usbg_free_gadget g (w\<lparr>s_gadgets := remove1 g (s_gadgets w)\<rparr>) =
      Some ((drop_gadget g w)\<lparr>s_gadgets := remove1 g (s_gadgets w)\<rparr>)"
    "heap_wf ((drop_gadget g w)\<lparr>s_gadgets := remove1 g (s_gadgets w)\<rparr>)"
    by (simp_all add: no_pending_children_def drop_gadget_queue)
qed

lemma rm_gadget_wf:
  assumes K: "luns_named K" and w: "heap_wf w" and g: "gadget_at w g = Some gad"
  shows "\<exists>ret w'. usbg_rm_gadget K (Some g) opts w = Some (ret, w') \<and> heap_wf w' \<and>
    (ret = 0 \<longrightarrow> w' = (drop_gadget g w)\<lparr>s_gadgets := remove1 g (s_gadgets w), os := os w'\<rparr>)"
proof -
  let ?rec = "opts AND USBG_RM_RECURSE = 0" and ?spath = "path3 (g_path gad) (g_name gad) STRINGS_DIR"
  let ?pre = "(if ?rec then Some (err USBG_SUCCESS, w)
        else do {
          (r1, w1) \<leftarrow> rm_configs_loop K g opts w;
          if r1 \<noteq> err USBG_SUCCESS then Some (r1, w1)
          else do {
            (r2, w2) \<leftarrow> rm_functions_loop K g opts w1;
            if r2 \<noteq> err USBG_SUCCESS then Some (r2, w2)
            else let spath = ?spath in
              if \<not> fits spath then Some (err USBG_ERROR_PATH_TOO_LONG, w2)
              else Some (on_os (usbg_rm_all_dirs K spath) w2)
          }
        })"
  have "\<exists>ret w3. ?pre = Some (ret, w3) \<and> heap_wf w3 \<and>
      (ret = 0 \<longrightarrow> (\<exists>X. w3 = X\<lparr>os := os w3\<rparr> \<and> (X = w \<or> X = drop_functions g (drop_configs g w))))"
  proof (cases ?rec)
    case True
    then have "?pre = Some (0, w)" by simp
    moreover have "w = w\<lparr>os := os w\<rparr>" by simp
    ultimately show ?thesis using w by blast
  next
    case False
    from rm_configs_loop_wf [OF w g, of K opts] obtain r1 w1 where
      r1: "rm_configs_loop K g opts w = Some (r1, w1)" "heap_wf w1"
        "r1 = 0 \<longrightarrow> w1 = (drop_configs g w)\<lparr>os := os w1\<rparr>" by blast
    show ?thesis
    proof (cases "r1 = 0")
      case False
      then have "?pre = Some (r1, w1)" using \<open>\<not> ?rec\<close> r1(1) by simp
      with r1(2) False show ?thesis by simp
    next
      case r1z: True
      with r1(3) have w1: "w1 = (drop_configs g w)\<lparr>os := os w1\<rparr>" by simp
      have g1: "gadget_at w1 g = Some (gad\<lparr>g_configs := []\<rparr>)" by (subst w1) (simp add: drop_configs_def g)
      from rm_functions_loop_wf [OF K r1(2) g1, of opts] obtain r2 w2 where
        r2: "rm_functions_loop K g opts w1 = Some (r2, w2)" "heap_wf w2"
          "r2 = 0 \<longrightarrow> w2 = (drop_functions g w1)\<lparr>os := os w2\<rparr>" by auto
      have d: "(drop_functions g w1)\<lparr>os := k\<rparr> = (drop_functions g (drop_configs g w))\<lparr>os := k\<rparr>" for k
        by (subst w1) simp
      consider "r2 \<noteq> 0" | "r2 = 0" "\<not> fits ?spath" | "r2 = 0" "fits ?spath" by blast
      then show ?thesis
      proof cases
        case 1
        then have "?pre = Some (r2, w2)" using \<open>\<not> ?rec\<close> r1(1) r1z r2(1) by simp
        with r2(2) 1 show ?thesis by simp
      next
        case 2
        then have "?pre = Some (err USBG_ERROR_PATH_TOO_LONG, w2)" using \<open>\<not> ?rec\<close> r1(1) r1z r2(1) by simp
        with r2(2) show ?thesis by simp
      next
        case 3
        let ?k = "snd (usbg_rm_all_dirs K ?spath (os w2))"
        have "?pre = Some (fst (usbg_rm_all_dirs K ?spath (os w2)), w2\<lparr>os := ?k\<rparr>)"
          using 3 \<open>\<not> ?rec\<close> r1(1) r1z r2(1) by (simp add: Let_def)
        moreover have "w2\<lparr>os := ?k\<rparr> = (drop_functions g (drop_configs g w))\<lparr>os := ?k\<rparr>"
        proof -
          from r2(3) 3(1) have w2: "w2 = (drop_functions g w1)\<lparr>os := os w2\<rparr>" by simp
          have "w2\<lparr>os := k\<rparr> = (drop_functions g w1)\<lparr>os := k\<rparr>" for k by (subst w2) simp
          with d show ?thesis by simp
        qed
        moreover have "heap_wf (w2\<lparr>os := ?k\<rparr>)" using r2(2) by simp
        ultimately show ?thesis
          by (intro exI [of _ "fst (usbg_rm_all_dirs K ?spath (os w2))"] exI [of _ "w2\<lparr>os := ?k\<rparr>"])
             (auto intro!: exI [of _ "drop_functions g (drop_configs g w)"])
      qed
    qed
  qed
  then obtain ret w3 where pre: "?pre = Some (ret, w3)" "heap_wf w3"
    "ret = 0 \<longrightarrow> (\<exists>X. w3 = X\<lparr>os := os w3\<rparr> \<and> (X = w \<or> X = drop_functions g (drop_configs g w)))" by blast
  show ?thesis
  proof (cases "ret = 0")
    case False
    with pre g show ?thesis by (simp add: usbg_rm_gadget_def nonnull_ret_def)
  next
    case True
    with pre(3) obtain X where X: "w3 = X\<lparr>os := os w3\<rparr>" "X = w \<or> X = drop_functions g (drop_configs g w)" by blast
    have same: "drop_gadget g X = drop_gadget g w" "s_gadgets X = s_gadgets w"
      "\<exists>gad3. gadget_at X g = Some gad3"
      using X(2) drop_gadget_empty [of g w] g by (blast, auto simp: drop_functions_def drop_configs_def)
    obtain r4 k4 where r4: "usbg_rm_dir K (g_path gad) (g_name gad) (os w3) = (r4, k4)" by fastforce
    show ?thesis
    proof (cases "r4 = 0")
      case False
      with pre g True r4 show ?thesis by (simp add: usbg_rm_gadget_def nonnull_ret_def)
    next
      case r4z: True
      let ?w4 = "X\<lparr>os := k4\<rparr>"
      have w4: "w3\<lparr>os := k4\<rparr> = ?w4" by (subst X(1)) simp
      from same(3) obtain gad3 where g3: "gadget_at ?w4 g = Some gad3" by auto
      have wf4: "heap_wf ?w4" using pre(2) w4 wfp_os [of "{}" k4 w3] by simp
      note u = unlink_free_gadget [OF wf4 g3]
      have "usbg_rm_gadget K (Some g) opts w =
          Some (0, (drop_gadget g w)\<lparr>s_gadgets := remove1 g (s_gadgets w), os := k4\<rparr>)"
        using pre(1) g True r4 r4z w4 u(1,2) same(1,2)
        by (simp add: usbg_rm_gadget_def nonnull_ret_def)
      moreover have "heap_wf ((drop_gadget g w)\<lparr>s_gadgets := remove1 g (s_gadgets w)\<rparr>)"
      proof -
        let ?D = "(drop_gadget g w)\<lparr>s_gadgets := remove1 g (s_gadgets w)\<rparr>"
        have "(drop_gadget g ?w4)\<lparr>s_gadgets := remove1 g (s_gadgets ?w4)\<rparr> = ?D\<lparr>os := k4\<rparr>"
          using same(1,2) by simp
        with u(3) show ?thesis using wfp_os [of "{}" k4 ?D] by simp
      qed
      ultimately show ?thesis by simp
    qed
  qed
qed

end
