(* ===== verification/Usbg_Cleanup.thy ===== *)
theory Usbg_Cleanup
  imports Usbg_Safety_Rm
begin

text \<open>
  \<open>usbg_cleanup\<close> frees every object, each once.
\<close>

section \<open>The queue of gadgets does not matter to freeing\<close>

lemma free_all_commute:
  assumes "\<And>p w. f p (w\<lparr>s_gadgets := gs\<rparr>) = map_option (s_gadgets_update (\<lambda>_. gs)) (f p w)"
  shows "free_all f ps (w\<lparr>s_gadgets := gs\<rparr>) = map_option (s_gadgets_update (\<lambda>_. gs)) (free_all f ps w)"
proof (induction ps arbitrary: w)
  case (Cons p ps)
  then show ?case by (cases "f p w") (simp_all add: assms)
qed simp

lemma free_binding_commute:
  "usbg_free_binding p (w\<lparr>s_gadgets := gs\<rparr>) = map_option (s_gadgets_update (\<lambda>_. gs)) (usbg_free_binding p w)"
  by (cases "binding_at w p") (simp_all add: usbg_free_binding_def)

lemma free_function_commute:
  "usbg_free_function p (w\<lparr>s_gadgets := gs\<rparr>) = map_option (s_gadgets_update (\<lambda>_. gs)) (usbg_free_function p w)"
  by (cases "function_at w p") (simp_all add: usbg_free_function_def)

lemma free_config_commute:
  "usbg_free_config p (w\<lparr>s_gadgets := gs\<rparr>) = map_option (s_gadgets_update (\<lambda>_. gs)) (usbg_free_config p w)"
proof (cases "config_at w p")
  case (Some c)
  then show ?thesis
    by (cases "free_all usbg_free_binding (c_bindings c) w")
       (simp_all add: usbg_free_config_def free_all_commute [where f = usbg_free_binding, OF free_binding_commute])
qed (simp add: usbg_free_config_def)

lemma free_gadget_commute:
  "usbg_free_gadget p (w\<lparr>s_gadgets := gs\<rparr>) = map_option (s_gadgets_update (\<lambda>_. gs)) (usbg_free_gadget p w)"
proof (cases "gadget_at w p")
  case g: (Some g)
  show ?thesis
  proof (cases "free_all usbg_free_config (g_configs g) w")
    case (Some w1)
    with g show ?thesis
      by (cases "free_all usbg_free_function (g_functions g) w1")
         (simp_all add: usbg_free_gadget_def free_all_commute [where f = usbg_free_config, OF free_config_commute] free_all_commute [where f = usbg_free_function, OF free_function_commute])
  qed (use g in \<open>simp add: usbg_free_gadget_def free_all_commute [where f = usbg_free_config, OF free_config_commute]\<close>)
qed (simp add: usbg_free_gadget_def)

section \<open>Freeing the state\<close>

lemma free_gadgets:
  assumes "heap_wf w" "s_gadgets w = gs"
  shows "\<exists>w'. free_all usbg_free_gadget gs w = Some w' \<and> heap_wf (w'\<lparr>s_gadgets := []\<rparr>) \<and>
    s_udcs w' = s_udcs w \<and> udc_at w' = udc_at w \<and> os w' = os w"
  using assms
proof (induction gs arbitrary: w)
  case Nil
  then have "w\<lparr>s_gadgets := []\<rparr> = w" by (cases w) simp
  with Nil(1) have "heap_wf (w\<lparr>s_gadgets := []\<rparr>)" by (simp only:)
  then show ?case by simp
next
  case (Cons g gs)
  from owns_live [OF wfpD(1) [OF Cons.prems(1)], of g] Cons.prems(2) obtain gad where g: "gadget_at w g = Some gad" by auto
  note u = unlink_free_gadget(2,3) [OF Cons.prems(1) g]
  let ?v = "(drop_gadget g w)\<lparr>s_gadgets := gs\<rparr>"
  have v: "heap_wf ?v" "usbg_free_gadget g (w\<lparr>s_gadgets := gs\<rparr>) = Some ?v" using u Cons.prems(2) by simp_all
  from Cons.IH [OF v(1)] obtain w' where
    IH: "free_all usbg_free_gadget gs ?v = Some w'" "heap_wf (w'\<lparr>s_gadgets := []\<rparr>)"
      "s_udcs w' = s_udcs w" "udc_at w' = udc_at w" "os w' = os w" by (auto simp: drop_gadget_def)
  obtain x where x: "usbg_free_gadget g w = Some x" "x\<lparr>s_gadgets := gs\<rparr> = ?v"
    using v(2) unfolding free_gadget_commute by auto
  obtain y where y: "free_all usbg_free_gadget gs x = Some y" "y\<lparr>s_gadgets := gs\<rparr> = w'"
    using IH(1) unfolding x(2) [symmetric] free_all_commute [where f = usbg_free_gadget, OF free_gadget_commute] by auto
  have "y\<lparr>s_gadgets := []\<rparr> = w'\<lparr>s_gadgets := []\<rparr>" "s_udcs y = s_udcs w" "udc_at y = udc_at w" "os y = os w"
    using y(2) IH(3-5) by auto
  with x(1) y(1) IH(2) show ?case by simp
qed

lemma free_udcs:
  assumes "distinct us" "\<forall>u\<in>set us. udc_at w u \<noteq> None"
  shows "free_all usbg_free_udc us w = Some (w\<lparr>udc_at := cut (set us) (udc_at w)\<rparr>)"
  using assms
proof (induction us arbitrary: w)
  case (Cons u us)
  let ?w = "w\<lparr>udc_at := cut {u} (udc_at w)\<rparr>"
  from Cons.prems have "usbg_free_udc u w = Some ?w" by (auto simp: usbg_free_udc_def cut_single)
  moreover from Cons.prems have "\<forall>c\<in>set us. udc_at ?w c \<noteq> None" by (auto simp: cut_def)
  ultimately show ?case using Cons.IH [of ?w] Cons.prems(1) by simp
qed simp

text \<open>A heap without objects.\<close>

definition empty_heap :: "'k world \<Rightarrow> bool" where
  "empty_heap w \<longleftrightarrow> s_gadgets w = [] \<and> s_udcs w = [] \<and> gadget_at w = Map.empty \<and> config_at w = Map.empty \<and>
     function_at w = Map.empty \<and> binding_at w = Map.empty \<and> udc_at w = Map.empty"

lemma no_gadget_no_child:
  assumes "heap_wf w" "s_gadgets w = []"
  shows "gadget_at w = Map.empty" "config_at w = Map.empty" "function_at w = Map.empty" "binding_at w = Map.empty"
proof -
  show g: "gadget_at w = Map.empty"
  proof
    fix g show "gadget_at w g = None"
      using owns_member [OF wfpD(1) [OF assms(1)], of g] assms(2) by (cases "gadget_at w g") auto
  qed
  show c: "config_at w = Map.empty"
  proof
    fix c show "config_at w c = None"
      using wfpD(6) [OF assms(1), of c] g by (cases "config_at w c") auto
  qed
  show "function_at w = Map.empty"
  proof
    fix f show "function_at w f = None"
      using wfpD(8) [OF assms(1), of f] g by (cases "function_at w f") auto
  qed
  show "binding_at w = Map.empty"
  proof
    fix b show "binding_at w b = None"
      using wfpD(10) [OF assms(1), of b] c by (cases "binding_at w b") auto
  qed
qed

lemma cleanup_wf:
  assumes "heap_wf w"
  shows "\<exists>w'. usbg_cleanup w = Some w' \<and> empty_heap w' \<and> os w' = os w"
proof -
  from free_gadgets [OF assms refl] obtain w1 where
    w1: "free_all usbg_free_gadget (s_gadgets w) w = Some w1" "heap_wf (w1\<lparr>s_gadgets := []\<rparr>)"
      "s_udcs w1 = s_udcs w" "udc_at w1 = udc_at w" "os w1 = os w" by blast
  note none = no_gadget_no_child [OF w1(2)]
  note ou = wfpD(2) [OF assms]
  have u: "free_all usbg_free_udc (s_udcs w1) w1 = Some (w1\<lparr>udc_at := cut (set (s_udcs w1)) (udc_at w1)\<rparr>)"
    using owns_distinct [OF ou] owns_live [OF ou] w1(3,4) by (intro free_udcs) auto
  have "cut (set (s_udcs w1)) (udc_at w1) = Map.empty"
    using owns_member [OF ou] w1(3,4) by (force simp: cut_def fun_eq_iff intro: option.exhaust)
  with w1(1,5) u none show ?thesis
    by (simp add: usbg_cleanup_def usbg_free_state_def empty_heap_def)
qed

end
