(* ===== verification/Usbg_Safety_Parse.thy ===== *)
theory Usbg_Safety_Parse
  imports Usbg_Safety_Gadget Usbg_Cleanup
begin

text \<open>
  \<open>usbg_init\<close> under the invariant. While a gadget is read it is in no queue, and neither is
  the configuration that is read below it; whatever configfs contains, reading is defined
  and ends in a well-formed heap or, after an error, in one without objects. The only
  assumption: the target of a link contains a slash.
\<close>

section \<open>Splitting names\<close>

lemma lookup_loop_range: "0 \<le> lookup_loop ns name i \<Longrightarrow> lookup_loop ns name i < int (i + length ns)"
proof (induction ns arbitrary: i)
  case (Cons n ns)
  then show ?case using Cons.IH [of "Suc i"] by (cases "strcmp name n = 0") auto
qed simp

lemma lookup_type_defined: "0 \<le> usbg_lookup_function_type n \<Longrightarrow> \<exists>t. function_type_of (usbg_lookup_function_type n) = Some t"
  using lookup_loop_range [of "map function_type_name all_function_types" "the n" 0]
  by (auto simp: usbg_lookup_function_type_def lookup_name_def function_type_of_def all_function_types_def split: option.splits)

lemma split_function_defined:
  assumes "usbg_split_function_instance_type K n k = (ret, ti, k')" "ret = 0"
  shows "\<exists>t i. ti = Some (t, i)"
  using assms lookup_type_defined
  by (fastforce simp: usbg_split_function_instance_type_def Let_def split: option.splits if_splits prod.splits)

lemma split_config_defined:
  assumes "usbg_split_config_label_id K n k = (ret, lbl, k')" "0 < ret"
  shows "\<exists>l. lbl = Some l"
  using assms less_asym [OF translate_error_neg [of ERANGE]]
  by (auto simp: usbg_split_config_label_id_def Let_def split: option.splits if_splits prod.splits)

definition links_absolute :: "'k kernel \<Rightarrow> bool" where
  "links_absolute K \<longleftrightarrow> (\<forall>p k t k'. k_readlink K p (USBG_MAX_PATH_LENGTH - 1) k = (Inr t, k') \<longrightarrow>
     CHR ''/'' \<in> set (cstr (take (USBG_MAX_PATH_LENGTH - 1) t)))"

lemma split_first_member: "c \<in> set s \<Longrightarrow> \<exists>a b. split_first c s = Some (a, b)"
  by (simp add: split_first_def)

lemma link_target_defined:
  assumes "links_absolute K" "link_target K p k = (Inr t, k')"
  shows "\<exists>s. t = Some s"
proof -
  from assms(2) obtain l where l: "k_readlink K p (USBG_MAX_PATH_LENGTH - 1) k = (Inr l, k')"
    "t = map_option snd (split_last (CHR ''/'') (cstr (take (USBG_MAX_PATH_LENGTH - 1) l)))"
    by (auto simp: link_target_def split: prod.splits sum.splits)
  with assms(1) have "CHR ''/'' \<in> set (rev (cstr (take (USBG_MAX_PATH_LENGTH - 1) l)))"
    by (auto simp: links_absolute_def)
  from split_first_member [OF this] l(2) show ?thesis by (auto simp: split_last_def)
qed

section \<open>Steps of reading\<close>

text \<open>
  A step of reading ends in a heap that is well-formed up to the pending objects, with the
  gadgets and configurations there were, under their parents.
\<close>

definition heap_grows :: "'k world \<Rightarrow> 'k world \<Rightarrow> bool" where
  "heap_grows w w' \<longleftrightarrow> dom (gadget_at w) \<subseteq> dom (gadget_at w') \<and>
     (\<forall>c conf. config_at w c = Some conf \<longrightarrow> (\<exists>conf'. config_at w' c = Some conf' \<and> c_parent conf' = c_parent conf))"

definition reads :: "ptr set \<Rightarrow> 'k world \<Rightarrow> (int \<times> 'k world) option \<Rightarrow> bool" where
  "reads P w r \<longleftrightarrow> (\<exists>ret w'. r = Some (ret, w') \<and> heap_ok P w' \<and> heap_grows w w')"

lemma heap_grows_refl [simp, intro]: "heap_grows w w"
  by (simp add: heap_grows_def)

lemma heap_grows_os [simp]: "heap_grows u (w\<lparr>os := k\<rparr>) = heap_grows u w" "heap_grows (u\<lparr>os := k\<rparr>) w = heap_grows u w"
  by (simp_all add: heap_grows_def)

lemma heap_grows_trans:
  assumes "heap_grows u v" "heap_grows v w"
  shows "heap_grows u w"
  unfolding heap_grows_def
proof (intro conjI allI impI)
  show "dom (gadget_at u) \<subseteq> dom (gadget_at w)" using assms unfolding heap_grows_def by blast
  fix c conf assume "config_at u c = Some conf"
  then obtain conf' where "config_at v c = Some conf'" "c_parent conf' = c_parent conf"
    using assms(1) unfolding heap_grows_def by blast
  then show "\<exists>conf'. config_at w c = Some conf' \<and> c_parent conf' = c_parent conf"
    using assms(2) unfolding heap_grows_def by metis
qed

lemma heap_grows_gadget: "heap_grows w w' \<Longrightarrow> gadget_at w g = Some gad \<Longrightarrow> \<exists>gad'. gadget_at w' g = Some gad'"
  by (auto simp: heap_grows_def)

lemma heap_grows_config:
  "heap_grows w w' \<Longrightarrow> config_at w c = Some conf \<Longrightarrow> \<exists>conf'. config_at w' c = Some conf' \<and> c_parent conf' = c_parent conf"
  by (simp add: heap_grows_def)

lemma reads_here [intro]: "heap_ok P w' \<Longrightarrow> heap_grows w w' \<Longrightarrow> reads P w (Some (ret, w'))"
  by (auto simp: reads_def)

lemma readsE:
  assumes "reads P w r"
  obtains ret w' where "r = Some (ret, w')" "heap_ok P w'" "heap_grows w w'"
  using assms by (auto simp: reads_def)

lemma reads_os [simp]: "reads P (w\<lparr>os := k\<rparr>) r = reads P w r"
  by (simp add: reads_def)

lemma reads_trans: "heap_grows u w \<Longrightarrow> reads P w r \<Longrightarrow> reads P u r"
  using heap_grows_trans by (fastforce simp: reads_def)

section \<open>Functions\<close>

lemma alloc_function_cases:
  assumes "heap_ok P w" "gadget_at w g = Some gad" "next_ptr w \<notin> P"
    "usbg_allocate_function K fpath t inst g w = (f, w1)"
  shows "f = None \<and> (\<exists>k. w1 = w\<lparr>os := k\<rparr>) \<or>
    f = Some (next_ptr w) \<and> (\<exists>k fn. ext_fits fn \<and> f_parent fn = g \<and>
      w1 = w\<lparr>os := k, next_ptr := Suc (next_ptr w), function_at := (function_at w)(next_ptr w \<mapsto> fn)\<rparr>)"
proof -
  obtain m k1 where m: "k_malloc K (os w) = (m, k1)" by fastforce
  obtain r f' k2 where i: "usbg_init_function K t inst fpath g (alloc_inst_ext t) k1 = (r, f', k2)" by (metis prod_cases3)
  show ?thesis
  proof (cases "m \<and> f' \<noteq> None")
    case False
    with assms(4) m i show ?thesis by (cases m) (auto simp: usbg_allocate_function_def Let_def)
  next
    case True
    then obtain fn where fn: "f' = Some fn" by blast
    have "f_parent fn = g" using i fn by (auto simp: usbg_init_function_def Let_def split: if_splits prod.splits)
    with ext_fits_alloc [OF i [unfolded fn]] assms(4) m i True fn show ?thesis
      by (auto simp: usbg_allocate_function_def Let_def)
  qed
qed

lemma pending_less: "heap_ok P w \<Longrightarrow> gadget_at w g = Some gad \<Longrightarrow> g < next_ptr w"
  using fresh_ok(1) wfpD(11) by blast

lemma append_function:
  assumes ok: "heap_ok {g} w" and g: "gadget_at w g = Some gad" and fn: "ext_fits fn" "f_parent fn = g"
  shows "\<exists>w'. upd_gadget g (g_functions_update (\<lambda>fs. fs @ [next_ptr w]))
      (w\<lparr>os := k, next_ptr := Suc (next_ptr w), function_at := (function_at w)(next_ptr w \<mapsto> fn)\<rparr>) = Some w' \<and>
    heap_ok {g} w' \<and> heap_grows w w'"
proof -
  let ?p = "next_ptr w" and ?gad = "g_functions_update (\<lambda>fs. fs @ [next_ptr w]) gad"
  let ?w1 = "w\<lparr>os := k, next_ptr := Suc ?p, function_at := (function_at w)(?p \<mapsto> fn)\<rparr>"
  have new: "?p \<notin> set (g_functions gad)" using owns_live [OF wfpD(4) [OF ok g]] fresh_pointer(3) [OF ok] by fastforce
  have "heap_ok (insert ?p {g}) ?w1" using wfp_new_function [of "{g}" "w\<lparr>os := k\<rparr>" ?p fn] ok fn g by auto
  then have "heap_ok {g} (?w1\<lparr>gadget_at := (gadget_at ?w1)(g \<mapsto> gad\<lparr>g_functions := g_functions gad @ [?p]\<rparr>)\<rparr>)"
    by (rule wfp_link_function [where fn = fn])
       (use fn g new pending_less [OF ok g] owns_distinct [OF wfpD(4) [OF ok g]] in auto)
  moreover have "gad\<lparr>g_functions := g_functions gad @ [?p]\<rparr> = ?gad" by (cases gad) simp
  ultimately show ?thesis using g by (auto simp: upd_gadget_def heap_grows_def)
qed

lemma parse_functions_loop_reads:
  assumes "heap_ok {g} w" "gadget_at w g = Some gad"
  shows "reads {g} w (parse_functions_loop K fpath g ds w)"
  using assms
proof (induction ds arbitrary: w gad)
  case (Cons d ds)
  note ok = Cons.prems
  obtain ret ti k where s: "usbg_split_function_instance_type K d (os w) = (ret, ti, k)" by (metis prod_cases3)
  let ?w1 = "w\<lparr>os := k\<rparr>"
  show ?case
  proof (cases "ret = 0")
    case False
    with s ok show ?thesis by auto
  next
    case True
    from split_function_defined [OF s True] obtain t inst where ti: "ti = Some (t, inst)" by blast
    obtain f w2 where a: "usbg_allocate_function K fpath t inst g ?w1 = (f, w2)" by fastforce
    have ok1: "heap_ok {g} ?w1" "gadget_at ?w1 g = Some gad" "next_ptr ?w1 \<notin> {g}"
      using ok pending_less [OF ok] by simp_all
    have go: "parse_functions_loop K fpath g (d # ds) w = (case f of
        None \<Rightarrow> Some (err USBG_ERROR_NO_MEM, w2)
      | Some p \<Rightarrow> do {
          w3 \<leftarrow> upd_gadget g (g_functions_update (\<lambda>fs. fs @ [p])) w2;
          parse_functions_loop K fpath g ds w3
        })"
      using s True ti a by simp
    from alloc_function_cases [OF ok1 a] show ?thesis
    proof (elim disjE conjE exE)
      fix k' assume "f = None" "w2 = ?w1\<lparr>os := k'\<rparr>"
      with go ok show ?thesis by auto
    next
      fix k' fn
      assume f: "f = Some (next_ptr ?w1)" "ext_fits fn" "f_parent fn = g"
        "w2 = ?w1\<lparr>os := k', next_ptr := Suc (next_ptr ?w1), function_at := (function_at ?w1)(next_ptr ?w1 \<mapsto> fn)\<rparr>"
      from append_function [OF ok f(2,3), of k'] f(4) obtain w3 where
        w3: "upd_gadget g (g_functions_update (\<lambda>fs. fs @ [next_ptr w])) w2 = Some w3" "heap_ok {g} w3" "heap_grows w w3" by auto
      from heap_grows_gadget [OF w3(3) ok(2)] Cons.IH [OF w3(2)] have "reads {g} w3 (parse_functions_loop K fpath g ds w3)" by blast
      from reads_trans [OF w3(3) this] go f(1) w3(1) show ?thesis by simp
    qed
  qed
qed auto

lemma parse_functions_reads:
  assumes "heap_ok {g} w" "gadget_at w g = Some gad"
  shows "reads {g} w (usbg_parse_functions K path g w)"
  using assms parse_functions_loop_reads [of g "w\<lparr>os := k\<rparr>" for k]
  by (auto simp: usbg_parse_functions_def Let_def split: sum.split)

section \<open>Bindings\<close>

lemma alloc_binding_cases:
  assumes "usbg_allocate_binding K bpath name c f w = (b, w1)"
  shows "b = None \<and> (\<exists>k. w1 = w\<lparr>os := k\<rparr>) \<or>
    b = Some (next_ptr w) \<and> (\<exists>k bn. b_parent bn = c \<and>
      w1 = w\<lparr>os := k, next_ptr := Suc (next_ptr w), binding_at := (binding_at w)(next_ptr w \<mapsto> bn)\<rparr>)"
proof -
  obtain m k where m: "malloc_then2 K (os w) = (m, k)" by fastforce
  show ?thesis
  proof (cases m)
    case True
    with assms m show ?thesis
      by (intro disjI2 conjI exI [of _ k] exI [of _ "\<lparr>b_name = name, b_path = bpath, b_target = f, b_parent = c\<rparr>"])
         (auto simp: usbg_allocate_binding_def Let_def)
  qed (use assms m in \<open>auto simp: usbg_allocate_binding_def Let_def\<close>)
qed

lemma append_binding:
  assumes ok: "heap_ok P w" and c: "config_at w c = Some conf" and bn: "b_parent bn = c" and P: "next_ptr w \<notin> P"
  shows "\<exists>w'. upd_config c (c_bindings_update (\<lambda>bs. bs @ [next_ptr w]))
      (w\<lparr>os := k, next_ptr := Suc (next_ptr w), binding_at := (binding_at w)(next_ptr w \<mapsto> bn)\<rparr>) = Some w' \<and>
    heap_ok P w' \<and> heap_grows w w'"
proof -
  let ?p = "next_ptr w" and ?conf = "c_bindings_update (\<lambda>bs. bs @ [next_ptr w]) conf"
  let ?w1 = "w\<lparr>os := k, next_ptr := Suc ?p, binding_at := (binding_at w)(?p \<mapsto> bn)\<rparr>"
  have new: "?p \<notin> set (c_bindings conf)" using owns_live [OF wfpD(7) [OF ok c]] fresh_pointer(4) [OF ok] by fastforce
  have "heap_ok (insert ?p P) ?w1" using wfp_new_binding [of P "w\<lparr>os := k\<rparr>" ?p bn] ok bn c by auto
  then have "heap_ok P (?w1\<lparr>config_at := (config_at ?w1)(c \<mapsto> conf\<lparr>c_bindings := c_bindings conf @ [?p]\<rparr>)\<rparr>)"
    by (rule wfp_link_binding [where bn = bn])
       (use bn c new P owns_distinct [OF wfpD(7) [OF ok c]] in auto)
  moreover have "conf\<lparr>c_bindings := c_bindings conf @ [?p]\<rparr> = ?conf" by (cases conf) simp
  ultimately show ?thesis using c by (auto simp: upd_config_def heap_grows_def)
qed

lemma parse_config_binding_reads:
  assumes K: "links_absolute K" and ok: "heap_ok P w" and c: "config_at w c = Some conf" and P: "next_ptr w \<notin> P"
  shows "reads P w (usbg_parse_config_binding K c bpath name w)"
proof -
  let ?go = "usbg_parse_config_binding K c bpath name w"
  obtain lt k1 where lt: "link_target K (path2 bpath name) (os w) = (lt, k1)" by fastforce
  show ?thesis
  proof (cases lt)
    case (Inl e)
    with lt ok show ?thesis by (auto simp: usbg_parse_config_binding_def)
  next
    case (Inr t)
    from link_target_defined [OF K lt [unfolded Inr]] obtain target where t: "t = Some target" ..
    obtain ret ti k2 where s: "usbg_split_function_instance_type K target k1 = (ret, ti, k2)" by (metis prod_cases3)
    show ?thesis
    proof (cases "ret = 0")
      case False
      with lt Inr t s ok show ?thesis by (auto simp: usbg_parse_config_binding_def)
    next
      case True
      from split_function_defined [OF s True] obtain ty inst where ti: "ti = Some (ty, inst)" by blast
      let ?w2 = "w\<lparr>os := k2\<rparr>"
      from wfpD(6) [OF ok c] obtain gad where g: "gadget_at w (c_parent conf) = Some gad" ..
      from tailq_find_owned [OF wfpD(4) [OF ok g]] g obtain f where
        f: "usbg_get_function (c_parent conf) ty inst ?w2 = Some f" by (fastforce simp: usbg_get_function_def)
      show ?thesis
      proof (cases f)
        case None
        with lt Inr t s True ti c f ok show ?thesis by (auto simp: usbg_parse_config_binding_def)
      next
        case (Some fp)
        obtain b w3 where a: "usbg_allocate_binding K bpath name c fp ?w2 = (b, w3)" by fastforce
        have go: "?go = (case b of None \<Rightarrow> Some (err USBG_ERROR_NO_MEM, w3)
          | Some p \<Rightarrow> do {
              w4 \<leftarrow> upd_config c (c_bindings_update (\<lambda>bs. bs @ [p])) w3;
              Some (err USBG_SUCCESS, w4)
            })"
          using lt Inr t s True ti c f Some a by (simp add: usbg_parse_config_binding_def)
        from alloc_binding_cases [OF a] show ?thesis
        proof (elim disjE conjE exE)
          fix k assume "b = None" "w3 = ?w2\<lparr>os := k\<rparr>"
          with go ok show ?thesis by auto
        next
          fix k bn assume b: "b = Some (next_ptr ?w2)" "b_parent bn = c"
            "w3 = ?w2\<lparr>os := k, next_ptr := Suc (next_ptr ?w2), binding_at := (binding_at ?w2)(next_ptr ?w2 \<mapsto> bn)\<rparr>"
          from append_binding [OF ok c b(2) P, of k] b go show ?thesis by auto
        qed
      qed
    qed
  qed
qed

lemma parse_bindings_loop_reads:
  assumes K: "links_absolute K"
  shows "heap_ok {c, g} w \<Longrightarrow> config_at w c = Some conf \<Longrightarrow> gadget_at w g = Some gad \<Longrightarrow>
    reads {c, g} w (parse_bindings_loop K c bpath ds w)"
proof (induction ds arbitrary: w conf gad)
  case (Cons d ds)
  have "next_ptr w \<notin> {c, g}"
    using fresh_ok(1,2) [OF wfpD(11) [OF Cons.prems(1)]] Cons.prems(2,3) by fastforce
  from parse_config_binding_reads [OF K Cons.prems(1,2) this] obtain ret w1 where
    w1: "usbg_parse_config_binding K c bpath d w = Some (ret, w1)" "heap_ok {c, g} w1" "heap_grows w w1" by (rule readsE)
  from heap_grows_config [OF w1(3) Cons.prems(2)] heap_grows_gadget [OF w1(3) Cons.prems(3)] obtain conf' gad' where
    "config_at w1 c = Some conf'" "gadget_at w1 g = Some gad'" by blast
  from reads_trans [OF w1(3) Cons.IH [OF w1(2) this]] w1 Cons.prems(1) show ?case by auto
qed auto

lemma parse_config_bindings_reads:
  assumes "links_absolute K" "heap_ok {c, g} w" "config_at w c = Some conf" "gadget_at w g = Some gad"
  shows "reads {c, g} w (usbg_parse_config_bindings K c w)"
  using assms(2-) parse_bindings_loop_reads [OF assms(1), of c g "w\<lparr>os := k\<rparr>" for k]
  by (auto simp: usbg_parse_config_bindings_def Let_def split: sum.split)

section \<open>Configurations\<close>

lemma alloc_config_cases:
  assumes "usbg_allocate_config K path lbl i g w = (c, w1)"
  shows "c = None \<and> (\<exists>k. w1 = w\<lparr>os := k\<rparr>) \<or>
    c = Some (next_ptr w) \<and> (\<exists>k conf. c_parent conf = g \<and> c_bindings conf = [] \<and>
      w1 = w\<lparr>os := k, next_ptr := Suc (next_ptr w), config_at := (config_at w)(next_ptr w \<mapsto> conf)\<rparr>)"
proof -
  obtain m1 k1 where m1: "k_malloc K (os w) = (m1, k1)" by fastforce
  obtain m2 k2 where m2: "malloc_then2 K k1 = (m2, k2)" by fastforce
  show ?thesis
  proof (cases "m1 \<and> m2")
    case True
    with assms m1 m2 show ?thesis
      by (intro disjI2 conjI exI [of _ k2]
            exI [of _ "\<lparr>c_name = config_name lbl i, c_path = path, c_label = lbl, c_id = i, c_bindings = [], c_parent = g\<rparr>"])
         (auto simp: usbg_allocate_config_def Let_def)
  qed (use assms m1 m2 in \<open>cases m1; auto simp: usbg_allocate_config_def Let_def\<close>)
qed

lemma parse_config_reads:
  assumes K: "links_absolute K" and ok: "heap_ok {g} w" and g: "gadget_at w g = Some gad"
  shows "reads {g} w (usbg_parse_config K path name g w)"
proof -
  let ?go = "usbg_parse_config K path name g w"
  obtain ret lbl k where s: "usbg_split_config_label_id K name (os w) = (ret, lbl, k)" by (metis prod_cases3)
  show ?thesis
  proof (cases "0 < ret")
    case False
    with s ok show ?thesis by (auto simp: usbg_parse_config_def)
  next
    case True
    from split_config_defined [OF s True] obtain label where l: "lbl = Some label" ..
    let ?w1 = "w\<lparr>os := k\<rparr>" and ?p = "next_ptr w"
    obtain c w2 where a: "usbg_allocate_config K path label ret g ?w1 = (c, w2)" by fastforce
    have go: "?go = (case c of None \<Rightarrow> Some (err USBG_ERROR_NO_MEM, w2)
      | Some p \<Rightarrow> do {
          (ret2, w3) \<leftarrow> usbg_parse_config_bindings K p w2;
          if ret2 \<noteq> err USBG_SUCCESS then do {
            w4 \<leftarrow> usbg_free_config p w3;
            Some (ret2, w4)
          }
          else do {
            w4 \<leftarrow> upd_gadget g (g_configs_update (\<lambda>cs. cs @ [p])) w3;
            Some (ret2, w4)
          }
        })"
      using s True l a by (simp add: usbg_parse_config_def)
    from alloc_config_cases [OF a] show ?thesis
    proof (elim disjE conjE exE)
      fix k' assume "c = None" "w2 = ?w1\<lparr>os := k'\<rparr>"
      with go ok show ?thesis by auto
    next
      fix k' conf
      assume c: "c = Some (next_ptr ?w1)" "c_parent conf = g" "c_bindings conf = []"
        "w2 = ?w1\<lparr>os := k', next_ptr := Suc (next_ptr ?w1), config_at := (config_at ?w1)(next_ptr ?w1 \<mapsto> conf)\<rparr>"
      have w2: "heap_ok {?p, g} w2" "config_at w2 ?p = Some conf" "gadget_at w2 g = Some gad"
        using wfp_new_config [of "{g}" "w\<lparr>os := k'\<rparr>" ?p conf] ok c g by auto
      have "heap_grows w w2" using fresh_pointer(2) [OF ok] c(4) by (auto simp: heap_grows_def)
      from parse_config_bindings_reads [OF K w2] obtain ret2 w3 where
        w3: "usbg_parse_config_bindings K ?p w2 = Some (ret2, w3)" "heap_ok {?p, g} w3" "heap_grows w2 w3" by (rule readsE)
      from heap_grows_config [OF w3(3) w2(2)] heap_grows_gadget [OF w3(3) w2(3)] c(2) obtain conf' gad' where
        c': "config_at w3 ?p = Some conf'" "c_parent conf' = g" and g': "gadget_at w3 g = Some gad'" by auto
      have gr: "heap_grows w w3" using \<open>heap_grows w w2\<close> w3(3) by (rule heap_grows_trans)
      have ne: "?p \<noteq> g" using pending_less [OF ok g] by simp
      show ?thesis
      proof (cases "ret2 = 0")
        case False
        have "\<forall>q\<in>{g}. binding_at w3 q = None" using one_kindD(1) [OF wfpD(12) [OF w3(2)] g'] by simp
        note fr = free_config_wf [OF w3(2) c'(1) this]
        have "heap_grows w (drop_config ?p w3)"
          using gr fresh_pointer(2) [OF ok] unfolding heap_grows_def drop_config_def by (auto simp: fun_upd_def)
        with go c(1) w3(1) fr False show ?thesis by auto
      next
        case True
        let ?gad = "g_configs_update (\<lambda>cs. cs @ [?p]) gad'"
        have new: "?p \<notin> set (g_configs gad')" using wfpD(3) [OF w3(2) g'] by (auto simp: owns_def)
        have "heap_ok {g} (w3\<lparr>gadget_at := (gadget_at w3)(g \<mapsto> gad'\<lparr>g_configs := g_configs gad' @ [?p]\<rparr>)\<rparr>)"
          by (rule wfp_link_config [OF w3(2) c' g'])
             (use new ne owns_distinct [OF wfpD(3) [OF w3(2) g']] in auto)
        moreover have "gad'\<lparr>g_configs := g_configs gad' @ [?p]\<rparr> = ?gad" by (cases gad') simp
        moreover have "heap_grows w (w3\<lparr>gadget_at := (gadget_at w3)(g \<mapsto> ?gad)\<rparr>)" using gr by (auto simp: heap_grows_def)
        ultimately show ?thesis using go c(1) w3(1) True g' by (auto simp: upd_gadget_def)
      qed
    qed
  qed
qed

lemma parse_configs_loop_reads:
  assumes K: "links_absolute K"
  shows "heap_ok {g} w \<Longrightarrow> gadget_at w g = Some gad \<Longrightarrow> reads {g} w (parse_configs_loop K cpath g ds w)"
proof (induction ds arbitrary: w gad)
  case (Cons d ds)
  from parse_config_reads [OF K Cons.prems] obtain ret w1 where
    w1: "usbg_parse_config K cpath d g w = Some (ret, w1)" "heap_ok {g} w1" "heap_grows w w1" by (rule readsE)
  from heap_grows_gadget [OF w1(3) Cons.prems(2)] Cons.IH [OF w1(2)] have "reads {g} w1 (parse_configs_loop K cpath g ds w1)" by blast
  from reads_trans [OF w1(3) this] w1 show ?case by auto
qed auto

lemma parse_configs_reads:
  assumes "links_absolute K" "heap_ok {g} w" "gadget_at w g = Some gad"
  shows "reads {g} w (usbg_parse_configs K path g w)"
  using assms(2-) parse_configs_loop_reads [OF assms(1), of g "w\<lparr>os := k\<rparr>" for k]
  by (auto simp: usbg_parse_configs_def Let_def split: sum.split)

section \<open>Gadgets\<close>

lemma parse_os_desc_reads:
  assumes K: "links_absolute K" and ok: "heap_ok {g} w" and g: "gadget_at w g = Some gad"
  shows "reads {g} w (usbg_parse_gadget_os_desc_binding K g w)"
proof -
  let ?go = "usbg_parse_gadget_os_desc_binding K g w"
  let ?b = "path3 (g_path gad) (g_name gad) OS_DESC_DIR"
  have here: ?thesis if "?go = Some (r, w\<lparr>os := k\<rparr>)" for r k using that ok by auto
  obtain ds k1 where d: "scandir K ?b bindings_select (os w) = (ds, k1)" by fastforce
  consider "\<not> fits ?b" | e where "fits ?b" "ds = Inl e" | "fits ?b" "ds = Inr []"
    | n ns where "fits ?b" "ds = Inr (n # ns)" by (cases ds; cases "projr ds") auto
  then show ?thesis
  proof cases
    case 4
    obtain lt k2 where lt: "link_target K (path2 ?b n) k1 = (lt, k2)" by fastforce
    consider "\<not> fits (path2 ?b n)" | e where "fits (path2 ?b n)" "lt = Inl e" | t where "fits (path2 ?b n)" "lt = Inr t"
      by (cases lt) auto
    then show ?thesis
    proof cases
      case t: 3
      from link_target_defined [OF K lt [unfolded t(2)]] obtain target where target: "t = Some target" ..
      obtain i lbl k3 where s: "usbg_split_config_label_id K target k2 = (i, lbl, k3)" by (metis prod_cases3)
      show ?thesis
      proof (cases "0 < i")
        case False
        with 4 g d lt t target s show ?thesis by (intro here [of i k3]) (simp add: usbg_parse_gadget_os_desc_binding_def)
      next
        case True
        from tailq_find_owned [OF wfpD(3) [OF ok g]] g obtain c where
          c: "usbg_get_config g i lbl (w\<lparr>os := k3\<rparr>) = Some c" by (fastforce simp: usbg_get_config_def)
        show ?thesis
        proof (cases c)
          case None
          with 4 g d lt t target s True c show ?thesis
            by (intro here [of "err USBG_ERROR_NO_MEM" k3]) (simp add: usbg_parse_gadget_os_desc_binding_def)
        next
          case (Some p)
          let ?gad = "gad\<lparr>g_os_desc_binding := Some p\<rparr>"
          have "heap_ok {g} (w\<lparr>os := k3, gadget_at := (gadget_at w)(g \<mapsto> ?gad)\<rparr>)"
            using wfp_set_gadget [of "{g}" "w\<lparr>os := k3\<rparr>" g gad ?gad] wfpD(5) [OF ok g] ok g by auto
          with 4 g d lt t target s True c Some show ?thesis
            by (auto simp: usbg_parse_gadget_os_desc_binding_def upd_gadget_def heap_grows_def)
        qed
      qed
    qed (use 4 g d lt here ok in \<open>auto simp: usbg_parse_gadget_os_desc_binding_def\<close>)
  qed (use g d here ok in \<open>auto simp: usbg_parse_gadget_os_desc_binding_def\<close>)
qed

lemma link_udc_reads:
  assumes ok: "heap_ok {g} w" and g: "gadget_at w g = Some gad" and u: "\<And>q. u = Some q \<Longrightarrow> q \<in> dom (udc_at w)"
  shows "\<exists>w'. link_udc g u w = Some w' \<and> heap_ok {g} w' \<and> heap_grows w w'"
proof -
  let ?w1 = "w\<lparr>gadget_at := (gadget_at w)(g \<mapsto> gad\<lparr>g_udc := u\<rparr>)\<rparr>"
  have w1: "heap_ok {g} ?w1" using u by (intro wfp_set_gadget [OF ok g]) auto
  have step: "upd_gadget g (g_udc_update (\<lambda>_. u)) w = Some ?w1" using g by (simp add: upd_gadget_def)
  show ?thesis
  proof (cases u)
    case None
    with step w1 show ?thesis by (auto simp: link_udc_def heap_grows_def)
  next
    case (Some q)
    with u obtain x where x: "udc_at ?w1 q = Some x" by auto
    from wfp_set_udc [OF w1 x, of "u_gadget_update (\<lambda>_. Some g) x"] Some step x show ?thesis
      by (auto simp: link_udc_def upd_udc_def heap_grows_def)
  qed
qed

lemma parse_gadget_reads:
  assumes K: "links_absolute K" and ok: "heap_ok {g} w" and g: "gadget_at w g = Some gad"
  shows "reads {g} w (usbg_parse_gadget K g w)"
proof -
  obtain ret buf k where r: "usbg_read_string K (g_path gad) (g_name gad) ''UDC'' (os w) = (ret, buf, k)" by (metis prod_cases3)
  let ?w1 = "w\<lparr>os := k\<rparr>"
  show ?thesis
  proof (cases "ret = 0")
    case False
    with g r ok show ?thesis by (auto simp: usbg_parse_gadget_def)
  next
    case True
    from tailq_find_owned [OF wfpD(2) [OF ok]] obtain u where u: "usbg_get_udc buf ?w1 = Some u"
      by (fastforce simp: usbg_get_udc_def)
    have "q \<in> dom (udc_at ?w1)" if "u = Some q" for q
      using u that tailq_find_Some [of "udc_at ?w1" _ "s_udcs ?w1" q] by (auto simp: usbg_get_udc_def)
    with link_udc_reads [of g ?w1 gad u] ok g obtain w2 where
      w2: "link_udc g u ?w1 = Some w2" "heap_ok {g} w2" "heap_grows w w2" by auto
    from heap_grows_gadget [OF w2(3) g] obtain gad2 where g2: "gadget_at w2 g = Some gad2" ..
    from parse_functions_reads [OF w2(2) g2] obtain r3 w3 where
      w3: "usbg_parse_functions K (g_path gad) g w2 = Some (r3, w3)" "heap_ok {g} w3" "heap_grows w2 w3" by (rule readsE)
    have g3: "heap_grows w w3" by (rule heap_grows_trans [OF w2(3) w3(3)])
    have start: "usbg_parse_gadget K g w = (if r3 \<noteq> err USBG_SUCCESS then Some (r3, w3)
       else do {
         (r4, w4) \<leftarrow> usbg_parse_configs K (g_path gad) g w3;
         if r4 \<noteq> err USBG_SUCCESS then Some (r4, w4)
         else usbg_parse_gadget_os_desc_binding K g w4
       })"
      using g r True u w2(1) w3(1) by (simp add: usbg_parse_gadget_def)
    show ?thesis
    proof (cases "r3 = 0")
      case False
      with start w3(2) g3 show ?thesis by auto
    next
      case ok3: True
      from heap_grows_gadget [OF g3 g] obtain gad3 where g3': "gadget_at w3 g = Some gad3" ..
      from parse_configs_reads [OF K w3(2) g3'] obtain r4 w4 where
        w4: "usbg_parse_configs K (g_path gad) g w3 = Some (r4, w4)" "heap_ok {g} w4" "heap_grows w3 w4" by (rule readsE)
      have g4: "heap_grows w w4" by (rule heap_grows_trans [OF g3 w4(3)])
      from heap_grows_gadget [OF g4 g] obtain gad4 where "gadget_at w4 g = Some gad4" ..
      from reads_trans [OF g4 parse_os_desc_reads [OF K w4(2) this]] start ok3 w4 g4 show ?thesis by auto
    qed
  qed
qed

lemma parse_gadgets_loop_wf:
  assumes K: "links_absolute K"
  shows "heap_wf w \<Longrightarrow> \<exists>ret w'. parse_gadgets_loop K path ds w = Some (ret, w') \<and> heap_wf w'"
proof (induction ds arbitrary: w)
  case (Cons d ds)
  let ?p = "next_ptr w" and ?gad = "\<lparr>g_name = d, g_path = path, g_configs = [], g_functions = [], g_udc = None, g_os_desc_binding = None\<rparr>"
  obtain m k where m: "malloc_then2 K (os w) = (m, k)" by fastforce
  show ?case
  proof (cases m)
    case False
    with m Cons.prems show ?thesis by (simp add: usbg_allocate_gadget_def)
  next
    case True
    let ?w1 = "w\<lparr>os := k, next_ptr := Suc ?p, gadget_at := (gadget_at w)(?p \<mapsto> ?gad)\<rparr>"
    have a: "usbg_allocate_gadget K path d w = (Some ?p, ?w1)" using m True by (simp add: usbg_allocate_gadget_def Let_def)
    have "heap_ok {?p} ?w1" using wfp_new_gadget [of "{}" "w\<lparr>os := k\<rparr>" ?p ?gad] Cons.prems by simp
    from parse_gadget_reads [OF K this] obtain ret w2 where
      w2: "usbg_parse_gadget K ?p ?w1 = Some (ret, w2)" "heap_ok {?p} w2" "heap_grows ?w1 w2" by (auto elim: readsE)
    from heap_grows_gadget [OF w2(3)] obtain gad where g: "gadget_at w2 ?p = Some gad" by force
    show ?thesis
    proof (cases "ret = 0")
      case False
      with a w2 free_gadget_wf [OF w2(2) g] show ?thesis by (simp add: no_pending_children_def)
    next
      case True
      have "?p \<notin> set (s_gadgets w2)" using wfpD(1) [OF w2(2)] by (auto simp: owns_def)
      then have "heap_wf (w2\<lparr>s_gadgets := s_gadgets w2 @ [?p]\<rparr>)"
        using owns_distinct [OF wfpD(1) [OF w2(2)]] by (intro wfp_link_gadget [OF w2(2) g]) auto
      from Cons.IH [OF this] a w2(1) True show ?thesis by simp
    qed
  qed
qed simp

section \<open>The state\<close>

lemma parse_udcs_loop_wf: "heap_wf w \<Longrightarrow> heap_wf (snd (parse_udcs_loop K ds w))"
proof (induction ds arbitrary: w)
  case (Cons d ds)
  let ?p = "next_ptr w" and ?u = "\<lparr>u_name = d, u_gadget = None\<rparr>"
  obtain m1 k1 where m1: "k_malloc K (os w) = (m1, k1)" by fastforce
  obtain m2 k2 where m2: "k_malloc K k1 = (m2, k2)" by fastforce
  show ?case
  proof (cases "m1 \<and> m2")
    case False
    with m1 m2 Cons.prems show ?thesis by (cases m1) (auto simp: usbg_allocate_udc_def Let_def)
  next
    case True
    let ?w1 = "w\<lparr>os := k2, next_ptr := Suc ?p, udc_at := (udc_at w)(?p \<mapsto> ?u)\<rparr>"
    have w1: "heap_ok {?p} ?w1" using wfp_new_udc [of "{}" "w\<lparr>os := k2\<rparr>" ?p ?u] Cons.prems by simp
    have "?p \<notin> set (s_udcs w)" using owns_live [OF wfpD(2) [OF Cons.prems]] fresh_pointer(5) [OF Cons.prems] by fastforce
    then have "heap_wf (?w1\<lparr>s_udcs := s_udcs ?w1 @ [?p]\<rparr>)"
      using owns_distinct [OF wfpD(2) [OF Cons.prems]] by (intro wfp_link_udc [OF w1]) auto
    from Cons.IH [OF this] m1 m2 True show ?thesis by (simp add: usbg_allocate_udc_def Let_def)
  qed
qed simp

lemma parse_state_wf:
  assumes "links_absolute K" "heap_wf w"
  shows "\<exists>ret w'. usbg_parse_state K w = Some (ret, w') \<and> heap_wf w'"
proof -
  obtain ret w1 where u: "usbg_parse_udcs K w = (ret, w1)" by fastforce
  have w1: "heap_wf w1"
    using u assms(2) parse_udcs_loop_wf [of "w\<lparr>os := k\<rparr>" for k]
    by (auto simp: usbg_parse_udcs_def split: sum.splits dest!: arg_cong [where f = snd])
  with parse_gadgets_loop_wf [OF assms(1), of "w1\<lparr>os := k\<rparr>" for k] u show ?thesis
    by (auto simp: usbg_parse_state_def usbg_parse_gadgets_def split: sum.split)
qed

lemma empty_state_wf: "heap_wf (empty_state a b n k)"
  by (simp add: empty_state_def wf_defs owns_def fresh_from_def one_kind_def)

lemma init_wf:
  assumes "links_absolute K"
  shows "\<exists>ret s k'. usbg_init K configfs_path n k = Some (ret, s, k') \<and>
    (ret = 0 \<longrightarrow> (\<exists>w. s = Some w \<and> heap_wf w)) \<and> (ret \<noteq> 0 \<longrightarrow> s = None)"
proof -
  let ?path = "path2 configfs_path GADGETS_DIR"
  let ?go = "usbg_init K configfs_path n k"
  have fail: ?thesis if "?go = Some (r, None, k')" "r \<noteq> 0" for r k' using that by simp
  obtain m k1 where m: "k_malloc K k = (m, k1)" by fastforce
  obtain e k2 where e: "k_opendir K ?path k1 = (e, k2)" by fastforce
  obtain s k3 where s: "usbg_allocate_state K configfs_path ?path n k2 = (s, k3)" by fastforce
  consider "\<not> m" | x where m "e = Some x" | m "e = None" "s = None" | w where m "e = None" "s = Some w" by (cases e; cases s) auto
  then show ?thesis
  proof cases
    case 1
    with m show ?thesis by (intro fail [of "err USBG_ERROR_NO_MEM" k1]) (simp_all add: usbg_init_def)
  next
    case (2 x)
    with m e show ?thesis by (intro fail [of "usbg_translate_error x" k2]) (simp_all add: usbg_init_def)
  next
    case 3
    with m e s show ?thesis by (intro fail [of "err USBG_ERROR_NO_MEM" k3]) (simp_all add: usbg_init_def)
  next
    case (4 w)
    from s 4(3) have "heap_wf w"
      by (auto simp: usbg_allocate_state_def Let_def empty_state_wf split: if_splits prod.splits)
    from parse_state_wf [OF assms this] obtain ret w1 where w1: "usbg_parse_state K w = Some (ret, w1)" "heap_wf w1" by blast
    show ?thesis
    proof (cases "ret = 0")
      case True
      with m e s 4 w1 show ?thesis by (simp add: usbg_init_def)
    next
      case False
      from cleanup_wf [OF w1(2)] obtain w2 where "usbg_free_state w1 = Some w2" by (auto simp: usbg_cleanup_def)
      with m e s 4 w1 False show ?thesis by (intro fail [of ret "os w2"]) (simp_all add: usbg_init_def)
    qed
  qed
qed

end
