(* ===== verification/Usbg_Session.thy ===== *)
theory Usbg_Session
  imports Usbg_Safety_Create Usbg_Safety_Udc Usbg_Safety_Parse
begin

text \<open>
  A program that uses the library: it initialises the state and then makes any calls, in any
  order, on handles that are live, while other processes change configfs between the calls.
  No such program meets undefined behaviour, and the heap stays well-formed.
\<close>

section \<open>Calls\<close>

datatype call =
    Create_gadget string "gadget_attrs option" "gadget_strs option"
  | Create_gadget_vid_pid string u16 u16
  | Create_function ptr usbg_function_type string "function_attrs option"
  | Create_config ptr int "string option" "config_attrs option" "string option option"
  | Add_config_function ptr "string option" ptr
  | Rm_binding ptr
  | Rm_config ptr int
  | Rm_function ptr int
  | Rm_gadget ptr int
  | Enable_gadget ptr "ptr option"
  | Disable_gadget ptr
  | Get_gadget_udc ptr
  | Set_os_desc_config ptr "ptr option"
  | Set_function_attrs ptr "function_attrs option"

text \<open>The handles of a call are live, and the attributes fit the type of the function.\<close>

fun handles_live :: "'k world \<Rightarrow> call \<Rightarrow> bool" where
  "handles_live w (Create_gadget n a s) = True"
| "handles_live w (Create_gadget_vid_pid n v p) = True"
| "handles_live w (Create_function g t i a) = (gadget_at w g \<noteq> None \<and> pred_option (attrs_ok t) a)"
| "handles_live w (Create_config g i l a s) = (gadget_at w g \<noteq> None)"
| "handles_live w (Add_config_function c n f) = (config_at w c \<noteq> None \<and> function_at w f \<noteq> None)"
| "handles_live w (Rm_binding b) = (binding_at w b \<noteq> None)"
| "handles_live w (Rm_config c opts) = (config_at w c \<noteq> None)"
| "handles_live w (Rm_function f opts) = (function_at w f \<noteq> None)"
| "handles_live w (Rm_gadget g opts) = (gadget_at w g \<noteq> None)"
| "handles_live w (Enable_gadget g u) = (gadget_at w g \<noteq> None \<and> pred_option (\<lambda>q. udc_at w q \<noteq> None) u)"
| "handles_live w (Disable_gadget g) = (gadget_at w g \<noteq> None)"
| "handles_live w (Get_gadget_udc g) = (gadget_at w g \<noteq> None)"
| "handles_live w (Set_os_desc_config g c) = (gadget_at w g \<noteq> None \<and> pred_option (\<lambda>q. config_at w q \<noteq> None) c)"
| "handles_live w (Set_function_attrs f a) =
     (\<exists>fn. function_at w f = Some fn \<and> pred_option (attrs_ok (f_type fn)) a)"

text \<open>The world after a call; the caller's results are not needed here.\<close>

definition world_of :: "('r \<times> 'k world) option \<Rightarrow> 'k world option" where
  "world_of r = map_option snd r"

definition world_of3 :: "('r \<times> 's \<times> 'k world) option \<Rightarrow> 'k world option" where
  "world_of3 r = map_option (snd \<circ> snd) r"

fun exec :: "'k kernel \<Rightarrow> call \<Rightarrow> 'k world \<Rightarrow> 'k world option" where
  "exec K (Create_gadget n a s) w = world_of3 (usbg_create_gadget K n a s True w)"
| "exec K (Create_gadget_vid_pid n v p) w = world_of3 (usbg_create_gadget_vid_pid K n v p True w)"
| "exec K (Create_function g t i a) w = world_of3 (usbg_create_function K (Some g) t (Some i) a True w)"
| "exec K (Create_config g i l a s) w = world_of3 (usbg_create_config K (Some g) i l a s True w)"
| "exec K (Add_config_function c n f) w = world_of (usbg_add_config_function K (Some c) n (Some f) w)"
| "exec K (Rm_binding b) w = world_of (usbg_rm_binding K (Some b) w)"
| "exec K (Rm_config c opts) w = world_of (usbg_rm_config K (Some c) opts w)"
| "exec K (Rm_function f opts) w = world_of (usbg_rm_function K (Some f) opts w)"
| "exec K (Rm_gadget g opts) w = world_of (usbg_rm_gadget K (Some g) opts w)"
| "exec K (Enable_gadget g u) w = world_of (usbg_enable_gadget K (Some g) u w)"
| "exec K (Disable_gadget g) w = world_of (usbg_disable_gadget K (Some g) w)"
| "exec K (Get_gadget_udc g) w = world_of (usbg_get_gadget_udc K (Some g) w)"
| "exec K (Set_os_desc_config g c) w = world_of (usbg_set_os_desc_config K (Some g) c w)"
| "exec K (Set_function_attrs f a) w = world_of (usbg_set_function_attrs K (Some f) a w)"

section \<open>Each call is safe\<close>

lemma exec_wf:
  assumes K: "luns_named K" and w: "heap_wf w" and c: "handles_live w c"
  shows "\<exists>w'. exec K c w = Some w' \<and> heap_wf w'"
proof (cases c)
  case (Create_gadget n a s)
  from create_gadget_wf [OF w, of K n a s] Create_gadget show ?thesis by (auto simp: world_of3_def)
next
  case (Create_gadget_vid_pid n v p)
  from create_gadget_vid_pid_wf [OF w, of K n v p] Create_gadget_vid_pid show ?thesis by (auto simp: world_of3_def)
next
  case (Create_function g t i a)
  with c obtain gad where g: "gadget_at w g = Some gad" "\<forall>x. a = Some x \<longrightarrow> attrs_ok t x" by (cases a) auto
  from create_function_wf [OF K w g, of i] Create_function show ?thesis by (auto simp: world_of3_def)
next
  case (Create_config g i l a s)
  with c obtain gad where g: "gadget_at w g = Some gad" by auto
  from create_config_wf [OF w g refl, of K i l a s] Create_config show ?thesis by (auto simp: world_of3_def)
next
  case (Add_config_function d n f)
  with c obtain conf fn where d: "config_at w d = Some conf" "function_at w f = Some fn" by auto
  from add_config_function_wf [OF w d refl, of K n] Add_config_function show ?thesis by (auto simp: world_of_def)
next
  case (Rm_binding b)
  with c obtain bn where "binding_at w b = Some bn" by auto
  from rm_binding_wf [OF w this, of K] Rm_binding show ?thesis by (auto simp: world_of_def)
next
  case (Rm_config d opts)
  with c obtain conf where "config_at w d = Some conf" by auto
  from rm_config_wf [OF w this, of K opts] Rm_config show ?thesis by (auto simp: world_of_def)
next
  case (Rm_function f opts)
  with c obtain fn where f: "function_at w f = Some fn" by auto
  from wfpD(8) [OF w f] obtain gad where "gadget_at w (f_parent fn) = Some gad" ..
  from rm_function_wf [OF K w f this, of opts] Rm_function show ?thesis by (auto simp: world_of_def)
next
  case (Rm_gadget g opts)
  with c obtain gad where "gadget_at w g = Some gad" by auto
  from rm_gadget_wf [OF K w this, of opts] Rm_gadget show ?thesis by (auto simp: world_of_def)
next
  case (Enable_gadget g u)
  with c obtain gad where g: "gadget_at w g = Some gad" by auto
  have "q \<in> dom (udc_at w)" if "u = Some q" for q using c Enable_gadget that by auto
  from enable_gadget_wf [OF w g this, of u K] Enable_gadget show ?thesis by (auto simp: world_of_def)
next
  case (Disable_gadget g)
  with c obtain gad where "gadget_at w g = Some gad" by auto
  from disable_gadget_wf [OF w this, of K] Disable_gadget show ?thesis by (auto simp: world_of_def)
next
  case (Get_gadget_udc g)
  with c obtain gad where "gadget_at w g = Some gad" by auto
  from get_gadget_udc_wf [OF w this, of K] Get_gadget_udc show ?thesis by (auto simp: world_of_def)
next
  case (Set_os_desc_config g d)
  with c obtain gad where g: "gadget_at w g = Some gad" by auto
  have "q \<in> dom (config_at w)" if "d = Some q" for q using c Set_os_desc_config that by auto
  from set_os_desc_config_wf [OF w g this, of d K] Set_os_desc_config show ?thesis by (auto simp: world_of_def)
next
  case (Set_function_attrs f a)
  with c obtain fn where f: "function_at w f = Some fn" "\<forall>x. a = Some x \<longrightarrow> attrs_ok (f_type fn) x" by (cases a) auto
  from set_function_attrs_wf [OF K w f] Set_function_attrs show ?thesis by (auto simp: world_of_def)
qed

section \<open>Sessions\<close>

inductive step :: "'k kernel \<Rightarrow> 'k world \<Rightarrow> 'k world \<Rightarrow> bool" for K where
  step_call: "handles_live w c \<Longrightarrow> exec K c w = Some w' \<Longrightarrow> step K w w'"
| step_environment: "step K w (w\<lparr>os := k\<rparr>)"

inductive reachable :: "'k kernel \<Rightarrow> 'k world \<Rightarrow> bool" for K where
  reachable_init: "usbg_init K configfs_path n k = Some (0, Some w, k') \<Longrightarrow> reachable K w"
| reachable_step: "reachable K w \<Longrightarrow> step K w w' \<Longrightarrow> reachable K w'"

lemma step_wf:
  assumes "luns_named K" "heap_wf w" "step K w w'"
  shows "heap_wf w'"
  using assms(3)
proof cases
  case (step_call c)
  with exec_wf [OF assms(1,2) step_call(1)] show ?thesis by auto
qed (use assms(2) in simp)

lemma reachable_wf:
  assumes "reachable K w" "links_absolute K" "luns_named K"
  shows "heap_wf w"
  using assms(1)
proof induction
  case (reachable_init p n k w k')
  with init_wf [OF assms(2), of p n k] show ?case by auto
next
  case (reachable_step w w')
  with step_wf [OF assms(3)] show ?case by blast
qed

end
