(* ===== verification/Usbg_Forest.thy ===== *)
theory Usbg_Forest
  imports Usbg_Session
begin

text \<open>
  What a client sees of the objects, without pointers to members, queues and files: a forest of
  named nodes. Each call has a specification on forests: a creation grows one node, with a
  name that its siblings do not have, or nothing; a removal prunes part of what hangs below
  its handle, always with all descendants; every other call leaves the forest alone. The
  operations of the library refine these specifications.
\<close>

section \<open>Forests\<close>

datatype tree_node =
    Gadget_node string
  | Function_node ptr usbg_function_type string
  | Config_node ptr int string
  | Binding_node ptr string ptr

type_synonym forest = "ptr \<rightharpoonup> tree_node"

fun parent_of :: "tree_node \<Rightarrow> ptr option" where
  "parent_of (Gadget_node n) = None"
| "parent_of (Function_node g t i) = Some g"
| "parent_of (Config_node g i l) = Some g"
| "parent_of (Binding_node c n f) = Some c"

definition gadget_in :: "forest \<Rightarrow> ptr \<Rightarrow> bool" where
  "gadget_in F p \<longleftrightarrow> (case F p of Some (Gadget_node n) \<Rightarrow> True | _ \<Rightarrow> False)"

definition config_in :: "forest \<Rightarrow> ptr \<Rightarrow> bool" where
  "config_in F p \<longleftrightarrow> (case F p of Some (Config_node g i l) \<Rightarrow> True | _ \<Rightarrow> False)"

definition function_in :: "forest \<Rightarrow> ptr \<Rightarrow> bool" where
  "function_in F p \<longleftrightarrow> (case F p of Some (Function_node g t i) \<Rightarrow> True | _ \<Rightarrow> False)"

text \<open>A node hangs below one of the right kind.\<close>

fun hangs :: "forest \<Rightarrow> tree_node \<Rightarrow> bool" where
  "hangs F (Gadget_node n) = True"
| "hangs F (Function_node g t i) = gadget_in F g"
| "hangs F (Config_node g i l) = gadget_in F g"
| "hangs F (Binding_node c n f) = config_in F c"

definition rooted :: "forest \<Rightarrow> bool" where
  "rooted F \<longleftrightarrow> (\<forall>p n. F p = Some n \<longrightarrow> hangs F n)"

text \<open>Siblings that the library does not let a client create beside each other.\<close>

fun clash :: "tree_node \<Rightarrow> tree_node \<Rightarrow> bool" where
  "clash (Gadget_node n) (Gadget_node m) = (n = m)"
| "clash (Function_node g t i) (Function_node h u j) = (g = h \<and> t = u \<and> i = j)"
| "clash (Config_node g i l) (Config_node h j m) = (g = h \<and> i = j)"
| "clash (Binding_node c n f) (Binding_node d m h) = (c = d \<and> (n = m \<or> f = h))"
| "clash _ _ = False"

definition separate :: "forest \<Rightarrow> bool" where
  "separate F \<longleftrightarrow> (\<forall>p q n m. F p = Some n \<and> F q = Some m \<and> p \<noteq> q \<longrightarrow> \<not> clash n m)"

lemma clash_sym: "clash n m = clash m n"
  by (cases n; cases m) auto

section \<open>What calls may do to a forest\<close>

fun acceptable :: "forest \<Rightarrow> tree_node \<Rightarrow> bool" where
  "acceptable F (Gadget_node n) = True"
| "acceptable F (Function_node g t i) = (i \<noteq> [])"
| "acceptable F (Config_node g i l) = (0 < i \<and> i \<le> 255)"
| "acceptable F (Binding_node c n f) = function_in F f"

definition planted :: "forest \<Rightarrow> tree_node \<Rightarrow> forest \<Rightarrow> bool" where
  "planted F n F' \<longleftrightarrow>
     hangs F n \<and> acceptable F n \<and> (\<forall>q m. F q = Some m \<longrightarrow> \<not> clash n m) \<and>
     (\<exists>p. F p = None \<and> F' = F(p \<mapsto> n))"

definition pruned :: "ptr set \<Rightarrow> forest \<Rightarrow> forest \<Rightarrow> bool" where
  "pruned S F F' \<longleftrightarrow> F' \<subseteq>\<^sub>m F \<and> (\<forall>p. p \<notin> S \<longrightarrow> F' p = F p) \<and> rooted F'"

definition family :: "forest \<Rightarrow> ptr \<Rightarrow> ptr set" where
  "family F r = {p. \<exists>n. F p = Some n \<and>
     (p = r \<or> parent_of n = Some r \<or> (\<exists>q m. parent_of n = Some q \<and> F q = Some m \<and> parent_of m = Some r))}"

definition links_to :: "forest \<Rightarrow> ptr \<Rightarrow> ptr set" where
  "links_to F f = {p. \<exists>c n. F p = Some (Binding_node c n f)}"

fun call_spec :: "call \<Rightarrow> forest \<Rightarrow> forest \<Rightarrow> bool" where
  "call_spec (Create_gadget n a s) F F' = (F' = F \<or> planted F (Gadget_node n) F')"
| "call_spec (Create_gadget_vid_pid n v p) F F' = (F' = F \<or> planted F (Gadget_node n) F')"
| "call_spec (Create_function g t i a) F F' = (F' = F \<or> planted F (Function_node g t i) F')"
| "call_spec (Create_config g i l a s) F F' =
     (F' = F \<or> planted F (Config_node g i (case l of None \<Rightarrow> DEFAULT_CONFIG_LABEL | Some x \<Rightarrow> x)) F')"
| "call_spec (Add_config_function c n f) F F' =
     (F' = F \<or> (\<exists>nm. (n \<noteq> None \<longrightarrow> n = Some nm) \<and> planted F (Binding_node c nm f) F'))"
| "call_spec (Rm_binding b) F F' = pruned {b} F F'"
| "call_spec (Rm_config c opts) F F' = pruned (family F c) F F'"
| "call_spec (Rm_function f opts) F F' = pruned (insert f (links_to F f)) F F'"
| "call_spec (Rm_gadget g opts) F F' = pruned (family F g) F F'"
| "call_spec _ F F' = (F' = F)"

lemma planted_separate:
  assumes "separate F" "planted F n F'"
  shows "separate F'"
proof -
  from assms(2) obtain p where p: "F' = F(p \<mapsto> n)" "\<forall>q m. F q = Some m \<longrightarrow> \<not> clash n m"
    by (auto simp: planted_def)
  with assms(1) show ?thesis unfolding separate_def by (metis clash_sym fun_upd_apply option.sel)
qed

lemma sub_separate: "separate F \<Longrightarrow> F' \<subseteq>\<^sub>m F \<Longrightarrow> separate F'"
  unfolding separate_def map_le_def by (metis domI)

text \<open>Names stay apart whatever a client calls.\<close>

lemma call_spec_separate: "call_spec c F F' \<Longrightarrow> separate F \<Longrightarrow> separate F'"
  by (cases c) (auto simp: pruned_def intro: planted_separate sub_separate)

section \<open>The forest of a world\<close>

definition node_of_gadget :: "usbg_gadget \<Rightarrow> tree_node" where
  "node_of_gadget g = Gadget_node (g_name g)"

definition node_of_config :: "usbg_config \<Rightarrow> tree_node" where
  "node_of_config c = Config_node (c_parent c) (c_id c) (c_label c)"

definition node_of_function :: "usbg_function \<Rightarrow> tree_node" where
  "node_of_function f = Function_node (f_parent f) (f_type f) (f_instance f)"

definition node_of_binding :: "usbg_binding \<Rightarrow> tree_node" where
  "node_of_binding b = Binding_node (b_parent b) (b_name b) (b_target b)"

lemmas node_defs = node_of_gadget_def node_of_config_def node_of_function_def node_of_binding_def

definition forest_of :: "'k world \<Rightarrow> forest" where
  "forest_of w p =
     (case gadget_at w p of Some g \<Rightarrow> Some (node_of_gadget g) | None \<Rightarrow>
     (case config_at w p of Some c \<Rightarrow> Some (node_of_config c) | None \<Rightarrow>
     (case function_at w p of Some f \<Rightarrow> Some (node_of_function f) | None \<Rightarrow>
      map_option node_of_binding (binding_at w p))))"

lemma forest_cong:
  assumes "map_option node_of_gadget (gadget_at w' p) = map_option node_of_gadget (gadget_at w p)"
    "map_option node_of_config (config_at w' p) = map_option node_of_config (config_at w p)"
    "map_option node_of_function (function_at w' p) = map_option node_of_function (function_at w p)"
    "map_option node_of_binding (binding_at w' p) = map_option node_of_binding (binding_at w p)"
  shows "forest_of w' p = forest_of w p"
  using assms unfolding forest_of_def by (auto simp: map_option_case split: option.splits)

lemma forest_os [simp]: "forest_of (w\<lparr>os := k\<rparr>) = forest_of w"
  by (rule ext, rule forest_cong) simp_all

lemma forest_same: "same_objects w w' \<Longrightarrow> forest_of w' = forest_of w"
  by (rule ext, rule forest_cong) (simp_all add: same_objects_def)

lemma forest_at:
  assumes "heap_wf w"
  shows "gadget_at w p = Some g \<Longrightarrow> forest_of w p = Some (node_of_gadget g)"
    "config_at w p = Some c \<Longrightarrow> forest_of w p = Some (node_of_config c)"
    "function_at w p = Some f \<Longrightarrow> forest_of w p = Some (node_of_function f)"
    "binding_at w p = Some b \<Longrightarrow> forest_of w p = Some (node_of_binding b)"
  using wfpD(12) [OF assms, unfolded one_kind_def, rule_format, of p]
  by (cases "gadget_at w p"; cases "config_at w p"; cases "function_at w p"; cases "binding_at w p";
      simp add: forest_of_def)+

lemma forest_in:
  assumes "heap_wf w"
  shows "gadget_in (forest_of w) p = (gadget_at w p \<noteq> None)"
    "config_in (forest_of w) p = (config_at w p \<noteq> None)"
    "function_in (forest_of w) p = (function_at w p \<noteq> None)"
  using wfpD(12) [OF assms, unfolded one_kind_def, rule_format, of p]
  by (cases "gadget_at w p"; cases "config_at w p"; cases "function_at w p"; cases "binding_at w p";
      simp add: forest_of_def gadget_in_def config_in_def function_in_def node_defs)+

lemma forest_cases:
  assumes "forest_of w p = Some n"
  obtains (gad) g where "gadget_at w p = Some g" "n = node_of_gadget g"
    | (conf) c where "config_at w p = Some c" "n = node_of_config c"
    | (func) f where "function_at w p = Some f" "n = node_of_function f"
    | (bind) b where "binding_at w p = Some b" "n = node_of_binding b"
  using assms by (auto simp: forest_of_def split: option.splits)

lemma forest_rooted:
  assumes "heap_wf w"
  shows "rooted (forest_of w)"
  unfolding rooted_def
proof (intro allI impI)
  fix p n assume "forest_of w p = Some n"
  then show "hangs (forest_of w) n"
    using wfpD(6,8,10) [OF assms] by (cases rule: forest_cases) (auto simp: node_defs forest_in [OF assms])
qed

end
