(* ===== verification/Usbg_Forest_Refine.thy ===== *)
theory Usbg_Forest_Refine
  imports Usbg_Forest
begin

text \<open>
  The calls of the library refine their specifications on forests: on a well-formed heap and
  live handles, the forest of the world after the call is one that the specification allows.
\<close>

section \<open>Creations\<close>

lemma fresh_node:
  assumes "heap_wf w"
  shows "forest_of w (next_ptr w) = None"
  using fresh_fromD [OF wfpD(11) [OF assms] order_refl] by (simp add: forest_of_def)

lemma plantedI:
  assumes "heap_wf w" "\<And>q. q \<noteq> next_ptr w \<Longrightarrow> forest_of w' q = forest_of w q" "forest_of w' (next_ptr w) = Some n"
    and "hangs (forest_of w) n" "acceptable (forest_of w) n" "\<And>q m. forest_of w q = Some m \<Longrightarrow> \<not> clash n m"
  shows "planted (forest_of w) n (forest_of w')"
proof -
  have "forest_of w' = (forest_of w)(next_ptr w \<mapsto> n)" using assms(2,3) by (auto simp: fun_eq_iff)
  with fresh_node [OF assms(1)] assms(4-) show ?thesis unfolding planted_def by blast
qed

text \<open>What a look-up in a queue did not find does not exist.\<close>

lemma not_found:
  assumes "tailq_find heap Q xs = Some None" "owns heap B {} xs" "heap p = Some x" "B x"
  shows "\<not> Q x"
  using tailq_find_NoneD [OF assms(1) owns_member [OF assms(2-4)]] assms(3) by auto

lemma gadget_planted:
  assumes w: "heap_wf w" and w': "heap_wf w'" and "usbg_get_gadget name w = Some None" "gadget_added name w w'"
  shows "planted (forest_of w) (Gadget_node name) (forest_of w')"
proof -
  from assms(4) obtain u gs where e: "w' = (pending_gadget name u w)\<lparr>s_gadgets := gs, os := os w'\<rparr>"
    unfolding gadget_added_def by blast
  have new: "gadget_at w' (next_ptr w) = Some (new_gadget (s_path w) name u)"
    by (subst e) (simp add: pending_gadget_def)
  show ?thesis
  proof (rule plantedI [OF w])
    show "forest_of w' q = forest_of w q" if "q \<noteq> next_ptr w" for q
      by (rule forest_cong) (subst e, use that in \<open>simp add: pending_gadget_def\<close>)+
    show "forest_of w' (next_ptr w) = Some (Gadget_node name)"
      using forest_at(1) [OF w' new] by (simp add: node_of_gadget_def new_gadget_def)
    show "\<not> clash (Gadget_node name) m" if "forest_of w q = Some m" for q m
      using that
    proof (cases rule: forest_cases)
      case (gad g)
      with not_found [OF assms(3) [unfolded usbg_get_gadget_def] wfpD(1) [OF w] gad(1)] show ?thesis
        by (auto simp: node_of_gadget_def)
    qed (auto simp: node_defs)
  qed simp_all
qed

lemma function_planted:
  assumes w: "heap_wf w" and w': "heap_wf w'" and g: "gadget_at w g = Some gad"
    and "inst \<noteq> []" "usbg_get_function g type inst w = Some None" "function_added g type inst gad w w'"
  shows "planted (forest_of w) (Function_node g type inst) (forest_of w')"
proof -
  from assms(6) obtain fn fs where fn: "new_function gad g type inst fn"
    and e: "w' = add_function g (next_ptr w) fn fs (w\<lparr>os := os w'\<rparr>)"
    unfolding function_added_def by blast
  have new: "function_at w' (next_ptr w) = Some fn" by (subst e) (simp add: add_function_def)
  from assms(5) g have none: "tailq_find (function_at w)
      (\<lambda>f. f_type f = type \<and> strcmp (f_instance f) inst = 0) (g_functions gad) = Some None"
    by (simp add: usbg_get_function_def)
  show ?thesis
  proof (rule plantedI [OF w])
    show "forest_of w' q = forest_of w q" if "q \<noteq> next_ptr w" for q
      by (rule forest_cong) (subst e, use that g in \<open>simp add: add_function_def node_of_gadget_def\<close>)+
    show "forest_of w' (next_ptr w) = Some (Function_node g type inst)"
      using forest_at(3) [OF w' new] fn by (simp add: node_of_function_def new_function_def)
    show "\<not> clash (Function_node g type inst) m" if "forest_of w q = Some m" for q m
      using that
    proof (cases rule: forest_cases)
      case (func f)
      with not_found [OF none wfpD(4) [OF w g] func(1)] show ?thesis by (auto simp: node_of_function_def)
    qed (auto simp: node_defs)
  qed (use g assms(4) in \<open>simp_all add: forest_in [OF w]\<close>)
qed

lemma config_planted:
  assumes w: "heap_wf w" and w': "heap_wf w'" and g: "gadget_at w g = Some gad"
    and "0 < i" "i \<le> 255" "usbg_get_config g i None w = Some None" "config_added g lbl i gad w w'"
  shows "planted (forest_of w) (Config_node g i lbl) (forest_of w')"
proof -
  from assms(7) obtain cs where e: "w' = add_config g (next_ptr w) (new_config gad lbl i g) cs (w\<lparr>os := os w'\<rparr>)"
    unfolding config_added_def by blast
  have new: "config_at w' (next_ptr w) = Some (new_config gad lbl i g)" by (subst e) (simp add: add_config_def)
  from assms(6) g have none: "tailq_find (config_at w) (\<lambda>c. c_id c = i) (g_configs gad) = Some None"
    by (simp add: usbg_get_config_def)
  show ?thesis
  proof (rule plantedI [OF w])
    show "forest_of w' q = forest_of w q" if "q \<noteq> next_ptr w" for q
      by (rule forest_cong) (subst e, use that g in \<open>simp add: add_config_def node_of_gadget_def\<close>)+
    show "forest_of w' (next_ptr w) = Some (Config_node g i lbl)"
      using forest_at(2) [OF w' new] by (simp add: node_of_config_def new_config_def)
    show "\<not> clash (Config_node g i lbl) m" if "forest_of w q = Some m" for q m
      using that
    proof (cases rule: forest_cases)
      case (conf c)
      with not_found [OF none wfpD(3) [OF w g] conf(1)] show ?thesis by (auto simp: node_of_config_def)
    qed (auto simp: node_defs)
  qed (use g assms(4,5) in \<open>simp_all add: forest_in [OF w]\<close>)
qed

lemma binding_planted:
  assumes w: "heap_wf w" and w': "heap_wf w'" and c: "config_at w c = Some conf" and f: "function_at w f = Some fn"
    and "usbg_get_binding c nm w = Some None" "usbg_get_link_binding c f w = Some None" "binding_added c nm f conf w w'"
  shows "planted (forest_of w) (Binding_node c nm f) (forest_of w')"
proof -
  let ?bn = "\<lparr>b_name = nm, b_path = path2 (c_path conf) (c_name conf), b_target = f, b_parent = c\<rparr>"
  from assms(7) obtain bs where e: "w' = add_binding c (next_ptr w) ?bn bs (w\<lparr>os := os w'\<rparr>)"
    by (auto simp: binding_added_def Let_def)
  have new: "binding_at w' (next_ptr w) = Some ?bn" by (subst e) (simp add: add_binding_def)
  from assms(5) c have none: "tailq_find (binding_at w) (\<lambda>b. strcmp (b_name b) nm = 0) (c_bindings conf) = Some None"
    by (simp add: usbg_get_binding_def)
  from assms(6) c have none': "tailq_find (binding_at w) (\<lambda>b. b_target b = f) (c_bindings conf) = Some None"
    by (simp add: usbg_get_link_binding_def)
  show ?thesis
  proof (rule plantedI [OF w])
    show "forest_of w' q = forest_of w q" if "q \<noteq> next_ptr w" for q
      by (rule forest_cong) (subst e, use that c in \<open>simp add: add_binding_def node_of_config_def\<close>)+
    show "forest_of w' (next_ptr w) = Some (Binding_node c nm f)"
      using forest_at(4) [OF w' new] by (simp add: node_of_binding_def)
    show "\<not> clash (Binding_node c nm f) m" if "forest_of w q = Some m" for q m
      using that
    proof (cases rule: forest_cases)
      case (bind b)
      with not_found [OF none wfpD(7) [OF w c] bind(1)] not_found [OF none' wfpD(7) [OF w c] bind(1)] show ?thesis
        by (auto simp: node_of_binding_def)
    qed (auto simp: node_defs)
  qed (use c f in \<open>simp_all add: forest_in [OF w]\<close>)
qed


section \<open>Removals\<close>

text \<open>A removal that is described heap by heap: a pointer of \<open>S\<close> may be freed, every other
  object keeps what the forest shows of it.\<close>

definition kept :: "('a \<Rightarrow> tree_node) \<Rightarrow> ptr set \<Rightarrow> (ptr \<rightharpoonup> 'a) \<Rightarrow> (ptr \<rightharpoonup> 'a) \<Rightarrow> bool" where
  "kept f S h h' \<longleftrightarrow> (\<forall>p. map_option f (h' p) = map_option f (h p) \<or> p \<in> S \<and> h' p = None)"

definition shrinks :: "ptr set \<Rightarrow> 'k world \<Rightarrow> 'k world \<Rightarrow> bool" where
  "shrinks S w w' \<longleftrightarrow> (\<forall>p. forest_of w' p = forest_of w p \<or> p \<in> S \<and> forest_of w' p = None)"

lemma kept_refl [simp, intro]: "kept f S h h"
  by (simp add: kept_def)

lemma kept_free [intro]: "p \<in> S \<Longrightarrow> kept f S h (h(p := None))"
  by (simp add: kept_def)

lemma kept_update [intro]:
  assumes "\<And>x. h p = Some x \<Longrightarrow> f (g x) = f x"
  shows "kept f S h (h(p := map_option g (h p)))"
  using assms by (cases "h p") (auto simp: kept_def)

lemma kept_without [intro]:
  assumes "\<And>p x. h p = Some x \<Longrightarrow> par x \<in> C \<Longrightarrow> p \<in> S"
  shows "kept f S h (without par C h)"
  unfolding kept_def
proof
  fix p
  show "map_option f (without par C h p) = map_option f (h p) \<or> p \<in> S \<and> without par C h p = None"
    using assms by (cases "h p") (auto simp: without_def)
qed

lemma shrinksI:
  assumes "one_kind w" "kept node_of_gadget S (gadget_at w) (gadget_at w')" "kept node_of_config S (config_at w) (config_at w')"
    "kept node_of_function S (function_at w) (function_at w')" "kept node_of_binding S (binding_at w) (binding_at w')"
  shows "shrinks S w w'"
  unfolding shrinks_def
proof
  fix p
  show "forest_of w' p = forest_of w p \<or> p \<in> S \<and> forest_of w' p = None"
  proof (cases "p \<in> S")
    case False
    then have "forest_of w' p = forest_of w p" using assms(2-) by (intro forest_cong) (auto simp: kept_def)
    then show ?thesis ..
  next
    case True
    note k = assms(2-) [unfolded kept_def, THEN spec, of p]
    from True k assms(1) [unfolded one_kind_def, rule_format, of p] show ?thesis
      by (cases "gadget_at w p"; cases "config_at w p"; cases "function_at w p"; cases "binding_at w p")
        (auto simp: forest_of_def)
  qed
qed

lemma shrinks_trans: "shrinks S u v \<Longrightarrow> shrinks S v w \<Longrightarrow> shrinks S u w"
  unfolding shrinks_def by metis

lemma shrinks_mono: "shrinks S u v \<Longrightarrow> S \<subseteq> T \<Longrightarrow> shrinks T u v"
  unfolding shrinks_def by blast

lemma shrinks_forest: "forest_of w' = forest_of w \<Longrightarrow> shrinks S w w'"
  by (simp add: shrinks_def)

lemma shrinks_le: "shrinks S w w' \<Longrightarrow> forest_of w' \<subseteq>\<^sub>m forest_of w"
  unfolding shrinks_def map_le_def by (metis domIff)

lemma shrinks_pruned: "shrinks S w w' \<Longrightarrow> heap_wf w' \<Longrightarrow> pruned S (forest_of w) (forest_of w')"
  using shrinks_le forest_rooted unfolding pruned_def shrinks_def by metis

lemma family_mono: "F' \<subseteq>\<^sub>m F \<Longrightarrow> family F' r \<subseteq> family F r"
  unfolding family_def map_le_def by (fastforce simp: dom_def)

text \<open>Members of the family of a handle.\<close>

lemma family_live:
  assumes "heap_wf w"
  shows "gadget_at w p = Some g \<Longrightarrow> p \<in> family (forest_of w) p"
    "config_at w p = Some c \<Longrightarrow> p \<in> family (forest_of w) p"
    "config_at w p = Some c \<Longrightarrow> c_parent c = r \<Longrightarrow> p \<in> family (forest_of w) r"
    "function_at w p = Some f \<Longrightarrow> f_parent f = r \<Longrightarrow> p \<in> family (forest_of w) r"
    "binding_at w p = Some b \<Longrightarrow> b_parent b = r \<Longrightarrow> p \<in> family (forest_of w) r"
    "binding_at w p = Some b \<Longrightarrow> config_at w (b_parent b) = Some c \<Longrightarrow> c_parent c = r \<Longrightarrow> p \<in> family (forest_of w) r"
  using forest_at [OF assms, of p] forest_at(2) [OF assms, of "b_parent b" c] by (auto simp: family_def node_defs)

lemma shrinks_fewer:
  assumes "heap_wf w" "fewer_bindings w w'"
    and "\<And>b bn. binding_at w b = Some bn \<Longrightarrow> b \<notin> S \<Longrightarrow> binding_at w' b = Some bn"
  shows "shrinks S w w'"
proof (rule shrinksI [OF wfpD(12) [OF assms(1)]])
  show "kept node_of_config S (config_at w) (config_at w')"
    unfolding kept_def
  proof
    fix p
    have "map_option node_of_config (map_option (c_bindings_update (\<lambda>_. [])) (config_at w' p)) =
        map_option node_of_config (map_option (c_bindings_update (\<lambda>_. [])) (config_at w p))"
      using assms(2) by (simp add: fewer_bindings_def)
    then show "map_option node_of_config (config_at w' p) = map_option node_of_config (config_at w p) \<or>
        p \<in> S \<and> config_at w' p = None"
      by (simp add: option.map_comp o_def node_of_config_def [abs_def])
  qed
  show "kept node_of_binding S (binding_at w) (binding_at w')"
    unfolding kept_def
  proof
    fix p
    show "map_option node_of_binding (binding_at w' p) = map_option node_of_binding (binding_at w p) \<or>
        p \<in> S \<and> binding_at w' p = None"
    proof (cases "binding_at w' p")
      case (Some b)
      with fewer_bindingsD(7) [OF assms(2)] show ?thesis by simp
    next
      case None
      with assms(3) [of p] show ?thesis by (cases "binding_at w p") auto
    qed
  qed
qed (use assms(2) in \<open>simp_all add: fewer_bindings_def\<close>)

lemma rm_binding_shrinks:
  assumes "heap_wf w" "binding_at w b = Some bn" "usbg_rm_binding K (Some b) w = Some (ret, w')"
  shows "shrinks {b} w w'"
proof -
  from rm_binding_wf [OF assms(1,2), of K] assms(3) have
    d: "if ret = 0 then w' = del_binding b (b_parent bn) (w\<lparr>os := os w'\<rparr>) else w' = w\<lparr>os := os w'\<rparr>" by auto
  have "shrinks {b} w (del_binding b (b_parent bn) (w\<lparr>os := k\<rparr>))" for k
    by (rule shrinksI [OF wfpD(12) [OF assms(1)]]) (auto simp: del_binding_def node_of_config_def)
  moreover have "shrinks {b} w (w\<lparr>os := k\<rparr>)" for k by (simp add: shrinks_forest)
  ultimately show ?thesis using d by (cases "ret = 0") metis+
qed

lemma del_config_shrinks:
  assumes "heap_wf w" "config_at w c = Some conf" "c_parent conf = g"
  shows "shrinks (family (forest_of w) c) w (del_config c g (w\<lparr>os := k\<rparr>))"
proof (rule shrinksI [OF wfpD(12) [OF assms(1)]])
  show "kept node_of_binding (family (forest_of w) c) (binding_at w) (binding_at (del_config c g (w\<lparr>os := k\<rparr>)))"
    by (simp add: del_config_def drop_config_def, rule kept_without) (auto intro: family_live(5) [OF assms(1)])
qed (auto simp: del_config_def drop_config_def node_of_gadget_def intro: family_live(2) [OF assms(1,2)])

lemma rm_config_shrinks:
  assumes "heap_wf w" "config_at w c = Some conf" "usbg_rm_config K (Some c) opts w = Some (ret, w')"
  shows "shrinks (family (forest_of w) c) w w'"
proof (cases "ret = 0")
  case True
  with rm_config_exact [OF assms(1,2), of K opts] assms(3)
  have "w' = del_config c (c_parent conf) (w\<lparr>os := os w'\<rparr>)" by auto
  with del_config_shrinks [OF assms(1,2) refl, of "os w'"] show ?thesis by metis
next
  case False
  with rm_config_exact [OF assms(1,2), of K opts] assms(3)
  have f: "fewer_bindings w w'" "without b_parent {c} (binding_at w') = without b_parent {c} (binding_at w)" by auto
  show ?thesis
  proof (rule shrinks_fewer [OF assms(1) f(1)])
    fix b bn assume b: "binding_at w b = Some bn" "b \<notin> family (forest_of w) c"
    with family_live(5) [OF assms(1) b(1)] have "b_parent bn \<noteq> c" by blast
    with b(1) have "without b_parent {c} (binding_at w) b = Some bn" by simp
    with f(2) have "without b_parent {c} (binding_at w') b = Some bn" by metis
    then show "binding_at w' b = Some bn" by simp
  qed
qed

text \<open>Only links to the function are removed with it.\<close>

lemma rm_binding_only:
  "usbg_rm_binding K (Some b) w = Some (ret, w') \<Longrightarrow> x \<noteq> b \<Longrightarrow> binding_at w' x = binding_at w x"
  by (auto simp: usbg_rm_binding_def Let_def upd_config_def usbg_free_binding_def
      elim!: bind_Some_elim split: if_splits prod.splits)

lemma rm_links_only:
  assumes "rm_links K f bs w = Some (ret, w')" "binding_at w x = Some bn" "b_target bn \<noteq> f"
  shows "binding_at w' x = Some bn"
  using assms
proof (induction bs arbitrary: w)
  case (Cons b bs)
  from Cons.prems(1) obtain bm where b: "binding_at w b = Some bm" by (auto elim!: bind_Some_elim)
  show ?case
  proof (cases "b_target bm = f")
    case False
    with Cons b show ?thesis by simp
  next
    case True
    with Cons.prems(2,3) b have x: "x \<noteq> b" by auto
    from Cons.prems(1) b True obtain r w1 where r: "usbg_rm_binding K (Some b) w = Some (r, w1)"
      "(if r \<noteq> err USBG_SUCCESS then Some (r, w1) else rm_links K f bs w1) = Some (ret, w')"
      by (auto elim!: bind_Some_elim)
    from rm_binding_only [OF r(1) x] Cons.prems(2) have "binding_at w1 x = Some bn" by simp
    with Cons.IH [of w1] Cons.prems(3) r(2) show ?thesis by (auto split: if_splits)
  qed
qed simp

lemma rm_links_of_configs_only:
  assumes "rm_links_of_configs K f cs w = Some (ret, w')" "binding_at w x = Some bn" "b_target bn \<noteq> f"
  shows "binding_at w' x = Some bn"
  using assms
proof (induction cs arbitrary: w)
  case (Cons c cs)
  from Cons.prems(1) obtain conf where c: "config_at w c = Some conf" by (auto elim!: bind_Some_elim)
  with Cons.prems(1) obtain r w1 where r: "rm_links K f (c_bindings conf) w = Some (r, w1)"
    "(if r \<noteq> err USBG_SUCCESS then Some (r, w1) else rm_links_of_configs K f cs w1) = Some (ret, w')"
    by (auto elim!: bind_Some_elim)
  from rm_links_only [OF r(1) Cons.prems(2,3)] Cons.IH [of w1] Cons.prems(3) r(2) show ?case by (auto split: if_splits)
qed simp

lemma rm_function_only:
  assumes "usbg_rm_function K (Some f) opts w = Some (ret, w')" "binding_at w x = Some bn" "b_target bn \<noteq> f"
  shows "binding_at w' x = Some bn"
proof -
  from assms(1) obtain fn where fn: "function_at w f = Some fn"
    by (auto simp: usbg_rm_function_def nonnull_ret_def elim!: bind_Some_elim)
  let ?pre = "if opts AND USBG_RM_RECURSE = 0 then Some (err USBG_SUCCESS, w)
      else do { gad \<leftarrow> gadget_at w (f_parent fn); rm_links_of_configs K f (g_configs gad) w }"
  have start: "usbg_rm_function K (Some f) opts w = Option.bind ?pre (\<lambda>(ret, w1).
     if ret \<noteq> err USBG_SUCCESS then Some (ret, w1)
     else do {
       fn1 \<leftarrow> function_at w1 f;
       (ret, fn2, k2) \<leftarrow> function_remove K fn1 (os w1);
       let w2 = w1\<lparr>function_at := (function_at w1)(f \<mapsto> fn2), os := k2\<rparr> in
       if ret \<noteq> err USBG_SUCCESS then Some (ret, w2)
       else let (ret, w3) = on_os (usbg_rm_dir K (f_path fn2) (f_name fn2)) w2 in
         if ret \<noteq> err USBG_SUCCESS then Some (ret, w3)
         else do {
           gad \<leftarrow> gadget_at w3 (f_parent fn);
           fs \<leftarrow> tailq_remove f (g_functions gad);
           w4 \<leftarrow> upd_gadget (f_parent fn) (g_functions_update (\<lambda>_. fs)) w3;
           w5 \<leftarrow> usbg_free_function f w4;
           Some (ret, w5)
         }
     })"
    using fn by (simp add: usbg_rm_function_def nonnull_ret_def Let_def)
  from start assms(1) obtain r w1 where pre: "?pre = Some (r, w1)" by (cases ?pre) auto
  have "binding_at w' = binding_at w1"
    using assms(1) unfolding start pre
    by (auto simp: Let_def upd_gadget_def usbg_free_function_def elim!: bind_Some_elim split: prod.splits if_splits)
  moreover from pre have "binding_at w1 x = Some bn"
    by (cases "opts AND USBG_RM_RECURSE = 0")
      (use assms(2) in \<open>auto elim!: bind_Some_elim intro: rm_links_of_configs_only [OF _ assms(2,3)]\<close>)
  ultimately show ?thesis by simp
qed

lemma fewer_bindings_kind:
  assumes "fewer_bindings w w'" "one_kind w"
  shows "one_kind w'"
proof -
  have c: "(config_at w' p = None) = (config_at w p = None)" for p
    using assms(1) unfolding fewer_bindings_def by (metis option.map_disc_iff)
  have "binding_at w' p \<noteq> None \<Longrightarrow> binding_at w p \<noteq> None" for p
    using fewer_bindingsD(7) [OF assms(1), of p] by (cases "binding_at w' p") auto
  with c fewer_bindingsD(1,2,4) [OF assms(1)] assms(2) show ?thesis unfolding one_kind_def by metis
qed

lemma del_function_shrinks:
  assumes "one_kind w"
  shows "shrinks {f} w (del_function f g (w\<lparr>os := k\<rparr>))"
  by (rule shrinksI [OF assms]) (auto simp: del_function_def node_of_gadget_def)

lemma same_fn_node: "same_fn fn fn' \<Longrightarrow> node_of_function fn' = node_of_function fn"
  using same_fn_fields [of fn fn'] by (simp add: node_of_function_def)

lemma set_function_shrinks:
  assumes "function_at w f = Some fn" "same_fn fn fn'"
  shows "shrinks S w (w\<lparr>function_at := (function_at w)(f \<mapsto> fn'), os := k\<rparr>)"
  by (rule shrinks_forest, rule ext, rule forest_cong) (use assms same_fn_node in auto)

lemma rm_function_shrinks:
  assumes "luns_named K" "heap_wf w" "function_at w f = Some fn" "usbg_rm_function K (Some f) opts w = Some (ret, w')"
  shows "shrinks (insert f (links_to (forest_of w) f)) w w'"
proof -
  let ?S = "insert f (links_to (forest_of w) f)"
  from wfpD(8) [OF assms(2,3)] obtain gad where g: "gadget_at w (f_parent fn) = Some gad" ..
  from rm_function_wf [OF assms(1-3) g, of opts] assms(4) have "function_removed f fn gad opts w ret w'" by auto
  then obtain w0 where w0: "fewer_bindings w w0"
    "ret = 0 \<and> w' = del_function f (f_parent fn) (w0\<lparr>os := os w'\<rparr>) \<or>
     ret \<noteq> 0 \<and> (\<exists>fn'. same_fn fn fn' \<and> w' = w0\<lparr>function_at := (function_at w0)(f \<mapsto> fn'), os := os w'\<rparr>)"
    unfolding function_removed_def by blast
  have same: "binding_at w' = binding_at w0"
  proof (cases "ret = 0")
    case True
    with w0(2) have e: "w' = del_function f (f_parent fn) (w0\<lparr>os := os w'\<rparr>)" by simp
    show ?thesis by (subst e) (simp add: del_function_def)
  next
    case False
    with w0(2) obtain fn' where e: "w' = w0\<lparr>function_at := (function_at w0)(f \<mapsto> fn'), os := os w'\<rparr>" by blast
    show ?thesis by (subst e) simp
  qed
  have keep: "binding_at w0 b = Some bn" if "binding_at w b = Some bn" "b \<notin> ?S" for b bn
  proof -
    from that forest_at(4) [OF assms(2) that(1)] have "b_target bn \<noteq> f" by (auto simp: links_to_def node_of_binding_def)
    from rm_function_only [OF assms(4) that(1) this] same show ?thesis by simp
  qed
  have s0: "shrinks ?S w w0" by (rule shrinks_fewer [OF assms(2) w0(1)]) (rule keep)
  show ?thesis
  proof (cases "ret = 0")
    case True
    with w0(2) have e: "w' = del_function f (f_parent fn) (w0\<lparr>os := os w'\<rparr>)" by simp
    have "shrinks ?S w0 (del_function f (f_parent fn) (w0\<lparr>os := os w'\<rparr>))"
      by (rule shrinks_mono [OF del_function_shrinks [OF fewer_bindings_kind [OF w0(1) wfpD(12) [OF assms(2)]]]]) simp
    then have "shrinks ?S w0 w'" by (subst e)
    with s0 show ?thesis by (rule shrinks_trans)
  next
    case False
    with w0(2) obtain fn' where e: "same_fn fn fn'" "w' = w0\<lparr>function_at := (function_at w0)(f \<mapsto> fn'), os := os w'\<rparr>" by blast
    have f0: "function_at w0 f = Some fn" using assms(3) fewer_bindingsD(2) [OF w0(1)] by simp
    from set_function_shrinks [OF f0 e(1), of ?S "os w'"] have "shrinks ?S w0 w'" by (subst e(2))
    with s0 show ?thesis by (rule shrinks_trans)
  qed
qed

lemma rm_function_alone:
  assumes "luns_named K" "heap_wf w" "function_at w f = Some fn" "gadget_at w (f_parent fn) = Some gad"
    and "g_configs gad = []" "usbg_rm_function K (Some f) opts w = Some (ret, w')"
  shows "shrinks {f} w w'"
proof -
  from rm_function_wf [OF assms(1-4), of opts] assms(6) have "function_removed f fn gad opts w ret w'" by auto
  then obtain w0 where w0: "w0 = w\<lparr>os := os w0\<rparr>"
    "ret = 0 \<and> w' = del_function f (f_parent fn) (w0\<lparr>os := os w'\<rparr>) \<or>
     ret \<noteq> 0 \<and> (\<exists>fn'. same_fn fn fn' \<and> w' = w0\<lparr>function_at := (function_at w0)(f \<mapsto> fn'), os := os w'\<rparr>)"
    unfolding function_removed_def using assms(5) by blast
  have s: "shrinks {f} w (del_function f (f_parent fn) (w\<lparr>os := k\<rparr>))" for k
    by (rule del_function_shrinks [OF wfpD(12) [OF assms(2)]])
  have u: "w0\<lparr>os := k\<rparr> = w\<lparr>os := k\<rparr>" "function_at w0 = function_at w"
    "w0\<lparr>function_at := h, os := k\<rparr> = w\<lparr>function_at := h, os := k\<rparr>" for k h
    by (subst w0(1), simp)+
  show ?thesis
  proof (cases "ret = 0")
    case True
    with w0(2) u have "w' = del_function f (f_parent fn) (w\<lparr>os := os w'\<rparr>)" by simp
    with s [of "os w'"] show ?thesis by metis
  next
    case False
    with w0(2) u obtain fn' where e: "same_fn fn fn'" "w' = w\<lparr>function_at := (function_at w)(f \<mapsto> fn'), os := os w'\<rparr>"
      by auto
    with set_function_shrinks [OF assms(3) e(1), of "{f}" "os w'"] show ?thesis by metis
  qed
qed

section \<open>Removing a gadget\<close>

lemma family_config:
  assumes "rooted F" "F c = Some (Config_node g i l)"
  shows "family F c \<subseteq> family F g"
proof
  fix p assume "p \<in> family F c"
  then obtain n where n: "F p = Some n" "p = c \<or> parent_of n = Some c \<or>
      (\<exists>q m. parent_of n = Some q \<and> F q = Some m \<and> parent_of m = Some c)"
    by (auto simp: family_def)
  have "\<not> (parent_of n = Some q \<and> F q = Some m \<and> parent_of m = Some c)" for q m
    using assms n(1) unfolding rooted_def
    by (cases n; cases m) (fastforce simp: gadget_in_def config_in_def)+
  with n assms(2) show "p \<in> family F g" by (auto simp: family_def)
qed

lemma rm_configs_loop_shrinks:
  assumes "heap_wf w" "gadget_at w g = Some gad" "rm_configs_loop K g opts w = Some (ret, w')"
    and "family (forest_of w) g \<subseteq> S"
  shows "shrinks S w w'"
  using assms
proof (induction "length (g_configs gad)" arbitrary: w gad)
  case 0
  then show ?case by (auto simp: rm_configs_loop.simps [of K g opts w] shrinks_forest)
next
  case (Suc n)
  then obtain c cs where cs: "g_configs gad = c # cs" by (cases "g_configs gad") auto
  from owns_live [OF wfpD(3) [OF Suc.prems(1,2)], of c] cs obtain conf where
    c: "config_at w c = Some conf" "c_parent conf = g" by auto
  from rm_config_wf [OF Suc.prems(1) c(1), of K opts] c(2) obtain r w1 where
    r: "usbg_rm_config K (Some c) opts w = Some (r, w1)" "heap_wf w1"
      "r = 0 \<longrightarrow> w1 = del_config c g (w\<lparr>os := os w1\<rparr>)" by metis
  have step: "(if r \<noteq> err USBG_SUCCESS then Some (r, w1) else rm_configs_loop K g opts w1) = Some (ret, w')"
    using Suc.prems(2,3) cs r(1) by (subst (asm) rm_configs_loop.simps) simp
  have "family (forest_of w) c \<subseteq> S"
    using family_config [OF forest_rooted [OF Suc.prems(1)], of c g] forest_at(2) [OF Suc.prems(1) c(1)] c(2) Suc.prems(4)
    by (auto simp: node_of_config_def)
  with rm_config_shrinks [OF Suc.prems(1) c(1) r(1)] have s1: "shrinks S w w1" by (rule shrinks_mono)
  show ?case
  proof (cases "r = 0")
    case False
    with step s1 show ?thesis by simp
  next
    case True
    with r(3) have w1: "w1 = del_config c g (w\<lparr>os := os w1\<rparr>)" by simp
    have g1: "gadget_at w1 g = Some (gad\<lparr>g_configs := cs\<rparr>)"
      by (subst w1, simp add: del_config_def drop_config_def Suc.prems(2) cs)
    have b1: "family (forest_of w1) g \<subseteq> S"
      using family_mono [OF shrinks_le [OF s1]] Suc.prems(4) by blast
    from Suc.hyps(1) [OF _ r(2) g1 _ b1] step True Suc.hyps(2) cs have "shrinks S w1 w'" by simp
    with s1 show ?thesis by (rule shrinks_trans)
  qed
qed

lemma rm_functions_loop_shrinks:
  assumes "luns_named K" "heap_wf w" "gadget_at w g = Some gad" "g_configs gad = []"
    and "rm_functions_loop K g opts w = Some (ret, w')" "family (forest_of w) g \<subseteq> S"
  shows "shrinks S w w'"
  using assms(2-)
proof (induction "length (g_functions gad)" arbitrary: w gad)
  case 0
  then show ?case by (auto simp: rm_functions_loop.simps [of K g opts w] shrinks_forest)
next
  case (Suc n)
  then obtain f fs where fs: "g_functions gad = f # fs" by (cases "g_functions gad") auto
  from owns_live [OF wfpD(4) [OF Suc.prems(1,2)], of f] fs obtain fn where
    f: "function_at w f = Some fn" "f_parent fn = g" by auto
  from rm_function_wf [OF assms(1) Suc.prems(1) f(1), of gad opts] f(2) Suc.prems(2) obtain r w1 where
    r: "usbg_rm_function K (Some f) opts w = Some (r, w1)" "heap_wf w1" "function_removed f fn gad opts w r w1"
    by auto
  have step: "(if r \<noteq> err USBG_SUCCESS then Some (r, w1) else rm_functions_loop K g opts w1) = Some (ret, w')"
    using Suc.prems(2,4) fs r(1) by (subst (asm) rm_functions_loop.simps) simp
  have "f \<in> S" using family_live(4) [OF Suc.prems(1) f] Suc.prems(5) by blast
  moreover have "shrinks {f} w w1"
    using rm_function_alone [OF assms(1) Suc.prems(1) f(1) _ Suc.prems(3) r(1)] Suc.prems(2) f(2) by simp
  ultimately have s1: "shrinks S w w1" by (auto intro: shrinks_mono)
  show ?case
  proof (cases "r = 0")
    case False
    with step s1 show ?thesis by simp
  next
    case True
    with r(3) Suc.prems(3) f(2) obtain w0 where
      w0: "w0 = w\<lparr>os := os w0\<rparr>" "w1 = del_function f g (w0\<lparr>os := os w1\<rparr>)"
      unfolding function_removed_def by auto
    have "gadget_at w0 = gadget_at w" by (subst w0(1)) simp
    then have g1: "gadget_at w1 g = Some (gad\<lparr>g_functions := fs\<rparr>)"
      by (subst w0(2), simp add: del_function_def Suc.prems(2) fs)
    have b1: "family (forest_of w1) g \<subseteq> S"
      using family_mono [OF shrinks_le [OF s1]] Suc.prems(5) by blast
    from Suc.hyps(1) [OF _ r(2) g1 _ _ b1] step True Suc.hyps(2) Suc.prems(3) fs have "shrinks S w1 w'" by simp
    with s1 show ?thesis by (rule shrinks_trans)
  qed
qed

lemma drop_gadget_shrinks:
  assumes "heap_wf w" "gadget_at w g = Some gad"
  shows "shrinks (family (forest_of w) g) w ((drop_gadget g w)\<lparr>s_gadgets := gs, os := k\<rparr>)"
proof (rule shrinksI [OF wfpD(12) [OF assms(1)]])
  show "kept node_of_binding (family (forest_of w) g) (binding_at w)
      (binding_at ((drop_gadget g w)\<lparr>s_gadgets := gs, os := k\<rparr>))"
    by (simp add: drop_gadget_def, rule kept_without) (auto intro: family_live(6) [OF assms(1)])
  show "kept node_of_config (family (forest_of w) g) (config_at w)
      (config_at ((drop_gadget g w)\<lparr>s_gadgets := gs, os := k\<rparr>))"
    by (simp add: drop_gadget_def, rule kept_without) (auto intro: family_live(3) [OF assms(1)])
  show "kept node_of_function (family (forest_of w) g) (function_at w)
      (function_at ((drop_gadget g w)\<lparr>s_gadgets := gs, os := k\<rparr>))"
    by (simp add: drop_gadget_def, rule kept_without) (auto intro: family_live(4) [OF assms(1)])
qed (auto simp: drop_gadget_def intro: family_live(1) [OF assms])

text \<open>The recursive part, which may stop at any object that the kernel does not let go.\<close>

lemma rm_children_shrinks:
  assumes K: "luns_named K" and w: "heap_wf w" and g: "gadget_at w g = Some gad"
    and c: "rm_configs_loop K g opts w = Some (r1, w1)"
  shows "shrinks (family (forest_of w) g) w w1"
    "r1 = 0 \<Longrightarrow> rm_functions_loop K g opts w1 = Some (r2, w2) \<Longrightarrow> shrinks (family (forest_of w) g) w w2"
proof -
  show s1: "shrinks (family (forest_of w) g) w w1" by (rule rm_configs_loop_shrinks [OF w g c order_refl])
  show "shrinks (family (forest_of w) g) w w2" if "r1 = 0" "rm_functions_loop K g opts w1 = Some (r2, w2)"
  proof -
    from rm_configs_loop_wf [OF w g, of K opts] c that(1) have w1: "heap_wf w1" "w1 = (drop_configs g w)\<lparr>os := os w1\<rparr>"
      by auto
    have g1: "gadget_at w1 g = Some (gad\<lparr>g_configs := []\<rparr>)" by (subst w1(2)) (simp add: drop_configs_def g)
    have "shrinks (family (forest_of w) g) w1 w2"
      by (rule rm_functions_loop_shrinks [OF K w1(1) g1 _ that(2) family_mono [OF shrinks_le [OF s1]]]) simp
    with s1 show ?thesis by (rule shrinks_trans)
  qed
qed

lemma rm_gadget_shrinks:
  assumes K: "luns_named K" and w: "heap_wf w" and g: "gadget_at w g = Some gad"
    and rm: "usbg_rm_gadget K (Some g) opts w = Some (ret, w')"
  shows "shrinks (family (forest_of w) g) w w'"
proof (cases "ret = 0")
  case True
  with rm_gadget_wf [OF K w g, of opts] rm
  have "w' = (drop_gadget g w)\<lparr>s_gadgets := remove1 g (s_gadgets w), os := os w'\<rparr>" by auto
  with drop_gadget_shrinks [OF w g] show ?thesis by metis
next
  case False
  let ?S = "family (forest_of w) g" and ?spath = "path3 (g_path gad) (g_name gad) STRINGS_DIR"
  let ?pre = "(if opts AND USBG_RM_RECURSE = 0 then Some (err USBG_SUCCESS, w)
        else do {
          (r1, w1) \<leftarrow> rm_configs_loop K g opts w;
          if r1 \<noteq> err USBG_SUCCESS then Some (r1, w1)
          else do {
            (r2, w2) \<leftarrow> rm_functions_loop K g opts w1;
            if r2 \<noteq> err USBG_SUCCESS then Some (r2, w2)
            else let spath = ?spath in
              if \<not> fits spath then Some (err USBG_ERROR_PATH_TOO_LONG, w2)
              else Some (on_os (usbg_rm_all_dirs K spath) w2)
          }
        })"
  have os: "shrinks ?S w (v\<lparr>os := k\<rparr>)" if "shrinks ?S w v" for v k
    using that by (simp add: shrinks_def)
  have pre: "shrinks ?S w v" if "?pre = Some (r, v)" for r v
  proof (cases "opts AND USBG_RM_RECURSE = 0")
    case True
    with that show ?thesis by (simp add: shrinks_forest)
  next
    case False
    with that obtain r1 w1 where c: "rm_configs_loop K g opts w = Some (r1, w1)" by (auto elim!: bind_Some_elim)
    note s = rm_children_shrinks [OF K w g c]
    from that False c s show ?thesis
      by (auto simp: Let_def elim!: bind_Some_elim split: if_splits intro: os)
  qed
  from rm g obtain r v where v: "?pre = Some (r, v)" by (cases ?pre) (auto simp: usbg_rm_gadget_def nonnull_ret_def)
  have "w' = v \<or> (\<exists>k. w' = v\<lparr>os := k\<rparr>)"
    using rm g v False unfolding usbg_rm_gadget_def nonnull_ret_def
    by (auto simp: Let_def elim!: bind_Some_elim split: if_splits)
  with pre [OF v] os show ?thesis by auto
qed

section \<open>Other calls\<close>

lemma forest_set_udc [simp]: "forest_of (set_udc g u w) = forest_of w"
  by (rule ext, rule forest_cong) (auto simp: set_udc_def node_of_gadget_def [abs_def] option.map_comp o_def)

lemma forest_set_gadget_of [simp]: "forest_of (set_gadget_of u g w) = forest_of w"
  by (rule ext, rule forest_cong) (simp_all add: set_gadget_of_def)

lemma forest_detach [simp]: "forest_of (detach u w) = forest_of w"
  by (simp add: detach_def split: option.split)

lemma forest_cancelled: "gadget_cancelled w w' \<Longrightarrow> forest_of w' = forest_of w"
  by (rule ext, rule forest_cong) (simp_all add: gadget_cancelled_def same_objects_def)

lemma set_os_desc_config_forest:
  assumes "gadget_at w g = Some gad" "usbg_set_os_desc_config K (Some g) c w = Some (ret, w')"
  shows "forest_of w' = forest_of w"
proof (cases c)
  case None
  with rm_os_desc_link_wf [OF assms(1), of K] assms(2) show ?thesis
    by (auto simp: usbg_set_os_desc_config_def nonnull_ret_def)
next
  case (Some p)
  have "forest_of (w\<lparr>os := k, gadget_at := (gadget_at w)(g \<mapsto> gad\<lparr>g_os_desc_binding := b\<rparr>)\<rparr>) = forest_of w" for k b
    by (rule ext, rule forest_cong) (auto simp: node_of_gadget_def assms(1))
  with assms Some show ?thesis
    by (auto simp: usbg_set_os_desc_config_def nonnull_ret_def usbg_create_os_desc_link_def Let_def upd_gadget_def
        elim!: bind_Some_elim split: if_splits option.splits prod.splits)
qed

section \<open>The refinement\<close>

text \<open>The cases of a creation that changes the forest or leaves it alone.\<close>

lemma gadget_created_spec:
  assumes "heap_wf w" "heap_wf w'" "gadget_created name w ret g w'"
  shows "forest_of w' = forest_of w \<or> planted (forest_of w) (Gadget_node name) (forest_of w')"
  using assms(3) gadget_planted [OF assms(1,2)] forest_cancelled unfolding gadget_created_def by blast

lemma call_refines:
  assumes K: "luns_named K" and w: "heap_wf w" and c: "handles_live w c" and x: "exec K c w = Some w'"
  shows "call_spec c (forest_of w) (forest_of w')"
proof (cases c)
  case (Create_gadget n a s)
  from create_gadget_wf [OF w, of K n a s] x Create_gadget show ?thesis
    by (auto simp: world_of3_def dest: gadget_created_spec [OF w])
next
  case (Create_gadget_vid_pid n v p)
  from create_gadget_vid_pid_wf [OF w, of K n v p] x Create_gadget_vid_pid show ?thesis
    by (auto simp: world_of3_def dest: gadget_created_spec [OF w])
next
  case (Create_function g t i a)
  with c obtain gad where g: "gadget_at w g = Some gad" "\<forall>x. a = Some x \<longrightarrow> attrs_ok t x" by (cases a) auto
  from create_function_wf [OF K w g, of i] x Create_function have "heap_wf w'"
    "same_objects w w' \<or> i \<noteq> [] \<and> usbg_get_function g t i w = Some None \<and> function_added g t i gad w w'"
    by (auto simp: world_of3_def)
  with function_planted [OF w _ g(1)] forest_same Create_function show ?thesis by auto
next
  case (Create_config g i l a s)
  with c obtain gad where g: "gadget_at w g = Some gad" by auto
  let ?l = "case l of None \<Rightarrow> DEFAULT_CONFIG_LABEL | Some x \<Rightarrow> x"
  from create_config_wf [OF w g refl, of K i l a s] x Create_config have "heap_wf w'"
    "same_objects w w' \<or> 0 < i \<and> i \<le> 255 \<and> usbg_get_config g i None w = Some None \<and> config_added g ?l i gad w w'"
    by (auto simp: world_of3_def)
  with config_planted [OF w _ g] forest_same Create_config show ?thesis by auto
next
  case (Add_config_function d n f)
  with c obtain conf fn where d: "config_at w d = Some conf" "function_at w f = Some fn" by auto
  let ?nm = "case n of None \<Rightarrow> f_name fn | Some x \<Rightarrow> x"
  from add_config_function_wf [OF w d refl, of K n] x Add_config_function have "heap_wf w'"
    "same_objects w w' \<or> usbg_get_binding d ?nm w = Some None \<and> usbg_get_link_binding d f w = Some None \<and>
       binding_added d ?nm f conf w w'"
    by (auto simp: world_of_def)
  with binding_planted [OF w _ d] forest_same have
    "forest_of w' = forest_of w \<or> planted (forest_of w) (Binding_node d ?nm f) (forest_of w')" by blast
  moreover have "n \<noteq> None \<longrightarrow> n = Some ?nm" by auto
  ultimately show ?thesis using Add_config_function by auto
next
  case (Rm_binding b)
  with c obtain bn where b: "binding_at w b = Some bn" by auto
  from x Rm_binding obtain ret where r: "usbg_rm_binding K (Some b) w = Some (ret, w')" by (auto simp: world_of_def)
  from rm_binding_wf [OF w b, of K] r have "heap_wf w'" by auto
  with shrinks_pruned [OF rm_binding_shrinks [OF w b r]] Rm_binding show ?thesis by simp
next
  case (Rm_config d opts)
  with c obtain conf where d: "config_at w d = Some conf" by auto
  from x Rm_config obtain ret where r: "usbg_rm_config K (Some d) opts w = Some (ret, w')" by (auto simp: world_of_def)
  from rm_config_wf [OF w d, of K opts] r have "heap_wf w'" by auto
  with shrinks_pruned [OF rm_config_shrinks [OF w d r]] Rm_config show ?thesis by simp
next
  case (Rm_function f opts)
  with c obtain fn where f: "function_at w f = Some fn" by auto
  from wfpD(8) [OF w f] obtain gad where g: "gadget_at w (f_parent fn) = Some gad" ..
  from x Rm_function obtain ret where r: "usbg_rm_function K (Some f) opts w = Some (ret, w')" by (auto simp: world_of_def)
  from rm_function_wf [OF K w f g, of opts] r have "heap_wf w'" by auto
  with shrinks_pruned [OF rm_function_shrinks [OF K w f r]] Rm_function show ?thesis by simp
next
  case (Rm_gadget g opts)
  with c obtain gad where g: "gadget_at w g = Some gad" by auto
  from x Rm_gadget obtain ret where r: "usbg_rm_gadget K (Some g) opts w = Some (ret, w')" by (auto simp: world_of_def)
  from rm_gadget_wf [OF K w g, of opts] r have "heap_wf w'" by auto
  with shrinks_pruned [OF rm_gadget_shrinks [OF K w g r]] Rm_gadget show ?thesis by simp
next
  case (Enable_gadget g u)
  with c obtain gad where g: "gadget_at w g = Some gad" by auto
  have u: "q \<in> dom (udc_at w)" if "u = Some q" for q using c Enable_gadget that by auto
  have e: "forest_of (set_gadget_of q (Some g) (set_udc g (Some q) (detach (g_udc gad) (w\<lparr>os := k\<rparr>)))) = forest_of w"
    for q k by simp
  from enable_gadget_wf [OF w g u, of u K] x Enable_gadget have "same_objects w w' \<or>
      (\<exists>q. w' = set_gadget_of q (Some g) (set_udc g (Some q) (detach (g_udc gad) (w\<lparr>os := os w'\<rparr>))))"
    by (auto simp: world_of_def)
  then have "forest_of w' = forest_of w"
    by (elim disjE exE) (erule forest_same, erule trans [OF arg_cong [of _ _ forest_of] e])
  with Enable_gadget show ?thesis by simp
next
  case (Disable_gadget g)
  with c obtain gad where g: "gadget_at w g = Some gad" by auto
  have e: "forest_of (set_udc g None (detach (g_udc gad) (w\<lparr>os := k\<rparr>))) = forest_of w" for k by simp
  from disable_gadget_wf [OF w g, of K] x Disable_gadget have "same_objects w w' \<or>
      w' = set_udc g None (detach (g_udc gad) (w\<lparr>os := os w'\<rparr>))"
    by (auto simp: world_of_def)
  then have "forest_of w' = forest_of w"
    by (elim disjE exE) (erule forest_same, erule trans [OF arg_cong [of _ _ forest_of] e])
  with Disable_gadget show ?thesis by simp
next
  case (Get_gadget_udc g)
  with c obtain gad where g: "gadget_at w g = Some gad" by auto
  have e: "forest_of (set_udc g None (set_gadget_of q None (w\<lparr>os := k\<rparr>))) = forest_of w" for k q by simp
  from get_gadget_udc_wf [OF w g, of K] x Get_gadget_udc have "same_objects w w' \<or>
      (\<exists>q. w' = set_udc g None (set_gadget_of q None (w\<lparr>os := os w'\<rparr>)))"
    by (auto simp: world_of_def)
  then have "forest_of w' = forest_of w"
    by (elim disjE exE) (erule forest_same, erule trans [OF arg_cong [of _ _ forest_of] e])
  with Get_gadget_udc show ?thesis by simp
next
  case (Set_os_desc_config g d)
  with c obtain gad where g: "gadget_at w g = Some gad" by auto
  with x Set_os_desc_config set_os_desc_config_forest [OF g] show ?thesis by (auto simp: world_of_def)
next
  case (Set_function_attrs f a)
  with c obtain fn where f: "function_at w f = Some fn" "\<forall>x. a = Some x \<longrightarrow> attrs_ok (f_type fn) x" by (cases a) auto
  from set_function_attrs_wf [OF K w f] x Set_function_attrs obtain fn' where
    e: "same_fn fn fn'" "w' = w\<lparr>function_at := (function_at w)(f \<mapsto> fn'), os := os w'\<rparr>"
    by (auto simp: world_of_def)
  have "forest_of (w\<lparr>function_at := (function_at w)(f \<mapsto> fn'), os := k\<rparr>) = forest_of w" for k
    by (rule ext, rule forest_cong) (use f(1) same_fn_node [OF e(1)] in auto)
  from trans [OF arg_cong [of _ _ forest_of, OF e(2)] this] Set_function_attrs show ?thesis by simp
qed

text \<open>The names of siblings stay apart for the rest of a session.\<close>

lemma steps_separate:
  assumes "luns_named K" "heap_wf w" "separate (forest_of w)" "(step K)\<^sup>*\<^sup>* w w'"
  shows "separate (forest_of w')"
proof -
  from assms(4) have "heap_wf w' \<and> separate (forest_of w')"
  proof induction
    case base
    show ?case using assms(2,3) ..
  next
    case (step u v)
    then have u: "heap_wf u" "separate (forest_of u)" by simp_all
    from step.hyps(2) have "separate (forest_of v)"
    proof cases
      case (step_call c)
      from call_spec_separate [OF call_refines [OF assms(1) u(1) step_call] u(2)] show ?thesis .
    qed (use u(2) in simp)
    with step_wf [OF assms(1) u(1) step.hyps(2)] show ?case ..
  qed
  then show ?thesis ..
qed

end
