(* ===== verification/Usbg_Walk.thy ===== *)
theory Usbg_Walk
  imports Usbg_Invariant
begin

text \<open>
  The loops \<open>usbg_for_each_gadget\<close> and so on (\<open>include/usbg/usbg.h\<close>): a client steps from
  the first member of a queue to the next until it is given NULL. The model collects the
  members for which the body runs; following a dangling pointer is undefined, and so is a loop
  that does not end. On a well-formed heap each loop ends and runs once for each live object.
\<close>

section \<open>The macros\<close>

partial_function (option) visit ::
  "(ptr option \<Rightarrow> 'k world \<Rightarrow> ptr option option) \<Rightarrow> 'k world \<Rightarrow> ptr option \<Rightarrow> ptr list option" where
  "visit nx w p =
     (case p of
        None \<Rightarrow> Some []
      | Some q \<Rightarrow> do { n \<leftarrow> nx (Some q) w; qs \<leftarrow> visit nx w n; Some (q # qs) })"

declare visit.simps [code]

definition usbg_for_each_gadget :: "'k world \<Rightarrow> ptr list option" where
  "usbg_for_each_gadget w = visit usbg_get_next_gadget w (usbg_get_first_gadget w)"

definition usbg_for_each_udc :: "'k world \<Rightarrow> ptr list option" where
  "usbg_for_each_udc w = visit usbg_get_next_udc w (usbg_get_first_udc w)"

definition usbg_for_each_function :: "ptr option \<Rightarrow> 'k world \<Rightarrow> ptr list option" where
  "usbg_for_each_function g w = do { f \<leftarrow> usbg_get_first_function g w; visit usbg_get_next_function w f }"

definition usbg_for_each_config :: "ptr option \<Rightarrow> 'k world \<Rightarrow> ptr list option" where
  "usbg_for_each_config g w = do { c \<leftarrow> usbg_get_first_config g w; visit usbg_get_next_config w c }"

definition usbg_for_each_binding :: "ptr option \<Rightarrow> 'k world \<Rightarrow> ptr list option" where
  "usbg_for_each_binding c w = do { b \<leftarrow> usbg_get_first_binding c w; visit usbg_get_next_binding w b }"

section \<open>What the loops visit\<close>

text \<open>A list is visited from any of its places on.\<close>

lemma visit_from:
  assumes "distinct xs" "\<forall>p\<in>set xs. nx (Some p) w = Some (tailq_next p xs)" "i \<le> length xs"
  shows "visit nx w (if i < length xs then Some (xs ! i) else None) = Some (drop i xs)"
  using assms(3)
proof (induction "length xs - i" arbitrary: i)
  case 0
  then show ?case by (simp add: visit.simps)
next
  case (Suc n)
  then have i: "i < length xs" "Suc i \<le> length xs" "n = length xs - Suc i" by simp_all
  with assms(1,2) have "nx (Some (xs ! i)) w = Some (if Suc i < length xs then Some (xs ! Suc i) else None)"
    by (simp add: tailq_next_nth)
  with Suc.hyps(1) [OF i(3,2)] i(1) show ?case by (subst visit.simps) (simp add: Cons_nth_drop_Suc)
qed

lemma visit_list:
  assumes "distinct xs" "\<forall>p\<in>set xs. nx (Some p) w = Some (tailq_next p xs)"
  shows "visit nx w (tailq_first xs) = Some xs"
  using visit_from [OF assms(1), where nx = nx and w = w and i = 0] assms(2)
  by (cases xs) (simp_all add: tailq_first_def)

lemma visit_owned:
  assumes "owns heap B {} xs" "\<And>p x. heap p = Some x \<Longrightarrow> B x \<Longrightarrow> nx (Some p) w = Some (tailq_next p xs)"
  shows "visit nx w (tailq_first xs) = Some xs \<and> distinct xs \<and> set xs = {p. \<exists>x. heap p = Some x \<and> B x}"
proof -
  have "set xs = {p. \<exists>x. heap p = Some x \<and> B x}" using assms(1) by (auto simp: owns_def)
  moreover from this assms(2) have "\<forall>p\<in>set xs. nx (Some p) w = Some (tailq_next p xs)" by auto
  ultimately show ?thesis using visit_list owns_distinct [OF assms(1)] by blast
qed

lemma for_each_roots:
  assumes "heap_wf w"
  shows "\<exists>gs. usbg_for_each_gadget w = Some gs \<and> distinct gs \<and> set gs = dom (gadget_at w)"
    "\<exists>us. usbg_for_each_udc w = Some us \<and> distinct us \<and> set us = dom (udc_at w)"
  using visit_owned [OF wfpD(1) [OF assms], of usbg_get_next_gadget w]
    visit_owned [OF wfpD(2) [OF assms], of usbg_get_next_udc w]
  by (auto simp: usbg_for_each_gadget_def usbg_for_each_udc_def usbg_get_first_gadget_def usbg_get_first_udc_def
      usbg_get_next_gadget_def usbg_get_next_udc_def dom_def)

lemma for_each_of_gadget:
  assumes "heap_wf w" "gadget_at w g = Some gad"
  shows "\<exists>fs. usbg_for_each_function (Some g) w = Some fs \<and> distinct fs \<and>
      set fs = {f. \<exists>fn. function_at w f = Some fn \<and> f_parent fn = g}"
    "\<exists>cs. usbg_for_each_config (Some g) w = Some cs \<and> distinct cs \<and>
      set cs = {c. \<exists>conf. config_at w c = Some conf \<and> c_parent conf = g}"
  using visit_owned [OF wfpD(4) [OF assms], of usbg_get_next_function w]
    visit_owned [OF wfpD(3) [OF assms], of usbg_get_next_config w] assms(2)
  by (auto simp: usbg_for_each_function_def usbg_for_each_config_def usbg_get_first_function_def
      usbg_get_first_config_def usbg_get_next_function_def usbg_get_next_config_def)

lemma for_each_of_config:
  assumes "heap_wf w" "config_at w c = Some conf"
  shows "\<exists>bs. usbg_for_each_binding (Some c) w = Some bs \<and> distinct bs \<and>
      set bs = {b. \<exists>bn. binding_at w b = Some bn \<and> b_parent bn = c}"
  using visit_owned [OF wfpD(7) [OF assms], of usbg_get_next_binding w] assms(2)
  by (auto simp: usbg_for_each_binding_def usbg_get_first_binding_def usbg_get_next_binding_def)

end
