(* ===== verification/Usbg_Get_Attrs.thy ===== *)
theory Usbg_Get_Attrs
  imports Usbg_Functions Usbg_Ms_Total
begin

text \<open>
  What the getters of functions return: the structure of the function's type, whatever the
  kernel answers. For mass storage this takes LUNs without holes in their numbers: the array
  of LUNs is allocated by their count and indexed by their number.
\<close>

section \<open>LUNs with holes\<close>

text \<open>Every LUN has its place in an array of one entry more than there are LUNs.\<close>

definition lun_count :: "bool list \<Rightarrow> nat" where
  "lun_count luns = length (filter id luns)"

definition dense_luns :: "bool list \<Rightarrow> bool" where
  "dense_luns luns \<longleftrightarrow> (\<forall>i<length luns. luns ! i \<longrightarrow> i \<le> lun_count luns)"

lemma get_luns_loop_dense:
  assumes "length (mf_luns ms) = MAX_LUNS" "\<forall>i\<in>set is. i < MAX_LUNS \<and> (mf_luns ms ! i \<longrightarrow> i < length arr)"
  shows "\<exists>ret arr' k'. get_luns_loop K ms is arr k = Some (ret, arr', k')"
  using assms(2)
proof (induction "is" arbitrary: arr k)
  case (Cons i js)
  from Cons.prems assms(1) have p: "lun_at ms (int i) = Some (mf_luns ms ! i)" by (simp add: lun_at_def)
  obtain ok k1 where m: "k_malloc K k = (ok, k1)" by fastforce
  have "\<exists>ret a k2. usbg_f_ms_get_lun_attrs K ms (int i) (lun_of_vals 0 []) k1 = Some (ret, a, k2)"
    using table_get_total [of "lun_vals (lun_of_vals 0 [])" ms_lun_attr K "lun_path ms (int i)" "[]" k1]
    by (auto simp: usbg_f_ms_get_lun_attrs_def ms_lun_attr_def lun_vals_def)
  then obtain ret a k2 where g: "usbg_f_ms_get_lun_attrs K ms (int i) (lun_of_vals 0 []) k1 = Some (ret, a, k2)" by blast
  from Cons.IH [of arr k] Cons.IH [of "arr[i := Some a]" k2] Cons.prems p m g show ?case by auto
qed simp

lemma get_luns_loop_sparse:
  assumes "lun_at ms (int i) = Some True" "i \<in> set is" "length arr \<le> i"
  shows "get_luns_loop K ms is arr k \<noteq> Some (0, arr', k')"
  using assms(2,3)
proof (induction "is" arbitrary: arr k)
  case (Cons j js)
  show ?case
  proof (cases "j = i")
    case True
    with assms(1) Cons.prems(2) show ?thesis by simp
  next
    case False
    with Cons.prems Cons.IH show ?thesis by (auto elim!: bind_Some_elim split: if_splits prod.splits)
  qed
qed simp

lemma get_mask_ready: "mf_luns_initiated mf \<Longrightarrow> get_lun_mask K mf k = Some (mf, k)"
  by (simp add: get_lun_mask_def)

lemma get_nluns_ready:
  "mf_luns_initiated mf \<Longrightarrow> length (mf_luns mf) = MAX_LUNS \<Longrightarrow>
   usbg_f_ms_get_nluns K mf k = Some (lun_count (mf_luns mf), mf, k)"
  by (simp add: usbg_f_ms_get_nluns_def get_mask_ready lun_count_def)

lemma ms_get_attrs_dense:
  assumes "mf_luns_initiated mf" "length (mf_luns mf) = MAX_LUNS" "dense_luns (mf_luns mf)"
  shows "\<exists>ret a k'. usbg_f_ms_get_attrs K mf k = Some (ret, a, mf, k')"
proof -
  obtain ret stall k1 where s: "usbg_f_ms_get_stall K mf False k = (ret, stall, k1)" by (metis prod_cases3)
  obtain ok k4 where m: "k_malloc K k1 = (ok, k4)" by fastforce
  have "\<forall>i\<in>set [0..<MAX_LUNS]. i < MAX_LUNS \<and>
      (mf_luns mf ! i \<longrightarrow> i < length (replicate (lun_count (mf_luns mf) + 1) (None :: ms_lun_attrs option)))"
    using assms(2,3) by (auto simp: dense_luns_def less_Suc_eq_le)
  from get_luns_loop_dense [OF assms(2) this, of K k4] s m show ?thesis
    by (auto simp: usbg_f_ms_get_attrs_def get_mask_ready [OF assms(1)] get_nluns_ready [OF assms(1,2)] Let_def
        simp del: upt_Suc replicate_Suc)
qed

lemma ms_get_attrs_sparse:
  assumes "mf_luns_initiated mf" "length (mf_luns mf) = MAX_LUNS" "\<not> dense_luns (mf_luns mf)"
  shows "usbg_f_ms_get_attrs K mf k \<noteq> Some (0, a, mf', k')"
proof -
  from assms(2,3) obtain i where i: "i < MAX_LUNS" "mf_luns mf ! i" "lun_count (mf_luns mf) < i"
    by (auto simp: dense_luns_def)
  have p: "lun_at mf (int i) = Some True" using i(1,2) assms(2) by (simp add: lun_at_def)
  obtain ret stall k1 where s: "usbg_f_ms_get_stall K mf False k = (ret, stall, k1)" by (metis prod_cases3)
  obtain ok k4 where m: "k_malloc K k1 = (ok, k4)" by fastforce
  have "i \<in> set [0..<MAX_LUNS]" using i(1) by simp
  from get_luns_loop_sparse [OF p this, of "replicate (lun_count (mf_luns mf) + 1) None"] i(3)
  have "get_luns_loop K mf [0..<MAX_LUNS] (replicate (lun_count (mf_luns mf) + 1) None) k4 \<noteq> Some (0, arr', k5)"
    for arr' k5 by simp
  with s m show ?thesis
    by (auto simp: usbg_f_ms_get_attrs_def get_mask_ready [OF assms(1)] get_nluns_ready [OF assms(1,2)] Let_def
        elim!: bind_Some_elim split: if_splits simp del: upt_Suc replicate_Suc)
qed

section \<open>All types\<close>

text \<open>The LUNs of the function, once its mask was read, are dense.\<close>

definition luns_listable :: "usbg_function \<Rightarrow> bool" where
  "luns_listable fn \<longleftrightarrow> (case f_ext fn of Ms_ext luns init \<Rightarrow> init \<and> dense_luns luns | _ \<Rightarrow> True)"

text \<open>The structure that a caller hands to a getter: that of the type, for mass storage the one
  that is filled.\<close>

definition get_arg_fits :: "usbg_function_type \<Rightarrow> function_attrs \<Rightarrow> bool" where
  "get_arg_fits t a \<longleftrightarrow> attrs_fit t a \<and> (case a of Ms_attrs _ \<Rightarrow> False | _ \<Rightarrow> True)"

lemma vals_lengths [simp]:
  "length (net_vals n) = length net_attr" "length (midi_vals m) = length midi_attr"
  "length (loopback_vals l) = length loopback_attr" "length (hid_vals h) = length hid_attr"
  "length (uac2_vals u) = length uac2_attr"
  by (simp_all add: net_vals_def net_attr_def midi_vals_def midi_attr_def loopback_vals_def loopback_attr_def
      hid_vals_def hid_attr_def uac2_vals_def uac2_attr_def)

lemma plain_get_attrs_total:
  "\<exists>ret a' k'. usbg_f_net_get_attrs K fn n k = Some (ret, a', k')"
  "\<exists>ret a' k'. usbg_f_midi_get_attrs K fn m k = Some (ret, a', k')"
  "\<exists>ret a' k'. usbg_f_loopback_get_attrs K fn l k = Some (ret, a', k')"
  "\<exists>ret a' k'. usbg_f_hid_get_attrs K fn h k = Some (ret, a', k')"
  "\<exists>ret a' k'. usbg_f_uac2_get_attrs K fn u k = Some (ret, a', k')"
  unfolding usbg_f_net_get_attrs_def usbg_f_midi_get_attrs_def usbg_f_loopback_get_attrs_def
    usbg_f_hid_get_attrs_def usbg_f_uac2_get_attrs_def
  by (rule struct_get_total, simp)+

lemma function_get_attrs_typed:
  assumes "ext_fits fn" "get_arg_fits (f_type fn) a" "luns_listable fn"
  shows "\<exists>ret a' k'. function_get_attrs K fn a k = Some (ret, a', fn, k') \<and> get_arg_fits (f_type fn) a'"
proof -
  have fit: "attrs_fit (f_type fn) a" using assms(2) by (simp add: get_arg_fits_def)
  show ?thesis
  proof (cases a)
    case (Ms_attrs_out x)
    with fit have t: "f_type fn = USBG_F_MASS_STORAGE" by (simp add: attrs_fit_def)
    from ext_fits_ms [OF assms(1) t] obtain luns init where e: "f_ext fn = Ms_ext luns init" "length luns = MAX_LUNS"
      using assms(1) t by (auto simp: ext_fits_def split: function_ext.splits)
    let ?mf = "\<lparr>mf_path = f_path fn, mf_name = f_name fn, mf_luns = luns, mf_luns_initiated = init\<rparr>"
    have "usbg_to_ms_function fn = Some ?mf" "ms_update ?mf fn = fn"
      using e(1) t by (simp_all add: usbg_to_ms_function_def ms_update_def)
    moreover from ms_get_attrs_dense [of ?mf K k] e assms(3) obtain ret a' k' where
      "usbg_f_ms_get_attrs K ?mf k = Some (ret, a', ?mf, k')" by (auto simp: luns_listable_def)
    ultimately show ?thesis using fit Ms_attrs_out by (simp add: function_get_attrs_def get_arg_fits_def attrs_fit_def)
  next
    case (Uvc_attrs x)
    with fit have t: "f_type fn = USBG_F_UVC" by (simp add: attrs_fit_def)
    with assms(1) obtain u where "usbg_to_uvc_function fn = Some u"
      by (auto simp: ext_fits_def usbg_to_uvc_function_def split: function_ext.splits)
    with fit Uvc_attrs show ?thesis
      by (simp add: function_get_attrs_def usbg_f_uvc_get_attrs_def get_arg_fits_def attrs_fit_def)
  next
    case (Net_attrs x)
    with fit plain_get_attrs_total(1) [of K fn x k] show ?thesis
      by (auto simp: function_get_attrs_def get_arg_fits_def attrs_fit_def)
  next
    case (Midi_attrs x)
    with fit plain_get_attrs_total(2) [of K fn x k] show ?thesis
      by (auto simp: function_get_attrs_def get_arg_fits_def attrs_fit_def)
  next
    case (Loopback_attrs x)
    with fit plain_get_attrs_total(3) [of K fn x k] show ?thesis
      by (auto simp: function_get_attrs_def get_arg_fits_def attrs_fit_def)
  next
    case (Hid_attrs x)
    with fit plain_get_attrs_total(4) [of K fn x k] show ?thesis
      by (auto simp: function_get_attrs_def get_arg_fits_def attrs_fit_def)
  next
    case (Uac2_attrs x)
    with fit plain_get_attrs_total(5) [of K fn x k] show ?thesis
      by (auto simp: function_get_attrs_def get_arg_fits_def attrs_fit_def)
  qed (use fit assms(2) in \<open>auto simp: function_get_attrs_def get_arg_fits_def attrs_fit_def split: prod.split\<close>)
qed

end
