(* ===== verification/Usbg_Gadget_Round.thy ===== *)
theory Usbg_Gadget_Round
  imports Usbg_Gadget_Attrs Usbg_Attr_Table
begin

text \<open>
  Attributes and strings of gadgets and configurations are read back as they were written,
  on an environment whose attribute files keep what is written. The chains of writes and
  reads of the code are treated once, for all lists of attributes.
\<close>

section \<open>Chains of numbers\<close>

context attr_store
begin

lemma write_ints_stores:
  assumes "write_ints K p n ws k = (0, k')" "distinct (map fst ws)"
  shows "(\<forall>(f, fmt, v)\<in>set ws. fits (path3 p n f) \<and> contents k' (path3 p n f) = Some (format_int fmt v))
    \<and> (\<forall>q. q \<notin> (\<lambda>(f, _). path3 p n f) ` set ws \<longrightarrow> contents k' q = contents k q)"
  using assms
proof (induction ws arbitrary: k)
  case (Cons w ws)
  obtain f fmt v where w: "w = (f, fmt, v)" by (cases w)
  obtain k1 where k1: "usbg_write_int K p n f v fmt k = (0, k1)" "write_ints K p n ws k1 = (0, k')"
    using Cons.prems(1) w by (auto split: prod.splits if_splits)
  have new: "path3 p n f \<notin> (\<lambda>(f, _). path3 p n f) ` set ws"
    using Cons.prems(2) w by force
  from Cons.IH [OF k1(2)] Cons.prems(2) new write_int_stores [OF k1(1)] show ?case
    by (auto simp: w simp del: format_int.simps)
qed simp

text \<open>A read and a write of the same file that fit together, and hold the value.\<close>

definition holds_int :: "string \<Rightarrow> string \<Rightarrow> 'k \<Rightarrow> string \<times> nat \<times> 'u \<Rightarrow> string \<times> int_format \<times> cint \<Rightarrow> bool" where
  "holds_int p n k r w \<longleftrightarrow>
     (let (f, b, _) = r; (f', fmt, v) = w
      in f' = f \<and> b = format_base fmt \<and> fits (path3 p n f) \<and> contents k (path3 p n f) = Some (format_int fmt v))"

lemma holds_int_cong: "contents k' = contents k \<Longrightarrow> holds_int p n k' = holds_int p n k"
  by (intro ext) (simp add: holds_int_def)

lemma read_ints_stored:
  assumes "list_all2 (holds_int p n k) rs ws"
  shows "\<exists>k'. read_ints K p n rs a k =
      (0, fold (\<lambda>((_, _, upd), (_, _, v)). upd v) (zip rs ws) a, k') \<and> contents k' = contents k"
  using assms
proof (induction rs arbitrary: ws a k)
  case (Cons r rs)
  then obtain w ws' where ws: "ws = w # ws'" "holds_int p n k r w" "list_all2 (holds_int p n k) rs ws'"
    by (auto simp: list_all2_Cons1)
  obtain f fmt v where w: "w = (f, fmt, v)" by (cases w)
  with ws(2) obtain upd where r: "r = (f, format_base fmt, upd)"
    "contents k (path3 p n f) = Some (format_int fmt v)" "fits (path3 p n f)"
    by (cases r) (auto simp: holds_int_def simp del: format_int.simps)
  from read_int_contents [OF r(2,3), of 0] obtain k1 where
    k1: "usbg_read_int K p n f (format_base fmt) 0 k = (0, v, k1)" "contents k1 = contents k" by blast
  from ws(3) have "list_all2 (holds_int p n k1) rs ws'" by (simp add: holds_int_cong [OF k1(2)])
  from Cons.IH [OF this, of "upd v a"] obtain k2 where
    "read_ints K p n rs (upd v a) k1 = (0, fold (\<lambda>((_, _, upd), (_, _, v)). upd v) (zip rs ws') (upd v a), k2)"
    "contents k2 = contents k1" by blast
  with k1 show ?case by (auto simp: ws(1) w r(1) simp del: format_int.simps format_base.simps)
qed simp

lemma write_read_ints:
  assumes "write_ints K p n ws k = (0, k')" "distinct (map fst ws)"
    and "list_all2 (\<lambda>(f, b, _) (f', fmt, _). f' = f \<and> b = format_base fmt) rs ws"
    and "fold (\<lambda>((_, _, upd), (_, _, v)). upd v) (zip rs ws) d = a"
  shows "\<exists>k''. read_ints K p n rs d k' = (0, a, k'')"
proof -
  from write_ints_stores [OF assms(1,2)]
  have "\<forall>(f, fmt, v)\<in>set ws. fits (path3 p n f) \<and> contents k' (path3 p n f) = Some (format_int fmt v)" by simp
  with assms(3) have "list_all2 (holds_int p n k') rs ws"
    by (force simp: list_all2_conv_all_nth holds_int_def split_beta in_set_conv_nth simp del: format_int.simps)
  from read_ints_stored [OF this, of d] assms(4) show ?thesis by auto
qed

lemma gadget_attrs_stored:
  assumes "write_gadget_attrs K p n a k = (0, k')"
  shows "\<exists>k''. usbg_parse_gadget_attrs K p n d k' = (0, a, k'')"
  unfolding usbg_parse_gadget_attrs_def
  by (rule write_read_ints [OF assms [unfolded write_gadget_attrs_def]])
     (simp, simp, cases d, cases a, simp add: ucast_u16_cint ucast_u8_cint)

lemma config_attrs_stored:
  assumes "write_config_attrs K p n a k = (0, k')"
  shows "\<exists>k''. usbg_parse_config_attrs K p n d k' = (0, a, k'')"
  unfolding usbg_parse_config_attrs_def
  by (rule write_read_ints [OF assms [unfolded write_config_attrs_def]])
     (simp, simp, cases d, cases a, simp add: ucast_u16_cint ucast_u8_cint)

end

section \<open>Through the handles\<close>

lemma gadget_attrs_round_trip:
  assumes "attr_store K contents" "usbg_set_gadget_attrs K (Some g) (Some a) w = Some (0, w')"
  shows "\<exists>w''. usbg_get_gadget_attrs K (Some g) (Some d) w' = Some ((0, Some a), w'')"
proof -
  from assms(2) obtain gad k' where "gadget_at w g = Some gad" "w' = w\<lparr>os := k'\<rparr>"
    "write_gadget_attrs K (g_path gad) (g_name gad) a (os w) = (0, k')"
    by (auto simp: usbg_set_gadget_attrs_def on_gadget_def on_os_def prod_eq_iff)
  with attr_store.gadget_attrs_stored [OF assms(1), of "g_path gad" "g_name gad" a "os w" k' d] show ?thesis
    by (auto simp: usbg_get_gadget_attrs_def on_gadget_def on_os_def)
qed

end
