(* ===== verification/Usbg_Configfs.thy ===== *)
theory Usbg_Configfs
  imports Usbg_Safety_Parse Usbg_Ms_Total "HOL-Library.AList"
begin

text \<open>
  A file system to run the model on: directories that the kernel fills with attribute
  files when they are made, as configfs does for the directories the library makes,
  attribute files that keep what is written, and symbolic links. It is an instance of the
  kernel's interface, on which \<open>attr_store_mem\<close> is interpreted, and the kernel of the
  examples; no theorem about the library assumes it.
\<close>

section \<open>Nodes\<close>

datatype node = Dir | File string | Link string

text \<open>The tree as the list of its paths, in the order of their creation.\<close>

type_synonym cfs = "(string \<times> node) list"

definition dir_of :: "string \<Rightarrow> string" where
  "dir_of p = rev (tl (dropWhile (\<lambda>c. c \<noteq> CHR ''/'') (rev p)))"

definition base_of :: "string \<Rightarrow> string" where
  "base_of p = rev (takeWhile (\<lambda>c. c \<noteq> CHR ''/'') (rev p))"

definition below :: "string \<Rightarrow> string \<Rightarrow> bool" where
  "below p q \<longleftrightarrow> take (Suc (length p)) q = p @ ''/''"

definition fs_contents :: "cfs \<Rightarrow> string \<Rightarrow> string option" where
  "fs_contents k p = (case map_of k p of Some (File s) \<Rightarrow> Some s | _ \<Rightarrow> None)"

section \<open>What the kernel puts into a new directory\<close>

definition files :: "string list \<Rightarrow> (string \<times> node) list" where
  "files ns = map (\<lambda>n. (n, File ''0'')) ns"

definition dirs :: "string list \<Rightarrow> (string \<times> node) list" where
  "dirs ns = map (\<lambda>n. (n, Dir)) ns"

definition gadget_template :: "(string \<times> node) list" where
  "gadget_template =
     files [''bcdUSB'', ''bDeviceClass'', ''bDeviceSubClass'', ''bDeviceProtocol'', ''bMaxPacketSize0'',
            ''idVendor'', ''idProduct'', ''bcdDevice''] @ [(''UDC'', File '''')] @
     dirs [''functions'', ''configs'', ''strings'', ''os_desc''] @
     files [''os_desc/use'', ''os_desc/b_vendor_code'', ''os_desc/qw_sign'']"

text \<open>A network function has the attributes of the library's table, under the names used there.\<close>

definition function_template :: "string \<Rightarrow> (string \<times> node) list" where
  "function_template n =
     (let ty = takeWhile (\<lambda>c. c \<noteq> CHR ''.'') n
      in if ty = ''mass_storage'' then
           files [''stall'', ''nluns''] @ dirs [''lun.0''] @
           files [''lun.0/cdrom'', ''lun.0/ro'', ''lun.0/nofua'', ''lun.0/removable'', ''lun.0/file'']
         else if ty = ''Loopback'' then files [''buflen'', ''qlen'']
         else if ty = ''midi'' then files [''index'', ''id'', ''in_ports'', ''out_ports'', ''buflen'', ''qlen'']
         else if ty = ''hid'' then files [''dev'', ''protocol'', ''report_desc'', ''report_length'', ''subclass'']
         else if ty = ''acm'' then files [''port_num'']
         else files [''dev_addr'', ''host_addr'', ''ifname'', ''qmult'', ''class_'', ''subclass'', ''protocol''])"

definition template :: "string \<Rightarrow> (string \<times> node) list" where
  "template p =
     (let up = base_of (dir_of p)
      in if up = ''functions'' then function_template (base_of p)
         else if up = ''configs'' then files [''bmAttributes'', ''MaxPower''] @ dirs [''strings'']
         else if up = ''strings'' then files [''manufacturer'', ''product'', ''serialnumber'', ''configuration'']
         else if take 4 (base_of p) = ''lun.'' then files [''cdrom'', ''ro'', ''nofua'', ''removable'', ''file'']
         else if up = ''usb_gadget'' then gadget_template else [])"

definition fill :: "string \<Rightarrow> cfs" where
  "fill p = (p, Dir) # map (\<lambda>(n, x). (p @ ''/'' @ n, x)) (template p)"

section \<open>The calls\<close>

definition fs_read :: "string \<Rightarrow> nat \<Rightarrow> cfs \<Rightarrow> file_read \<times> cfs" where
  "fs_read p len k = (case map_of k p of
     Some (File s) \<Rightarrow> Read_bytes (take len s) False | _ \<Rightarrow> Read_open_failed ENOENT, k)"

definition fs_write :: "string \<Rightarrow> string \<Rightarrow> cfs \<Rightarrow> file_write \<times> cfs" where
  "fs_write p s k = (case map_of k p of
     Some (File _) \<Rightarrow> (Wrote (length s) None None, AList.update p (File s) k)
   | _ \<Rightarrow> (Write_open_failed EACCES, k))"

definition fs_mkdir :: "string \<Rightarrow> cfs \<Rightarrow> errno option \<times> cfs" where
  "fs_mkdir p k =
     (if map_of k p \<noteq> None then (Some EEXIST, k)
      else if map_of k (dir_of p) \<noteq> Some Dir then (Some ENOENT, k)
      else (None, k @ fill p))"

text \<open>A directory can be removed when it holds no links and no directories made in it.\<close>

definition fs_rmdir :: "string \<Rightarrow> cfs \<Rightarrow> errno option \<times> cfs" where
  "fs_rmdir p k =
     (if map_of k p \<noteq> Some Dir then (Some ENOENT, k)
      else if list_ex (\<lambda>(q, x). below p q \<and> (q, x) \<notin> set (fill p) \<and> (case x of File _ \<Rightarrow> False | _ \<Rightarrow> True)) k
        then (Some ENOTEMPTY, k)
      else (None, filter (\<lambda>(q, x). q \<noteq> p \<and> \<not> below p q) k))"

definition fs_unlink :: "string \<Rightarrow> cfs \<Rightarrow> errno option \<times> cfs" where
  "fs_unlink p k = (case map_of k p of
     Some (Link _) \<Rightarrow> (None, filter (\<lambda>(q, x). q \<noteq> p) k) | _ \<Rightarrow> (Some ENOENT, k))"

definition fs_symlink :: "string \<Rightarrow> string \<Rightarrow> cfs \<Rightarrow> errno option \<times> cfs" where
  "fs_symlink target p k =
     (if map_of k p \<noteq> None then (Some EEXIST, k)
      else if map_of k target \<noteq> Some Dir then (Some ENOENT, k)
      else (None, k @ [(p, Link target)]))"

text \<open>Links are absolute, as those of configfs are.\<close>

definition fs_readlink :: "string \<Rightarrow> nat \<Rightarrow> cfs \<Rightarrow> (errno + string) \<times> cfs" where
  "fs_readlink p len k = (case map_of k p of
     Some (Link t) \<Rightarrow> if CHR ''/'' \<in> set (cstr (take len t)) then Inr (take len t) else Inl EINVAL
   | _ \<Rightarrow> Inl EINVAL, k)"

definition fs_opendir :: "string \<Rightarrow> cfs \<Rightarrow> errno option \<times> cfs" where
  "fs_opendir p k = (if map_of k p = Some Dir then None else Some ENOENT, k)"

definition kind_of :: "node \<Rightarrow> d_type" where
  "kind_of x = (case x of Dir \<Rightarrow> DT_DIR | File _ \<Rightarrow> DT_REG | Link _ \<Rightarrow> DT_LNK)"

text \<open>A directory may be named with a slash at its end; numbers of LUNs and frames are in range.\<close>

definition plain_path :: "string \<Rightarrow> string" where
  "plain_path p = (if p \<noteq> [] \<and> last p = CHR ''/'' then butlast p else p)"

definition fs_readdir :: "string \<Rightarrow> cfs \<Rightarrow> (errno + dirent list) \<times> cfs" where
  "fs_readdir p k =
     (if map_of k (plain_path p) \<noteq> Some Dir then Inl ENOENT
      else Inr (filter (\<lambda>d. lun_named d \<and> frame_named d) (\<lparr>d_name = ''.'', d_kind = DT_DIR\<rparr> # \<lparr>d_name = ''..'', d_kind = DT_DIR\<rparr> #
        map (\<lambda>(q, x). \<lparr>d_name = base_of q, d_kind = kind_of x\<rparr>) (filter (\<lambda>(q, x). dir_of q = plain_path p) k))), k)"

definition fs_remove :: "string \<Rightarrow> cfs \<Rightarrow> errno option \<times> cfs" where
  "fs_remove p k = (if map_of k p = Some Dir then fs_rmdir p k else fs_unlink p k)"

text \<open>Below the start, deepest first: the reverse of the order of creation.\<close>

definition fs_nftw :: "string \<Rightarrow> cfs \<Rightarrow> ((string \<times> nat) list \<times> bool) \<times> cfs" where
  "fs_nftw p k =
     ((rev (map (\<lambda>(q, x). (q, count_list q CHR ''/'' - count_list p CHR ''/''))
        (filter (\<lambda>(q, x). q = p \<or> below p q) k)), map_of k p = None), k)"

definition configfs :: "cfs kernel" where
  "configfs = \<lparr>
     k_malloc = (\<lambda>k. (True, k)), k_stale = (\<lambda>k. []),
     k_read = fs_read, k_write = fs_write, k_mkdir = fs_mkdir, k_rmdir = fs_rmdir,
     k_unlink = fs_unlink, k_symlink = fs_symlink, k_readlink = fs_readlink,
     k_opendir = fs_opendir, k_readdir = fs_readdir, k_nftw = fs_nftw,
     k_remove = fs_remove, k_stat = (\<lambda>p k. (map_of k p \<noteq> None, k))\<rparr>"

interpretation cfs: attr_store_mem configfs fs_contents
proof
  show "fs_contents k' = (fs_contents k)(p \<mapsto> s)"
    if "k_write configfs p s k = (Wrote n ferr None, k')" "length s \<le> n" for p s k n ferr k'
    using that
    by (auto simp: configfs_def fs_write_def fs_contents_def update_conv fun_upd_def
        split: option.splits node.splits if_split)
  show "fst (k_read configfs p len k) = Read_bytes (take len s) False" if "fs_contents k p = Some s" for p len k s
    using that by (auto simp: configfs_def fs_read_def fs_contents_def split: option.splits node.splits)
qed (auto simp: configfs_def fs_read_def)

lemma configfs_luns_named: "luns_named configfs"
  by (auto simp: luns_named_def configfs_def fs_readdir_def list_all_iff split: if_splits)

lemma configfs_frames_named: "frames_named configfs"
  by (auto simp: frames_named_def configfs_def fs_readdir_def list_all_iff split: if_splits)

lemma configfs_links_absolute: "links_absolute configfs"
  by (auto simp: links_absolute_def configfs_def fs_readlink_def min_def split: option.splits node.splits if_splits)

section \<open>Starting points of the examples\<close>

text \<open>A mounted configfs with no gadget, and one device controller.\<close>

definition fresh_fs :: cfs where
  "fresh_fs = [(''/c'', Dir), (''/c/usb_gadget'', Dir), (''/sys/class/udc'', Dir), (''/sys/class/udc/udc0'', Dir)]"

end
