(* ===== verification/Usbg_Examples.thy ===== *)
theory Usbg_Examples
  imports Usbg_Gadget_Round Usbg_Configfs Usbg_Safety
begin

text \<open>
  A small world for the examples: one gadget with a serial function, a mass storage function
  and a configuration to which the serial function is bound, on the file system of
  \<open>Usbg_Configfs\<close>, and a proof that it satisfies the invariant.
\<close>

definition demo_gadget_path :: string where "demo_gadget_path = ''/c/usb_gadget/g1''"

definition demo_fs :: cfs where
  "demo_fs =
     snd (fs_symlink ''/c/usb_gadget/g1/functions/acm.x'' ''/c/usb_gadget/g1/configs/c.1/link''
    (snd (fs_mkdir ''/c/usb_gadget/g1/configs/c.1''
    (snd (fs_mkdir ''/c/usb_gadget/g1/functions/mass_storage.m''
    (snd (fs_mkdir ''/c/usb_gadget/g1/functions/acm.x''
    (snd (fs_mkdir demo_gadget_path fresh_fs)))))))))"

definition demo :: "cfs world" where
  "demo = \<lparr>s_configfs_path = ''/c'', s_path = ''/c/usb_gadget'', s_gadgets = [2], s_udcs = [1],
     gadget_at = [2 \<mapsto> \<lparr>g_name = ''g1'', g_path = ''/c/usb_gadget'', g_configs = [4], g_functions = [3, 6],
       g_udc = None, g_os_desc_binding = None\<rparr>],
     config_at = [4 \<mapsto> \<lparr>c_name = ''c.1'', c_path = ''/c/usb_gadget/g1/configs'', c_label = ''c'', c_id = 1,
       c_bindings = [5], c_parent = 2\<rparr>],
     function_at = [3 \<mapsto> \<lparr>f_name = ''acm.x'', f_path = ''/c/usb_gadget/g1/functions'', f_instance = ''x'',
         f_label = None, f_type = USBG_F_ACM, f_parent = 2, f_ext = Plain_ext\<rparr>,
       6 \<mapsto> \<lparr>f_name = ''mass_storage.m'', f_path = ''/c/usb_gadget/g1/functions'', f_instance = ''m'',
         f_label = None, f_type = USBG_F_MASS_STORAGE, f_parent = 2, f_ext = alloc_inst_ext USBG_F_MASS_STORAGE\<rparr>],
     binding_at = [5 \<mapsto> \<lparr>b_name = ''link'', b_path = ''/c/usb_gadget/g1/configs/c.1'', b_target = 3, b_parent = 4\<rparr>],
     udc_at = [1 \<mapsto> \<lparr>u_name = ''udc0'', u_gadget = None\<rparr>],
     next_ptr = 7, os = demo_fs\<rparr>"

lemma demo_wf: "heap_wf demo"
  by (auto simp: demo_def wf_defs owns_def fresh_from_def one_kind_def ext_fits_def alloc_inst_ext_def MAX_LUNS_def)

lemma demo_simps [simp]:
  "gadget_at demo 2 = Some \<lparr>g_name = ''g1'', g_path = ''/c/usb_gadget'', g_configs = [4], g_functions = [3, 6],
       g_udc = None, g_os_desc_binding = None\<rparr>"
  "config_at demo 4 = Some \<lparr>c_name = ''c.1'', c_path = ''/c/usb_gadget/g1/configs'', c_label = ''c'', c_id = 1,
       c_bindings = [5], c_parent = 2\<rparr>"
  "binding_at demo 5 = Some \<lparr>b_name = ''link'', b_path = ''/c/usb_gadget/g1/configs/c.1'', b_target = 3, b_parent = 4\<rparr>"
  "udc_at demo 1 = Some \<lparr>u_name = ''udc0'', u_gadget = None\<rparr>"
  "function_at demo 3 = Some \<lparr>f_name = ''acm.x'', f_path = ''/c/usb_gadget/g1/functions'', f_instance = ''x'',
         f_label = None, f_type = USBG_F_ACM, f_parent = 2, f_ext = Plain_ext\<rparr>"
  by (simp_all add: demo_def)

text \<open>
  The same world when the library thinks that the gadget is on the controller, while its UDC
  attribute is empty.
\<close>

definition enabled_demo :: "cfs world" where
  "enabled_demo = demo\<lparr>
     gadget_at := [2 \<mapsto> \<lparr>g_name = ''g1'', g_path = ''/c/usb_gadget'', g_configs = [4], g_functions = [3, 6],
       g_udc = Some 1, g_os_desc_binding = None\<rparr>],
     udc_at := [1 \<mapsto> \<lparr>u_name = ''udc0'', u_gadget = Some 2\<rparr>]\<rparr>"

lemma enabled_demo_simps:
  "udc_at enabled_demo 1 = Some \<lparr>u_name = ''udc0'', u_gadget = Some 2\<rparr>"
  "u_gadget \<lparr>u_name = ''udc0'', u_gadget = Some 2\<rparr> = Some 2"
  "gadget_at enabled_demo 2 = Some \<lparr>g_name = ''g1'', g_path = ''/c/usb_gadget'', g_configs = [4],
     g_functions = [3, 6], g_udc = Some 1, g_os_desc_binding = None\<rparr>"
  "g_udc \<lparr>g_name = ''g1'', g_path = ''/c/usb_gadget'', g_configs = [4],
     g_functions = [3, 6], g_udc = Some 1, g_os_desc_binding = None\<rparr> = Some 1"
  by (simp_all add: enabled_demo_def)

lemma demo_udc_read: "usbg_read_string configfs ''/c/usb_gadget'' ''g1'' ''UDC'' demo_fs = (0, [], demo_fs)"
  by code_simp

lemma enabled_demo_read:
  "usbg_read_string configfs
     (g_path \<lparr>g_name = ''g1'', g_path = ''/c/usb_gadget'', g_configs = [4], g_functions = [3, 6], g_udc = Some 1, g_os_desc_binding = None\<rparr>)
     (g_name \<lparr>g_name = ''g1'', g_path = ''/c/usb_gadget'', g_configs = [4], g_functions = [3, 6], g_udc = Some 1, g_os_desc_binding = None\<rparr>)
     ''UDC'' (os enabled_demo) = (0, [], demo_fs)"
  using demo_udc_read by (simp add: enabled_demo_def demo_def)

text \<open>A start of the library on a configfs without gadgets succeeds.\<close>

lemma fresh_init: "\<exists>w k'. usbg_init configfs ''/c'' 1 fresh_fs = Some (0, Some w, k')"
proof -
  have "(case usbg_init configfs ''/c'' 1 fresh_fs of Some (r, Some w, k) \<Rightarrow> r = 0 | _ \<Rightarrow> False)" by code_simp
  then show ?thesis by (auto split: option.splits)
qed

section \<open>Writes of numbers\<close>

text \<open>On this file system a write to a file that is there succeeds, and no file vanishes.\<close>

lemma write_int_there:
  assumes "path3 p n f \<in> dom (fs_contents k)" "fits (path3 p n f)"
  shows "\<exists>k'. usbg_write_int configfs p n f v fmt k = (0, k') \<and> dom (fs_contents k') = dom (fs_contents k)"
proof -
  obtain s where s: "map_of k (path3 p n f) = Some (File s)"
    using assms(1) by (auto simp: fs_contents_def split: option.splits node.splits)
  let ?k = "AList.update (path3 p n f) (File (format_int fmt v)) k"
  have "usbg_write_int configfs p n f v fmt k = (0, ?k)"
    using s assms(2) length_format_int [of fmt v]
    by (simp add: usbg_write_int_def usbg_write_buf_def configfs_def fs_write_def USBG_MAX_STR_LENGTH_def Let_def del: format_int.simps)
  moreover from this cfs.write_int_stores have "fs_contents ?k = (fs_contents k)(path3 p n f \<mapsto> format_int fmt v)" by blast
  ultimately show ?thesis using assms(1) by auto
qed

lemma write_ints_there:
  assumes "\<forall>(f, _)\<in>set ws. path3 p n f \<in> dom (fs_contents k) \<and> fits (path3 p n f)"
  shows "\<exists>k'. write_ints configfs p n ws k = (0, k')"
  using assms
proof (induction ws arbitrary: k)
  case (Cons w ws)
  obtain f fmt v where w: "w = (f, fmt, v)" by (metis prod_cases3)
  with Cons.prems write_int_there [of p n f k v fmt] obtain k1 where
    k1: "usbg_write_int configfs p n f v fmt k = (0, k1)" "dom (fs_contents k1) = dom (fs_contents k)" by auto
  from Cons.prems k1(2) have "\<forall>(f, _)\<in>set ws. path3 p n f \<in> dom (fs_contents k1) \<and> fits (path3 p n f)" by auto
  from Cons.IH [OF this] k1(1) w show ?case by auto
qed simp

section \<open>Functions and attributes\<close>

definition demo_attrs :: gadget_attrs where
  "demo_attrs = \<lparr>ga_bcdUSB = 0x0200, ga_bDeviceClass = 2, ga_bDeviceSubClass = 255, ga_bDeviceProtocol = 0,
     ga_bMaxPacketSize0 = 64, ga_idVendor = 0x1d6b, ga_idProduct = 0xffff, ga_bcdDevice = 1\<rparr>"

lemma demo_files:
  "list_all (\<lambda>f. fs_contents demo_fs (path3 ''/c/usb_gadget'' ''g1'' f) = Some ''0'' \<and> fits (path3 ''/c/usb_gadget'' ''g1'' f))
     gadget_attr_names"
  by code_simp

lemma demo_write: "\<exists>k. write_gadget_attrs configfs ''/c/usb_gadget'' ''g1'' demo_attrs demo_fs = (0, k)"
  unfolding write_gadget_attrs_def
  by (rule write_ints_there) (use demo_files in \<open>simp add: gadget_attr_names_def domI\<close>)

lemma demo_set_attrs: "\<exists>w. usbg_set_gadget_attrs configfs (Some 2) (Some demo_attrs) demo = Some (0, w)"
proof -
  from demo_write obtain k where "write_gadget_attrs configfs ''/c/usb_gadget'' ''g1'' demo_attrs (os demo) = (0, k)"
    by (auto simp: demo_def)
  then show ?thesis by (auto simp: usbg_set_gadget_attrs_def on_gadget_def on_os_def)
qed

definition zero_attrs :: gadget_attrs where
  "zero_attrs = \<lparr>ga_bcdUSB = 0, ga_bDeviceClass = 0, ga_bDeviceSubClass = 0, ga_bDeviceProtocol = 0,
     ga_bMaxPacketSize0 = 0, ga_idVendor = 0, ga_idProduct = 0, ga_bcdDevice = 0\<rparr>"

definition functions_path :: string where "functions_path = ''/c/usb_gadget/g1/functions''"

definition function_named :: "usbg_function_type \<Rightarrow> string \<Rightarrow> usbg_function" where
  "function_named t i = \<lparr>f_name = function_type_name t @ ''.'' @ i, f_path = functions_path, f_instance = i,
     f_label = None, f_type = t, f_parent = 2, f_ext = alloc_inst_ext t\<rparr>"

definition midi_demo :: usbg_function where "midi_demo = function_named USBG_F_MIDI ''a''"

definition midi_fs :: cfs where "midi_fs = snd (fs_mkdir (functions_path @ ''/midi.a'') demo_fs)"

definition midi_demo_attrs :: midi_attrs where
  "midi_demo_attrs = \<lparr>midi_index = - 1, midi_id = Some ''keys'', midi_in_ports = 1, midi_out_ports = 2,
     midi_buflen = 256, midi_qlen = 32\<rparr>"

definition midi_no_attrs :: midi_attrs where
  "midi_no_attrs = \<lparr>midi_index = 0, midi_id = None, midi_in_ports = 0, midi_out_ports = 0,
     midi_buflen = 0, midi_qlen = 0\<rparr>"

definition net_demo :: usbg_function where "net_demo = function_named USBG_F_ECM ''a''"

definition net_fs :: cfs where
  "net_fs = snd (fs_mkdir (functions_path @ ''/ecm.a'') demo_fs)"

definition net_demo_attrs :: net_attrs where
  "net_demo_attrs = \<lparr>net_dev_addr = [2, 0, 0, 0, 0, 255], net_host_addr = [2, 0, 0, 0, 10, 16], net_ifname = None,
     net_qmult = 5, net_class = 2, net_subclass = 6, net_protocol = 0\<rparr>"

definition ms_demo :: usbg_f_ms where
  "ms_demo = \<lparr>mf_path = functions_path, mf_name = ''mass_storage.m'',
     mf_luns = True # replicate 15 False, mf_luns_initiated = True\<rparr>"

definition ms_demo_attrs :: ms_attrs where
  "ms_demo_attrs = \<lparr>ms_stall = True, ms_lun_list =
     [\<lparr>lun_id = 0, lun_cdrom = False, lun_ro = True, lun_nofua = False, lun_removable = True, lun_file = Some ''/a'', lun_inquiry_string = None\<rparr>,
      \<lparr>lun_id = - 1, lun_cdrom = True, lun_ro = True, lun_nofua = False, lun_removable = True, lun_file = Some ''/b'', lun_inquiry_string = None\<rparr>]\<rparr>"

end
