(* ===== verification/Usbg_Libconfig.thy ===== *)
theory Usbg_Libconfig
  imports Usbg_F_Basic
begin

text \<open>
  Reading and writing one node of a configuration (\<open>src/usbg_common_libconfig.c\<close>). The
  library libconfig is not part of the repository: it is the record \<open>libconfig\<close> of the
  calls the code makes, over handles \<open>'s\<close> (\<open>config_setting_t *\<close>) and configurations
  \<open>'c\<close> (\<open>config_t\<close>). Calls that read do not change a configuration; a call that writes
  returns whether it succeeded and the configuration afterwards.
\<close>

section \<open>The calls of libconfig\<close>

datatype config_type =
    CONFIG_TYPE_NONE | CONFIG_TYPE_GROUP | CONFIG_TYPE_INT | CONFIG_TYPE_INT64 | CONFIG_TYPE_FLOAT
  | CONFIG_TYPE_STRING | CONFIG_TYPE_BOOL | CONFIG_TYPE_ARRAY | CONFIG_TYPE_LIST

record ('s, 'c) libconfig =
  lc_init :: 'c
  lc_root :: 's
  lc_add :: "'s \<Rightarrow> string option \<Rightarrow> config_type \<Rightarrow> 'c \<Rightarrow> 's option \<times> 'c"
  lc_set_hex :: "'s \<Rightarrow> 'c \<Rightarrow> bool \<times> 'c"
  lc_set_int :: "'s \<Rightarrow> cint \<Rightarrow> 'c \<Rightarrow> bool \<times> 'c"
  lc_set_bool :: "'s \<Rightarrow> bool \<Rightarrow> 'c \<Rightarrow> bool \<times> 'c"
  lc_set_string :: "'s \<Rightarrow> string option \<Rightarrow> 'c \<Rightarrow> bool \<times> 'c"
  lc_get_member :: "'c \<Rightarrow> 's \<Rightarrow> string \<Rightarrow> 's option"
  lc_get_elem :: "'c \<Rightarrow> 's \<Rightarrow> nat \<Rightarrow> 's option"
  lc_length :: "'c \<Rightarrow> 's \<Rightarrow> nat"
  lc_type :: "'c \<Rightarrow> 's \<Rightarrow> config_type"
  lc_get_int :: "'c \<Rightarrow> 's \<Rightarrow> cint"
  lc_get_bool :: "'c \<Rightarrow> 's \<Rightarrow> bool"
  lc_get_string :: "'c \<Rightarrow> 's \<Rightarrow> string option"
  lc_name :: "'c \<Rightarrow> 's \<Rightarrow> string option"

text \<open>
  \<^item> \<open>lc_init\<close>, \<open>lc_root\<close>: a configuration after \<open>config_init\<close> and its root setting.
  \<^item> \<open>lc_add\<close>: \<open>config_setting_add\<close>; no name is NULL, and so is no result.
  \<^item> \<open>lc_set_hex\<close>: \<open>config_setting_set_format\<close> with \<open>CONFIG_FORMAT_HEX\<close>.
  \<^item> the others are the \<open>config_setting_\<close> calls of the same name, \<open>lc_type\<close> together with
    the macros that compare it.
\<close>

definition usbg_config_is_int :: "('s, 'c) libconfig \<Rightarrow> 'c \<Rightarrow> 's \<Rightarrow> bool" where
  "usbg_config_is_int L c s \<longleftrightarrow> lc_type L c s = CONFIG_TYPE_INT"

definition usbg_config_is_string :: "('s, 'c) libconfig \<Rightarrow> 'c \<Rightarrow> 's \<Rightarrow> bool" where
  "usbg_config_is_string L c s \<longleftrightarrow> lc_type L c s = CONFIG_TYPE_STRING"

definition config_is_group :: "('s, 'c) libconfig \<Rightarrow> 'c \<Rightarrow> 's \<Rightarrow> bool" where
  "config_is_group L c s \<longleftrightarrow> lc_type L c s = CONFIG_TYPE_GROUP"

definition config_is_list :: "('s, 'c) libconfig \<Rightarrow> 'c \<Rightarrow> 's \<Rightarrow> bool" where
  "config_is_list L c s \<longleftrightarrow> lc_type L c s = CONFIG_TYPE_LIST"

section \<open>Reading a node\<close>

text \<open>
  The return code (1: found, 0: no such member, negative: error) and the value, where the
  function stores one.
\<close>

definition usbg_get_config_node_int :: "('s, 'c) libconfig \<Rightarrow> 'c \<Rightarrow> 's \<Rightarrow> string \<Rightarrow> int \<times> cint option" where
  "usbg_get_config_node_int L c root name =
     (case lc_get_member L c root name of
        None \<Rightarrow> (0, None)
      | Some node \<Rightarrow>
          if \<not> usbg_config_is_int L c node then (err USBG_ERROR_INVALID_TYPE, None)
          else (1, Some (lc_get_int L c node)))"

text \<open>A Boolean that was read returns 0 like one that is absent.\<close>

definition usbg_get_config_node_bool :: "('s, 'c) libconfig \<Rightarrow> 'c \<Rightarrow> 's \<Rightarrow> string \<Rightarrow> int \<times> bool option" where
  "usbg_get_config_node_bool L c root name =
     (case lc_get_member L c root name of
        None \<Rightarrow> (0, None)
      | Some node \<Rightarrow>
          (case lc_type L c node of
             CONFIG_TYPE_INT \<Rightarrow> (0, Some (lc_get_int L c node \<noteq> 0))
           | CONFIG_TYPE_BOOL \<Rightarrow> (0, Some (lc_get_bool L c node))
           | _ \<Rightarrow> (err USBG_ERROR_INVALID_TYPE, None)))"

definition usbg_get_config_node_string ::
  "('s, 'c) libconfig \<Rightarrow> 'c \<Rightarrow> 's \<Rightarrow> string \<Rightarrow> int \<times> string option option" where
  "usbg_get_config_node_string L c root name =
     (case lc_get_member L c root name of
        None \<Rightarrow> (0, None)
      | Some node \<Rightarrow>
          if \<not> usbg_config_is_string L c node then (err USBG_ERROR_INVALID_TYPE, None)
          else (1, Some (lc_get_string L c node)))"

text \<open>A string node without a string would be a NULL argument of \<open>ether_aton_r\<close>.\<close>

definition usbg_get_config_node_ether_addr ::
  "('s, 'c) libconfig \<Rightarrow> 'c \<Rightarrow> 's \<Rightarrow> string \<Rightarrow> (int \<times> u8 list option) option" where
  "usbg_get_config_node_ether_addr L c root name =
     (let (ret, str) = usbg_get_config_node_string L c root name
      in if ret = 0 \<or> ret < 0 then Some (ret, None)
         else do {
           s \<leftarrow> the str;
           Some (case ether_aton s of
                   None \<Rightarrow> (err USBG_ERROR_INVALID_VALUE, None)
                 | Some addr \<Rightarrow> (1, Some addr))
         })"

section \<open>Writing a node\<close>

text \<open>\<open>config_setting_add\<close>, and what the code does with a node when there is one.\<close>

definition with_new_node ::
  "('s, 'c) libconfig \<Rightarrow> 's \<Rightarrow> string option \<Rightarrow> config_type \<Rightarrow> ('s \<Rightarrow> 'c \<Rightarrow> int \<times> 'c) \<Rightarrow> 'c \<Rightarrow> int \<times> 'c" where
  "with_new_node L root name type cont c =
     (case lc_add L root name type c of
        (None, c1) \<Rightarrow> (err USBG_ERROR_NO_MEM, c1)
      | (Some node, c1) \<Rightarrow> cont node c1)"

text \<open>The outcome of a call that sets a value.\<close>

definition config_ret :: "bool \<times> 'c \<Rightarrow> int \<times> 'c" where
  "config_ret r = (if fst r then 0 else err USBG_ERROR_OTHER_ERROR, snd r)"

definition usbg_set_config_node_int ::
  "('s, 'c) libconfig \<Rightarrow> 's \<Rightarrow> string option \<Rightarrow> cint \<Rightarrow> 'c \<Rightarrow> int \<times> 'c" where
  "usbg_set_config_node_int L root name val =
     with_new_node L root name CONFIG_TYPE_INT (\<lambda>node c. config_ret (lc_set_int L node val c))"

definition usbg_set_config_node_int_hex ::
  "('s, 'c) libconfig \<Rightarrow> 's \<Rightarrow> string option \<Rightarrow> cint \<Rightarrow> 'c \<Rightarrow> int \<times> 'c" where
  "usbg_set_config_node_int_hex L root name val =
     with_new_node L root name CONFIG_TYPE_INT (\<lambda>node c.
       let (ok, c1) = lc_set_hex L node c
       in if \<not> ok then (err USBG_ERROR_OTHER_ERROR, c1)
          else config_ret (lc_set_int L node val c1))"

definition usbg_set_config_node_bool ::
  "('s, 'c) libconfig \<Rightarrow> 's \<Rightarrow> string option \<Rightarrow> bool \<Rightarrow> 'c \<Rightarrow> int \<times> 'c" where
  "usbg_set_config_node_bool L root name val =
     with_new_node L root name CONFIG_TYPE_BOOL (\<lambda>node c. config_ret (lc_set_bool L node val c))"

definition usbg_set_config_node_string ::
  "('s, 'c) libconfig \<Rightarrow> 's \<Rightarrow> string option \<Rightarrow> string option \<Rightarrow> 'c \<Rightarrow> int \<times> 'c" where
  "usbg_set_config_node_string L root name val =
     with_new_node L root name CONFIG_TYPE_STRING (\<lambda>node c. config_ret (lc_set_string L node val c))"

definition usbg_set_config_node_ether_addr ::
  "('s, 'c) libconfig \<Rightarrow> 's \<Rightarrow> string option \<Rightarrow> u8 list \<Rightarrow> 'c \<Rightarrow> int \<times> 'c" where
  "usbg_set_config_node_ether_addr L root name val =
     usbg_set_config_node_string L root name (Some (usbg_ether_ntoa_r val))"

definition usbg_set_config_node_dev ::
  "('s, 'c) libconfig \<Rightarrow> 's \<Rightarrow> string option \<Rightarrow> dev_t \<Rightarrow> 'c \<Rightarrow> int \<times> 'c" where
  "usbg_set_config_node_dev L root name dev =
     with_new_node L root name CONFIG_TYPE_GROUP (\<lambda>node c.
       let (ret, c1) = usbg_set_config_node_int L node (Some ''major'') (fst dev) c
       in if ret \<noteq> 0 then (ret, c1)
          else usbg_set_config_node_int L node (Some ''minor'') (snd dev) c1)"

text \<open>The text form of a GUID of 16 bytes; fewer would be read past their end.\<close>

definition guid_text :: "u8 list \<Rightarrow> string" where
  "guid_text bin =
     concat (map (\<lambda>i. hex2 (bin ! i) @ (if i \<in> {3, 5, 7, 9} then ''-'' else [])) [0..<16])"

definition usbg_set_config_node_guid ::
  "('s, 'c) libconfig \<Rightarrow> 's \<Rightarrow> string option \<Rightarrow> u8 list \<Rightarrow> 'c \<Rightarrow> (int \<times> 'c) option" where
  "usbg_set_config_node_guid L root name bin c =
     (case lc_add L root name CONFIG_TYPE_STRING c of
        (None, c1) \<Rightarrow> Some (err USBG_ERROR_NO_MEM, c1)
      | (Some node, c1) \<Rightarrow>
          if length bin < 16 then None
          else Some (config_ret (lc_set_string L node (Some (guid_text bin)) c1)))"
end
