(* ===== verification/Usbg_Scheme_Functions.thy ===== *)
theory Usbg_Scheme_Functions
  imports Usbg_Libconfig Usbg_Functions
begin

text \<open>
  Import and export of the attributes of one function: the \<open>*_libconfig_import\<close> and
  \<open>*_libconfig_export\<close> operations of the files of \<open>src/function/\<close>, and their choice by
  the type of the function. The configuration is read only during an import, and a value of
  its own during an export. \<open>None\<close> is undefined behaviour, as elsewhere.
\<close>

section \<open>Nodes of a table\<close>

text \<open>
  The \<open>import\<close> and \<open>export\<close> members of a table entry. An import stores a value only when it
  returns 1; using the value otherwise would be a read of an uninitialised variable.
\<close>

type_synonym ('s, 'c, 'k) import_node =
  "('s, 'c) libconfig \<Rightarrow> 'k kernel \<Rightarrow> 'c \<Rightarrow> 's \<Rightarrow> string \<Rightarrow> 'k \<Rightarrow> (int \<times> attr_val option \<times> 'k) option"

type_synonym ('s, 'c) export_node =
  "('s, 'c) libconfig \<Rightarrow> 's \<Rightarrow> string \<Rightarrow> attr_val \<Rightarrow> 'c \<Rightarrow> (int \<times> 'c) option"

record ('s, 'c, 'k) node_entry =
  n_import :: "('s, 'c, 'k) import_node option"
  n_export :: "('s, 'c) export_node option"

definition int_node :: "('s, 'c, 'k) node_entry" where
  "int_node =
     \<lparr>n_import = Some (\<lambda>L K c root name k.
        let (ret, v) = usbg_get_config_node_int L c root name in Some (ret, map_option Int_val v, k)),
      n_export = Some (\<lambda>L root name v c.
        case v of Int_val i \<Rightarrow> Some (usbg_set_config_node_int L root (Some name) i c) | _ \<Rightarrow> None)\<rparr>"

definition bool_node :: "('s, 'c, 'k) node_entry" where
  "bool_node =
     \<lparr>n_import = Some (\<lambda>L K c root name k.
        let (ret, v) = usbg_get_config_node_bool L c root name in Some (ret, map_option Bool_val v, k)),
      n_export = Some (\<lambda>L root name v c.
        case v of Bool_val b \<Rightarrow> Some (usbg_set_config_node_bool L root (Some name) b c) | _ \<Rightarrow> None)\<rparr>"

definition string_node :: "('s, 'c, 'k) node_entry" where
  "string_node =
     \<lparr>n_import = Some (\<lambda>L K c root name k.
        let (ret, v) = usbg_get_config_node_string L c root name in Some (ret, map_option Str_val v, k)),
      n_export = Some (\<lambda>L root name v c.
        case v of Str_val s \<Rightarrow> Some (usbg_set_config_node_string L root (Some name) s c) | _ \<Rightarrow> None)\<rparr>"

definition ether_node :: "('s, 'c, 'k) node_entry" where
  "ether_node =
     \<lparr>n_import = Some (\<lambda>L K c root name k. do {
        (ret, v) \<leftarrow> usbg_get_config_node_ether_addr L c root name;
        Some (ret, map_option Ether_val v, k) }),
      n_export = Some (\<lambda>L root name v c.
        case v of Ether_val a \<Rightarrow> Some (usbg_set_config_node_ether_addr L root (Some name) a c) | _ \<Rightarrow> None)\<rparr>"

text \<open>Entries that are read-only have no import.\<close>

definition string_node_ro :: "('s, 'c, 'k) node_entry" where
  "string_node_ro = string_node\<lparr>n_import := None\<rparr>"

definition int_node_ro :: "('s, 'c, 'k) node_entry" where
  "int_node_ro = int_node\<lparr>n_import := None\<rparr>"

definition dev_node_ro :: "('s, 'c, 'k) node_entry" where
  "dev_node_ro =
     \<lparr>n_import = None,
      n_export = Some (\<lambda>L root name v c.
        case v of Dev_val d \<Rightarrow> Some (usbg_set_config_node_dev L root (Some name) d c) | _ \<Rightarrow> None)\<rparr>"

text \<open>A GUID is exported from its 16 bytes and imported as text.\<close>

definition guid_node :: "('s, 'c, 'k) node_entry" where
  "guid_node =
     string_node\<lparr>n_export := Some (\<lambda>L root name v c.
        case v of Str_val (Some s) \<Rightarrow> usbg_set_config_node_guid L root (Some name) (map of_char s) c
        | _ \<Rightarrow> None)\<rparr>"

section \<open>The loops over a table\<close>

text \<open>
  The entries from index \<open>i\<close> on, the setter taking the index. The loops of modules whose
  tables have read-only entries pass over them; the others have none.
\<close>

fun import_attrs ::
  "('s, 'c) libconfig \<Rightarrow> 'k kernel \<Rightarrow> 'c \<Rightarrow> 's \<Rightarrow> (nat \<Rightarrow> attr_val \<Rightarrow> 'k \<Rightarrow> (int \<times> 'k) option) \<Rightarrow> nat
     \<Rightarrow> ('k attr_entry \<times> ('s, 'c, 'k) node_entry) list \<Rightarrow> 'k \<Rightarrow> (int \<times> 'k) option" where
  "import_attrs L K c root st i [] k = Some (0, k)"
| "import_attrs L K c root st i ((e, n) # es) k =
     (if a_ro e then import_attrs L K c root st (Suc i) es k
      else do {
        imp \<leftarrow> n_import n;
        (ret, v, k1) \<leftarrow> imp L K c root (a_name e) k;
        if ret = 0 then import_attrs L K c root st (Suc i) es k1
        else if ret < 0 then Some (ret, k1)
        else do {
          val \<leftarrow> v;
          (ret, k2) \<leftarrow> st i val k1;
          if ret \<noteq> 0 then Some (ret, k2) else import_attrs L K c root st (Suc i) es k2
        }
      })"

text \<open>
  \<open>skip_ro\<close>: only the network functions leave read-only entries out. The value a getter
  is given to fill is not initialised; a getter that returns 0 has filled it.
\<close>

fun export_attrs ::
  "('s, 'c) libconfig \<Rightarrow> bool \<Rightarrow> 's \<Rightarrow> (nat \<Rightarrow> attr_val \<Rightarrow> 'k \<Rightarrow> (int \<times> attr_val \<times> 'k) option) \<Rightarrow> nat
     \<Rightarrow> ('k attr_entry \<times> ('s, 'c, 'k) node_entry) list \<Rightarrow> 'c \<Rightarrow> 'k \<Rightarrow> (int \<times> 'c \<times> 'k) option" where
  "export_attrs L skip_ro root get i [] c k = Some (0, c, k)"
| "export_attrs L skip_ro root get i ((e, n) # es) c k =
     (if skip_ro \<and> a_ro e then export_attrs L skip_ro root get (Suc i) es c k
      else do {
        (ret, v, k1) \<leftarrow> get i (Int_val 0) k;
        if ret \<noteq> 0 then Some (ret, c, k1)
        else do {
          expo \<leftarrow> n_export n;
          (ret, c1) \<leftarrow> expo L root (a_name e) v c;
          if ret \<noteq> 0 then Some (ret, c1, k1)
          else export_attrs L skip_ro root get (Suc i) es c1 k1
        }
      })"

section \<open>MIDI, network functions, UAC2\<close>

definition midi_nodes :: "('s, 'c, 'k) node_entry list" where
  "midi_nodes = [int_node, string_node, int_node, int_node, int_node, int_node]"

definition midi_libconfig_import ::
  "('s, 'c) libconfig \<Rightarrow> 'k kernel \<Rightarrow> usbg_function \<Rightarrow> 'c \<Rightarrow> 's \<Rightarrow> 'k \<Rightarrow> (int \<times> 'k) option" where
  "midi_libconfig_import L K f c root k =
     import_attrs L K c root (usbg_f_midi_set_attr_val K f) 0 (zip midi_attr midi_nodes) k"

definition midi_libconfig_export ::
  "('s, 'c) libconfig \<Rightarrow> 'k kernel \<Rightarrow> usbg_function \<Rightarrow> 's \<Rightarrow> 'c \<Rightarrow> 'k \<Rightarrow> (int \<times> 'c \<times> 'k) option" where
  "midi_libconfig_export L K f root c k =
     export_attrs L False root (usbg_f_midi_get_attr_val K f) 0 (zip midi_attr midi_nodes) c k"

definition net_nodes :: "('s, 'c, 'k) node_entry list" where
  "net_nodes = [ether_node, ether_node, string_node_ro, int_node, int_node, int_node, int_node]"

definition ether_libconfig_import ::
  "('s, 'c) libconfig \<Rightarrow> 'k kernel \<Rightarrow> usbg_function \<Rightarrow> 'c \<Rightarrow> 's \<Rightarrow> 'k \<Rightarrow> (int \<times> 'k) option" where
  "ether_libconfig_import L K f c root k =
     import_attrs L K c root (usbg_f_net_set_attr_val K f) 0 (zip net_attr net_nodes) k"

definition ether_libconfig_export ::
  "('s, 'c) libconfig \<Rightarrow> 'k kernel \<Rightarrow> usbg_function \<Rightarrow> 's \<Rightarrow> 'c \<Rightarrow> 'k \<Rightarrow> (int \<times> 'c \<times> 'k) option" where
  "ether_libconfig_export L K f root c k =
     export_attrs L True root (usbg_f_net_get_attr_val K f) 0 (zip net_attr net_nodes) c k"

definition uac2_nodes :: "('s, 'c, 'k) node_entry list" where
  "uac2_nodes =
     [int_node, int_node, int_node, int_node, int_node, int_node, int_node, int_node, string_node,
      int_node, int_node, bool_node, bool_node, int_node, int_node, int_node, bool_node, bool_node,
      int_node, int_node, int_node, string_node]"

definition uac2_libconfig_import ::
  "('s, 'c) libconfig \<Rightarrow> 'k kernel \<Rightarrow> usbg_function \<Rightarrow> 'c \<Rightarrow> 's \<Rightarrow> 'k \<Rightarrow> (int \<times> 'k) option" where
  "uac2_libconfig_import L K f c root k =
     import_attrs L K c root (usbg_f_uac2_set_attr_val K f) 0 (zip uac2_attr uac2_nodes) k"

definition uac2_libconfig_export ::
  "('s, 'c) libconfig \<Rightarrow> 'k kernel \<Rightarrow> usbg_function \<Rightarrow> 's \<Rightarrow> 'c \<Rightarrow> 'k \<Rightarrow> (int \<times> 'c \<times> 'k) option" where
  "uac2_libconfig_export L K f root c k =
     export_attrs L False root (usbg_f_uac2_get_attr_val K f) 0 (zip uac2_attr uac2_nodes) c k"

section \<open>HID\<close>

text \<open>The bytes of a report descriptor, or the error for the first element that is none.\<close>

fun report_bytes :: "('s, 'c) libconfig \<Rightarrow> 'c \<Rightarrow> 's \<Rightarrow> nat list \<Rightarrow> (int + string) option" where
  "report_bytes L c list_node [] = Some (Inr [])"
| "report_bytes L c list_node (i # is) = do {
     node \<leftarrow> lc_get_elem L c list_node i;
     if \<not> usbg_config_is_int L c node then Some (Inl (err USBG_ERROR_INVALID_TYPE))
     else let tmp = sint (lc_get_int L c node)
          in if tmp < 0 \<or> tmp > 255 then Some (Inl (err USBG_ERROR_INVALID_VALUE))
             else do {
               rest \<leftarrow> report_bytes L c list_node is;
               Some (case rest of Inl e \<Rightarrow> Inl e | Inr bs \<Rightarrow> Inr (char_of (nat tmp) # bs))
             }
   }"

definition hid_get_config_node_report :: "('s, 'c, 'k) import_node" where
  "hid_get_config_node_report L K c root name k =
     (case lc_get_member L c root name of
        None \<Rightarrow> Some (0, None, k)
      | Some list_node \<Rightarrow>
          if \<not> config_is_list L c list_node then Some (err USBG_ERROR_INVALID_TYPE, None, k)
          else let (ok, k1) = k_malloc K k
               in if \<not> ok then Some (err USBG_ERROR_NO_MEM, None, k1)
                  else do {
                    r \<leftarrow> report_bytes L c list_node [0..<lc_length L c list_node];
                    Some (case r of Inl e \<Rightarrow> (e, None, k1) | Inr bs \<Rightarrow> (1, Some (Report_val bs), k1))
                  })"

text \<open>A \<open>char\<close> is signed: bytes from 128 on are negative numbers.\<close>

definition char_int :: "char \<Rightarrow> cint" where
  "char_int ch = scast (of_char ch :: u8)"

fun report_nodes :: "('s, 'c) libconfig \<Rightarrow> 's \<Rightarrow> string \<Rightarrow> 'c \<Rightarrow> int \<times> 'c" where
  "report_nodes L node [] c = (0, c)"
| "report_nodes L node (ch # cs) c =
     (let (ret, c1) = usbg_set_config_node_int_hex L node None (char_int ch) c
      in if ret \<noteq> 0 then (ret, c1) else report_nodes L node cs c1)"

definition hid_set_config_node_report :: "('s, 'c) export_node" where
  "hid_set_config_node_report L root name v c =
     (case v of
        Report_val desc \<Rightarrow>
          Some (with_new_node L root (Some name) CONFIG_TYPE_LIST (\<lambda>node. report_nodes L node desc) c)
      | _ \<Rightarrow> None)"

definition report_node :: "('s, 'c, 'k) node_entry" where
  "report_node = \<lparr>n_import = Some hid_get_config_node_report, n_export = Some hid_set_config_node_report\<rparr>"

definition hid_nodes :: "('s, 'c, 'k) node_entry list" where
  "hid_nodes = [dev_node_ro, int_node, report_node, int_node, int_node]"

definition hid_libconfig_import ::
  "('s, 'c) libconfig \<Rightarrow> 'k kernel \<Rightarrow> usbg_function \<Rightarrow> 'c \<Rightarrow> 's \<Rightarrow> 'k \<Rightarrow> (int \<times> 'k) option" where
  "hid_libconfig_import L K f c root k =
     import_attrs L K c root (usbg_f_hid_set_attr_val K f) 0 (zip hid_attr hid_nodes) k"

definition hid_libconfig_export ::
  "('s, 'c) libconfig \<Rightarrow> 'k kernel \<Rightarrow> usbg_function \<Rightarrow> 's \<Rightarrow> 'c \<Rightarrow> 'k \<Rightarrow> (int \<times> 'c \<times> 'k) option" where
  "hid_libconfig_export L K f root c k =
     export_attrs L False root (usbg_f_hid_get_attr_val K f) 0 (zip hid_attr hid_nodes) c k"

section \<open>Loopback\<close>

text \<open>
  This module has loops of its own: a value is compared with 0, and an import does not look
  at the type of the node.
\<close>

fun loopback_import_loop ::
  "('s, 'c) libconfig \<Rightarrow> 'k kernel \<Rightarrow> usbg_function \<Rightarrow> 'c \<Rightarrow> 's \<Rightarrow> nat list \<Rightarrow> 'k \<Rightarrow> (int \<times> 'k) option" where
  "loopback_import_loop L K f c root [] k = Some (0, k)"
| "loopback_import_loop L K f c root (i # is) k =
     (case lc_get_member L c root (a_name ((loopback_attr :: 'k attr_entry list) ! i)) of
        None \<Rightarrow> loopback_import_loop L K f c root is k
      | Some node \<Rightarrow>
          let tmp = lc_get_int L c node
          in if sint tmp < 0 then Some (err USBG_ERROR_INVALID_PARAM, k)
             else do {
               (ret, k1) \<leftarrow> usbg_f_loopback_set_attr_val K f i (Int_val tmp) k;
               if ret \<noteq> 0 then Some (ret, k1) else loopback_import_loop L K f c root is k1
             })"

definition loopback_libconfig_import ::
  "('s, 'c) libconfig \<Rightarrow> 'k kernel \<Rightarrow> usbg_function \<Rightarrow> 'c \<Rightarrow> 's \<Rightarrow> 'k \<Rightarrow> (int \<times> 'k) option" where
  "loopback_libconfig_import L K f c root k = loopback_import_loop L K f c root [0..<2] k"

fun loopback_export_loop ::
  "('s, 'c) libconfig \<Rightarrow> 'k kernel \<Rightarrow> usbg_function \<Rightarrow> 's \<Rightarrow> nat list \<Rightarrow> 'c \<Rightarrow> 'k
     \<Rightarrow> (int \<times> 'c \<times> 'k) option" where
  "loopback_export_loop L K f root [] c k = Some (0, c, k)"
| "loopback_export_loop L K f root (i # is) c k = do {
     (ret, v, k1) \<leftarrow> usbg_f_loopback_get_attr_val K f i (Int_val 0) k;
     if ret \<noteq> 0 then Some (ret, c, k1)
     else if sint (int_val v) < 0 then Some (err USBG_ERROR_INVALID_VALUE, c, k1)
     else let (ret, c1) = usbg_set_config_node_int L root
                (Some (a_name ((loopback_attr :: 'k attr_entry list) ! i))) (int_val v) c
          in if ret \<noteq> 0 then Some (ret, c1, k1) else loopback_export_loop L K f root is c1 k1
   }"

definition loopback_libconfig_export ::
  "('s, 'c) libconfig \<Rightarrow> 'k kernel \<Rightarrow> usbg_function \<Rightarrow> 's \<Rightarrow> 'c \<Rightarrow> 'k \<Rightarrow> (int \<times> 'c \<times> 'k) option" where
  "loopback_libconfig_export L K f root c k = loopback_export_loop L K f root [0..<2] c k"

end
