(* ===== verification/Usbg_Scheme_Types.thy ===== *)
theory Usbg_Scheme_Types
  imports Usbg_Scheme_Functions
begin

text \<open>
  Import and export of mass storage (\<open>src/function/ms.c\<close>) and UVC functions
  (\<open>src/function/uvc.c\<close>), whose configurations are trees, and the \<open>import\<close> and
  \<open>export\<close> members of the 18 function types.
\<close>

section \<open>Mass storage\<close>

definition ms_lun_nodes :: "('s, 'c, 'k) node_entry list" where
  "ms_lun_nodes = [bool_node, bool_node, bool_node, bool_node, string_node, string_node]"

definition ms_import_lun_attrs ::
  "('s, 'c) libconfig \<Rightarrow> 'k kernel \<Rightarrow> usbg_f_ms \<Rightarrow> int \<Rightarrow> 'c \<Rightarrow> 's \<Rightarrow> 'k \<Rightarrow> (int \<times> 'k) option" where
  "ms_import_lun_attrs L K mf lid c root k =
     import_attrs L K c root (usbg_f_ms_set_lun_attr_val K mf lid) 0 (zip ms_lun_attr ms_lun_nodes) k"

text \<open>The loop over the elements of the list of LUNs; the mask is read for each of them.\<close>

fun ms_import_loop ::
  "('s, 'c) libconfig \<Rightarrow> 'k kernel \<Rightarrow> 'c \<Rightarrow> 's \<Rightarrow> nat list \<Rightarrow> usbg_f_ms \<Rightarrow> 'k
     \<Rightarrow> (int \<times> usbg_f_ms \<times> 'k) option" where
  "ms_import_loop L K c luns_node [] mf k = Some (0, mf, k)"
| "ms_import_loop L K c luns_node (i # is) mf k =
     (case lc_get_elem L c luns_node i of
        None \<Rightarrow> Some (err USBG_ERROR_INVALID_FORMAT, mf, k)
      | Some node \<Rightarrow>
          if \<not> config_is_group L c node then Some (err USBG_ERROR_INVALID_TYPE, mf, k)
          else do {
            present \<leftarrow> lun_at mf (int i);
            (ret, mf1, k1) \<leftarrow> (if present then Some (0, mf, k) else usbg_f_ms_create_lun K mf (int i) None k);
            if ret \<noteq> 0 then Some (ret, mf1, k1)
            else do {
              (ret, k2) \<leftarrow> ms_import_lun_attrs L K mf1 (int i) c node k1;
              if ret \<noteq> 0 then Some (ret, mf1, k2) else ms_import_loop L K c luns_node is mf1 k2
            }
          })"

definition ms_libconfig_import ::
  "('s, 'c) libconfig \<Rightarrow> 'k kernel \<Rightarrow> usbg_f_ms \<Rightarrow> 'c \<Rightarrow> 's \<Rightarrow> 'k \<Rightarrow> (int \<times> usbg_f_ms \<times> 'k) option" where
  "ms_libconfig_import L K mf c root k = do {
     let (ret0, stall) = usbg_get_config_node_bool L c root ''stall'';
     (ret, k1) \<leftarrow> (if ret0 > 0 then do { s \<leftarrow> stall; Some (usbg_f_ms_set_stall K mf s k) }
                  else Some (ret0, k));
     if ret < 0 then Some (ret, mf, k1)
     else case lc_get_member L c root ''luns'' of
       None \<Rightarrow> Some (err USBG_ERROR_INVALID_PARAM, mf, k1)
     | Some luns_node \<Rightarrow>
         if \<not> config_is_list L c luns_node then Some (err USBG_ERROR_INVALID_TYPE, mf, k1)
         else do {
           (mf1, k2) \<leftarrow> get_lun_mask K mf k1;
           ms_import_loop L K c luns_node [0..<lc_length L c luns_node] mf1 k2
         }
   }"

definition ms_export_lun_attrs ::
  "('s, 'c) libconfig \<Rightarrow> 'k kernel \<Rightarrow> usbg_f_ms \<Rightarrow> int \<Rightarrow> 's \<Rightarrow> 'c \<Rightarrow> 'k \<Rightarrow> (int \<times> 'c \<times> 'k) option" where
  "ms_export_lun_attrs L K mf lid root c k =
     export_attrs L False root (usbg_f_ms_get_lun_attr_val K mf lid) 0 (zip ms_lun_attr ms_lun_nodes) c k"

text \<open>A node that cannot be added ends the export with the return code so far, which is 0.\<close>

fun ms_export_loop ::
  "('s, 'c) libconfig \<Rightarrow> 'k kernel \<Rightarrow> usbg_f_ms \<Rightarrow> 's \<Rightarrow> nat list \<Rightarrow> 'c \<Rightarrow> 'k \<Rightarrow> (int \<times> 'c \<times> 'k) option" where
  "ms_export_loop L K mf luns_node [] c k = Some (0, c, k)"
| "ms_export_loop L K mf luns_node (i # is) c k = do {
     present \<leftarrow> lun_at mf (int i);
     if \<not> present then ms_export_loop L K mf luns_node is c k
     else case lc_add L luns_node (Some '''') CONFIG_TYPE_GROUP c of
       (None, c1) \<Rightarrow> Some (0, c1, k)
     | (Some node, c1) \<Rightarrow> do {
         (ret, c2, k1) \<leftarrow> ms_export_lun_attrs L K mf (int i) node c1 k;
         if ret \<noteq> 0 then Some (ret, c2, k1) else ms_export_loop L K mf luns_node is c2 k1
       }
   }"

definition ms_libconfig_export ::
  "('s, 'c) libconfig \<Rightarrow> 'k kernel \<Rightarrow> usbg_f_ms \<Rightarrow> 's \<Rightarrow> 'c \<Rightarrow> 'k
     \<Rightarrow> (int \<times> usbg_f_ms \<times> 'c \<times> 'k) option" where
  "ms_libconfig_export L K mf root c k =
     (let (ret, stall, k1) = usbg_f_ms_get_stall K mf False k in
      if ret \<noteq> 0 then Some (ret, mf, c, k1)
      else let (ret, c1) = usbg_set_config_node_bool L root (Some ''stall'') stall c in
      if ret \<noteq> 0 then Some (ret, mf, c1, k1)
      else case lc_add L root (Some ''luns'') CONFIG_TYPE_LIST c1 of
        (None, c2) \<Rightarrow> Some (0, mf, c2, k1)
      | (Some luns_node, c2) \<Rightarrow> do {
          (mf1, k2) \<leftarrow> get_lun_mask K mf k1;
          (ret, c3, k3) \<leftarrow> ms_export_loop L K mf1 luns_node [0..<MAX_LUNS] c2 k2;
          Some (ret, mf1, c3, k3)
        })"

section \<open>UVC: frames\<close>

text \<open>The element \<open>frames[j]\<close> of format \<open>i\<close>; outside of the arrays it is undefined.\<close>

definition frame_at :: "usbg_f_uvc \<Rightarrow> nat \<Rightarrow> nat \<Rightarrow> bool option" where
  "frame_at uvcf i j =
     (if i < length (uvcf_formats uvcf) \<and> j < length (fst (uvcf_formats uvcf ! i))
      then Some (fst (uvcf_formats uvcf ! i) ! j) else None)"

definition mark_frame :: "nat \<Rightarrow> nat \<Rightarrow> usbg_f_uvc \<Rightarrow> usbg_f_uvc" where
  "mark_frame i j uvcf =
     uvcf\<lparr>uvcf_formats := (uvcf_formats uvcf)[i := ((fst (uvcf_formats uvcf ! i))[j := True],
            snd (uvcf_formats uvcf ! i))]\<rparr>"

definition usbg_f_uvc_get_nframes :: "bool list \<Rightarrow> nat" where
  "usbg_f_uvc_get_nframes frames = length (filter id frames)"

text \<open>
  The code translates \<open>errno\<close> again when the directory cannot be made; it still is the one
  that \<open>uvc_create_dir\<close> translated.
\<close>

definition usbg_f_uvc_create_frame ::
  "'k kernel \<Rightarrow> usbg_f_uvc \<Rightarrow> string \<Rightarrow> nat \<Rightarrow> nat \<Rightarrow> uvc_frame_attrs option \<Rightarrow> 'k
     \<Rightarrow> (int \<times> usbg_f_uvc \<times> 'k) option" where
  "usbg_f_uvc_create_frame K uvcf format i frame_id fattrs k =
     (if frame_id \<ge> MAX_FRAMES then Some (err USBG_ERROR_INVALID_PARAM, uvcf, k)
      else do {
        present \<leftarrow> frame_at uvcf i frame_id;
        let frame_path = frame_path uvcf format (int frame_id);
        if present then Some (err USBG_ERROR_EXIST, uvcf, k)
        else if \<not> fits frame_path then Some (err USBG_ERROR_PATH_TOO_LONG, uvcf, k)
        else do {
          (ret, k1) \<leftarrow> uvc_create_dir K frame_path k;
          if ret \<noteq> 0 then Some (ret, uvcf, k1)
          else do {
            (ret, k2) \<leftarrow> (case fattrs of None \<Rightarrow> Some (0, k1)
               | Some a \<Rightarrow> usbg_f_uvc_set_frame_attrs K uvcf format (int frame_id) a k1);
            if ret \<noteq> 0 then Some (ret, uvcf, snd (k_rmdir K frame_path k2))
            else Some (0, mark_frame i frame_id uvcf, k2)
          }
        }
      })"

section \<open>UVC: import\<close>

definition uvc_config_nodes :: "('s, 'c, 'k) node_entry list" where
  "uvc_config_nodes = [int_node, int_node, int_node, string_node]"

definition uvc_frame_nodes :: "('s, 'c, 'k) node_entry list" where
  "uvc_frame_nodes = replicate 9 int_node"

definition uvc_format_nodes :: "('s, 'c, 'k) node_entry list" where
  "uvc_format_nodes =
     [int_node_ro, int_node_ro, int_node_ro, int_node_ro, int_node, int_node_ro, int_node, guid_node]"

definition uvc_import_frame_attrs ::
  "('s, 'c) libconfig \<Rightarrow> 'k kernel \<Rightarrow> usbg_f_uvc \<Rightarrow> string \<Rightarrow> int \<Rightarrow> 'c \<Rightarrow> 's \<Rightarrow> 'k \<Rightarrow> (int \<times> 'k) option" where
  "uvc_import_frame_attrs L K uvcf format fid c root k =
     import_attrs L K c root (usbg_f_uvc_set_frame_attr_val K uvcf format fid) 0
       (zip uvc_frame_attr uvc_frame_nodes) k"

definition uvc_import_format_attrs ::
  "('s, 'c) libconfig \<Rightarrow> 'k kernel \<Rightarrow> usbg_f_uvc \<Rightarrow> string \<Rightarrow> 'c \<Rightarrow> 's \<Rightarrow> 'k \<Rightarrow> (int \<times> 'k) option" where
  "uvc_import_format_attrs L K uvcf format c root k =
     import_attrs L K c root (usbg_f_uvc_set_format_attr_val K uvcf format) 0
       (zip uvc_format_attr uvc_format_nodes) k"

fun uvc_import_frames_loop ::
  "('s, 'c) libconfig \<Rightarrow> 'k kernel \<Rightarrow> string \<Rightarrow> nat \<Rightarrow> 'c \<Rightarrow> 's \<Rightarrow> nat list \<Rightarrow> usbg_f_uvc \<Rightarrow> 'k
     \<Rightarrow> (int \<times> usbg_f_uvc \<times> 'k) option" where
  "uvc_import_frames_loop L K format fi c frames_node [] uvcf k = Some (0, uvcf, k)"
| "uvc_import_frames_loop L K format fi c frames_node (j # js) uvcf k =
     (case lc_get_elem L c frames_node j of
        None \<Rightarrow> Some (err USBG_ERROR_INVALID_FORMAT, uvcf, k)
      | Some node \<Rightarrow>
          if \<not> config_is_group L c node then Some (err USBG_ERROR_INVALID_TYPE, uvcf, k)
          else do {
            present \<leftarrow> frame_at uvcf fi j;
            (ret, uvcf1, k1) \<leftarrow> (if present then Some (0, uvcf, k)
                                else usbg_f_uvc_create_frame K uvcf format fi j None k);
            if ret \<noteq> 0 then Some (ret, uvcf1, k1)
            else do {
              (ret, k2) \<leftarrow> uvc_import_frame_attrs L K uvcf1 format (int j) c node k1;
              if ret \<noteq> 0 then Some (ret, uvcf1, k2)
              else uvc_import_frames_loop L K format fi c frames_node js uvcf1 k2
            }
          })"

definition uvc_import_format ::
  "('s, 'c) libconfig \<Rightarrow> 'k kernel \<Rightarrow> usbg_f_uvc \<Rightarrow> string \<Rightarrow> nat \<Rightarrow> 'c \<Rightarrow> 's \<Rightarrow> 'k
     \<Rightarrow> (int \<times> usbg_f_uvc \<times> 'k) option" where
  "uvc_import_format L K uvcf format fi c root k =
     (case lc_get_member L c root ''frames'' of
        None \<Rightarrow> Some (err USBG_ERROR_INVALID_PARAM, uvcf, k)
      | Some frames_node \<Rightarrow>
          if \<not> config_is_list L c frames_node then Some (err USBG_ERROR_INVALID_TYPE, uvcf, k)
          else uvc_import_frames_loop L K format fi c frames_node [0..<lc_length L c frames_node] uvcf k)"

definition uvc_import_config ::
  "('s, 'c) libconfig \<Rightarrow> 'k kernel \<Rightarrow> usbg_f_uvc \<Rightarrow> 'c \<Rightarrow> 's \<Rightarrow> 'k \<Rightarrow> (int \<times> 'k) option" where
  "uvc_import_config L K uvcf c root k =
     (case lc_get_member L c root ''config'' of
        None \<Rightarrow> Some (err USBG_ERROR_INVALID_PARAM, k)
      | Some config_node \<Rightarrow>
          if \<not> config_is_group L c config_node then Some (err USBG_ERROR_INVALID_TYPE, k)
          else import_attrs L K c config_node (usbg_f_uvc_set_config_attr_val K uvcf) 0
                 (zip uvc_config_attr uvc_config_nodes) k)"

text \<open>
  The formats are taken in the order of the configuration, and the masks of frames in the
  order of \<open>format_names\<close>; a setting without a name would be a NULL string.
\<close>

fun uvc_import_formats_loop ::
  "('s, 'c) libconfig \<Rightarrow> 'k kernel \<Rightarrow> 'c \<Rightarrow> 's \<Rightarrow> nat list \<Rightarrow> usbg_f_uvc \<Rightarrow> 'k
     \<Rightarrow> (int \<times> usbg_f_uvc \<times> 'k) option" where
  "uvc_import_formats_loop L K c formats_node [] uvcf k = Some (0, uvcf, k)"
| "uvc_import_formats_loop L K c formats_node (i # is) uvcf k =
     (case lc_get_elem L c formats_node i of
        None \<Rightarrow> Some (err USBG_ERROR_INVALID_FORMAT, uvcf, k)
      | Some node \<Rightarrow>
          if \<not> config_is_group L c node then Some (err USBG_ERROR_INVALID_TYPE, uvcf, k)
          else do {
            format \<leftarrow> lc_name L c node;
            let fp = format @ ''/'' @ take 1 format;
            if \<not> fits fp then Some (err USBG_ERROR_PATH_TOO_LONG, uvcf, k)
            else do {
              (ret, uvcf1, k1) \<leftarrow> uvc_import_format L K uvcf fp i c node k;
              if ret \<noteq> 0 then Some (ret, uvcf1, k1)
              else do {
                (ret, k2) \<leftarrow> uvc_import_format_attrs L K uvcf1 fp c node k1;
                if ret \<noteq> 0 then Some (ret, uvcf1, k2)
                else uvc_import_formats_loop L K c formats_node is uvcf1 k2
              }
            }
          })"

definition uvc_libconfig_import ::
  "('s, 'c) libconfig \<Rightarrow> 'k kernel \<Rightarrow> usbg_f_uvc \<Rightarrow> 'c \<Rightarrow> 's \<Rightarrow> 'k \<Rightarrow> (int \<times> usbg_f_uvc \<times> 'k) option" where
  "uvc_libconfig_import L K uvcf c root k =
     (case lc_get_member L c root ''formats'' of
        None \<Rightarrow> Some (err USBG_ERROR_INVALID_PARAM, uvcf, k)
      | Some formats_node \<Rightarrow>
          if \<not> config_is_group L c formats_node then Some (err USBG_ERROR_INVALID_TYPE, uvcf, k)
          else do {
            (uvcf1, k1) \<leftarrow> get_formats_mask K uvcf k;
            (ret, uvcf2, k2) \<leftarrow> uvc_import_formats_loop L K c formats_node
                                 [0..<lc_length L c formats_node] uvcf1 k1;
            if ret \<noteq> 0 then Some (ret, uvcf2, k2)
            else do {
              (ret, k3) \<leftarrow> uvc_import_config L K uvcf2 c root k2;
              if ret \<noteq> err USBG_SUCCESS then Some (ret, uvcf2, k3)
              else do {
                (ret, k4) \<leftarrow> uvc_set_class K uvcf2 ''control'' k3;
                if ret \<noteq> err USBG_SUCCESS then Some (ret, uvcf2, k4)
                else do {
                  (ret, k5) \<leftarrow> uvc_set_class K uvcf2 ''streaming'' k4;
                  Some (ret, uvcf2, k5)
                }
              }
            }
          })"

section \<open>UVC: export\<close>

definition uvc_export_config ::
  "('s, 'c) libconfig \<Rightarrow> 'k kernel \<Rightarrow> usbg_f_uvc \<Rightarrow> 's \<Rightarrow> 'c \<Rightarrow> 'k \<Rightarrow> (int \<times> 'c \<times> 'k) option" where
  "uvc_export_config L K uvcf root c k =
     (case lc_add L root (Some ''config'') CONFIG_TYPE_GROUP c of
        (None, c1) \<Rightarrow> Some (0, c1, k)
      | (Some config_node, c1) \<Rightarrow>
          export_attrs L False config_node (usbg_f_uvc_get_config_attr_val K uvcf) 0
            (zip uvc_config_attr uvc_config_nodes) c1 k)"

text \<open>A file that is not there is no error.\<close>

definition forgive_not_found :: "int \<times> 'c \<times> 'k \<Rightarrow> int \<times> 'c \<times> 'k" where
  "forgive_not_found r = (if fst r = err USBG_ERROR_NOT_FOUND then 0 else fst r, snd r)"

definition uvc_export_format_attrs ::
  "('s, 'c) libconfig \<Rightarrow> 'k kernel \<Rightarrow> usbg_f_uvc \<Rightarrow> string \<Rightarrow> 's \<Rightarrow> 'c \<Rightarrow> 'k \<Rightarrow> (int \<times> 'c \<times> 'k) option" where
  "uvc_export_format_attrs L K uvcf format root c k =
     map_option forgive_not_found
       (export_attrs L False root (usbg_f_uvc_get_format_attr_val K uvcf format) 0
          (zip uvc_format_attr uvc_format_nodes) c k)"

definition uvc_export_frame_attrs ::
  "('s, 'c) libconfig \<Rightarrow> 'k kernel \<Rightarrow> usbg_f_uvc \<Rightarrow> string \<Rightarrow> int \<Rightarrow> 's \<Rightarrow> 'c \<Rightarrow> 'k
     \<Rightarrow> (int \<times> 'c \<times> 'k) option" where
  "uvc_export_frame_attrs L K uvcf format fid root c k =
     map_option forgive_not_found
       (export_attrs L False root (usbg_f_uvc_get_frame_attr_val K uvcf format fid) 0
          (zip uvc_frame_attr uvc_frame_nodes) c k)"

text \<open>The frames that are counted are taken to be the first ones.\<close>

fun uvc_export_frames_loop ::
  "('s, 'c) libconfig \<Rightarrow> 'k kernel \<Rightarrow> usbg_f_uvc \<Rightarrow> string \<Rightarrow> 's \<Rightarrow> nat list \<Rightarrow> 'c \<Rightarrow> 'k
     \<Rightarrow> (int \<times> 'c \<times> 'k) option" where
  "uvc_export_frames_loop L K uvcf format frames_node [] c k = Some (0, c, k)"
| "uvc_export_frames_loop L K uvcf format frames_node (i # is) c k =
     (case lc_add L frames_node (Some '''') CONFIG_TYPE_GROUP c of
        (None, c1) \<Rightarrow> Some (0, c1, k)
      | (Some node, c1) \<Rightarrow> do {
          (ret, c2, k1) \<leftarrow> uvc_export_frame_attrs L K uvcf format (int i) node c1 k;
          if ret \<noteq> 0 then Some (ret, c2, k1)
          else uvc_export_frames_loop L K uvcf format frames_node is c2 k1
        })"

definition uvc_export_frames ::
  "('s, 'c) libconfig \<Rightarrow> 'k kernel \<Rightarrow> usbg_f_uvc \<Rightarrow> string \<Rightarrow> bool list \<Rightarrow> 's \<Rightarrow> 'c \<Rightarrow> 'k
     \<Rightarrow> (int \<times> 'c \<times> 'k) option" where
  "uvc_export_frames L K uvcf format frames root c k =
     (case lc_add L root (Some ''frames'') CONFIG_TYPE_LIST c of
        (None, c1) \<Rightarrow> Some (err USBG_ERROR_INVALID_FORMAT, c1, k)
      | (Some frames_node, c1) \<Rightarrow>
          uvc_export_frames_loop L K uvcf format frames_node [0..<usbg_f_uvc_get_nframes frames] c1 k)"

text \<open>The name of a format's group is the format without \<open>/m\<close> or \<open>/u\<close>.\<close>

fun uvc_export_formats_loop ::
  "('s, 'c) libconfig \<Rightarrow> 'k kernel \<Rightarrow> usbg_f_uvc \<Rightarrow> 's \<Rightarrow> 's \<Rightarrow> nat list \<Rightarrow> 'c \<Rightarrow> 'k
     \<Rightarrow> (int \<times> 'c \<times> 'k) option" where
  "uvc_export_formats_loop L K uvcf root formats_node [] c k = uvc_export_config L K uvcf root c k"
| "uvc_export_formats_loop L K uvcf root formats_node (i # is) c k =
     (let format = format_names ! i; fp = take (length format - 2) format
      in case lc_add L formats_node (Some fp) CONFIG_TYPE_GROUP c of
        (None, c1) \<Rightarrow> Some (0, c1, k)
      | (Some node, c1) \<Rightarrow>
          if i \<ge> length (uvcf_formats uvcf) then None
          else do {
            (ret, c2, k1) \<leftarrow> uvc_export_frames L K uvcf format (fst (uvcf_formats uvcf ! i)) node c1 k;
            if ret \<noteq> 0 then Some (ret, c2, k1)
            else do {
              (ret, c3, k2) \<leftarrow> uvc_export_format_attrs L K uvcf format node c2 k1;
              if ret \<noteq> 0 then Some (ret, c3, k2)
              else uvc_export_formats_loop L K uvcf root formats_node is c3 k2
            }
          })"

definition uvc_libconfig_export ::
  "('s, 'c) libconfig \<Rightarrow> 'k kernel \<Rightarrow> usbg_f_uvc \<Rightarrow> 's \<Rightarrow> 'c \<Rightarrow> 'k
     \<Rightarrow> (int \<times> usbg_f_uvc \<times> 'c \<times> 'k) option" where
  "uvc_libconfig_export L K uvcf root c k =
     (case lc_add L root (Some ''formats'') CONFIG_TYPE_GROUP c of
        (None, c1) \<Rightarrow> Some (err USBG_ERROR_INVALID_PARAM, uvcf, c1, k)
      | (Some formats_node, c1) \<Rightarrow> do {
          (uvcf1, k1) \<leftarrow> get_formats_mask K uvcf k;
          (ret, c2, k2) \<leftarrow> uvc_export_formats_loop L K uvcf1 root formats_node [0..<MAX_FORMATS] c1 k1;
          Some (ret, uvcf1, c2, k2)
        })"

section \<open>The operations of a type\<close>

text \<open>The function object with the masks of its formats.\<close>

definition uvc_update :: "usbg_f_uvc \<Rightarrow> usbg_function \<Rightarrow> usbg_function" where
  "uvc_update uvcf f = f\<lparr>f_ext := Uvc_ext (uvcf_formats uvcf) (uvcf_formats_initiated uvcf)\<rparr>"

text \<open>The types without attributes to store import and export nothing.\<close>

definition serial_libconfig_import :: int where "serial_libconfig_import = err USBG_SUCCESS"
definition serial_libconfig_export :: int where "serial_libconfig_export = err USBG_SUCCESS"
definition ffs_libconfig_import :: int where "ffs_libconfig_import = err USBG_SUCCESS"
definition ffs_libconfig_export :: int where "ffs_libconfig_export = err USBG_SUCCESS"
definition p9fs_libconfig_import :: int where "p9fs_libconfig_import = err USBG_SUCCESS"
definition p9fs_libconfig_export :: int where "p9fs_libconfig_export = err USBG_SUCCESS"
definition phonet_libconfig_import :: int where "phonet_libconfig_import = err USBG_SUCCESS"
definition phonet_libconfig_export :: int where "phonet_libconfig_export = err USBG_SUCCESS"

text \<open>The printer type has neither operation.\<close>

definition function_import ::
  "('s, 'c) libconfig \<Rightarrow> 'k kernel \<Rightarrow> usbg_function \<Rightarrow> 'c \<Rightarrow> 's \<Rightarrow> 'k
     \<Rightarrow> (int \<times> usbg_function \<times> 'k) option" where
  "function_import L K fn c root k =
     (case f_type fn of
        USBG_F_ECM \<Rightarrow> keep_fn fn (ether_libconfig_import L K fn c root k)
      | USBG_F_SUBSET \<Rightarrow> keep_fn fn (ether_libconfig_import L K fn c root k)
      | USBG_F_NCM \<Rightarrow> keep_fn fn (ether_libconfig_import L K fn c root k)
      | USBG_F_EEM \<Rightarrow> keep_fn fn (ether_libconfig_import L K fn c root k)
      | USBG_F_RNDIS \<Rightarrow> keep_fn fn (ether_libconfig_import L K fn c root k)
      | USBG_F_MIDI \<Rightarrow> keep_fn fn (midi_libconfig_import L K fn c root k)
      | USBG_F_LOOPBACK \<Rightarrow> keep_fn fn (loopback_libconfig_import L K fn c root k)
      | USBG_F_HID \<Rightarrow> keep_fn fn (hid_libconfig_import L K fn c root k)
      | USBG_F_UAC2 \<Rightarrow> keep_fn fn (uac2_libconfig_import L K fn c root k)
      | USBG_F_MASS_STORAGE \<Rightarrow> do {
          mf \<leftarrow> usbg_to_ms_function fn;
          (ret, mf', k') \<leftarrow> ms_libconfig_import L K mf c root k;
          Some (ret, ms_update mf' fn, k')
        }
      | USBG_F_UVC \<Rightarrow> do {
          uvcf \<leftarrow> usbg_to_uvc_function fn;
          (ret, uvcf', k') \<leftarrow> uvc_libconfig_import L K uvcf c root k;
          Some (ret, uvc_update uvcf' fn, k')
        }
      | USBG_F_PRINTER \<Rightarrow> Some (err USBG_ERROR_NOT_SUPPORTED, fn, k)
      | USBG_F_SERIAL \<Rightarrow> Some (serial_libconfig_import, fn, k)
      | USBG_F_ACM \<Rightarrow> Some (serial_libconfig_import, fn, k)
      | USBG_F_OBEX \<Rightarrow> Some (serial_libconfig_import, fn, k)
      | USBG_F_PHONET \<Rightarrow> Some (phonet_libconfig_import, fn, k)
      | USBG_F_FFS \<Rightarrow> Some (ffs_libconfig_import, fn, k)
      | USBG_F_9PFS \<Rightarrow> Some (p9fs_libconfig_import, fn, k))"

definition function_export ::
  "('s, 'c) libconfig \<Rightarrow> 'k kernel \<Rightarrow> usbg_function \<Rightarrow> 's \<Rightarrow> 'c \<Rightarrow> 'k
     \<Rightarrow> (int \<times> usbg_function \<times> 'c \<times> 'k) option" where
  "function_export L K fn root c k =
     (let keep = map_option (\<lambda>(ret, c', k'). (ret, fn, c', k'))
      in case f_type fn of
        USBG_F_ECM \<Rightarrow> keep (ether_libconfig_export L K fn root c k)
      | USBG_F_SUBSET \<Rightarrow> keep (ether_libconfig_export L K fn root c k)
      | USBG_F_NCM \<Rightarrow> keep (ether_libconfig_export L K fn root c k)
      | USBG_F_EEM \<Rightarrow> keep (ether_libconfig_export L K fn root c k)
      | USBG_F_RNDIS \<Rightarrow> keep (ether_libconfig_export L K fn root c k)
      | USBG_F_MIDI \<Rightarrow> keep (midi_libconfig_export L K fn root c k)
      | USBG_F_LOOPBACK \<Rightarrow> keep (loopback_libconfig_export L K fn root c k)
      | USBG_F_HID \<Rightarrow> keep (hid_libconfig_export L K fn root c k)
      | USBG_F_UAC2 \<Rightarrow> keep (uac2_libconfig_export L K fn root c k)
      | USBG_F_MASS_STORAGE \<Rightarrow> do {
          mf \<leftarrow> usbg_to_ms_function fn;
          (ret, mf', c', k') \<leftarrow> ms_libconfig_export L K mf root c k;
          Some (ret, ms_update mf' fn, c', k')
        }
      | USBG_F_UVC \<Rightarrow> do {
          uvcf \<leftarrow> usbg_to_uvc_function fn;
          (ret, uvcf', c', k') \<leftarrow> uvc_libconfig_export L K uvcf root c k;
          Some (ret, uvc_update uvcf' fn, c', k')
        }
      | USBG_F_PRINTER \<Rightarrow> Some (err USBG_ERROR_NOT_SUPPORTED, fn, c, k)
      | USBG_F_SERIAL \<Rightarrow> Some (serial_libconfig_export, fn, c, k)
      | USBG_F_ACM \<Rightarrow> Some (serial_libconfig_export, fn, c, k)
      | USBG_F_OBEX \<Rightarrow> Some (serial_libconfig_export, fn, c, k)
      | USBG_F_PHONET \<Rightarrow> Some (phonet_libconfig_export, fn, c, k)
      | USBG_F_FFS \<Rightarrow> Some (ffs_libconfig_export, fn, c, k)
      | USBG_F_9PFS \<Rightarrow> Some (p9fs_libconfig_export, fn, c, k))"

end
