(* ===== verification/Usbg_Config_Store.thy ===== *)
theory Usbg_Config_Store
  imports Usbg_Scheme_Types
begin

text \<open>
  What libconfig documents of its settings: the interface \<open>config_store\<close>, stated over an
  abstraction \<open>look\<close> from a configuration and a handle to the setting there. Reading and
  writing one node is shown once against the interface; a tree of settings that computes is
  an instance of it.
\<close>

section \<open>Settings\<close>

datatype 's setting =
    Set_int cint
  | Set_bool bool
  | Set_string "string option"
  | Set_group "(string \<times> 's) list"
  | Set_list "'s list"

fun setting_type :: "'s setting \<Rightarrow> config_type" where
  "setting_type (Set_int i) = CONFIG_TYPE_INT"
| "setting_type (Set_bool b) = CONFIG_TYPE_BOOL"
| "setting_type (Set_string s) = CONFIG_TYPE_STRING"
| "setting_type (Set_group ms) = CONFIG_TYPE_GROUP"
| "setting_type (Set_list ss) = CONFIG_TYPE_LIST"

text \<open>A setting as \<open>config_setting_add\<close> makes it, for the types that are used here.\<close>

fun fresh_setting :: "config_type \<Rightarrow> 's setting option" where
  "fresh_setting CONFIG_TYPE_INT = Some (Set_int 0)"
| "fresh_setting CONFIG_TYPE_BOOL = Some (Set_bool False)"
| "fresh_setting CONFIG_TYPE_STRING = Some (Set_string None)"
| "fresh_setting CONFIG_TYPE_GROUP = Some (Set_group [])"
| "fresh_setting CONFIG_TYPE_LIST = Some (Set_list [])"
| "fresh_setting _ = None"

text \<open>A setting without others below it; renaming handles does not change it.\<close>

fun scalar :: "'s setting \<Rightarrow> bool" where
  "scalar (Set_group ms) = False"
| "scalar (Set_list ss) = False"
| "scalar _ = True"

lemma scalar_not_group: "scalar x \<Longrightarrow> setting_type x \<noteq> CONFIG_TYPE_GROUP"
  by (cases x) simp_all

lemma map_scalar [simp]: "scalar x \<Longrightarrow> map_setting h x = x"
  by (cases x) simp_all

lemma config_ret_0 [simp]: "config_ret r = (0, c) \<longleftrightarrow> r = (True, c)"
  by (cases r) (simp add: config_ret_def)

section \<open>The interface\<close>

locale config_store =
  fixes L :: "('s, 'c) libconfig"
    and look :: "'c \<Rightarrow> 's \<Rightarrow> 's setting option"
  assumes look_root: "look (lc_init L) (lc_root L) = Some (Set_group [])"
    and add_member:
      "look c r = Some (Set_group ms) \<Longrightarrow> lc_add L r (Some n) t c = (Some s, c') \<Longrightarrow>
       fresh_setting t = Some x \<Longrightarrow>
       look c s = None \<and> n \<notin> fst ` set ms \<and>
       look c' = (look c)(r \<mapsto> Set_group (ms @ [(n, s)]), s \<mapsto> x)"
    and add_elem:
      "look c r = Some (Set_list ss) \<Longrightarrow> lc_add L r nm t c = (Some s, c') \<Longrightarrow>
       fresh_setting t = Some x \<Longrightarrow>
       look c s = None \<and> look c' = (look c)(r \<mapsto> Set_list (ss @ [s]), s \<mapsto> x)"
    and set_hex: "lc_set_hex L s c = (ok, c') \<Longrightarrow> look c' = look c"
    and set_int:
      "look c s = Some (Set_int i) \<Longrightarrow> lc_set_int L s v c = (True, c') \<Longrightarrow> look c' = (look c)(s \<mapsto> Set_int v)"
    and set_bool:
      "look c s = Some (Set_bool b) \<Longrightarrow> lc_set_bool L s w c = (True, c') \<Longrightarrow> look c' = (look c)(s \<mapsto> Set_bool w)"
    and set_string:
      "look c s = Some (Set_string str) \<Longrightarrow> lc_set_string L s u c = (True, c') \<Longrightarrow>
       look c' = (look c)(s \<mapsto> Set_string u)"
    and get_type: "look c s = Some x \<Longrightarrow> lc_type L c s = setting_type x"
    and get_member: "look c r = Some (Set_group ms) \<Longrightarrow> lc_get_member L c r n = map_of ms n"
    and get_elem:
      "look c r = Some (Set_list ss) \<Longrightarrow> lc_get_elem L c r j = (if j < length ss then Some (ss ! j) else None)"
    and get_length: "look c r = Some (Set_list ss) \<Longrightarrow> lc_length L c r = length ss"
    and get_int: "look c s = Some (Set_int i) \<Longrightarrow> lc_get_int L c s = i"
    and get_bool: "look c s = Some (Set_bool b) \<Longrightarrow> lc_get_bool L c s = b"
    and get_string: "look c s = Some (Set_string str) \<Longrightarrow> lc_get_string L c s = str"
begin

section \<open>Members of a group\<close>

definition is_group :: "'c \<Rightarrow> 's \<Rightarrow> bool" where
  "is_group c r \<longleftrightarrow> (\<exists>ms. look c r = Some (Set_group ms))"

text \<open>A group has a member of a name that is another setting with a given value.\<close>

definition holds :: "'c \<Rightarrow> 's \<Rightarrow> string \<Rightarrow> 's setting \<Rightarrow> bool" where
  "holds c r n x \<longleftrightarrow>
     (\<exists>ms s. look c r = Some (Set_group ms) \<and> map_of ms n = Some s \<and> s \<noteq> r \<and> look c s = Some x)"

text \<open>
  A configuration in which a group has additional members at its end; every other setting is
  as before. Members that are no groups themselves are kept everywhere.
\<close>

definition grows :: "'c \<Rightarrow> 'c \<Rightarrow> 's \<Rightarrow> bool" where
  "grows c c' r \<longleftrightarrow>
     (\<exists>ms ms'. look c r = Some (Set_group ms) \<and> look c' r = Some (Set_group (ms @ ms'))) \<and>
     (\<forall>q x. q \<noteq> r \<longrightarrow> look c q = Some x \<longrightarrow> look c' q = Some x)"

lemma grows_refl: "is_group c r \<Longrightarrow> grows c c r"
  by (auto simp: grows_def is_group_def)

lemma grows_trans: "grows c c1 r \<Longrightarrow> grows c1 c2 r \<Longrightarrow> grows c c2 r"
  unfolding grows_def by fastforce

lemma grows_group: "grows c c' r \<Longrightarrow> is_group c' r"
  by (auto simp: grows_def is_group_def)

lemma grows_other: "grows c c' r \<Longrightarrow> q \<noteq> r \<Longrightarrow> look c q = Some x \<Longrightarrow> look c' q = Some x"
  by (auto simp: grows_def)

lemma grows_member:
  assumes "grows c c' r" "look c q = Some (Set_group ms)" "map_of ms n = Some s"
  obtains ms' where "look c' q = Some (Set_group ms')" "map_of ms' n = Some s"
  using assms by (cases "q = r") (fastforce simp: grows_def map_add_def)+

lemma grows_holds:
  assumes "grows c c' r0" "holds c r n x" "r = r0 \<or> setting_type x \<noteq> CONFIG_TYPE_GROUP"
  shows "holds c' r n x"
proof -
  from assms(2) obtain ms s where ms: "look c r = Some (Set_group ms)" "map_of ms n = Some s" "s \<noteq> r"
    "look c s = Some x" by (auto simp: holds_def)
  from grows_member [OF assms(1) ms(1,2)] obtain ms' where
    "look c' r = Some (Set_group ms')" "map_of ms' n = Some s" .
  moreover have "s \<noteq> r0" using assms(1,3) ms(3,4) by (auto simp: grows_def)
  with grows_other [OF assms(1) _ ms(4)] have "look c' s = Some x" by blast
  ultimately show ?thesis using ms(3) by (auto simp: holds_def)
qed

definition adds :: "'c \<Rightarrow> 'c \<Rightarrow> 's \<Rightarrow> string \<Rightarrow> 's setting \<Rightarrow> bool" where
  "adds c c' r n x \<longleftrightarrow> grows c c' r \<and> holds c' r n x"

lemma new_member_grows:
  assumes "look c r = Some (Set_group ms)" "look c s = None"
    and "look c' = (look c)(r \<mapsto> Set_group (ms @ [(n, s)]), s \<mapsto> x)"
  shows "grows c c' r"
proof -
  have "s \<noteq> r" using assms(1,2) by auto
  with assms show ?thesis by (auto simp: grows_def)
qed

lemma add_scalar:
  assumes "look c r = Some (Set_group ms)" "look c s = None" "n \<notin> fst ` set ms"
    and "look c' = (look c)(r \<mapsto> Set_group (ms @ [(n, s)]), s \<mapsto> x)"
  shows "adds c c' r n x"
proof -
  have sr: "s \<noteq> r" using assms(1,2) by auto
  have new: "map_of ms n = None" using assms(3) by (simp add: map_of_eq_None_iff)
  have "holds c' r n x"
    unfolding holds_def using assms(4) sr new by (auto simp: map_add_def)
  with new_member_grows [OF assms(1,2,4)] show ?thesis by (simp add: adds_def)
qed

text \<open>A node that is added and given a value.\<close>

lemma new_node_adds:
  assumes "with_new_node L r (Some n) t cont c = (0, c')" "is_group c r" "fresh_setting t = Some x0"
    and "\<And>s c1. look c1 s = Some x0 \<Longrightarrow> cont s c1 = (0, c') \<Longrightarrow> look c' = (look c1)(s \<mapsto> x)"
  shows "adds c c' r n x"
proof -
  from assms(2) obtain ms where ms: "look c r = Some (Set_group ms)" by (auto simp: is_group_def)
  from assms(1) obtain s c1 where s: "lc_add L r (Some n) t c = (Some s, c1)" "cont s c1 = (0, c')"
    by (auto simp: with_new_node_def split: prod.splits option.splits)
  from add_member [OF ms s(1) assms(3)] have a: "look c s = None" "n \<notin> fst ` set ms"
    "look c1 = (look c)(r \<mapsto> Set_group (ms @ [(n, s)]), s \<mapsto> x0)" by auto
  have "look c' = (look c1)(s \<mapsto> x)" by (rule assms(4)) (use a s in auto)
  with a have "look c' = (look c)(r \<mapsto> Set_group (ms @ [(n, s)]), s \<mapsto> x)" by simp
  from add_scalar [OF ms a(1,2) this] show ?thesis .
qed

lemma int_node_adds:
  assumes "usbg_set_config_node_int L r (Some n) v c = (0, c')" "is_group c r"
  shows "adds c c' r n (Set_int v)"
  by (rule new_node_adds [OF assms(1) [unfolded usbg_set_config_node_int_def] assms(2)])
     (auto dest: set_int)

lemma hex_node_adds:
  assumes "usbg_set_config_node_int_hex L r (Some n) v c = (0, c')" "is_group c r"
  shows "adds c c' r n (Set_int v)"
proof (rule new_node_adds [OF assms(1) [unfolded usbg_set_config_node_int_hex_def] assms(2)])
  fix s c1
  assume l: "look c1 s = Some (Set_int 0)"
    and "(let (ok, c1) = lc_set_hex L s c1 in if \<not> ok then (err USBG_ERROR_OTHER_ERROR, c1)
          else config_ret (lc_set_int L s v c1)) = (0, c')"
  then obtain c2 where "lc_set_hex L s c1 = (True, c2)" "lc_set_int L s v c2 = (True, c')"
    by (auto split: prod.splits if_splits)
  with l set_hex [of s c1 True c2] set_int [of c2 s 0 v c']
  show "look c' = (look c1)(s \<mapsto> Set_int v)" by simp
qed simp

lemma bool_node_adds:
  assumes "usbg_set_config_node_bool L r (Some n) v c = (0, c')" "is_group c r"
  shows "adds c c' r n (Set_bool v)"
  by (rule new_node_adds [OF assms(1) [unfolded usbg_set_config_node_bool_def] assms(2)])
     (auto dest: set_bool)

lemma string_node_adds:
  assumes "usbg_set_config_node_string L r (Some n) v c = (0, c')" "is_group c r"
  shows "adds c c' r n (Set_string v)"
  by (rule new_node_adds [OF assms(1) [unfolded usbg_set_config_node_string_def] assms(2)])
     (auto dest: set_string)

text \<open>What the readers find.\<close>

lemma read_int_node: "holds c r n (Set_int v) \<Longrightarrow> usbg_get_config_node_int L c r n = (1, Some v)"
  by (auto simp: holds_def usbg_get_config_node_int_def usbg_config_is_int_def get_member get_type get_int)

lemma read_string_node:
  "holds c r n (Set_string v) \<Longrightarrow> usbg_get_config_node_string L c r n = (1, Some v)"
  by (auto simp: holds_def usbg_get_config_node_string_def usbg_config_is_string_def get_member
      get_type get_string)

lemma read_ether_node:
  assumes "holds c r n (Set_string (Some (usbg_ether_ntoa_r a)))" "length a = 6"
  shows "usbg_get_config_node_ether_addr L c r n = Some (1, Some a)"
  using read_string_node [OF assms(1)] ether_aton_ntoa [OF assms(2)]
  by (simp add: usbg_get_config_node_ether_addr_def usbg_ether_ntoa_r_def)

text \<open>A Boolean is found, too, and the code says that it was not.\<close>

lemma read_bool_node: "holds c r n (Set_bool v) \<Longrightarrow> usbg_get_config_node_bool L c r n = (0, Some v)"
  by (auto simp: holds_def usbg_get_config_node_bool_def get_member get_type get_bool)

section \<open>Entries of a table\<close>

text \<open>Exporting a value and importing the node gives the value back.\<close>

definition node_as :: "('s, 'c, 'k) node_entry \<Rightarrow> attr_val \<Rightarrow> 's setting \<Rightarrow> bool" where
  "node_as n v x \<longleftrightarrow>
     scalar x \<and>
     (\<forall>r name c c' ex. n_export n = Some ex \<longrightarrow> is_group c r \<longrightarrow> ex L r name v c = Some (0, c') \<longrightarrow>
        adds c c' r name x) \<and>
     (\<forall>K r name c k imp. n_import n = Some imp \<longrightarrow> holds c r name x \<longrightarrow>
        imp L K c r name k = Some (1, Some v, k))"

lemma node_as_scalar: "node_as n v x \<Longrightarrow> scalar x"
  by (simp add: node_as_def)

definition node_keeps :: "('s, 'c, 'k) node_entry \<Rightarrow> attr_val \<Rightarrow> bool" where
  "node_keeps n v \<longleftrightarrow> (\<exists>x. node_as n v x)"

lemma node_keeps_intros:
  "node_keeps int_node (Int_val i)"
  "node_keeps string_node (Str_val s)"
  "length a = 6 \<Longrightarrow> node_keeps ether_node (Ether_val a)"
  unfolding node_keeps_def node_as_def
    apply (rule exI [of _ "Set_int i"])
    apply (auto simp: int_node_def dest: int_node_adds read_int_node)[1]
   apply (rule exI [of _ "Set_string s"])
   apply (auto simp: string_node_def dest: string_node_adds read_string_node)[1]
  apply (rule exI [of _ "Set_string (Some (usbg_ether_ntoa_r a))"])
  apply (auto simp: ether_node_def usbg_set_config_node_ether_addr_def dest: string_node_adds read_ether_node)[1]
  done

definition node_in :: "'c \<Rightarrow> 's \<Rightarrow> string \<Rightarrow> ('s, 'c, 'k) node_entry \<Rightarrow> attr_val \<Rightarrow> bool" where
  "node_in c r name n v \<longleftrightarrow> (\<exists>x. node_as n v x \<and> holds c r name x)"

lemma node_in_grows:
  "grows c c' r0 \<Longrightarrow> node_in c r name n v \<Longrightarrow> node_in c' r name n v"
  unfolding node_in_def using grows_holds scalar_not_group node_as_scalar by metis

lemma node_in_import:
  "node_in c r name n v \<Longrightarrow> n_import n = Some imp \<Longrightarrow> imp L K c r name k = Some (1, Some v, k)"
  unfolding node_in_def node_as_def by blast

lemma node_keeps_export:
  assumes "node_keeps n v" "n_export n = Some ex" "is_group c r" "ex L r name v c = Some (0, c')"
  shows "grows c c' r" "node_in c' r name n v"
proof -
  from assms(1) obtain x where x: "node_as n v x" by (auto simp: node_keeps_def)
  with assms(2-4) have a: "adds c c' r name x" unfolding node_as_def by blast
  with x have "node_in c' r name n v" unfolding adds_def node_in_def by blast
  with a show "grows c c' r" "node_in c' r name n v" by (simp_all add: adds_def)
qed

text \<open>
  The same configuration with other handles: what a configuration is when it was written to
  a file and read again.
\<close>

definition copy_of :: "('s \<Rightarrow> 's) \<Rightarrow> 'c \<Rightarrow> 'c \<Rightarrow> bool" where
  "copy_of h c c1 \<longleftrightarrow> (\<forall>s x. look c s = Some x \<longrightarrow> look c1 (h s) = Some (map_setting h x))"

lemma map_of_map_snd: "map_of (map (map_prod id h) ms) n = map_option h (map_of ms n)"
  by (induction ms) auto

lemma copy_member:
  assumes "copy_of h c c1" "look c r = Some (Set_group ms)" "map_of ms n = Some s"
  shows "look c1 (h r) = Some (Set_group (map (map_prod id h) ms))"
    "lc_get_member L c1 (h r) n = Some (h s)"
proof -
  show 1: "look c1 (h r) = Some (Set_group (map (map_prod id h) ms))"
    using assms(1,2) by (auto simp: copy_of_def)
  from get_member [OF 1, of n] assms(3) show "lc_get_member L c1 (h r) n = Some (h s)"
    by (simp add: map_of_map_snd)
qed

lemma copy_holds:
  assumes "copy_of h c c1" "holds c r n x" "scalar x"
  shows "holds c1 (h r) n x"
proof -
  from assms(2) obtain ms s where ms: "look c r = Some (Set_group ms)" "map_of ms n = Some s"
    "look c s = Some x" by (auto simp: holds_def)
  from assms(1,3) ms(3) have s: "look c1 (h s) = Some x" by (auto simp: copy_of_def)
  note r = copy_member [OF assms(1) ms(1,2)]
  from s r(1) assms(3) have "h s \<noteq> h r" by auto
  with s r(1) ms(2) show ?thesis by (auto simp: holds_def map_of_map_snd)
qed

lemma copy_node_in: "copy_of h c c1 \<Longrightarrow> node_in c r name n v \<Longrightarrow> node_in c1 (h r) name n v"
  unfolding node_in_def using copy_holds node_as_scalar by metis

text \<open>A member of a group, of any type, and the settings other than one.\<close>

definition member :: "'c \<Rightarrow> 's \<Rightarrow> string \<Rightarrow> 's \<Rightarrow> bool" where
  "member c r n s \<longleftrightarrow> (\<exists>ms. look c r = Some (Set_group ms) \<and> map_of ms n = Some s)"

lemma member_found: "member c r n s \<Longrightarrow> lc_get_member L c r n = Some s"
  by (auto simp: member_def get_member)

lemma grows_is_member: "grows c c' r0 \<Longrightarrow> member c r n s \<Longrightarrow> member c' r n s"
  unfolding member_def by (blast elim: grows_member)

lemma copy_is_member: "copy_of h c c1 \<Longrightarrow> member c r n s \<Longrightarrow> member c1 (h r) n (h s)"
  by (force simp: member_def map_of_map_snd dest: copy_member(1))

definition others_kept :: "'c \<Rightarrow> 'c \<Rightarrow> 's \<Rightarrow> bool" where
  "others_kept c c' s \<longleftrightarrow> (\<forall>q y. q \<noteq> s \<longrightarrow> look c q = Some y \<longrightarrow> look c' q = Some y)"

lemma others_kept_refl [simp]: "others_kept c c s"
  by (simp add: others_kept_def)

lemma grows_others_kept: "grows c c' s \<Longrightarrow> others_kept c c' s"
  by (simp add: grows_def others_kept_def)

end

end
