(* ===== verification/Usbg_Export.thy ===== *)
theory Usbg_Export
  imports Usbg_Scheme_Types Usbg_Ops
begin

text \<open>
  Export of functions, configurations and gadgets (the first half of
  \<open>src/usbg_schemes_libconfig.c\<close>). A function takes its C arguments, the configuration
  that is built and the world; it returns its code, the configuration and the world after
  it. The loops follow the queues of the objects, which an export does not change.

  A node that is added and given a value is written with the functions of
  \<open>Usbg_Libconfig\<close>, also where the code has the same two calls inline.
\<close>

section \<open>Configurations\<close>

definition USBG_MAX_NAME_LENGTH :: nat where "USBG_MAX_NAME_LENGTH = 40"

text \<open>The label and whether it fits into its buffer.\<close>

definition generate_function_label :: "usbg_function \<Rightarrow> string" where
  "generate_function_label f = function_type_name (f_type f) @ ''_'' @ f_instance f"

definition usbg_export_binding ::
  "('s, 'c) libconfig \<Rightarrow> ptr \<Rightarrow> 's \<Rightarrow> 'c \<Rightarrow> 'k world \<Rightarrow> (int \<times> 'c) option" where
  "usbg_export_binding L b root c w = do {
     bn \<leftarrow> binding_at w b;
     let (ret, c1) = usbg_set_config_node_string L root (Some ''name'') (Some (b_name bn)) c;
     if ret \<noteq> 0 then Some (ret, c1)
     else do {
       target \<leftarrow> function_at w (b_target bn);
       let label = generate_function_label target;
       if length label \<ge> USBG_MAX_NAME_LENGTH then Some (err USBG_ERROR_OTHER_ERROR, c1)
       else Some (usbg_set_config_node_string L root (Some ''function'') (Some label) c1)
     }
   }"

fun export_bindings_loop ::
  "('s, 'c) libconfig \<Rightarrow> 's \<Rightarrow> ptr list \<Rightarrow> 'c \<Rightarrow> 'k world \<Rightarrow> (int \<times> 'c) option" where
  "export_bindings_loop L root [] c w = Some (err USBG_SUCCESS, c)"
| "export_bindings_loop L root (b # bs) c w =
     (case lc_add L root None CONFIG_TYPE_GROUP c of
        (None, c1) \<Rightarrow> Some (err USBG_ERROR_NO_MEM, c1)
      | (Some node, c1) \<Rightarrow> do {
          (ret, c2) \<leftarrow> usbg_export_binding L b node c1 w;
          if ret \<noteq> err USBG_SUCCESS then Some (ret, c2) else export_bindings_loop L root bs c2 w
        })"

definition usbg_export_config_bindings ::
  "('s, 'c) libconfig \<Rightarrow> ptr \<Rightarrow> 's \<Rightarrow> 'c \<Rightarrow> 'k world \<Rightarrow> (int \<times> 'c) option" where
  "usbg_export_config_bindings L p root c w = do {
     conf \<leftarrow> config_at w p;
     export_bindings_loop L root (c_bindings conf) c w
   }"

definition usbg_export_config_strs_lang ::
  "('s, 'c) libconfig \<Rightarrow> 'k kernel \<Rightarrow> ptr \<Rightarrow> cint \<Rightarrow> 's \<Rightarrow> 'c \<Rightarrow> 'k world
     \<Rightarrow> (int \<times> 'c \<times> 'k world) option" where
  "usbg_export_config_strs_lang L K p lang root c w = do {
     ((ret, configuration), w1) \<leftarrow> usbg_get_config_strs K (Some p) lang w;
     if ret \<noteq> err USBG_SUCCESS then Some (ret, c, w1)
     else let (ret, c1) = usbg_set_config_node_int_hex L root (Some ''lang'') lang c
          in if ret \<noteq> 0 then Some (ret, c1, w1)
             else let (ret, c2) = usbg_set_config_node_string L root (Some ''configuration'') configuration c1
                  in Some (ret, c2, w1)
   }"

text \<open>The loop over the languages, up to the 0 that ends their array.\<close>

fun export_langs_loop ::
  "('s, 'c) libconfig \<Rightarrow> (cint \<Rightarrow> 's \<Rightarrow> 'c \<Rightarrow> 'k world \<Rightarrow> (int \<times> 'c \<times> 'k world) option) \<Rightarrow> 's
     \<Rightarrow> int list \<Rightarrow> 'c \<Rightarrow> 'k world \<Rightarrow> (int \<times> 'c \<times> 'k world) option" where
  "export_langs_loop L exp_lang root [] c w = Some (err USBG_SUCCESS, c, w)"
| "export_langs_loop L exp_lang root (l # ls) c w =
     (if l = 0 then Some (err USBG_SUCCESS, c, w)
      else case lc_add L root None CONFIG_TYPE_GROUP c of
        (None, c1) \<Rightarrow> Some (err USBG_ERROR_NO_MEM, c1, w)
      | (Some node, c1) \<Rightarrow> do {
          (ret, c2, w1) \<leftarrow> exp_lang (of_int l) node c1 w;
          if ret \<noteq> err USBG_SUCCESS then Some (ret, c2, w1)
          else export_langs_loop L exp_lang root ls c2 w1
        })"

definition usbg_export_config_strings ::
  "('s, 'c) libconfig \<Rightarrow> 'k kernel \<Rightarrow> ptr \<Rightarrow> 's \<Rightarrow> 'c \<Rightarrow> 'k world \<Rightarrow> (int \<times> 'c \<times> 'k world) option" where
  "usbg_export_config_strings L K p root c w = do {
     ((ret, langs), w1) \<leftarrow> usbg_get_config_strs_langs K p w;
     if ret \<noteq> err USBG_SUCCESS then Some (ret, c, w1)
     else do {
       ls \<leftarrow> langs;
       export_langs_loop L (usbg_export_config_strs_lang L K p) root ls c w1
     }
   }"

text \<open>Attributes are written as hexadecimal numbers.\<close>

fun add_hex_attrs :: "('s, 'c) libconfig \<Rightarrow> 's \<Rightarrow> (string \<times> cint) list \<Rightarrow> 'c \<Rightarrow> int \<times> 'c" where
  "add_hex_attrs L root [] c = (err USBG_SUCCESS, c)"
| "add_hex_attrs L root ((name, v) # as) c =
     (let (ret, c1) = usbg_set_config_node_int_hex L root (Some name) v c
      in if ret \<noteq> 0 then (ret, c1) else add_hex_attrs L root as c1)"

definition usbg_export_config_attrs ::
  "('s, 'c) libconfig \<Rightarrow> 'k kernel \<Rightarrow> ptr \<Rightarrow> 's \<Rightarrow> 'c \<Rightarrow> 'k world \<Rightarrow> (int \<times> 'c \<times> 'k world) option" where
  "usbg_export_config_attrs L K p root c w = do {
     ((ret, attrs), w1) \<leftarrow> usbg_get_config_attrs K (Some p) (Some \<lparr>ca_bmAttributes = 0, ca_bMaxPower = 0\<rparr>) w;
     if ret \<noteq> 0 then Some (ret, c, w1)
     else do {
       a \<leftarrow> attrs;
       let (ret, c1) = add_hex_attrs L root
             [(''bmAttributes'', ucast (ca_bmAttributes a)), (''bMaxPower'', ucast (ca_bMaxPower a))] c;
       Some (ret, c1, w1)
     }
   }"

text \<open>A new node of a group and what is put into it.\<close>

definition in_new_node ::
  "('s, 'c) libconfig \<Rightarrow> 's \<Rightarrow> string option \<Rightarrow> config_type
     \<Rightarrow> ('s \<Rightarrow> 'c \<Rightarrow> 'k world \<Rightarrow> (int \<times> 'c \<times> 'k world) option) \<Rightarrow> 'c \<Rightarrow> 'k world
     \<Rightarrow> (int \<times> 'c \<times> 'k world) option" where
  "in_new_node L root name type cont c w =
     (case lc_add L root name type c of
        (None, c1) \<Rightarrow> Some (err USBG_ERROR_NO_MEM, c1, w)
      | (Some node, c1) \<Rightarrow> cont node c1 w)"

text \<open>The next step of an export, if the one before returned 0.\<close>

definition if_ok ::
  "(int \<times> 'c \<times> 'k world) option \<Rightarrow> ('c \<Rightarrow> 'k world \<Rightarrow> (int \<times> 'c \<times> 'k world) option)
     \<Rightarrow> (int \<times> 'c \<times> 'k world) option" where
  "if_ok r cont = do { (ret, c, w) \<leftarrow> r; if ret \<noteq> err USBG_SUCCESS then Some (ret, c, w) else cont c w }"

definition no_io ::
  "('c \<Rightarrow> int \<times> 'c) \<Rightarrow> 'c \<Rightarrow> 'k world \<Rightarrow> (int \<times> 'c \<times> 'k world) option" where
  "no_io m c w = (let (ret, c1) = m c in Some (ret, c1, w))"

definition usbg_export_config_prep ::
  "('s, 'c) libconfig \<Rightarrow> 'k kernel \<Rightarrow> ptr \<Rightarrow> 's \<Rightarrow> 'c \<Rightarrow> 'k world \<Rightarrow> (int \<times> 'c \<times> 'k world) option" where
  "usbg_export_config_prep L K p root c w = do {
     conf \<leftarrow> config_at w p;
     if_ok (no_io (usbg_set_config_node_string L root (Some ''name'') (Some (c_label conf))) c w) (\<lambda>c w.
     if_ok (in_new_node L root (Some ''attrs'') CONFIG_TYPE_GROUP (usbg_export_config_attrs L K p) c w) (\<lambda>c w.
     if_ok (in_new_node L root (Some ''strings'') CONFIG_TYPE_LIST (usbg_export_config_strings L K p) c w) (\<lambda>c w.
     in_new_node L root (Some ''functions'') CONFIG_TYPE_LIST (\<lambda>node c w.
       map_option (\<lambda>(ret, c). (ret, c, w)) (usbg_export_config_bindings L p node c w)) c w)))
   }"

fun export_configs_loop ::
  "('s, 'c) libconfig \<Rightarrow> 'k kernel \<Rightarrow> 's \<Rightarrow> ptr list \<Rightarrow> 'c \<Rightarrow> 'k world \<Rightarrow> (int \<times> 'c \<times> 'k world) option" where
  "export_configs_loop L K root [] c w = Some (err USBG_SUCCESS, c, w)"
| "export_configs_loop L K root (p # ps) c w =
     if_ok (in_new_node L root None CONFIG_TYPE_GROUP (\<lambda>node c w. do {
              conf \<leftarrow> config_at w p;
              if_ok (no_io (usbg_set_config_node_int L node (Some ''id'') (of_int (c_id conf))) c w)
                (usbg_export_config_prep L K p node)
            }) c w)
       (export_configs_loop L K root ps)"

definition usbg_export_gadget_configs ::
  "('s, 'c) libconfig \<Rightarrow> 'k kernel \<Rightarrow> ptr \<Rightarrow> 's \<Rightarrow> 'c \<Rightarrow> 'k world \<Rightarrow> (int \<times> 'c \<times> 'k world) option" where
  "usbg_export_gadget_configs L K g root c w = do {
     gad \<leftarrow> gadget_at w g;
     export_configs_loop L K root (g_configs gad) c w
   }"

section \<open>Functions\<close>

definition usbg_export_function_attrs ::
  "('s, 'c) libconfig \<Rightarrow> 'k kernel \<Rightarrow> ptr \<Rightarrow> 's \<Rightarrow> 'c \<Rightarrow> 'k world \<Rightarrow> (int \<times> 'c \<times> 'k world) option" where
  "usbg_export_function_attrs L K f root c w = do {
     fn \<leftarrow> function_at w f;
     (ret, fn', c', k') \<leftarrow> function_export L K fn root c (os w);
     Some (ret, c', w\<lparr>function_at := (function_at w)(f \<mapsto> fn'), os := k'\<rparr>)
   }"

text \<open>The names of the interfaces with OS descriptors that a type declares.\<close>

definition os_desc_iname :: "usbg_function_type \<Rightarrow> string list" where
  "os_desc_iname t =
     (case t of USBG_F_NCM \<Rightarrow> [''ncm''] | USBG_F_RNDIS \<Rightarrow> [''rndis''] | _ \<Rightarrow> [])"

definition usbg_set_config_node_os_desc ::
  "('s, 'c) libconfig \<Rightarrow> 's \<Rightarrow> string \<Rightarrow> function_os_desc \<Rightarrow> 'c \<Rightarrow> int \<times> 'c" where
  "usbg_set_config_node_os_desc L root iname d =
     with_new_node L root None CONFIG_TYPE_GROUP (\<lambda>groot c.
       let (ret, c1) = usbg_set_config_node_string L groot (Some ''interface'') (Some iname) c in
       if ret \<noteq> 0 then (ret, c1)
       else let (ret, c2) = (case fo_compatible_id d of None \<Rightarrow> (0, c1)
              | Some s \<Rightarrow> usbg_set_config_node_string L groot (Some ''compatible_id'') (Some s) c1) in
       if ret < 0 then (ret, c2)
       else let (ret, c3) = (case fo_sub_compatible_id d of None \<Rightarrow> (0, c2)
              | Some s \<Rightarrow> usbg_set_config_node_string L groot (Some ''sub_compatible_id'') (Some s) c2) in
       if ret < 0 then (ret, c3) else (err USBG_SUCCESS, c3))"

fun export_os_descs_loop ::
  "('s, 'c) libconfig \<Rightarrow> 'k kernel \<Rightarrow> ptr \<Rightarrow> 's \<Rightarrow> string list \<Rightarrow> 'c \<Rightarrow> 'k world
     \<Rightarrow> (int \<times> 'c \<times> 'k world) option" where
  "export_os_descs_loop L K f root [] c w = Some (0, c, w)"
| "export_os_descs_loop L K f root (iname # is) c w = do {
     ((ret, desc), w1) \<leftarrow> usbg_get_interf_os_desc K f (Some iname) w;
     if ret \<noteq> 0 then Some (ret, c, w1)
     else do {
       d \<leftarrow> desc;
       let (ret, c1) = usbg_set_config_node_os_desc L root iname d c;
       if ret < 0 then Some (ret, c1, w1) else export_os_descs_loop L K f root is c1 w1
     }
   }"

definition usbg_export_function_os_descs ::
  "('s, 'c) libconfig \<Rightarrow> 'k kernel \<Rightarrow> ptr \<Rightarrow> 's \<Rightarrow> 'c \<Rightarrow> 'k world \<Rightarrow> (int \<times> 'c \<times> 'k world) option" where
  "usbg_export_function_os_descs L K f root c w = do {
     fn \<leftarrow> function_at w f;
     export_os_descs_loop L K f root (os_desc_iname (f_type fn)) c w
   }"

text \<open>OS descriptors are optional: an error \<open>USBG_ERROR_NOT_SUPPORTED\<close> is none.\<close>

definition usbg_export_function_prep ::
  "('s, 'c) libconfig \<Rightarrow> 'k kernel \<Rightarrow> ptr \<Rightarrow> 's \<Rightarrow> 'c \<Rightarrow> 'k world \<Rightarrow> (int \<times> 'c \<times> 'k world) option" where
  "usbg_export_function_prep L K f root c w = do {
     fn \<leftarrow> function_at w f;
     if_ok (no_io (usbg_set_config_node_string L root (Some ''type'')
              (Some (function_type_name (f_type fn)))) c w) (\<lambda>c w.
     if_ok (in_new_node L root (Some ''attrs'') CONFIG_TYPE_GROUP (usbg_export_function_attrs L K f) c w) (\<lambda>c w.
     in_new_node L root (Some ''os_descs'') CONFIG_TYPE_LIST (\<lambda>node c w. do {
       (ret, c1, w1) \<leftarrow> usbg_export_function_os_descs L K f node c w;
       Some (if ret = err USBG_ERROR_NOT_SUPPORTED then err USBG_SUCCESS else ret, c1, w1)
     }) c w))
   }"

fun export_functions_loop ::
  "('s, 'c) libconfig \<Rightarrow> 'k kernel \<Rightarrow> 's \<Rightarrow> ptr list \<Rightarrow> 'c \<Rightarrow> 'k world \<Rightarrow> (int \<times> 'c \<times> 'k world) option" where
  "export_functions_loop L K root [] c w = Some (err USBG_SUCCESS, c, w)"
| "export_functions_loop L K root (f # fs) c w = do {
     fn \<leftarrow> function_at w f;
     let label = (case f_label fn of Some l \<Rightarrow> l | None \<Rightarrow> generate_function_label fn);
     if f_label fn = None \<and> length label \<ge> USBG_MAX_NAME_LENGTH
     then Some (err USBG_ERROR_OTHER_ERROR, c, w)
     else if_ok (in_new_node L root (Some label) CONFIG_TYPE_GROUP (\<lambda>node c w.
              if_ok (no_io (usbg_set_config_node_string L node (Some ''instance'') (Some (f_instance fn))) c w)
                (usbg_export_function_prep L K f node)) c w)
            (export_functions_loop L K root fs)
   }"

definition usbg_export_gadget_functions ::
  "('s, 'c) libconfig \<Rightarrow> 'k kernel \<Rightarrow> ptr \<Rightarrow> 's \<Rightarrow> 'c \<Rightarrow> 'k world \<Rightarrow> (int \<times> 'c \<times> 'k world) option" where
  "usbg_export_gadget_functions L K g root c w = do {
     gad \<leftarrow> gadget_at w g;
     export_functions_loop L K root (g_functions gad) c w
   }"

section \<open>Gadgets\<close>

text \<open>
  The strings are freed also when they could not be read. That is defined only if the
  structure was initialised and nothing of it was freed before: the directory was there and
  the first string could not be read.
\<close>

definition strs_unset :: "'k kernel \<Rightarrow> string \<Rightarrow> string \<Rightarrow> cint \<Rightarrow> 'k \<Rightarrow> bool" where
  "strs_unset K path name lang k \<longleftrightarrow>
     (let spath = lang_path path name lang
      in fits spath \<and>
         (case k_opendir K spath k of
            (Some e, k1) \<Rightarrow> False
          | (None, k1) \<Rightarrow> fst (usbg_read_string_alloc K spath [] ''manufacturer'' k1) \<noteq> err USBG_SUCCESS))"

definition usbg_export_gadget_strs_lang ::
  "('s, 'c) libconfig \<Rightarrow> 'k kernel \<Rightarrow> ptr \<Rightarrow> cint \<Rightarrow> 's \<Rightarrow> 'c \<Rightarrow> 'k world
     \<Rightarrow> (int \<times> 'c \<times> 'k world) option" where
  "usbg_export_gadget_strs_lang L K g lang root c w = do {
     gad \<leftarrow> gadget_at w g;
     ((ret, strs), w1) \<leftarrow> usbg_get_gadget_strs K (Some g) lang w;
     if ret \<noteq> err USBG_SUCCESS
     then if strs_unset K (g_path gad) (g_name gad) lang (os w) then Some (ret, c, w1) else None
     else do {
       s \<leftarrow> strs;
       if_ok (no_io (usbg_set_config_node_int_hex L root (Some ''lang'') lang) c w1) (\<lambda>c w.
       if_ok (no_io (usbg_set_config_node_string L root (Some ''manufacturer'') (gs_manufacturer s)) c w) (\<lambda>c w.
       if_ok (no_io (usbg_set_config_node_string L root (Some ''product'') (gs_product s)) c w) (\<lambda>c w.
       no_io (usbg_set_config_node_string L root (Some ''serialnumber'') (gs_serial s)) c w)))
     }
   }"

definition usbg_export_gadget_strings ::
  "('s, 'c) libconfig \<Rightarrow> 'k kernel \<Rightarrow> ptr \<Rightarrow> 's \<Rightarrow> 'c \<Rightarrow> 'k world \<Rightarrow> (int \<times> 'c \<times> 'k world) option" where
  "usbg_export_gadget_strings L K g root c w = do {
     ((ret, langs), w1) \<leftarrow> usbg_get_gadget_strs_langs K g w;
     if ret \<noteq> err USBG_SUCCESS then Some (ret, c, w1)
     else do {
       ls \<leftarrow> langs;
       export_langs_loop L (usbg_export_gadget_strs_lang L K g) root ls c w1
     }
   }"

definition zero_gadget_attrs :: gadget_attrs where
  "zero_gadget_attrs =
     \<lparr>ga_bcdUSB = 0, ga_bDeviceClass = 0, ga_bDeviceSubClass = 0, ga_bDeviceProtocol = 0,
      ga_bMaxPacketSize0 = 0, ga_idVendor = 0, ga_idProduct = 0, ga_bcdDevice = 0\<rparr>"

definition gadget_attr_ints :: "gadget_attrs \<Rightarrow> (string \<times> cint) list" where
  "gadget_attr_ints a =
     [(''bcdUSB'', ucast (ga_bcdUSB a)), (''bDeviceClass'', ucast (ga_bDeviceClass a)),
      (''bDeviceSubClass'', ucast (ga_bDeviceSubClass a)),
      (''bDeviceProtocol'', ucast (ga_bDeviceProtocol a)),
      (''bMaxPacketSize0'', ucast (ga_bMaxPacketSize0 a)), (''idVendor'', ucast (ga_idVendor a)),
      (''idProduct'', ucast (ga_idProduct a)), (''bcdDevice'', ucast (ga_bcdDevice a))]"

text \<open>The structure is filled before it is read; what it holds before does not matter.\<close>

definition usbg_export_gadget_attrs ::
  "('s, 'c) libconfig \<Rightarrow> 'k kernel \<Rightarrow> ptr \<Rightarrow> 's \<Rightarrow> 'c \<Rightarrow> 'k world \<Rightarrow> (int \<times> 'c \<times> 'k world) option" where
  "usbg_export_gadget_attrs L K g root c w = do {
     ((ret, attrs), w1) \<leftarrow> usbg_get_gadget_attrs K (Some g) (Some zero_gadget_attrs) w;
     if ret \<noteq> 0 then Some (ret, c, w1)
     else do {
       a \<leftarrow> attrs;
       no_io (add_hex_attrs L root (gadget_attr_ints a)) c w1
     }
   }"

definition usbg_export_gadget_os_descs ::
  "('s, 'c) libconfig \<Rightarrow> 'k kernel \<Rightarrow> ptr \<Rightarrow> 's \<Rightarrow> 'c \<Rightarrow> 'k world \<Rightarrow> (int \<times> 'c \<times> 'k world) option" where
  "usbg_export_gadget_os_descs L K g root c w = do {
     gad \<leftarrow> gadget_at w g;
     if_ok (case g_os_desc_binding gad of
              None \<Rightarrow> Some (err USBG_SUCCESS, c, w)
            | Some p \<Rightarrow> do {
                conf \<leftarrow> config_at w p;
                no_io (usbg_set_config_node_int L root (Some ''config_id'') (of_int (c_id conf))) c w
              }) (\<lambda>c w. do {
     ((ret, descs), w1) \<leftarrow> usbg_get_gadget_os_descs K (Some g)
         (Some \<lparr>od_use = False, od_b_vendor_code = 0, od_qw_sign = None\<rparr>) w;
     if ret \<noteq> 0 then Some (ret, c, w1)
     else do {
       d \<leftarrow> descs;
       if_ok (no_io (usbg_set_config_node_int L root (Some ''use'') (if od_use d then 1 else 0)) c w1) (\<lambda>c w.
       if_ok (no_io (usbg_set_config_node_string L root (Some ''qw_sign'') (od_qw_sign d)) c w) (\<lambda>c w.
       no_io (usbg_set_config_node_int_hex L root (Some ''b_vendor_code'') (ucast (od_b_vendor_code d))) c w))
     }})
   }"

text \<open>OS descriptors that are not found are left out.\<close>

definition usbg_export_gadget_prep ::
  "('s, 'c) libconfig \<Rightarrow> 'k kernel \<Rightarrow> ptr \<Rightarrow> 's \<Rightarrow> 'c \<Rightarrow> 'k world \<Rightarrow> (int \<times> 'c \<times> 'k world) option" where
  "usbg_export_gadget_prep L K g root c w =
     if_ok (in_new_node L root (Some ''attrs'') CONFIG_TYPE_GROUP (usbg_export_gadget_attrs L K g) c w) (\<lambda>c w.
     if_ok (in_new_node L root (Some ''os_descs'') CONFIG_TYPE_GROUP (\<lambda>node c w. do {
              (ret, c1, w1) \<leftarrow> usbg_export_gadget_os_descs L K g node c w;
              Some (if ret = err USBG_ERROR_NOT_FOUND then err USBG_SUCCESS else ret, c1, w1)
            }) c w) (\<lambda>c w.
     if_ok (in_new_node L root (Some ''strings'') CONFIG_TYPE_LIST (usbg_export_gadget_strings L K g) c w) (\<lambda>c w.
     if_ok (in_new_node L root (Some ''functions'') CONFIG_TYPE_GROUP (usbg_export_gadget_functions L K g) c w) (\<lambda>c w.
     in_new_node L root (Some ''configs'') CONFIG_TYPE_LIST (usbg_export_gadget_configs L K g) c w))))"

section \<open>The API\<close>

text \<open>
  Files: \<open>config_write\<close> and \<open>config_read\<close> on a stream, and the error a failed read leaves
  in the configuration.
\<close>

record ('c, 'f) config_io =
  cio_write :: "'c \<Rightarrow> 'f \<Rightarrow> 'f"
  cio_read :: "'f \<Rightarrow> bool \<times> 'c \<times> 'f"
  cio_error_text :: "'c \<Rightarrow> string option"
  cio_error_line :: "'c \<Rightarrow> int"

text \<open>
  An export builds a configuration and writes it, if that succeeded; the result of writing
  is not looked at. The stream is unchanged after an error.
\<close>

definition export_to ::
  "('s, 'c) libconfig \<Rightarrow> ('c, 'f) config_io
     \<Rightarrow> (ptr \<Rightarrow> 's \<Rightarrow> 'c \<Rightarrow> 'k world \<Rightarrow> (int \<times> 'c \<times> 'k world) option)
     \<Rightarrow> ptr option \<Rightarrow> 'f option \<Rightarrow> 'k world \<Rightarrow> (int \<times> 'f option \<times> 'k world) option" where
  "export_to L IO prep obj stream w =
     (case (obj, stream) of
        (Some p, Some f) \<Rightarrow> do {
          (ret, c, w1) \<leftarrow> prep p (lc_root L) (lc_init L) w;
          Some (ret, Some (if ret \<noteq> err USBG_SUCCESS then f else cio_write IO c f), w1)
        }
      | _ \<Rightarrow> Some (err USBG_ERROR_INVALID_PARAM, stream, w))"

definition usbg_export_function ::
  "('s, 'c) libconfig \<Rightarrow> ('c, 'f) config_io \<Rightarrow> 'k kernel \<Rightarrow> ptr option \<Rightarrow> 'f option \<Rightarrow> 'k world
     \<Rightarrow> (int \<times> 'f option \<times> 'k world) option" where
  "usbg_export_function L IO K f stream w = export_to L IO (usbg_export_function_prep L K) f stream w"

definition usbg_export_config ::
  "('s, 'c) libconfig \<Rightarrow> ('c, 'f) config_io \<Rightarrow> 'k kernel \<Rightarrow> ptr option \<Rightarrow> 'f option \<Rightarrow> 'k world
     \<Rightarrow> (int \<times> 'f option \<times> 'k world) option" where
  "usbg_export_config L IO K c stream w = export_to L IO (usbg_export_config_prep L K) c stream w"

definition usbg_export_gadget ::
  "('s, 'c) libconfig \<Rightarrow> ('c, 'f) config_io \<Rightarrow> 'k kernel \<Rightarrow> ptr option \<Rightarrow> 'f option \<Rightarrow> 'k world
     \<Rightarrow> (int \<times> 'f option \<times> 'k world) option" where
  "usbg_export_gadget L IO K g stream w = export_to L IO (usbg_export_gadget_prep L K) g stream w"

end
