(* ===== verification/Usbg_Config_Tree.thy ===== *)
theory Usbg_Config_Tree
  imports Usbg_Config_Store Usbg_Export
begin

text \<open>
  A configuration as a tree in an array of numbered settings, and the calls of libconfig on
  it: an instance of \<open>config_store\<close> that computes, for the examples. A stream holds one
  configuration or none.
\<close>

record cfg =
  cfg_nodes :: "nat \<Rightarrow> nat setting option"
  cfg_names :: "nat \<Rightarrow> string option"
  cfg_next :: nat

definition cfg_empty :: cfg where
  "cfg_empty = \<lparr>cfg_nodes = [0 \<mapsto> Set_group []], cfg_names = Map.empty, cfg_next = 1\<rparr>"

definition cfg_put :: "nat \<Rightarrow> nat setting \<Rightarrow> string option \<Rightarrow> nat setting \<Rightarrow> cfg \<Rightarrow> nat option \<times> cfg" where
  "cfg_put r parent name x c =
     (let s = cfg_next c
      in (Some s, c\<lparr>cfg_nodes := (cfg_nodes c)(r \<mapsto> parent, s \<mapsto> x),
                    cfg_names := (cfg_names c)(s := name), cfg_next := Suc s\<rparr>))"

definition cfg_add :: "nat \<Rightarrow> string option \<Rightarrow> config_type \<Rightarrow> cfg \<Rightarrow> nat option \<times> cfg" where
  "cfg_add r name t c =
     (case fresh_setting t of
        None \<Rightarrow> (None, c)
      | Some x \<Rightarrow>
          if cfg_nodes c (cfg_next c) \<noteq> None then (None, c)
          else case cfg_nodes c r of
            Some (Set_group ms) \<Rightarrow>
              (case name of
                 None \<Rightarrow> (None, c)
               | Some n \<Rightarrow> if n \<in> fst ` set ms then (None, c)
                           else cfg_put r (Set_group (ms @ [(n, cfg_next c)])) name x c)
          | Some (Set_list ss) \<Rightarrow> cfg_put r (Set_list (ss @ [cfg_next c])) None x c
          | _ \<Rightarrow> (None, c))"

definition cfg_set :: "(nat setting \<Rightarrow> bool) \<Rightarrow> nat \<Rightarrow> nat setting \<Rightarrow> cfg \<Rightarrow> bool \<times> cfg" where
  "cfg_set ok s x c =
     (case cfg_nodes c s of
        Some y \<Rightarrow> if ok y then (True, c\<lparr>cfg_nodes := (cfg_nodes c)(s \<mapsto> x)\<rparr>) else (False, c)
      | None \<Rightarrow> (False, c))"

definition cfg_lib :: "(nat, cfg) libconfig" where
  "cfg_lib =
     \<lparr>lc_init = cfg_empty,
      lc_root = 0,
      lc_add = cfg_add,
      lc_set_hex = (\<lambda>s c. (True, c)),
      lc_set_int = (\<lambda>s v. cfg_set (\<lambda>y. setting_type y = CONFIG_TYPE_INT) s (Set_int v)),
      lc_set_bool = (\<lambda>s v. cfg_set (\<lambda>y. setting_type y = CONFIG_TYPE_BOOL) s (Set_bool v)),
      lc_set_string = (\<lambda>s v. cfg_set (\<lambda>y. setting_type y = CONFIG_TYPE_STRING) s (Set_string v)),
      lc_get_member = (\<lambda>c r n. case cfg_nodes c r of Some (Set_group ms) \<Rightarrow> map_of ms n | _ \<Rightarrow> None),
      lc_get_elem = (\<lambda>c r i. case cfg_nodes c r of
          Some (Set_list ss) \<Rightarrow> if i < length ss then Some (ss ! i) else None
        | Some (Set_group ms) \<Rightarrow> if i < length ms then Some (snd (ms ! i)) else None
        | _ \<Rightarrow> None),
      lc_length = (\<lambda>c r. case cfg_nodes c r of
          Some (Set_list ss) \<Rightarrow> length ss | Some (Set_group ms) \<Rightarrow> length ms | _ \<Rightarrow> 0),
      lc_type = (\<lambda>c s. case cfg_nodes c s of None \<Rightarrow> CONFIG_TYPE_NONE | Some x \<Rightarrow> setting_type x),
      lc_get_int = (\<lambda>c s. case cfg_nodes c s of Some (Set_int i) \<Rightarrow> i | _ \<Rightarrow> 0),
      lc_get_bool = (\<lambda>c s. case cfg_nodes c s of Some (Set_bool b) \<Rightarrow> b | _ \<Rightarrow> False),
      lc_get_string = (\<lambda>c s. case cfg_nodes c s of Some (Set_string str) \<Rightarrow> str | _ \<Rightarrow> None),
      lc_name = cfg_names\<rparr>"

definition cfg_io :: "(cfg, cfg option) config_io" where
  "cfg_io =
     \<lparr>cio_write = (\<lambda>c f. Some c),
      cio_read = (\<lambda>f. case f of None \<Rightarrow> (False, cfg_empty, None) | Some c \<Rightarrow> (True, c, None)),
      cio_error_text = (\<lambda>c. Some ''syntax error''),
      cio_error_line = (\<lambda>c. 1)\<rparr>"

lemma cfg_add_group:
  assumes "cfg_nodes c r = Some (Set_group ms)" "cfg_add r (Some n) t c = (Some s, c')" "fresh_setting t = Some x"
  shows "cfg_nodes c s = None \<and> n \<notin> fst ` set ms \<and>
    cfg_nodes c' = (cfg_nodes c)(r \<mapsto> Set_group (ms @ [(n, s)]), s \<mapsto> x)"
  using assms by (auto simp: cfg_add_def cfg_put_def Let_def split: if_splits)

lemma cfg_add_list:
  assumes "cfg_nodes c r = Some (Set_list ss)" "cfg_add r nm t c = (Some s, c')" "fresh_setting t = Some x"
  shows "cfg_nodes c s = None \<and> cfg_nodes c' = (cfg_nodes c)(r \<mapsto> Set_list (ss @ [s]), s \<mapsto> x)"
  using assms by (auto simp: cfg_add_def cfg_put_def Let_def split: if_splits)

lemma cfg_lib_simps [simp]:
  "lc_add cfg_lib = cfg_add" "lc_init cfg_lib = cfg_empty" "lc_root cfg_lib = 0"
  by (simp_all add: cfg_lib_def)

lemma cfg_set_ok:
  "cfg_set ok s x c = (True, c') \<Longrightarrow> cfg_nodes c' = (cfg_nodes c)(s \<mapsto> x)"
  by (auto simp: cfg_set_def split: option.splits if_splits)

interpretation cfg: config_store cfg_lib cfg_nodes
proof (unfold_locales, goal_cases)
  case 1
  show ?case by (simp add: cfg_empty_def)
next
  case (2 c r ms n t s c' x)
  show ?case by (rule cfg_add_group [OF 2(1) 2(2) [unfolded cfg_lib_simps] 2(3)])
next
  case (3 c r ss nm t s c' x)
  show ?case by (rule cfg_add_list [OF 3(1) 3(2) [unfolded cfg_lib_simps] 3(3)])
next
  case 5
  then show ?case by (auto simp: cfg_lib_def intro: cfg_set_ok)
next
  case 6
  then show ?case by (auto simp: cfg_lib_def intro: cfg_set_ok)
next
  case 7
  then show ?case by (auto simp: cfg_lib_def intro: cfg_set_ok)
qed (simp_all add: cfg_lib_def)

end
