(* ===== verification/Usbg_Import.thy ===== *)
theory Usbg_Import
  imports Usbg_Export
begin

text \<open>
  Import of functions, configurations and gadgets (the second half of
  \<open>src/usbg_schemes_libconfig.c\<close>). The configuration that is read is an argument that does
  not change. Nodes that are found are looked at in the order of the code, so the first
  error decides the return code; what was created before it is removed again only where the
  code does so.
\<close>

section \<open>Labels\<close>

text \<open>A label without an underscore would give \<open>strchr\<close>'s NULL to pointer arithmetic.\<close>

definition split_function_label :: "string \<Rightarrow> (int \<times> (usbg_function_type \<times> string) option) option" where
  "split_function_label label =
     (let buf = takeWhile (\<lambda>ch. ch \<noteq> CHR ''_'') label
      in if CHR ''_'' \<notin> set label then None
         else if length buf \<ge> USBG_MAX_NAME_LENGTH \<or> buf = [] then Some (err USBG_ERROR_NOT_FOUND, None)
         else let t = usbg_lookup_function_type (Some buf)
              in if t < 0 then Some (err USBG_ERROR_NOT_FOUND, None)
                 else do {
                   type \<leftarrow> function_type_of t;
                   Some (err USBG_SUCCESS, Some (type, drop (Suc (length buf)) label))
                 })"

definition usbg_lookup_function :: "ptr \<Rightarrow> string \<Rightarrow> 'k world \<Rightarrow> ptr option option" where
  "usbg_lookup_function g label w = do {
     gad \<leftarrow> gadget_at w g;
     f \<leftarrow> tailq_find (function_at w) (\<lambda>fn. f_label fn = Some label) (g_functions gad);
     case f of
       Some p \<Rightarrow> Some (Some p)
     | None \<Rightarrow> do {
         (ret, ti) \<leftarrow> split_function_label label;
         if ret \<noteq> err USBG_SUCCESS then Some None
         else do { (type, inst) \<leftarrow> ti; usbg_get_function g type inst w }
       }
   }"

section \<open>Functions\<close>

definition usbg_import_function_attrs ::
  "('s, 'c) libconfig \<Rightarrow> 'k kernel \<Rightarrow> 'c \<Rightarrow> 's \<Rightarrow> ptr \<Rightarrow> 'k world \<Rightarrow> (int \<times> 'k world) option" where
  "usbg_import_function_attrs L K c root f w = do {
     fn \<leftarrow> function_at w f;
     (ret, fn', k') \<leftarrow> function_import L K fn c root (os w);
     Some (ret, w\<lparr>function_at := (function_at w)(f \<mapsto> fn'), os := k'\<rparr>)
   }"

definition usbg_get_config_node_os_desc ::
  "('s, 'c) libconfig \<Rightarrow> 'c \<Rightarrow> 's \<Rightarrow> int \<times> function_os_desc" where
  "usbg_get_config_node_os_desc L c node =
     (let (r1, s1) = usbg_get_config_node_string L c node ''compatible_id'';
          (r2, s2) = usbg_get_config_node_string L c node ''sub_compatible_id'';
          str = (\<lambda>s. case s of None \<Rightarrow> None | Some t \<Rightarrow> t)
      in (if r1 < 0 then r1 else if r2 < 0 then r2 else err USBG_SUCCESS,
          \<lparr>fo_compatible_id = str s1, fo_sub_compatible_id = str s2\<rparr>))"

text \<open>The position of a string, or a negative number.\<close>

fun find_string_from :: "int \<Rightarrow> string \<Rightarrow> string list \<Rightarrow> int" where
  "find_string_from i str [] = - ENOENT"
| "find_string_from i str (a # as) = (if strcmp str a = 0 then i else find_string_from (i + 1) str as)"

definition find_string :: "string \<Rightarrow> string list \<Rightarrow> int" where
  "find_string str array = find_string_from 0 str array"

fun import_os_descs_loop ::
  "('s, 'c) libconfig \<Rightarrow> 'k kernel \<Rightarrow> 'c \<Rightarrow> 's \<Rightarrow> string list \<Rightarrow> ptr \<Rightarrow> nat list \<Rightarrow> 'k world
     \<Rightarrow> (int \<times> 'k world) option" where
  "import_os_descs_loop L K c root allowed f [] w = Some (err USBG_SUCCESS, w)"
| "import_os_descs_loop L K c root allowed f (i # is) w =
     (case lc_get_elem L c root i of
        None \<Rightarrow> Some (err USBG_ERROR_OTHER_ERROR, w)
      | Some node \<Rightarrow>
          if \<not> config_is_group L c node then Some (err USBG_ERROR_INVALID_TYPE, w)
          else case lc_get_member L c node ''interface'' of
            None \<Rightarrow> Some (err USBG_ERROR_MISSING_TAG, w)
          | Some interf_node \<Rightarrow>
              (case lc_get_string L c interf_node of
                 None \<Rightarrow> Some (err USBG_ERROR_OTHER_ERROR, w)
               | Some interface \<Rightarrow>
                   if find_string interface allowed < 0 then Some (err USBG_ERROR_NOT_SUPPORTED, w)
                   else let (ret, desc) = usbg_get_config_node_os_desc L c node
                        in if ret \<noteq> 0 then Some (ret, w)
                           else do {
                             (ret, w1) \<leftarrow> usbg_set_interf_os_desc K f (Some interface) desc w;
                             if ret \<noteq> 0 then Some (ret, w1)
                             else import_os_descs_loop L K c root allowed f is w1
                           }))"

definition usbg_import_function_os_descs ::
  "('s, 'c) libconfig \<Rightarrow> 'k kernel \<Rightarrow> 'c \<Rightarrow> 's \<Rightarrow> ptr \<Rightarrow> 'k world \<Rightarrow> (int \<times> 'k world) option" where
  "usbg_import_function_os_descs L K c root f w = do {
     fn \<leftarrow> function_at w f;
     import_os_descs_loop L K c root (os_desc_iname (f_type fn)) f [0..<lc_length L c root] w
   }"

text \<open>The next step of an import, if the one before returned 0.\<close>

definition if_done ::
  "(int \<times> 'k world) option \<Rightarrow> ('k world \<Rightarrow> (int \<times> 'k world) option) \<Rightarrow> (int \<times> 'k world) option" where
  "if_done r cont = do { (ret, w) \<leftarrow> r; if ret \<noteq> err USBG_SUCCESS then Some (ret, w) else cont w }"

text \<open>A section that may be absent.\<close>

definition optional ::
  "('s, 'c) libconfig \<Rightarrow> 'c \<Rightarrow> 's \<Rightarrow> string \<Rightarrow> ('s \<Rightarrow> 'k world \<Rightarrow> (int \<times> 'k world) option) \<Rightarrow> 'k world
     \<Rightarrow> (int \<times> 'k world) option" where
  "optional L c root tag imp w =
     (case lc_get_member L c root tag of None \<Rightarrow> Some (err USBG_SUCCESS, w) | Some node \<Rightarrow> imp node w)"

text \<open>
  A function is created first and its attributes are imported then; when that fails, the
  function stays.
\<close>

definition usbg_import_function_run ::
  "('s, 'c) libconfig \<Rightarrow> 'k kernel \<Rightarrow> 'c \<Rightarrow> ptr \<Rightarrow> 's \<Rightarrow> string \<Rightarrow> 'k world
     \<Rightarrow> (int \<times> ptr option \<times> 'k world) option" where
  "usbg_import_function_run L K c g root instance_str w =
     (case lc_get_member L c root ''type'' of
        None \<Rightarrow> Some (err USBG_ERROR_MISSING_TAG, None, w)
      | Some node \<Rightarrow>
          (case lc_get_string L c node of
             None \<Rightarrow> Some (err USBG_ERROR_INVALID_TYPE, None, w)
           | Some type_str \<Rightarrow>
               let t = usbg_lookup_function_type (Some type_str)
               in if t < 0 then Some (err USBG_ERROR_NOT_SUPPORTED, None, w)
                  else do {
                    type \<leftarrow> function_type_of t;
                    (ret, f, w1) \<leftarrow> usbg_create_function K (Some g) type (Some instance_str) None True w;
                    if ret \<noteq> err USBG_SUCCESS then Some (ret, f, w1)
                    else do {
                      p \<leftarrow> f;
                      (ret, w2) \<leftarrow> if_done
                        (optional L c root ''attrs'' (\<lambda>node. usbg_import_function_attrs L K c node p) w1)
                        (optional L c root ''os_descs'' (\<lambda>node. usbg_import_function_os_descs L K c node p));
                      Some (ret, f, w2)
                    }
                  }))"

section \<open>Bindings\<close>

definition bind_named ::
  "'k kernel \<Rightarrow> ptr \<Rightarrow> string \<Rightarrow> ptr \<Rightarrow> 'k world \<Rightarrow> (int \<times> 'k world) option" where
  "bind_named K conf name target w = usbg_add_config_function K (Some conf) (Some name) (Some target) w"

definition usbg_import_binding_string ::
  "('s, 'c) libconfig \<Rightarrow> 'k kernel \<Rightarrow> 'c \<Rightarrow> 's \<Rightarrow> ptr \<Rightarrow> 'k world \<Rightarrow> (int \<times> 'k world) option" where
  "usbg_import_binding_string L K c root conf w =
     (case lc_get_string L c root of
        None \<Rightarrow> Some (err USBG_ERROR_OTHER_ERROR, w)
      | Some func_label \<Rightarrow> do {
          cf \<leftarrow> config_at w conf;
          target \<leftarrow> usbg_lookup_function (c_parent cf) func_label w;
          case target of
            None \<Rightarrow> Some (err USBG_ERROR_NOT_FOUND, w)
          | Some f \<Rightarrow> do { fn \<leftarrow> function_at w f; bind_named K conf (f_name fn) f w }
        })"

text \<open>The function of a binding: an existing one by its label, or one that is defined here.\<close>

definition import_binding_target ::
  "('s, 'c) libconfig \<Rightarrow> 'k kernel \<Rightarrow> 'c \<Rightarrow> 's \<Rightarrow> ptr \<Rightarrow> 'k world \<Rightarrow> (int \<times> ptr option \<times> 'k world) option" where
  "import_binding_target L K c node g w =
     (if usbg_config_is_string L c node then
        case lc_get_string L c node of
          None \<Rightarrow> Some (err USBG_ERROR_OTHER_ERROR, None, w)
        | Some func_label \<Rightarrow> do {
            target \<leftarrow> usbg_lookup_function g func_label w;
            Some (if target = None then err USBG_ERROR_NOT_FOUND else err USBG_SUCCESS, target, w)
          }
      else if config_is_group L c node then
        case lc_get_member L c node ''instance'' of
          None \<Rightarrow> Some (err USBG_ERROR_MISSING_TAG, None, w)
        | Some inst_node \<Rightarrow>
            (case lc_get_string L c inst_node of
               None \<Rightarrow> Some (err USBG_ERROR_OTHER_ERROR, None, w)
             | Some instance_str \<Rightarrow> usbg_import_function_run L K c g node instance_str w)
      else Some (err USBG_ERROR_INVALID_TYPE, None, w))"

definition usbg_import_binding_group ::
  "('s, 'c) libconfig \<Rightarrow> 'k kernel \<Rightarrow> 'c \<Rightarrow> 's \<Rightarrow> ptr \<Rightarrow> 'k world \<Rightarrow> (int \<times> 'k world) option" where
  "usbg_import_binding_group L K c root conf w =
     (case lc_get_member L c root ''function'' of
        None \<Rightarrow> Some (err USBG_ERROR_MISSING_TAG, w)
      | Some node \<Rightarrow> do {
          cf \<leftarrow> config_at w conf;
          (ret, target, w1) \<leftarrow> import_binding_target L K c node (c_parent cf) w;
          if ret \<noteq> err USBG_SUCCESS then Some (ret, w1)
          else do {
            f \<leftarrow> target;
            case lc_get_member L c root ''name'' of
              Some name_node \<Rightarrow>
                if \<not> usbg_config_is_string L c name_node then Some (err USBG_ERROR_INVALID_TYPE, w1)
                else (case lc_get_string L c name_node of
                   None \<Rightarrow> Some (err USBG_ERROR_OTHER_ERROR, w1)
                 | Some name \<Rightarrow> bind_named K conf name f w1)
            | None \<Rightarrow> do { fn \<leftarrow> function_at w1 f; bind_named K conf (f_name fn) f w1 }
          }
        })"

text \<open>An element that is not there would be a NULL argument.\<close>

fun import_bindings_loop ::
  "('s, 'c) libconfig \<Rightarrow> 'k kernel \<Rightarrow> 'c \<Rightarrow> 's \<Rightarrow> ptr \<Rightarrow> nat list \<Rightarrow> 'k world \<Rightarrow> (int \<times> 'k world) option" where
  "import_bindings_loop L K c root conf [] w = Some (err USBG_SUCCESS, w)"
| "import_bindings_loop L K c root conf (i # is) w = do {
     node \<leftarrow> lc_get_elem L c root i;
     if_done
       (if usbg_config_is_string L c node then usbg_import_binding_string L K c node conf w
        else if config_is_group L c node then usbg_import_binding_group L K c node conf w
        else Some (err USBG_ERROR_INVALID_TYPE, w))
       (import_bindings_loop L K c root conf is)
   }"

definition usbg_import_config_bindings ::
  "('s, 'c) libconfig \<Rightarrow> 'k kernel \<Rightarrow> 'c \<Rightarrow> 's \<Rightarrow> ptr \<Rightarrow> 'k world \<Rightarrow> (int \<times> 'k world) option" where
  "usbg_import_config_bindings L K c root conf w =
     import_bindings_loop L K c root conf [0..<lc_length L c root] w"

section \<open>Configurations\<close>

text \<open>A string that is optional, and whether its node has the right type.\<close>

definition optional_string ::
  "('s, 'c) libconfig \<Rightarrow> 'c \<Rightarrow> 's \<Rightarrow> string \<Rightarrow> bool \<times> string option" where
  "optional_string L c root tag =
     (case lc_get_member L c root tag of
        None \<Rightarrow> (True, None)
      | Some node \<Rightarrow> if usbg_config_is_string L c node then (True, lc_get_string L c node) else (False, None))"

definition usbg_import_config_strs_lang ::
  "('s, 'c) libconfig \<Rightarrow> 'k kernel \<Rightarrow> 'c \<Rightarrow> 's \<Rightarrow> ptr \<Rightarrow> 'k world \<Rightarrow> (int \<times> 'k world) option" where
  "usbg_import_config_strs_lang L K c root conf w =
     (case lc_get_member L c root ''lang'' of
        None \<Rightarrow> Some (err USBG_ERROR_MISSING_TAG, w)
      | Some node \<Rightarrow>
          if \<not> usbg_config_is_int L c node then Some (err USBG_ERROR_INVALID_TYPE, w)
          else let lang = lc_get_int L c node; (ok, configuration) = optional_string L c root ''configuration''
               in if \<not> ok then Some (err USBG_ERROR_INVALID_TYPE, w)
                  else usbg_set_config_strs K (Some conf) lang (Some configuration) w)"

text \<open>The loop over the strings of a configuration or a gadget.\<close>

fun import_strings_loop ::
  "('s, 'c) libconfig \<Rightarrow> 'c \<Rightarrow> 's \<Rightarrow> ('s \<Rightarrow> 'k world \<Rightarrow> (int \<times> 'k world) option) \<Rightarrow> nat list \<Rightarrow> 'k world
     \<Rightarrow> (int \<times> 'k world) option" where
  "import_strings_loop L c root imp [] w = Some (err USBG_SUCCESS, w)"
| "import_strings_loop L c root imp (i # is) w = do {
     node \<leftarrow> lc_get_elem L c root i;
     if \<not> config_is_group L c node then Some (err USBG_ERROR_INVALID_TYPE, w)
     else if_done (imp node w) (import_strings_loop L c root imp is)
   }"

definition usbg_import_config_strings ::
  "('s, 'c) libconfig \<Rightarrow> 'k kernel \<Rightarrow> 'c \<Rightarrow> 's \<Rightarrow> ptr \<Rightarrow> 'k world \<Rightarrow> (int \<times> 'k world) option" where
  "usbg_import_config_strings L K c root conf w =
     import_strings_loop L c root (\<lambda>node. usbg_import_config_strs_lang L K c node conf)
       [0..<lc_length L c root] w"

text \<open>
  The integer attributes that are there, each with the largest value it may have, if the code
  tests that, and its setter.
\<close>

fun import_ints ::
  "('s, 'c) libconfig \<Rightarrow> 'c \<Rightarrow> 's
     \<Rightarrow> (string \<times> int option \<times> (cint \<Rightarrow> 'k world \<Rightarrow> (int \<times> 'k world) option)) list \<Rightarrow> 'k world
     \<Rightarrow> (int \<times> 'k world) option" where
  "import_ints L c root [] w = Some (err USBG_SUCCESS, w)"
| "import_ints L c root ((name, limit, setter) # as) w =
     (case lc_get_member L c root name of
        None \<Rightarrow> import_ints L c root as w
      | Some node \<Rightarrow>
          if \<not> usbg_config_is_int L c node then Some (err USBG_ERROR_INVALID_TYPE, w)
          else let val = lc_get_int L c node
               in if (case limit of None \<Rightarrow> False | Some m \<Rightarrow> sint val < 0 \<or> sint val > m)
                  then Some (err USBG_ERROR_INVALID_VALUE, w)
                  else if_done (setter val w) (import_ints L c root as))"

definition usbg_import_config_attrs ::
  "('s, 'c) libconfig \<Rightarrow> 'k kernel \<Rightarrow> 'c \<Rightarrow> 's \<Rightarrow> ptr \<Rightarrow> 'k world \<Rightarrow> (int \<times> 'k world) option" where
  "usbg_import_config_attrs L K c root conf w =
     import_ints L c root
       [(''bmAttributes'', None, usbg_set_config_bm_attrs K (Some conf)),
        (''bMaxPower'', None, usbg_set_config_max_power K (Some conf))] w"

text \<open>A section that may be absent and must have a type.\<close>

definition typed_section ::
  "('s, 'c) libconfig \<Rightarrow> 'c \<Rightarrow> 's \<Rightarrow> string \<Rightarrow> config_type \<Rightarrow> ('s \<Rightarrow> 'k world \<Rightarrow> (int \<times> 'k world) option)
     \<Rightarrow> 'k world \<Rightarrow> (int \<times> 'k world) option" where
  "typed_section L c root tag type imp w =
     optional L c root tag (\<lambda>node w.
       if lc_type L c node \<noteq> type then Some (err USBG_ERROR_INVALID_TYPE, w) else imp node w) w"

definition usbg_import_config_run ::
  "('s, 'c) libconfig \<Rightarrow> 'k kernel \<Rightarrow> 'c \<Rightarrow> ptr \<Rightarrow> 's \<Rightarrow> int \<Rightarrow> 'k world
     \<Rightarrow> (int \<times> ptr option \<times> 'k world) option" where
  "usbg_import_config_run L K c g root cid w =
     (case lc_get_member L c root ''name'' of
        None \<Rightarrow> Some (err USBG_ERROR_MISSING_TAG, None, w)
      | Some node \<Rightarrow>
          (case lc_get_string L c node of
             None \<Rightarrow> Some (err USBG_ERROR_INVALID_TYPE, None, w)
           | Some name \<Rightarrow> do {
               (ret, newc, w1) \<leftarrow> usbg_create_config K (Some g) cid (Some name) None None True w;
               if ret \<noteq> err USBG_SUCCESS then Some (ret, None, w1)
               else do {
                 p \<leftarrow> newc;
                 (ret, w2) \<leftarrow> if_done
                   (typed_section L c root ''attrs'' CONFIG_TYPE_GROUP
                      (\<lambda>node. usbg_import_config_attrs L K c node p) w1) (\<lambda>w. if_done
                   (typed_section L c root ''strings'' CONFIG_TYPE_LIST
                      (\<lambda>node. usbg_import_config_strings L K c node p) w)
                   (typed_section L c root ''functions'' CONFIG_TYPE_LIST
                      (\<lambda>node. usbg_import_config_bindings L K c node p)));
                 if ret = err USBG_SUCCESS then Some (ret, Some p, w2)
                 else do {
                   (ignored, w3) \<leftarrow> usbg_rm_config K (Some p) USBG_RM_RECURSE w2;
                   Some (ret, None, w3)
                 }
               }
             }))"

fun import_configs_loop ::
  "('s, 'c) libconfig \<Rightarrow> 'k kernel \<Rightarrow> 'c \<Rightarrow> 's \<Rightarrow> ptr \<Rightarrow> nat list \<Rightarrow> 'k world \<Rightarrow> (int \<times> 'k world) option" where
  "import_configs_loop L K c root g [] w = Some (err USBG_SUCCESS, w)"
| "import_configs_loop L K c root g (i # is) w =
     (case lc_get_elem L c root i of
        None \<Rightarrow> Some (err USBG_ERROR_OTHER_ERROR, w)
      | Some node \<Rightarrow>
          if \<not> config_is_group L c node then Some (err USBG_ERROR_INVALID_TYPE, w)
          else case lc_get_member L c node ''id'' of
            None \<Rightarrow> Some (err USBG_ERROR_MISSING_TAG, w)
          | Some id_node \<Rightarrow>
              if \<not> usbg_config_is_int L c id_node then Some (err USBG_ERROR_INVALID_TYPE, w)
              else do {
                (ret, p, w1) \<leftarrow> usbg_import_config_run L K c g node (sint (lc_get_int L c id_node)) w;
                if ret \<noteq> err USBG_SUCCESS then Some (ret, w1)
                else import_configs_loop L K c root g is w1
              })"

definition usbg_import_gadget_configs ::
  "('s, 'c) libconfig \<Rightarrow> 'k kernel \<Rightarrow> 'c \<Rightarrow> 's \<Rightarrow> ptr \<Rightarrow> 'k world \<Rightarrow> (int \<times> 'k world) option" where
  "usbg_import_gadget_configs L K c root g w = import_configs_loop L K c root g [0..<lc_length L c root] w"

section \<open>Gadgets\<close>

text \<open>The label of an imported function is the name of its node.\<close>

fun import_functions_loop ::
  "('s, 'c) libconfig \<Rightarrow> 'k kernel \<Rightarrow> 'c \<Rightarrow> 's \<Rightarrow> ptr \<Rightarrow> nat list \<Rightarrow> 'k world \<Rightarrow> (int \<times> 'k world) option" where
  "import_functions_loop L K c root g [] w = Some (err USBG_SUCCESS, w)"
| "import_functions_loop L K c root g (i # is) w =
     (case lc_get_elem L c root i of
        None \<Rightarrow> Some (err USBG_ERROR_OTHER_ERROR, w)
      | Some node \<Rightarrow>
          if \<not> config_is_group L c node then Some (err USBG_ERROR_INVALID_TYPE, w)
          else case lc_get_member L c node ''instance'' of
            None \<Rightarrow> Some (err USBG_ERROR_MISSING_TAG, w)
          | Some inst_node \<Rightarrow>
              if \<not> usbg_config_is_string L c inst_node then Some (err USBG_ERROR_INVALID_TYPE, w)
              else (case lc_get_string L c inst_node of
                 None \<Rightarrow> Some (err USBG_ERROR_OTHER_ERROR, w)
               | Some instance_str \<Rightarrow> do {
                   (ret, f, w1) \<leftarrow> usbg_import_function_run L K c g node instance_str w;
                   if ret \<noteq> err USBG_SUCCESS then Some (ret, w1)
                   else case lc_name L c node of
                     None \<Rightarrow> Some (err USBG_ERROR_OTHER_ERROR, w1)
                   | Some label \<Rightarrow> do {
                       p \<leftarrow> f;
                       let (ok, w2) = on_os (k_malloc K) w1;
                       w3 \<leftarrow> upd_function p (f_label_update (\<lambda>_. if ok then Some label else None)) w2;
                       if \<not> ok then Some (err USBG_ERROR_NO_MEM, w3)
                       else import_functions_loop L K c root g is w3
                     }
                 }))"

definition usbg_import_gadget_functions ::
  "('s, 'c) libconfig \<Rightarrow> 'k kernel \<Rightarrow> 'c \<Rightarrow> 's \<Rightarrow> ptr \<Rightarrow> 'k world \<Rightarrow> (int \<times> 'k world) option" where
  "usbg_import_gadget_functions L K c root g w = import_functions_loop L K c root g [0..<lc_length L c root] w"

definition usbg_import_gadget_strs_lang ::
  "('s, 'c) libconfig \<Rightarrow> 'k kernel \<Rightarrow> 'c \<Rightarrow> 's \<Rightarrow> ptr \<Rightarrow> 'k world \<Rightarrow> (int \<times> 'k world) option" where
  "usbg_import_gadget_strs_lang L K c root g w =
     (case lc_get_member L c root ''lang'' of
        None \<Rightarrow> Some (err USBG_ERROR_MISSING_TAG, w)
      | Some node \<Rightarrow>
          if \<not> usbg_config_is_int L c node then Some (err USBG_ERROR_INVALID_TYPE, w)
          else let lang = lc_get_int L c node;
                   (ok1, m) = optional_string L c root ''manufacturer'';
                   (ok2, p) = optional_string L c root ''product'';
                   (ok3, s) = optional_string L c root ''serialnumber''
               in if \<not> (ok1 \<and> ok2 \<and> ok3) then Some (err USBG_ERROR_INVALID_TYPE, w)
                  else usbg_set_gadget_strs K (Some g) lang
                         (Some \<lparr>gs_manufacturer = m, gs_product = p, gs_serial = s\<rparr>) w)"

definition usbg_import_gadget_strings ::
  "('s, 'c) libconfig \<Rightarrow> 'k kernel \<Rightarrow> 'c \<Rightarrow> 's \<Rightarrow> ptr \<Rightarrow> 'k world \<Rightarrow> (int \<times> 'k world) option" where
  "usbg_import_gadget_strings L K c root g w =
     import_strings_loop L c root (\<lambda>node. usbg_import_gadget_strs_lang L K c node g)
       [0..<lc_length L c root] w"

definition usbg_import_gadget_attrs ::
  "('s, 'c) libconfig \<Rightarrow> 'k kernel \<Rightarrow> 'c \<Rightarrow> 's \<Rightarrow> ptr \<Rightarrow> 'k world \<Rightarrow> (int \<times> 'k world) option" where
  "usbg_import_gadget_attrs L K c root g w =
     import_ints L c root
       [(''bcdUSB'', Some 65535, \<lambda>v. usbg_set_gadget_device_bcd_usb K (Some g) (ucast v)),
        (''bDeviceClass'', Some 255, \<lambda>v. usbg_set_gadget_device_class K (Some g) (ucast v)),
        (''bDeviceSubClass'', Some 255, \<lambda>v. usbg_set_gadget_device_subclass K (Some g) (ucast v)),
        (''bDeviceProtocol'', Some 255, \<lambda>v. usbg_set_gadget_device_protocol K (Some g) (ucast v)),
        (''bMaxPacketSize0'', Some 255, \<lambda>v. usbg_set_gadget_device_max_packet K (Some g) (ucast v)),
        (''idVendor'', Some 65535, \<lambda>v. usbg_set_gadget_vendor_id K (Some g) (ucast v)),
        (''idProduct'', Some 65535, \<lambda>v. usbg_set_gadget_product_id K (Some g) (ucast v)),
        (''bcdDevice'', Some 65535, \<lambda>v. usbg_set_gadget_device_bcd_device K (Some g) (ucast v))] w"

text \<open>A number of at most 8 bits that is optional: an error or the number.\<close>

definition optional_u8 :: "('s, 'c) libconfig \<Rightarrow> 'c \<Rightarrow> 's \<Rightarrow> string \<Rightarrow> int + cint" where
  "optional_u8 L c root tag =
     (case lc_get_member L c root tag of
        None \<Rightarrow> Inr 0
      | Some node \<Rightarrow>
          if \<not> usbg_config_is_int L c node then Inl (err USBG_ERROR_INVALID_TYPE)
          else let val = lc_get_int L c node
               in if sint val < 0 \<or> sint val > 255 then Inl (err USBG_ERROR_INVALID_VALUE) else Inr val)"

text \<open>
  The link to a configuration is made after the attributes were written, whether that failed
  or not, and neither a \<open>config_id\<close> that is no number nor a failed link changes the return
  code.
\<close>

definition usbg_import_gadget_os_descs ::
  "('s, 'c) libconfig \<Rightarrow> 'k kernel \<Rightarrow> 'c \<Rightarrow> 's \<Rightarrow> ptr \<Rightarrow> 'k world \<Rightarrow> (int \<times> 'k world) option" where
  "usbg_import_gadget_os_descs L K c root g w =
     (case optional_u8 L c root ''use'' of
        Inl e \<Rightarrow> Some (e, w)
      | Inr use \<Rightarrow>
     (case optional_u8 L c root ''b_vendor_code'' of
        Inl e \<Rightarrow> Some (e, w)
      | Inr code \<Rightarrow>
          let (ok, qw_sign) = optional_string L c root ''qw_sign''
          in if \<not> ok then Some (err USBG_ERROR_INVALID_TYPE, w)
             else do {
               (ret, w1) \<leftarrow> usbg_set_gadget_os_descs K g
                 \<lparr>od_use = (use \<noteq> 0), od_b_vendor_code = ucast code, od_qw_sign = qw_sign\<rparr> w;
               case lc_get_member L c root ''config_id'' of
                 None \<Rightarrow> Some (ret, w1)
               | Some node \<Rightarrow>
                   if \<not> usbg_config_is_int L c node then Some (ret, w1)
                   else do {
                     target \<leftarrow> usbg_get_config g (sint (lc_get_int L c node)) None w1;
                     case target of
                       None \<Rightarrow> Some (err USBG_ERROR_NOT_FOUND, w1)
                     | Some p \<Rightarrow> do {
                         (ignored, w2) \<leftarrow> usbg_set_os_desc_config K (Some g) (Some p) w1;
                         Some (ret, w2)
                       }
                   }
             }))"

definition usbg_import_gadget_run ::
  "('s, 'c) libconfig \<Rightarrow> 'k kernel \<Rightarrow> 'c \<Rightarrow> 's \<Rightarrow> string \<Rightarrow> 'k world
     \<Rightarrow> (int \<times> ptr option \<times> 'k world) option" where
  "usbg_import_gadget_run L K c root name w = do {
     (ret, newg, w1) \<leftarrow> usbg_create_gadget K name None None True w;
     if ret \<noteq> err USBG_SUCCESS then Some (ret, None, w1)
     else do {
       g \<leftarrow> newg;
       (ret, w2) \<leftarrow> if_done
         (typed_section L c root ''attrs'' CONFIG_TYPE_GROUP
            (\<lambda>node. usbg_import_gadget_attrs L K c node g) w1) (\<lambda>w. if_done
         (typed_section L c root ''strings'' CONFIG_TYPE_LIST
            (\<lambda>node. usbg_import_gadget_strings L K c node g) w) (\<lambda>w. if_done
         (typed_section L c root ''functions'' CONFIG_TYPE_GROUP
            (\<lambda>node. usbg_import_gadget_functions L K c node g) w) (\<lambda>w. if_done
         (typed_section L c root ''configs'' CONFIG_TYPE_LIST
            (\<lambda>node. usbg_import_gadget_configs L K c node g) w)
         (typed_section L c root ''os_descs'' CONFIG_TYPE_GROUP
            (\<lambda>node. usbg_import_gadget_os_descs L K c node g)))));
       if ret = err USBG_SUCCESS then Some (ret, Some g, w2)
       else do {
         (ignored, w3) \<leftarrow> usbg_rm_gadget K (Some g) USBG_RM_RECURSE w2;
         Some (ret, None, w3)
       }
     }
   }"

section \<open>The API\<close>

text \<open>
  The configuration of the last import that failed: of functions and configurations kept in
  the gadget, of gadgets in the state. Setting one destroys the one before.
\<close>

record 'c failed_imports =
  fi_gadget :: "ptr \<rightharpoonup> 'c"
  fi_state :: "'c option"

definition usbg_set_failed_import :: "ptr option \<Rightarrow> 'c option \<Rightarrow> 'c failed_imports \<Rightarrow> 'c failed_imports" where
  "usbg_set_failed_import owner failed fi =
     (case owner of
        Some g \<Rightarrow> fi\<lparr>fi_gadget := (fi_gadget fi)(g := failed)\<rparr>
      | None \<Rightarrow> fi\<lparr>fi_state := failed\<rparr>)"

text \<open>
  What the three imports share: the stream is read into a configuration, which is run and
  kept when either failed. \<open>owner\<close> is the gadget that keeps it, or \<open>None\<close> for the state.
  The result has what is stored through the out parameter (if there is one).
\<close>

definition import_from ::
  "('s, 'c) libconfig \<Rightarrow> ('c, 'f) config_io \<Rightarrow> 'k kernel \<Rightarrow> ptr option
     \<Rightarrow> ('c \<Rightarrow> 's \<Rightarrow> 'k world \<Rightarrow> (int \<times> ptr option \<times> 'k world) option)
     \<Rightarrow> 'f \<Rightarrow> 'c failed_imports \<Rightarrow> 'k world
     \<Rightarrow> (int \<times> ptr option \<times> 'f \<times> 'c failed_imports \<times> 'k world) option" where
  "import_from L IO K owner run stream fi w =
     (let (ok, w1) = on_os (k_malloc K) w
      in if \<not> ok then Some (err USBG_ERROR_NO_MEM, None, stream, fi, w1)
         else let (well_formed, c, stream1) = cio_read IO stream
              in if \<not> well_formed
                 then Some (err USBG_ERROR_INVALID_FORMAT, None, stream1,
                            usbg_set_failed_import owner (Some c) fi, w1)
                 else do {
                   (ret, new, w2) \<leftarrow> run c (lc_root L) w1;
                   if ret \<noteq> err USBG_SUCCESS
                   then Some (ret, None, stream1, usbg_set_failed_import owner (Some c) fi, w2)
                   else Some (ret, new, stream1, usbg_set_failed_import owner None fi, w2)
                 })"

definition usbg_import_function ::
  "('s, 'c) libconfig \<Rightarrow> ('c, 'f) config_io \<Rightarrow> 'k kernel \<Rightarrow> ptr option \<Rightarrow> 'f option \<Rightarrow> string option
     \<Rightarrow> 'c failed_imports \<Rightarrow> 'k world
     \<Rightarrow> (int \<times> ptr option \<times> 'f option \<times> 'c failed_imports \<times> 'k world) option" where
  "usbg_import_function L IO K g stream inst fi w =
     (case (g, stream, inst) of
        (Some p, Some f, Some i) \<Rightarrow>
          map_option (\<lambda>(ret, new, f1, fi1, w1). (ret, new, Some f1, fi1, w1))
            (import_from L IO K (Some p) (\<lambda>c root. usbg_import_function_run L K c p root i) f fi w)
      | _ \<Rightarrow> Some (err USBG_ERROR_INVALID_PARAM, None, stream, fi, w))"

definition usbg_import_config ::
  "('s, 'c) libconfig \<Rightarrow> ('c, 'f) config_io \<Rightarrow> 'k kernel \<Rightarrow> ptr option \<Rightarrow> 'f option \<Rightarrow> int
     \<Rightarrow> 'c failed_imports \<Rightarrow> 'k world
     \<Rightarrow> (int \<times> ptr option \<times> 'f option \<times> 'c failed_imports \<times> 'k world) option" where
  "usbg_import_config L IO K g stream cid fi w =
     (case (g, stream) of
        (Some p, Some f) \<Rightarrow>
          if cid < 0 then Some (err USBG_ERROR_INVALID_PARAM, None, stream, fi, w)
          else map_option (\<lambda>(ret, new, f1, fi1, w1). (ret, new, Some f1, fi1, w1))
                 (import_from L IO K (Some p) (\<lambda>c root. usbg_import_config_run L K c p root cid) f fi w)
      | _ \<Rightarrow> Some (err USBG_ERROR_INVALID_PARAM, None, stream, fi, w))"

definition usbg_import_gadget ::
  "('s, 'c) libconfig \<Rightarrow> ('c, 'f) config_io \<Rightarrow> 'k kernel \<Rightarrow> 'f option \<Rightarrow> string option
     \<Rightarrow> 'c failed_imports \<Rightarrow> 'k world
     \<Rightarrow> (int \<times> ptr option \<times> 'f option \<times> 'c failed_imports \<times> 'k world) option" where
  "usbg_import_gadget L IO K stream name fi w =
     (case (stream, name) of
        (Some f, Some n) \<Rightarrow>
          map_option (\<lambda>(ret, new, f1, fi1, w1). (ret, new, Some f1, fi1, w1))
            (import_from L IO K None (\<lambda>c root. usbg_import_gadget_run L K c root n) f fi w)
      | _ \<Rightarrow> Some (err USBG_ERROR_INVALID_PARAM, None, stream, fi, w))"

text \<open>The error of the last failed import.\<close>

definition import_error_text :: "('c, 'f) config_io \<Rightarrow> 'c option \<Rightarrow> string option" where
  "import_error_text IO failed = (case failed of None \<Rightarrow> None | Some c \<Rightarrow> cio_error_text IO c)"

definition import_error_line :: "('c, 'f) config_io \<Rightarrow> 'c option \<Rightarrow> int" where
  "import_error_line IO failed = (case failed of None \<Rightarrow> -1 | Some c \<Rightarrow> cio_error_line IO c)"

definition failed_of_gadget :: "ptr option \<Rightarrow> 'c failed_imports \<Rightarrow> 'c option" where
  "failed_of_gadget g fi = (case g of None \<Rightarrow> None | Some p \<Rightarrow> fi_gadget fi p)"

definition usbg_get_func_import_error_text ::
  "('c, 'f) config_io \<Rightarrow> ptr option \<Rightarrow> 'c failed_imports \<Rightarrow> string option" where
  "usbg_get_func_import_error_text IO g fi = import_error_text IO (failed_of_gadget g fi)"

definition usbg_get_func_import_error_line ::
  "('c, 'f) config_io \<Rightarrow> ptr option \<Rightarrow> 'c failed_imports \<Rightarrow> int" where
  "usbg_get_func_import_error_line IO g fi = import_error_line IO (failed_of_gadget g fi)"

definition usbg_get_config_import_error_text ::
  "('c, 'f) config_io \<Rightarrow> ptr option \<Rightarrow> 'c failed_imports \<Rightarrow> string option" where
  "usbg_get_config_import_error_text IO g fi = import_error_text IO (failed_of_gadget g fi)"

definition usbg_get_config_import_error_line ::
  "('c, 'f) config_io \<Rightarrow> ptr option \<Rightarrow> 'c failed_imports \<Rightarrow> int" where
  "usbg_get_config_import_error_line IO g fi = import_error_line IO (failed_of_gadget g fi)"

text \<open>Here the argument is the state, which may be NULL.\<close>

definition usbg_get_gadget_import_error_text ::
  "('c, 'f) config_io \<Rightarrow> bool \<Rightarrow> 'c failed_imports \<Rightarrow> string option" where
  "usbg_get_gadget_import_error_text IO state_given fi =
     (if \<not> state_given then None else import_error_text IO (fi_state fi))"

definition usbg_get_gadget_import_error_line ::
  "('c, 'f) config_io \<Rightarrow> bool \<Rightarrow> 'c failed_imports \<Rightarrow> int" where
  "usbg_get_gadget_import_error_line IO state_given fi =
     (if \<not> state_given then -1 else import_error_line IO (fi_state fi))"

end
