(* ===== verification/Usbg_Scheme_Round.thy ===== *)
theory Usbg_Scheme_Round
  imports Usbg_Config_Tree Usbg_Gadget_Round Usbg_Import
begin

text \<open>
  Export followed by import: what one object's files hold when it is exported, the files of
  the object that is imported hold afterwards. Both directions are shown for the loops over
  attribute tables, on an environment with files that keep what is written and a libconfig
  that keeps its settings.
\<close>

locale scheme_store = attr_store_mem K contents + config_store L look
  for K :: "'k kernel" and contents :: "'k \<Rightarrow> string \<Rightarrow> string option"
    and L :: "('s, 'c) libconfig" and look :: "'c \<Rightarrow> 's \<Rightarrow> 's setting option"
begin

text \<open>
  A table with its nodes and the values of its members: an entry that an export passes over
  matters to neither side.
\<close>

definition exportable ::
  "bool \<Rightarrow> string \<Rightarrow> string \<Rightarrow> 'k \<Rightarrow> 'k attr_entry \<times> ('s, 'c, 'k) node_entry \<Rightarrow> attr_val \<Rightarrow> bool" where
  "exportable skip p nm k en v \<longleftrightarrow>
     (skip \<and> a_ro (fst en)) \<or> (stored_in p nm k (fst en) v \<and> node_keeps (snd en) v)"

definition exported :: "bool \<Rightarrow> 'c \<Rightarrow> 's \<Rightarrow> 'k attr_entry \<times> ('s, 'c, 'k) node_entry \<Rightarrow> attr_val \<Rightarrow> bool" where
  "exported skip c r en v \<longleftrightarrow>
     (skip \<and> a_ro (fst en)) \<or> node_in c r (a_name (fst en)) (snd en) v"

lemma exported_grows: "grows c c' r0 \<Longrightarrow> exported skip c r en v \<Longrightarrow> exported skip c' r en v"
  by (auto simp: exported_def intro: node_in_grows)

lemma export_attrs_exported:
  assumes "export_attrs L skip r get i es c k = Some (0, c', k')" "is_group c r"
    and "\<And>j d k. j < length es \<Longrightarrow>
           get (i + j) d k = Some (a_get (fst (es ! j)) K p nm (a_name (fst (es ! j))) d k)"
    and "list_all2 (exportable skip p nm k) es vs"
  shows "list_all2 (exported skip c' r) es vs \<and> grows c c' r \<and> contents k' = contents k"
  using assms
proof (induction es arbitrary: i vs c k)
  case (Cons en es)
  obtain e n where en: "en = (e, n)" by (cases en)
  from Cons.prems(4) obtain v vs' where vs: "vs = v # vs'" and v: "exportable skip p nm k (e, n) v"
    and es: "list_all2 (exportable skip p nm k) es vs'" by (auto simp: list_all2_Cons1 en)
  have get: "get (Suc i + j) d k = Some (a_get (fst (es ! j)) K p nm (a_name (fst (es ! j))) d k)"
    if "j < length es" for j d k
    using Cons.prems(3) [of "Suc j" d k] that by simp
  show ?case
  proof (cases "skip \<and> a_ro e")
    case True
    with Cons.IH [OF _ Cons.prems(2) get es] Cons.prems(1) en vs show ?thesis
      by (simp add: exported_def)
  next
    case False
    with v have st: "stored_in p nm k e v" and nk: "node_keeps n v" by (auto simp: exportable_def)
    from st obtain k1 where k1: "a_get e K p nm (a_name e) (Int_val 0) k = (0, v, k1)" "contents k1 = contents k"
      by (rule stored_in_get)
    with Cons.prems(3) [of 0 "Int_val 0" k] en have "get i (Int_val 0) k = Some (0, v, k1)" by simp
    with Cons.prems(1) False en obtain ex c1 where ex: "n_export n = Some ex"
      "ex L r (a_name e) v c = Some (0, c1)"
      and rest: "export_attrs L skip r get (Suc i) es c1 k1 = Some (0, c', k')"
      by (auto elim!: bind_Some_elim split: if_splits)
    note x = node_keeps_export [OF nk ex(1) Cons.prems(2) ex(2)]
    from es have "list_all2 (exportable skip p nm k1) es vs'"
      by (rule list_all2_mono) (auto simp: exportable_def stored_in_def k1(2))
    from Cons.IH [OF rest grows_group [OF x(1)] get this]
    have IH: "list_all2 (exported skip c' r) es vs'" "grows c1 c' r" "contents k' = contents k1" by auto
    from node_in_grows [OF IH(2) x(2)] have "exported skip c' r (e, n) v" by (simp add: exported_def)
    with IH grows_trans [OF x(1) IH(2)] k1(2) vs en show ?thesis by auto
  qed
qed (auto intro: grows_refl)

text \<open>The import of a node that was exported writes its file.\<close>

lemma import_attrs_stored:
  assumes "import_attrs L K c r st i es k = Some (0, k')"
    and "\<And>j v k. j < length es \<Longrightarrow> \<not> a_ro (fst (es ! j)) \<Longrightarrow>
           st (i + j) v k = Option.bind (a_set (fst (es ! j))) (\<lambda>f. f K p nm (a_name (fst (es ! j))) v k)"
    and "list_all2 (\<lambda>en v. a_ro (fst en) \<or> keeps (fst en) v \<and> node_in c r (a_name (fst en)) (snd en) v) es vs"
    and "distinct (map (a_name \<circ> fst) es)"
  shows "list_all2 (\<lambda>en v. a_ro (fst en) \<or> stored_in p nm k' (fst en) v) es vs \<and>
    (\<forall>q. q \<notin> (\<lambda>en. path3 p nm (a_name (fst en))) ` set es \<longrightarrow> contents k' q = contents k q)"
  using assms
proof (induction es arbitrary: i vs k)
  case (Cons en es)
  obtain e n where en: "en = (e, n)" by (cases en)
  let ?R = "\<lambda>en v. a_ro (fst en) \<or> keeps (fst en) v \<and> node_in c r (a_name (fst en)) (snd en) v"
  from Cons.prems(3) obtain v vs' where vs: "vs = v # vs'" and v: "?R (e, n) v"
    and es: "list_all2 ?R es vs'" by (auto simp: list_all2_Cons1 en)
  have new: "path3 p nm (a_name e) \<notin> (\<lambda>en. path3 p nm (a_name (fst en))) ` set es"
    using Cons.prems(4) en by (force simp: image_def)
  have st: "st (Suc i + j) v k = Option.bind (a_set (fst (es ! j))) (\<lambda>f. f K p nm (a_name (fst (es ! j))) v k)"
    if "j < length es" "\<not> a_ro (fst (es ! j))" for j v k
    using Cons.prems(2) [of "Suc j" v k] that by simp
  have dist: "distinct (map (a_name \<circ> fst) es)" using Cons.prems(4) by (simp add: comp_def)
  show ?case
  proof (cases "a_ro e")
    case True
    with Cons.IH [OF _ st es dist, of k] Cons.prems(1) en vs show ?thesis by simp
  next
    case False
    with v obtain s where ks: "entry_keeps K contents e v s" and nin: "node_in c r (a_name e) n v"
      by (auto simp: keeps_def)
    from Cons.prems(1) en False obtain imp where imp: "n_import n = Some imp" by (auto elim: bind_Some_elim)
    have get: "imp L K c r (a_name e) k = Some (1, Some v, k)" by (rule node_in_import [OF nin imp])
    from Cons.prems(1) en False imp get obtain k1 where w: "st i v k = Some (0, k1)"
      and rest: "import_attrs L K c r st (Suc i) es k1 = Some (0, k')"
      by (auto elim!: bind_Some_elim split: if_splits)
    from w Cons.prems(2) [of 0 v k] False en
    have "Option.bind (a_set e) (\<lambda>f. f K p nm (a_name e) v k) = Some (0, k1)" by simp
    then obtain f where f: "a_set e = Some f" "f K p nm (a_name e) v k = Some (0, k1)"
      by (cases "a_set e") auto
    from ks [unfolded entry_keeps_def] f have k1: "fits (path3 p nm (a_name e))"
      "contents k1 = (contents k)(path3 p nm (a_name e) \<mapsto> s)" by blast+
    from Cons.IH [OF rest st es dist]
    have IH: "list_all2 (\<lambda>en v. a_ro (fst en) \<or> stored_in p nm k' (fst en) v) es vs'"
      "\<forall>q. q \<notin> (\<lambda>en. path3 p nm (a_name (fst en))) ` set es \<longrightarrow> contents k' q = contents k1 q" by auto
    from IH(2) new k1(2) have "contents k' (path3 p nm (a_name e)) = Some s" by simp
    with ks k1(1) have "stored_in p nm k' e v" by (auto simp: stored_in_def)
    with IH k1(2) vs en show ?thesis by auto
  qed
qed auto

section \<open>A whole structure\<close>

text \<open>
  Setting the attributes of one function and exporting it puts them into the configuration;
  importing this configuration into another function stores them in its files. Entries that
  are read-only are left out by both; tables without them need not be told so (\<open>skip\<close>).
\<close>

definition table_fits ::
  "bool \<Rightarrow> 'k attr_entry list \<Rightarrow> ('s, 'c, 'k) node_entry list \<Rightarrow> attr_val list \<Rightarrow> bool" where
  "table_fits skip tab nodes vs \<longleftrightarrow> length nodes = length tab \<and> distinct (map a_name tab) \<and>
     list_all2 (\<lambda>en v. skip \<and> a_ro (fst en) \<or> \<not> a_ro (fst en) \<and> keeps (fst en) v \<and> node_keeps (snd en) v)
       (zip tab nodes) vs"

lemma table_fitsD:
  assumes "table_fits skip tab nodes vs"
  shows "list_all2 (\<lambda>e v. a_ro e \<or> keeps e v) tab vs" "length nodes = length tab" "length vs = length tab"
    "distinct (map a_name tab)"
  using assms by (auto simp: table_fits_def list_all2_conv_all_nth)

lemma table_exported:
  assumes "table_set_attrs tab K p nm vs k = Some (0, k0)" "table_fits skip tab nodes vs"
    and "export_attrs L skip r (table_get_val tab K p nm) 0 (zip tab nodes) c k0 = Some (0, c', k1)" "is_group c r"
  shows "grows c c' r \<and> list_all2 (exported skip c' r) (zip tab nodes) vs"
proof -
  note fits = table_fitsD [OF assms(2)]
  from table_set_stored [OF assms(1) fits(4,1)]
  have "list_all2 (\<lambda>e v. a_ro e \<or> stored_in p nm k0 e v) tab vs" ..
  note st = list_all2_nthD [OF this]
  from assms(2) have "list_all2 (\<lambda>en v. skip \<and> a_ro (fst en) \<or> \<not> a_ro (fst en) \<and> keeps (fst en) v \<and> node_keeps (snd en) v)
      (zip tab nodes) vs" by (simp add: table_fits_def)
  note nd = list_all2_nthD [OF this]
  have "exportable skip p nm k0 (zip tab nodes ! i) (vs ! i)" if "i < length tab" for i
    using st [of i] nd [of i] that fits(2) by (auto simp: exportable_def)
  then have ex: "list_all2 (exportable skip p nm k0) (zip tab nodes) vs"
    using fits(2,3) by (simp add: list_all2_conv_all_nth)
  from export_attrs_exported [OF assms(3,4) _ ex] fits(2) show ?thesis
    by (auto simp: table_get_val_def)
qed

lemma table_imported:
  assumes "list_all2 (exported skip c r) (zip tab nodes) vs" "table_fits skip tab nodes vs"
    and "import_attrs L K c r (table_set_val tab K p nm) 0 (zip tab nodes) k = Some (0, k')"
  shows "list_all2 (\<lambda>e v. a_ro e \<or> stored_in p nm k' e v) tab vs"
proof -
  note fits = table_fitsD [OF assms(2)]
  note ex = list_all2_nthD [OF assms(1)]
  have "list_all2 (\<lambda>en v. skip \<and> a_ro (fst en) \<or> \<not> a_ro (fst en) \<and> keeps (fst en) v \<and> node_keeps (snd en) v)
      (zip tab nodes) vs" using assms(2) by (simp add: table_fits_def)
  note nd = list_all2_nthD [OF this]
  have "a_ro (tab ! i) \<or> keeps (tab ! i) (vs ! i) \<and> node_in c r (a_name (tab ! i)) (nodes ! i) (vs ! i)"
    if "i < length tab" for i
    using ex [of i] nd [of i] that fits(2) by (auto simp: exported_def)
  then have im: "list_all2 (\<lambda>en v. a_ro (fst en) \<or> keeps (fst en) v \<and> node_in c r (a_name (fst en)) (snd en) v)
      (zip tab nodes) vs"
    using fits(2,3) by (simp add: list_all2_conv_all_nth)
  have dist: "distinct (map (a_name \<circ> fst) (zip tab nodes))"
    using fits(2,4) by (metis map_fst_zip map_map)
  from import_attrs_stored [OF assms(3) _ im dist] fits(2)
  show ?thesis by (auto simp: table_set_val_def list_all2_conv_all_nth)
qed

lemma midi_fits:
  "midi_id a = Some str \<Longrightarrow> storable str \<Longrightarrow> table_fits False midi_attr midi_nodes (midi_vals a)"
  by (simp add: table_fits_def struct_names, simp add: struct_defs midi_nodes_def keeps_intros node_keeps_intros)

lemma net_fits:
  "length (net_dev_addr a) = 6 \<Longrightarrow> length (net_host_addr a) = 6 \<Longrightarrow> table_fits True net_attr net_nodes (net_vals a)"
  by (simp add: table_fits_def struct_names, simp add: struct_defs net_nodes_def keeps_intros node_keeps_intros)

end

end
