(* ===== verification/Usbg_Scheme_Api.thy ===== *)
theory Usbg_Scheme_Api
  imports Usbg_Scheme_Round Usbg_Safety_Create
begin

text \<open>
  Gadget schemes through the API: a function is exported to a file, and a function imported
  from this file, in the same or in another gadget, has the type and the attributes of the
  first. What is shown is composed from the steps of \<open>usbg_export_function\<close> and
  \<open>usbg_import_function\<close> and the round trip over the table of the function's module.
\<close>

section \<open>Steps\<close>

lemma no_io_ok [simp]: "no_io m c w = Some (0, c', w') \<longleftrightarrow> m c = (0, c') \<and> w' = w"
  by (auto simp: no_io_def split: prod.splits)

lemma if_ok_Some [simp]:
  "if_ok r cont = Some (0, c', w') \<longleftrightarrow> (\<exists>c w. r = Some (0, c, w) \<and> cont c w = Some (0, c', w'))"
  by (cases r) (auto simp: if_ok_def split: if_splits)

lemma if_done_Some [simp]:
  "if_done r cont = Some (0, w') \<longleftrightarrow> (\<exists>w. r = Some (0, w) \<and> cont w = Some (0, w'))"
  by (cases r) (auto simp: if_done_def split: if_splits)

section \<open>The function object\<close>

lemma function_export_same:
  "function_export L K fn root c k = Some (ret, fn', c', k') \<Longrightarrow> same_fn fn fn'"
  by (cases "f_type fn")
     (auto simp: function_export_def uvc_update_def bind_eq_Some_conv same_fn_def ms_update_def)

lemma function_import_same:
  "function_import L K fn c root k = Some (ret, fn', k') \<Longrightarrow> same_fn fn fn'"
  by (cases "f_type fn")
     (auto simp: function_import_def uvc_update_def bind_eq_Some_conv same_fn_def ms_update_def)

section \<open>Files\<close>

text \<open>
  libconfig's promise about files: what is written is read as the same configuration, under
  other handles, if it can be read at all.
\<close>

locale scheme_file = scheme_store K contents L look
  for K :: "'k kernel" and contents :: "'k \<Rightarrow> string \<Rightarrow> string option"
    and L :: "('s, 'c) libconfig" and look :: "'c \<Rightarrow> 's \<Rightarrow> 's setting option" +
  fixes IO :: "('c, 'f) config_io"
  assumes read_written: "cio_read IO (cio_write IO c f) = (True, c1, f1) \<Longrightarrow>
    \<exists>h. h (lc_root L) = lc_root L \<and> copy_of h c c1"
begin

section \<open>The steps of an export\<close>

text \<open>A node that is added to a group, and what is put into it, which leaves the group alone.\<close>

lemma in_new_node_ok:
  assumes "in_new_node L r (Some n) t cont c w = Some (0, c', w')" "is_group c r" "fresh_setting t = Some x"
    and "\<And>s c1. look c1 s = Some x \<Longrightarrow> cont s c1 w = Some (0, c', w') \<Longrightarrow> others_kept c1 c' s"
  obtains s c1 where "look c1 s = Some x" "cont s c1 w = Some (0, c', w')" "grows c c1 r" "s \<noteq> r"
    "member c' r n s" "grows c c' r"
proof -
  from assms(2) obtain ms where ms: "look c r = Some (Set_group ms)" by (auto simp: is_group_def)
  from assms(1) obtain s c1 where s: "lc_add L r (Some n) t c = (Some s, c1)" "cont s c1 w = Some (0, c', w')"
    by (auto simp: in_new_node_def split: prod.splits option.splits)
  from add_member [OF ms s(1) assms(3)] have a: "look c s = None" "n \<notin> fst ` set ms"
    "look c1 = (look c)(r \<mapsto> Set_group (ms @ [(n, s)]), s \<mapsto> x)" by auto
  have sr: "s \<noteq> r" using ms a(1) by auto
  have keep: "q \<noteq> s \<Longrightarrow> look c1 q = Some y \<Longrightarrow> look c' q = Some y" for q y
    using assms(4) [OF _ s(2)] a(3) by (auto simp: others_kept_def)
  have r: "look c' r = Some (Set_group (ms @ [(n, s)]))" by (rule keep) (use a(3) sr in auto)
  have new: "map_of (ms @ [(n, s)]) n = Some s"
    using a(2) by (simp add: map_add_def map_of_eq_None_iff [THEN iffD2])
  have g1: "grows c c1 r" using ms a sr by (auto simp: grows_def)
  have "look c' q = Some y" if "q \<noteq> r" "look c q = Some y" for q y
  proof (rule keep)
    show "q \<noteq> s" using that(2) a(1) by auto
    with that a(3) show "look c1 q = Some y" by simp
  qed
  with ms r have "grows c c' r" by (auto simp: grows_def)
  moreover have "member c' r n s" using r new by (auto simp: member_def)
  ultimately show ?thesis using that [OF _ s(2) g1 sr] a by simp
qed

text \<open>What the configuration of a function without OS descriptors holds.\<close>

definition function_node ::
  "bool \<Rightarrow> usbg_function_type \<Rightarrow> ('k attr_entry \<times> ('s, 'c, 'k) node_entry) list \<Rightarrow> attr_val list
     \<Rightarrow> 'c \<Rightarrow> 's \<Rightarrow> bool" where
  "function_node skip t es vs c r \<longleftrightarrow>
     holds c r ''type'' (Set_string (Some (function_type_name t))) \<and>
     (\<exists>s. member c r ''attrs'' s \<and> list_all2 (exported skip c s) es vs) \<and>
     (\<exists>s. member c r ''os_descs'' s \<and> look c s = Some (Set_list []))"

lemma copy_function_node:
  assumes "copy_of h c c1" "function_node skip t es vs c r"
  shows "function_node skip t es vs c1 (h r)"
proof -
  have "list_all2 (exported skip c1 (h s)) es vs" if "list_all2 (exported skip c s) es vs" for s
    using that by (rule list_all2_mono) (auto simp: exported_def intro: copy_node_in [OF assms(1)])
  moreover have "look c1 (h s) = Some (Set_list [])" if "look c s = Some (Set_list [])" for s
    using assms(1) that by (auto simp: copy_of_def)
  moreover have "holds c1 (h r) ''type'' (Set_string (Some (function_type_name t)))"
    using copy_holds [OF assms(1)] assms(2) by (auto simp: function_node_def)
  ultimately show ?thesis
    using assms(2) copy_is_member [OF assms(1)] unfolding function_node_def by metis
qed

lemma export_function_prep_node:
  assumes "usbg_export_function_prep L K f r c w = Some (0, c', w')" "is_group c r"
    and "function_at w f = Some fn" "os_desc_iname (f_type fn) = []"
    and "\<And>s c1 c2 fn' k'. is_group c1 s \<Longrightarrow> function_export L K fn s c1 (os w) = Some (0, fn', c2, k') \<Longrightarrow>
           grows c1 c2 s \<and> list_all2 (exported skip c2 s) es vs"
  shows "function_node skip (f_type fn) es vs c' r"
proof -
  let ?os = "\<lambda>node c w. do {
       (ret, c1, w1) \<leftarrow> usbg_export_function_os_descs L K f node c w;
       Some (if ret = err USBG_ERROR_NOT_SUPPORTED then err USBG_SUCCESS else ret, c1, w1) }"
  from assms(1,3) obtain c1 c2 w2 where
    1: "usbg_set_config_node_string L r (Some ''type'') (Some (function_type_name (f_type fn))) c = (0, c1)"
    and 2: "in_new_node L r (Some ''attrs'') CONFIG_TYPE_GROUP (usbg_export_function_attrs L K f) c1 w = Some (0, c2, w2)"
    and 3: "in_new_node L r (Some ''os_descs'') CONFIG_TYPE_LIST ?os c2 w2 = Some (0, c', w')"
    by (auto simp: usbg_export_function_prep_def)
  from string_node_adds [OF 1 assms(2)] have
    type: "grows c c1 r" "holds c1 r ''type'' (Set_string (Some (function_type_name (f_type fn))))"
    by (simp_all add: adds_def)
  have export: "grows c3 c4 s \<and> list_all2 (exported skip c4 s) es vs \<and> (\<exists>fn'. function_at w4 f = Some fn' \<and> same_fn fn fn')"
    if "usbg_export_function_attrs L K f s c3 w = Some (0, c4, w4)" "look c3 s = Some (Set_group [])" for s c3 c4 w4
    using that assms(3) assms(5) [of c3 s] function_export_same
    by (fastforce simp: usbg_export_function_attrs_def is_group_def elim!: bind_Some_elim)
  obtain s c3 where attrs: "look c3 s = Some (Set_group [])" "usbg_export_function_attrs L K f s c3 w = Some (0, c2, w2)"
    "s \<noteq> r" "member c2 r ''attrs'' s" "grows c1 c2 r"
    by (rule in_new_node_ok [OF 2 grows_group [OF type(1)], where x = "Set_group []"])
       (use export grows_others_kept in \<open>simp, blast, blast\<close>)
  from export [OF attrs(2,1)] obtain fn' where node: "list_all2 (exported skip c2 s) es vs"
    and fn': "function_at w2 f = Some fn'" "f_type fn' = f_type fn"
    by (auto dest: same_fn_fields)
  have noos: "usbg_export_function_os_descs L K f t c4 w2 = Some (0, c4, w2)" for t c4
    using fn' assms(4) by (simp add: usbg_export_function_os_descs_def)
  obtain t c4 where os: "look c4 t = Some (Set_list [])" "?os t c4 w2 = Some (0, c', w')"
    "member c' r ''os_descs'' t" "grows c2 c' r"
    by (rule in_new_node_ok [OF 3 grows_group [OF attrs(5)], where x = "Set_list []"]) (simp_all add: noos)
  with noos have "look c' t = Some (Set_list [])" by simp
  moreover have "holds c' r ''type'' (Set_string (Some (function_type_name (f_type fn))))"
    by (intro grows_holds [OF os(4)] grows_holds [OF attrs(5)] type(2)) simp_all
  moreover have "list_all2 (exported skip c' s) es vs"
    using node by (rule list_all2_mono) (rule exported_grows [OF os(4)])
  ultimately show ?thesis
    using os(3) grows_is_member [OF os(4) attrs(4)] by (auto simp: function_node_def)
qed

section \<open>The steps of an import\<close>

lemma import_function_run_node:
  assumes "usbg_import_function_run L K c g r inst w = Some (0, q, w')" "function_node skip t es vs c r"
    and "heap_wf w" "gadget_at w g = Some gad" "luns_named K"
  obtains p fn k s fn' k' where "q = Some p" "new_function gad g t inst fn"
    "function_import L K fn c s k = Some (0, fn', k')" "list_all2 (exported skip c s) es vs"
    "function_at w' p = Some fn'" "os w' = k'"
proof -
  from assms(2) obtain s o1 where s: "holds c r ''type'' (Set_string (Some (function_type_name t)))"
    "member c r ''attrs'' s" "list_all2 (exported skip c s) es vs" "member c r ''os_descs'' o1"
    "look c o1 = Some (Set_list [])" by (auto simp: function_node_def)
  from s(1) obtain ty where ty: "lc_get_member L c r ''type'' = Some ty"
    "lc_get_string L c ty = Some (function_type_name t)"
    by (auto simp: holds_def get_member get_string)
  from create_function_wf [OF assms(5,3,4), of None t inst] obtain ret f w1 where
    cr: "usbg_create_function K (Some g) t (Some inst) None True w = Some (ret, f, w1)"
      "ret = 0 \<Longrightarrow> f = Some (next_ptr w) \<and> function_added g t inst gad w w1" by auto
  from assms(1) ty cr(1) have ret: "ret = 0"
    by (auto simp: usbg_import_function_run_def split: if_splits)
  from cr(2) [OF ret] obtain fn where fn: "function_at w1 (next_ptr w) = Some fn" "new_function gad g t inst fn"
    by (auto simp: function_added_def add_function_def dest: arg_cong [where f = function_at])
  from assms(1) ty cr ret member_found [OF s(2)] member_found [OF s(4)] obtain w2 where
    q: "q = Some (next_ptr w)" "usbg_import_function_attrs L K c s (next_ptr w) w1 = Some (0, w2)"
      "usbg_import_function_os_descs L K c o1 (next_ptr w) w2 = Some (0, w')"
    by (auto simp: usbg_import_function_run_def optional_def elim!: bind_Some_elim)
  from q(2) fn(1) obtain fn' k' where im: "function_import L K fn c s (os w1) = Some (0, fn', k')"
    "w2 = w1\<lparr>function_at := (function_at w1)(next_ptr w \<mapsto> fn'), os := k'\<rparr>"
    by (auto simp: usbg_import_function_attrs_def elim!: bind_Some_elim)
  from q(3) im(2) get_length [OF s(5)] have "w' = w2"
    by (auto simp: usbg_import_function_os_descs_def elim!: bind_Some_elim)
  with that [OF q(1) fn(2) im(1) s(3)] im(2) show ?thesis by simp
qed

section \<open>From one function to another\<close>

text \<open>
  The attributes of a function are set, it is exported to a file, and from this file a
  function is imported, by a program whose handles are live: the files of the new function
  hold the attributes.
\<close>

lemma export_import_function:
  assumes "usbg_export_function L IO K (Some f) (Some st) w0 = Some (0, st1, w1)"
    and "function_at w0 f = Some fn" "os_desc_iname (f_type fn) = []"
    and "\<And>s c c' fn' k'. is_group c s \<Longrightarrow> function_export L K fn s c (os w0) = Some (0, fn', c', k') \<Longrightarrow>
           grows c c' s \<and> list_all2 (exported skip c' s) es vs"
    and "usbg_import_function L IO K (Some g) st1 (Some inst) fi w2 = Some (0, q, st2, fi2, w3)"
    and "heap_wf w2" "gadget_at w2 g = Some gad" "luns_named K"
  obtains p fn1 c s k fn2 where "q = Some p" "new_function gad g (f_type fn) inst fn1"
    "function_import L K fn1 c s k = Some (0, fn2, os w3)" "list_all2 (exported skip c s) es vs"
    "function_at w3 p = Some fn2"
proof -
  from assms(1) obtain c where c: "usbg_export_function_prep L K f (lc_root L) (lc_init L) w0 = Some (0, c, w1)"
    "st1 = Some (cio_write IO c st)"
    by (auto simp: usbg_export_function_def export_to_def elim!: bind_Some_elim)
  from look_root have root: "is_group (lc_init L) (lc_root L)" by (simp add: is_group_def)
  from export_function_prep_node [OF c(1) root assms(2-4)]
  have node: "function_node skip (f_type fn) es vs c (lc_root L)" .
  obtain m w2' where m: "on_os (k_malloc K) w2 = (m, w2')" by fastforce
  then have w2': "w2' = w2\<lparr>os := os w2'\<rparr>" by (auto simp: on_os_def)
  from assms(5) m c(2) obtain c1 f1 where rd: "cio_read IO (cio_write IO c st) = (True, c1, f1)"
    "usbg_import_function_run L K c1 g (lc_root L) inst w2' = Some (0, q, w3)"
    by (auto simp: usbg_import_function_def import_from_def split: prod.splits if_splits elim!: bind_Some_elim)
  from read_written [OF rd(1)] obtain h where h: "h (lc_root L) = lc_root L" "copy_of h c c1" by blast
  from copy_function_node [OF h(2) node] h(1)
  have "function_node skip (f_type fn) es vs c1 (lc_root L)" by simp
  then show ?thesis
  proof (rule import_function_run_node [OF rd(2)])
    show "heap_wf w2'" "gadget_at w2' g = Some gad" using assms(6,7) by (subst w2'; simp)+
  qed (use assms(8) that in auto)
qed

lemma export_import_midi:
  assumes "usbg_set_function_attrs K (Some f) (Some (Midi_attrs a)) w = Some (0, w0)"
    and "midi_id a = Some str" "storable str"
    and "usbg_export_function L IO K (Some f) (Some st) w0 = Some (0, st1, w1)"
    and "usbg_import_function L IO K (Some g) st1 (Some inst) fi w2 = Some (0, q, st2, fi2, w3)"
    and "heap_wf w2" "gadget_at w2 g \<noteq> None" "luns_named K"
  shows "\<exists>w4. usbg_get_function_attrs K q (Some (Midi_attrs d)) w3 = Some (0, Some (Midi_attrs a), w4)"
proof -
  from assms(1) obtain fn k0 where fn: "function_at w f = Some fn" "f_type fn = USBG_F_MIDI"
    "usbg_f_midi_set_attrs K fn a (os w) = Some (0, k0)" "w0 = w\<lparr>function_at := (function_at w)(f \<mapsto> fn), os := k0\<rparr>"
    by (auto simp: usbg_set_function_attrs_def function_set_attrs_def attrs_fit_def elim!: bind_Some_elim split: if_splits)
  note fits = midi_fits [OF assms(2,3)]
  have ex: "grows c c' s \<and> list_all2 (exported False c' s) (zip midi_attr midi_nodes) (midi_vals a)"
    if "is_group c s" "function_export L K fn s c (os w0) = Some (0, fn', c', k')" for s c c' fn' k'
    using that fn table_exported [OF fn(3) [unfolded usbg_f_midi_set_attrs_def struct_set_attrs_def] fits, of s c c' k']
    by (auto simp: function_export_def midi_libconfig_export_def usbg_f_midi_get_attr_val_def [abs_def])
  from assms(7) obtain gad where gad: "gadget_at w2 g = Some gad" by blast
  have f0: "function_at w0 f = Some fn" "os_desc_iname (f_type fn) = []" using fn by (simp_all add: os_desc_iname_def)
  from export_import_function [OF assms(4) f0 ex assms(5,6) gad assms(8)]
  obtain p fn1 c s k fn2 where q: "q = Some p" "new_function gad g (f_type fn) inst fn1"
    "function_import L K fn1 c s k = Some (0, fn2, os w3)"
    "list_all2 (exported False c s) (zip midi_attr midi_nodes) (midi_vals a)" "function_at w3 p = Some fn2" .
  from q(2,3) fn(2) have im: "fn2 = fn1" "f_type fn1 = USBG_F_MIDI"
    "import_attrs L K c s (table_set_val midi_attr K (f_path fn1) (f_name fn1)) 0 (zip midi_attr midi_nodes) k = Some (0, os w3)"
    by (auto simp: new_function_def function_import_def midi_libconfig_import_def usbg_f_midi_set_attr_val_def [abs_def])
  from table_imported [OF q(4) fits im(3)]
  have "list_all2 (stored_in (f_path fn1) (f_name fn1) (os w3)) midi_attr (midi_vals a)"
    by (simp add: struct_defs)
  from table_get_stored [OF this, of "midi_vals d"] obtain k4 where
    "usbg_f_midi_get_attrs K fn1 d (os w3) = Some (0, a, k4)"
    by (auto simp: usbg_f_midi_get_attrs_def struct_get_attrs_def struct_lengths)
  with q(1,5) im(1,2) show ?thesis
    by (auto simp: usbg_get_function_attrs_def function_get_attrs_def attrs_fit_def)
qed

text \<open>
  The same for network functions without OS descriptors; the name of the interface is the
  kernel's, for each function its own.
\<close>

lemma export_import_net:
  assumes "usbg_set_function_attrs K (Some f) (Some (Net_attrs a)) w = Some (0, w0)"
    and "length (net_dev_addr a) = 6" "length (net_host_addr a) = 6"
    and "function_at w f = Some fn" "f_type fn \<in> {USBG_F_ECM, USBG_F_SUBSET, USBG_F_EEM}"
    and "usbg_export_function L IO K (Some f) (Some st) w0 = Some (0, st1, w1)"
    and "usbg_import_function L IO K (Some g) st1 (Some inst) fi w2 = Some (0, q, st2, fi2, w3)"
    and "heap_wf w2" "gadget_at w2 g \<noteq> None" "luns_named K"
  shows "\<exists>p fn1. q = Some p \<and> function_at w3 p = Some fn1 \<and> f_type fn1 = f_type fn \<and>
    (\<forall>i<7. i \<noteq> 2 \<longrightarrow> (\<exists>k4. usbg_f_net_get_attr_val K fn1 i d (os w3) = Some (0, net_vals a ! i, k4)))"
proof -
  from assms(1,4) obtain k0 where fn: "usbg_f_net_set_attrs K fn a (os w) = Some (0, k0)"
    "w0 = w\<lparr>function_at := (function_at w)(f \<mapsto> fn), os := k0\<rparr>"
    by (auto simp: usbg_set_function_attrs_def function_set_attrs_def ether_set_attrs_def
        elim!: bind_Some_elim split: if_splits)
  note fits = net_fits [OF assms(2,3)]
  have ex: "grows c c' s \<and> list_all2 (exported True c' s) (zip net_attr net_nodes) (net_vals a)"
    if "is_group c s" "function_export L K fn s c (os w0) = Some (0, fn', c', k')" for s c c' fn' k'
    using that fn(2) assms(5) table_exported [OF fn(1) [unfolded usbg_f_net_set_attrs_def struct_set_attrs_def] fits, of s c c' k']
    by (auto simp: function_export_def ether_libconfig_export_def usbg_f_net_get_attr_val_def [abs_def])
  from assms(9) obtain gad where gad: "gadget_at w2 g = Some gad" by blast
  have f0: "function_at w0 f = Some fn" "os_desc_iname (f_type fn) = []"
    using fn(2) assms(5) by (auto simp: os_desc_iname_def)
  from export_import_function [OF assms(6) f0 ex assms(7,8) gad assms(10)]
  obtain p fn1 c s k fn2 where q: "q = Some p" "new_function gad g (f_type fn) inst fn1"
    "function_import L K fn1 c s k = Some (0, fn2, os w3)"
    "list_all2 (exported True c s) (zip net_attr net_nodes) (net_vals a)" "function_at w3 p = Some fn2" .
  from q(2,3) assms(5) have im: "fn2 = fn1" "f_type fn1 = f_type fn"
    "import_attrs L K c s (table_set_val net_attr K (f_path fn1) (f_name fn1)) 0 (zip net_attr net_nodes) k = Some (0, os w3)"
    by (auto simp: new_function_def function_import_def ether_libconfig_import_def usbg_f_net_set_attr_val_def [abs_def])
  have "\<exists>k4. usbg_f_net_get_attr_val K fn1 i d (os w3) = Some (0, net_vals a ! i, k4)" if "i < 7" "i \<noteq> 2" for i
  proof -
    from that have i: "i = 0 \<or> i = 1 \<or> i = 3 \<or> i = 4 \<or> i = 5 \<or> i = 6" by arith
    let ?e = "(net_attr :: 'k attr_entry list) ! i"
    from i have "\<not> a_ro ?e" by (auto simp: net_attr_def)
    with list_all2_nthD [OF table_imported [OF q(4) fits im(3)], of i] that(1)
    have "stored_in (f_path fn1) (f_name fn1) (os w3) ?e (net_vals a ! i)" by (simp add: net_attr_def)
    then obtain k4 where k4: "a_get ?e K (f_path fn1) (f_name fn1) (a_name ?e) d (os w3) = (0, net_vals a ! i, k4)"
      "contents k4 = contents (os w3)" by (rule stored_in_get [where d = d]) blast
    with k4(1) that(1) show ?thesis by (simp add: usbg_f_net_get_attr_val_def table_get_val_def net_attr_def)
  qed
  with q(1,5) im(1,2) show ?thesis by auto
qed

end

end
