(* ===== verification/Usbg_Scheme_Gadget.thy ===== *)
theory Usbg_Scheme_Gadget
  imports Usbg_Scheme_Api
begin

text \<open>
  Attributes of gadgets and configurations through a scheme: the numbers that
  \<open>usbg_export_gadget_attrs\<close> puts into a group are within the limits of the import and
  are written to the files of the gadget that \<open>usbg_import_gadget_attrs\<close> is given.
\<close>

context config_store
begin

lemma add_hex_attrs_holds:
  assumes "add_hex_attrs L r as c = (0, c')" "is_group c r"
  shows "grows c c' r \<and> (\<forall>(n, v)\<in>set as. holds c' r n (Set_int v))"
  using assms
proof (induction as arbitrary: c)
  case (Cons a as)
  obtain n v where a: "a = (n, v)" by (cases a)
  with Cons.prems(1) obtain c1 where c1: "usbg_set_config_node_int_hex L r (Some n) v c = (0, c1)"
    "add_hex_attrs L r as c1 = (0, c')"
    by (auto split: prod.splits if_splits)
  from hex_node_adds [OF c1(1) Cons.prems(2)] have ad: "grows c c1 r" "holds c1 r n (Set_int v)"
    by (simp_all add: adds_def)
  from Cons.IH [OF c1(2) grows_group [OF ad(1)]]
  have IH: "grows c1 c' r" "\<forall>(n, v)\<in>set as. holds c' r n (Set_int v)" by auto
  from grows_holds [OF IH(1) ad(2)] grows_trans [OF ad(1) IH(1)] IH(2) a show ?case by auto
qed (simp add: grows_refl)

lemma gadget_hex_setters:
  "set_gadget_hex16 K n (Some g) (ucast (ucast (x :: u16) :: cint)) =
     on_gadget g (\<lambda>g. usbg_write_int K (g_path g) (g_name g) n (ucast x) Fmt_04x)"
  "set_gadget_hex8 K n (Some g) (ucast (ucast (y :: u8) :: cint)) =
     on_gadget g (\<lambda>g. usbg_write_int K (g_path g) (g_name g) n (ucast y) Fmt_02x)"
  by (auto simp: set_gadget_hex16_def set_gadget_hex8_def nonnull_ret_def usbg_write_hex16_def [abs_def]
      usbg_write_hex8_def [abs_def] ucast_u16_cint ucast_u8_cint fun_eq_iff)

text \<open>The import of numbers is a chain of writes to the object's files.\<close>

definition int_import ::
  "'k kernel \<Rightarrow> ptr \<Rightarrow> 'c \<Rightarrow> 's \<Rightarrow> string \<times> int option \<times> (cint \<Rightarrow> 'k world \<Rightarrow> (int \<times> 'k world) option)
     \<Rightarrow> string \<times> int_format \<times> cint \<Rightarrow> bool" where
  "int_import K g c r imp w \<longleftrightarrow>
     (let (n, limit, st) = imp; (n', fmt, v) = w
      in n' = n \<and> holds c r n (Set_int v) \<and> (\<forall>m. limit = Some m \<longrightarrow> 0 \<le> sint v \<and> sint v \<le> m) \<and>
         st v = on_gadget g (\<lambda>g. usbg_write_int K (g_path g) (g_name g) n v fmt))"

lemma import_ints_writes:
  assumes "gadget_at w g = Some gad" "list_all2 (int_import K g c r) as ws"
  shows "import_ints L c r as w = Some (on_os (write_ints K (g_path gad) (g_name gad) ws) w)"
  using assms
proof (induction as arbitrary: ws w)
  case Nil
  then show ?case by (simp add: on_os_def)
next
  case (Cons a as)
  from Cons.prems(2) obtain w0 ws' where w0: "ws = w0 # ws'" "int_import K g c r a w0"
    and rest: "list_all2 (int_import K g c r) as ws'" by (auto simp: list_all2_Cons1)
  obtain n lim st where a: "a = (n, lim, st)" by (metis prod_cases3)
  with w0 obtain fmt v where ws: "ws = (n, fmt, v) # ws'" "holds c r n (Set_int v)"
    "\<forall>m. lim = Some m \<longrightarrow> 0 \<le> sint v \<and> sint v \<le> m"
    "st v = on_gadget g (\<lambda>g. usbg_write_int K (g_path g) (g_name g) n v fmt)"
    by (cases w0) (auto simp: int_import_def)
  from ws(2) obtain s where s: "lc_get_member L c r n = Some s" "usbg_config_is_int L c s" "lc_get_int L c s = v"
    by (auto simp: holds_def get_member get_int usbg_config_is_int_def get_type)
  have lim: "(case lim of None \<Rightarrow> False | Some m \<Rightarrow> sint v < 0 \<or> sint v > m) = False"
    using ws(3) by (auto split: option.splits)
  obtain ret k1 where k1: "usbg_write_int K (g_path gad) (g_name gad) n v fmt (os w) = (ret, k1)" by fastforce
  have "import_ints L c r (a # as) w = if_done (Some (ret, w\<lparr>os := k1\<rparr>)) (import_ints L c r as)"
    using s ws(4) Cons.prems(1) k1 by (simp add: a lim Let_def on_gadget_def on_os_def)
  with Cons.IH [OF _ rest, of "w\<lparr>os := k1\<rparr>"] Cons.prems(1) k1 show ?case
    by (simp add: ws(1) if_done_def on_os_def)
qed

text \<open>The values of a gadget's attributes are within the limits of their import.\<close>

lemma sint_of_unsigned:
  "0 \<le> sint (ucast (x :: u16) :: cint)" "sint (ucast x :: cint) \<le> 65535"
  "0 \<le> sint (ucast (y :: u8) :: cint)" "sint (ucast y :: cint) \<le> 255"
proof -
  have "- 2147483648 \<le> uint x" "- 2147483648 \<le> uint y"
    by (rule order_trans [of _ 0]; simp)+
  moreover have "uint x < 2 ^ 16" "uint y < 2 ^ 8"
    using uint_bounded [of x] uint_bounded [of y] by simp_all
  ultimately have "sint (ucast x :: cint) = uint x" "sint (ucast y :: cint) = uint y"
    by (simp_all add: sint_uint unsigned_ucast_eq signed_take_bit_int_eq_self_iff take_bit_int_eq_self)
  then show "0 \<le> sint (ucast x :: cint)" "sint (ucast x :: cint) \<le> 65535"
    "0 \<le> sint (ucast y :: cint)" "sint (ucast y :: cint) \<le> 255"
    using uint_bounded [of x] uint_bounded [of y] by simp_all
qed

lemma import_gadget_attrs_writes:
  assumes "\<forall>(n, v)\<in>set (gadget_attr_ints a). holds c r n (Set_int v)" "gadget_at w g = Some gad"
  shows "usbg_import_gadget_attrs L K c r g w = Some (on_os (write_gadget_attrs K (g_path gad) (g_name gad) a) w)"
  unfolding usbg_import_gadget_attrs_def write_gadget_attrs_def [abs_def]
  by (rule import_ints_writes [OF assms(2)])
     (use assms(1) in \<open>simp add: int_import_def gadget_attr_ints_def gadget_hex_setters gadget_setters sint_of_unsigned\<close>)

end

context scheme_store
begin

lemma gadget_attrs_export_import:
  assumes "usbg_set_gadget_attrs K (Some g) (Some a) w = Some (0, w0)"
    and "usbg_export_gadget_attrs L K g r c w0 = Some (0, c', w1)" "is_group c r"
    and "usbg_import_gadget_attrs L K c' r h w2 = Some (0, w3)" "gadget_at w2 h \<noteq> None"
  shows "\<exists>w4. usbg_get_gadget_attrs K (Some h) (Some d) w3 = Some ((0, Some a), w4)"
proof -
  from gadget_attrs_round_trip [OF attr_store_axioms assms(1)] obtain w1' where
    "usbg_get_gadget_attrs K (Some g) (Some zero_gadget_attrs) w0 = Some ((0, Some a), w1')" by blast
  with assms(2) have "add_hex_attrs L r (gadget_attr_ints a) c = (0, c')"
    by (auto simp: usbg_export_gadget_attrs_def)
  from add_hex_attrs_holds [OF this assms(3)]
  have hold: "\<forall>(n, v)\<in>set (gadget_attr_ints a). holds c' r n (Set_int v)" ..
  from assms(5) obtain gad where gad: "gadget_at w2 h = Some gad" by blast
  from import_gadget_attrs_writes [OF hold gad] assms(4)
  have "on_os (write_gadget_attrs K (g_path gad) (g_name gad) a) w2 = (0, w3)" by simp
  then have wr: "write_gadget_attrs K (g_path gad) (g_name gad) a (os w2) = (0, os w3)" "w3 = w2\<lparr>os := os w3\<rparr>"
    by (auto simp: on_os_def prod_eq_iff)
  have "gadget_at w3 h = Some gad" by (subst wr(2)) (simp add: gad)
  with gadget_attrs_stored [OF wr(1), of d] show ?thesis
    by (auto simp: usbg_get_gadget_attrs_def on_gadget_def on_os_def)
qed

end

end
