(* ===== verification/Usbg_Scheme_Demo.thy ===== *)
theory Usbg_Scheme_Demo
  imports Usbg_Scheme_Gadget Usbg_Config_Tree Usbg_Examples Usbg_Safety_Udc
begin

text \<open>
  The interfaces of the scheme theories on the file system of \<open>Usbg_Configfs\<close> and the
  configurations of \<open>Usbg_Config_Tree\<close>, and a run of the library for the examples: a MIDI
  function is created, set up, exported and imported again.
\<close>

interpretation demo_scheme: scheme_file configfs fs_contents cfg_lib cfg_nodes cfg_io
proof (intro scheme_file.intro scheme_store.intro scheme_file_axioms.intro
    cfs.attr_store_mem_axioms cfg.config_store_axioms)
  fix c c1 f f1
  assume "cio_read cfg_io (cio_write cfg_io c f) = (True, c1, f1)"
  then have "c1 = c" by (simp add: cfg_io_def)
  then show "\<exists>h. h (lc_root cfg_lib) = lc_root cfg_lib \<and> cfg.copy_of h c c1"
    by (intro exI [of _ "\<lambda>s. s"]) (simp add: cfg.copy_of_def setting.map_ident)
qed

definition fresh_imports :: "cfg failed_imports" where
  "fresh_imports = \<lparr>fi_gadget = Map.empty, fi_state = None\<rparr>"

text \<open>A small world: a gadget with one function, whose directory has the files of its type.\<close>

definition small_function :: "usbg_function_type \<Rightarrow> usbg_function" where
  "small_function t = \<lparr>f_name = function_type_name t @ ''.a'', f_path = ''/g/functions'', f_instance = ''a'',
     f_label = None, f_type = t, f_parent = 1, f_ext = alloc_inst_ext t\<rparr>"

definition small_fs :: "usbg_function_type \<Rightarrow> cfs" where
  "small_fs t = (''/g/functions'', Dir) # fill (path2 ''/g/functions'' (f_name (small_function t)))"

definition small_world :: "usbg_function_type \<Rightarrow> cfs \<Rightarrow> cfs world" where
  "small_world t k = \<lparr>s_configfs_path = '''', s_path = '''', s_gadgets = [1], s_udcs = [],
     gadget_at = [1 \<mapsto> \<lparr>g_name = ''g'', g_path = '''', g_configs = [], g_functions = [2],
       g_udc = None, g_os_desc_binding = None\<rparr>],
     config_at = Map.empty, function_at = [2 \<mapsto> small_function t],
     binding_at = Map.empty, udc_at = Map.empty, next_ptr = 3, os = k\<rparr>"

lemma small_wf: "heap_wf (small_world t k)"
  by (cases t) (auto simp: small_world_def small_function_def wf_defs owns_def fresh_from_def one_kind_def
      ext_fits_def masks_fit_def alloc_inst_ext_def MAX_LUNS_def MAX_FORMATS_def)

lemma small_gadget [simp]: "gadget_at (small_world t k) 1 \<noteq> None"
  by (simp add: small_world_def)

lemma small_function_at [simp]: "function_at (small_world t k) 2 = Some (small_function t)"
  by (simp add: small_world_def)

text \<open>Attributes are set, the function is exported and imported as another one of the gadget.\<close>

definition small_run :: "usbg_function_type \<Rightarrow> function_attrs \<Rightarrow> (int \<times> int \<times> int \<times> ptr option \<times> cfs world) option" where
  "small_run t a = do {
     (r0, w0) \<leftarrow> usbg_set_function_attrs configfs (Some 2) (Some a) (small_world t (small_fs t));
     (r1, st, w1) \<leftarrow> usbg_export_function cfg_lib cfg_io configfs (Some 2) (Some None) w0;
     (r2, q, st', fi, w2) \<leftarrow> usbg_import_function cfg_lib cfg_io configfs (Some 1) st (Some ''b'') fresh_imports w0;
     Some (r0, r1, r2, q, w2)
   }"

lemma small_run_steps:
  assumes "map_option (\<lambda>(r0, r1, r2, _). (r0, r1, r2)) (small_run t a) = Some (0, 0, 0)"
  obtains w0 st1 w1 q st2 fi2 w2 where
    "usbg_set_function_attrs configfs (Some 2) (Some a) (small_world t (small_fs t)) = Some (0, w0)"
    "usbg_export_function cfg_lib cfg_io configfs (Some 2) (Some None) w0 = Some (0, st1, w1)"
    "usbg_import_function cfg_lib cfg_io configfs (Some 1) st1 (Some ''b'') fresh_imports w0 = Some (0, q, st2, fi2, w2)"
    "small_run t a = Some (0, 0, 0, q, w2)"
  using assms that by (auto simp: small_run_def elim!: bind_Some_elim)

lemma small_midi_run:
  "map_option (\<lambda>(r0, r1, r2, _). (r0, r1, r2)) (small_run USBG_F_MIDI (Midi_attrs midi_demo_attrs)) = Some (0, 0, 0)"
  by code_simp

lemma small_net_run:
  "map_option (\<lambda>(r0, r1, r2, _). (r0, r1, r2)) (small_run USBG_F_ECM (Net_attrs net_demo_attrs)) = Some (0, 0, 0)"
  by code_simp

lemma small_set:
  assumes "usbg_set_function_attrs configfs (Some 2) (Some a) (small_world t k) = Some (0, w0)" "attrs_ok t a"
  shows "heap_wf w0" "gadget_at w0 1 \<noteq> None"
proof -
  have "f_type (small_function t) = t" by (simp add: small_function_def)
  with set_function_attrs_wf [OF configfs_luns_named small_wf small_function_at, of "Some a" t k] assms
  have w0: "heap_wf w0" "\<exists>fn'. w0 = (small_world t k)\<lparr>function_at := (function_at (small_world t k))(2 \<mapsto> fn'), os := os w0\<rparr>"
    by auto
  from w0(1) show "heap_wf w0" .
  from w0(2) obtain fn' where "w0 = (small_world t k)\<lparr>function_at := (function_at (small_world t k))(2 \<mapsto> fn'), os := os w0\<rparr>" ..
  then have "gadget_at w0 = gadget_at ((small_world t k)\<lparr>function_at := (function_at (small_world t k))(2 \<mapsto> fn'), os := os w0\<rparr>)"
    by (rule arg_cong)
  then show "gadget_at w0 1 \<noteq> None" by (simp add: small_world_def)
qed

text \<open>The attributes of the gadget of \<open>demo\<close> are set, exported and imported into it again.\<close>

lemma demo_gadget_run:
  "\<exists>w0 c' w1 w2. usbg_set_gadget_attrs configfs (Some 2) (Some demo_attrs) demo = Some (0, w0) \<and>
     usbg_export_gadget_attrs cfg_lib configfs 2 0 cfg_empty w0 = Some (0, c', w1) \<and>
     usbg_import_gadget_attrs cfg_lib configfs c' 0 2 demo = Some (0, w2)"
proof -
  from demo_set_attrs obtain w0 where w0: "usbg_set_gadget_attrs configfs (Some 2) (Some demo_attrs) demo = Some (0, w0)" ..
  from gadget_attrs_round_trip [OF cfs.attr_store_axioms w0] obtain w1 where
    w1: "usbg_get_gadget_attrs configfs (Some 2) (Some zero_gadget_attrs) w0 = Some ((0, Some demo_attrs), w1)" by blast
  have "fst (add_hex_attrs cfg_lib 0 (gadget_attr_ints demo_attrs) cfg_empty) = 0" by code_simp
  then obtain c' where c': "add_hex_attrs cfg_lib 0 (gadget_attr_ints demo_attrs) cfg_empty = (0, c')"
    by (metis prod.collapse)
  have root: "cfg.is_group cfg_empty 0" by (simp add: cfg.is_group_def cfg_empty_def)
  from cfg.add_hex_attrs_holds [OF c' root]
  have "\<forall>(n, v)\<in>set (gadget_attr_ints demo_attrs). cfg.holds c' 0 n (Set_int v)" ..
  from cfg.import_gadget_attrs_writes [OF this demo_simps(1)] demo_write obtain w2 where
    "usbg_import_gadget_attrs cfg_lib configfs c' 0 2 demo = Some (0, w2)"
    by (auto simp: on_os_def demo_def)
  moreover from w1 c' have "usbg_export_gadget_attrs cfg_lib configfs 2 0 cfg_empty w0 = Some (0, c', w1)"
    by (simp add: usbg_export_gadget_attrs_def)
  ultimately show ?thesis using w0 by blast
qed

end
