(* ===== verification/Usbg_Scheme_Total.thy ===== *)
theory Usbg_Scheme_Total
  imports Usbg_Scheme_Types Usbg_Ms_Total
begin

text \<open>
  Import of the attributes of any function is defined, for every configuration within the
  limits of the library: what libconfig promises of a configuration that was read
  (\<open>readable\<close>), and the numbers of LUNs, formats and frames that the code takes for granted
  (\<open>within_limits\<close>). The function object keeps its shape.
\<close>

section \<open>Configurations\<close>

text \<open>
  What libconfig documents: the elements of a list are there, string settings have a string,
  and the settings of a group have names.
\<close>

definition readable :: "('s, 'c) libconfig \<Rightarrow> 'c \<Rightarrow> bool" where
  "readable L c \<longleftrightarrow>
     (\<forall>r i. i < lc_length L c r \<longrightarrow> lc_get_elem L c r i \<noteq> None) \<and>
     (\<forall>s. lc_type L c s = CONFIG_TYPE_STRING \<longrightarrow> lc_get_string L c s \<noteq> None) \<and>
     (\<forall>r i s. lc_type L c r = CONFIG_TYPE_GROUP \<longrightarrow> lc_get_elem L c r i = Some s \<longrightarrow> lc_name L c s \<noteq> None)"

text \<open>
  What the code does not check: the lengths of lists that index arrays of a function, and the
  underscore in the label of a function that is bound.
\<close>

definition short :: "('s, 'c) libconfig \<Rightarrow> 'c \<Rightarrow> string \<Rightarrow> nat \<Rightarrow> bool" where
  "short L c name n \<longleftrightarrow> (\<forall>r s. lc_get_member L c r name = Some s \<longrightarrow> lc_length L c s \<le> n)"

definition label_node :: "('s, 'c) libconfig \<Rightarrow> 'c \<Rightarrow> 's \<Rightarrow> bool" where
  "label_node L c s \<longleftrightarrow> (\<forall>l. usbg_config_is_string L c s \<longrightarrow> lc_get_string L c s = Some l \<longrightarrow> CHR ''_'' \<in> set l)"

definition within_limits :: "('s, 'c) libconfig \<Rightarrow> 'c \<Rightarrow> bool" where
  "within_limits L c \<longleftrightarrow>
     short L c ''luns'' MAX_LUNS \<and> short L c ''formats'' MAX_FORMATS \<and> short L c ''frames'' MAX_FRAMES \<and>
     (\<forall>r s. lc_get_member L c r ''function'' = Some s \<longrightarrow> label_node L c s) \<and>
     (\<forall>r s i e. lc_get_member L c r ''functions'' = Some s \<longrightarrow> lc_get_elem L c s i = Some e \<longrightarrow> label_node L c e)"

lemma readableD:
  assumes "readable L c"
  shows "i < lc_length L c r \<Longrightarrow> \<exists>s. lc_get_elem L c r i = Some s"
    "usbg_config_is_string L c s \<Longrightarrow> \<exists>str. lc_get_string L c s = Some str"
    "config_is_group L c r \<Longrightarrow> lc_get_elem L c r i = Some s \<Longrightarrow> \<exists>name. lc_name L c s = Some name"
  using assms by (auto simp: readable_def usbg_config_is_string_def config_is_group_def)

section \<open>Tables\<close>

definition node_total :: "('s, 'c) libconfig \<Rightarrow> 'c \<Rightarrow> ('s, 'c, 'k) node_entry \<Rightarrow> (attr_val \<Rightarrow> bool) \<Rightarrow> bool" where
  "node_total L c n P \<longleftrightarrow>
     (\<exists>imp. n_import n = Some imp \<and> (\<forall>K root name k. \<exists>ret v k'. imp L K c root name k = Some (ret, v, k') \<and>
        (0 < ret \<longrightarrow> (\<exists>val. v = Some val \<and> P val))))"

lemma report_bytes_total:
  assumes "readable L c" "\<forall>i\<in>set is. i < lc_length L c s"
  shows "\<exists>r. report_bytes L c s is = Some r"
  using assms(2)
proof (induction "is")
  case (Cons i "is")
  then obtain r node where "report_bytes L c s is = Some r" "lc_get_elem L c s i = Some node"
    using readableD(1) [OF assms(1), of i s] by auto
  then show ?case by (simp add: Let_def)
qed simp

lemma report_bytes_error: "report_bytes L c s is = Some (Inl e) \<Longrightarrow> e < 0"
  by (induction "is" arbitrary: e) (auto simp: Let_def split: if_splits sum.splits elim!: bind_Some_elim)

lemma node_totals:
  fixes L :: "('s, 'c) libconfig"
  assumes "readable L c"
  shows "(\<And>i. P (Int_val i)) \<Longrightarrow> node_total L c (int_node :: ('s, 'c, 'k) node_entry) P"
    "node_total L c (bool_node :: ('s, 'c, 'k) node_entry) P"
    "(\<And>s. P (Str_val (Some s))) \<Longrightarrow> node_total L c (string_node :: ('s, 'c, 'k) node_entry) P"
    "(\<And>s. P (Str_val (Some s))) \<Longrightarrow> node_total L c (guid_node :: ('s, 'c, 'k) node_entry) P"
    "(\<And>a. P (Ether_val a)) \<Longrightarrow> node_total L c (ether_node :: ('s, 'c, 'k) node_entry) P"
    "(\<And>s. P (Report_val s)) \<Longrightarrow> node_total L c (report_node :: ('s, 'c, 'k) node_entry) P"
proof -
  show "(\<And>i. P (Int_val i)) \<Longrightarrow> node_total L c (int_node :: ('s, 'c, 'k) node_entry) P"
    by (auto simp: node_total_def int_node_def usbg_get_config_node_int_def split: option.splits)
  show "node_total L c (bool_node :: ('s, 'c, 'k) node_entry) P"
    by (auto simp: node_total_def bool_node_def usbg_get_config_node_bool_def split: option.splits config_type.splits)
  have str: "\<exists>ret v. usbg_get_config_node_string L c root name = (ret, v) \<and> (0 < ret \<longrightarrow> (\<exists>s. v = Some (Some s)))"
    for root name
    using readableD(2) [OF assms]
    by (auto simp: usbg_get_config_node_string_def split: option.splits)
  have imp: "\<exists>ret v k'. (let (ret, v) = usbg_get_config_node_string L c root name in Some (ret, map_option Str_val v, k)) =
      Some (ret, v, k') \<and> (0 < ret \<longrightarrow> (\<exists>val. v = Some val \<and> P val))"
    if "\<And>s. P (Str_val (Some s))" for root name and k :: 'k
  proof -
    from str [of root name] obtain ret v where "usbg_get_config_node_string L c root name = (ret, v)"
      "0 < ret \<longrightarrow> (\<exists>s. v = Some (Some s))" by blast
    with that show ?thesis by (intro exI [of _ ret] exI [of _ "map_option Str_val v"] exI [of _ k]) auto
  qed
  show "node_total L c (string_node :: ('s, 'c, 'k) node_entry) P" "node_total L c (guid_node :: ('s, 'c, 'k) node_entry) P" if "\<And>s. P (Str_val (Some s))"
    using imp [OF that] by (simp_all add: node_total_def string_node_def guid_node_def)
  have ether: "\<exists>ret v k'. do { (ret, v) \<leftarrow> usbg_get_config_node_ether_addr L c root name;
      Some (ret, map_option Ether_val v, k) } = Some (ret, v, k') \<and> (0 < ret \<longrightarrow> (\<exists>val. v = Some val \<and> P val))"
    if "\<And>a. P (Ether_val a)" for root name and k :: 'k
  proof -
    from str [of root name] obtain ret v where "usbg_get_config_node_string L c root name = (ret, v)"
      "0 < ret \<longrightarrow> (\<exists>s. v = Some (Some s))" by blast
    with that show ?thesis
      by (cases "0 < ret") (auto simp: usbg_get_config_node_ether_addr_def split: option.splits)
  qed
  show "node_total L c (ether_node :: ('s, 'c, 'k) node_entry) P" if "\<And>a. P (Ether_val a)"
    using ether [OF that] by (simp add: node_total_def ether_node_def)
  have bytes: "\<exists>r. report_bytes L c s [0..<lc_length L c s] = Some r" for s
    by (rule report_bytes_total [OF assms]) simp
  have report: "\<exists>ret v k'. hid_get_config_node_report L K c root name k = Some (ret, v, k') \<and>
      (0 < ret \<longrightarrow> (\<exists>val. v = Some val \<and> P val))"
    if "\<And>s. P (Report_val s)" for K :: "'k kernel" and root name k
  proof (cases "lc_get_member L c root name")
    case (Some s)
    from bytes [of s] obtain r where "report_bytes L c s [0..<lc_length L c s] = Some r" ..
    with Some that report_bytes_error [of L c s] show ?thesis
      by (fastforce simp: hid_get_config_node_report_def split: prod.splits sum.splits)
  qed (simp add: hid_get_config_node_report_def)
  show "node_total L c (report_node :: ('s, 'c, 'k) node_entry) P" if "\<And>s. P (Report_val s)"
    using report [OF that] by (simp add: node_total_def report_node_def)
qed

text \<open>The import of a table whose nodes give values that its entries take.\<close>

definition imports_fit :: "('s, 'c) libconfig \<Rightarrow> 'c \<Rightarrow> ('k attr_entry \<times> ('s, 'c, 'k) node_entry) list \<Rightarrow> bool" where
  "imports_fit L c es \<longleftrightarrow>
     list_all (\<lambda>(e, n). a_ro e \<or> node_total L c n (\<lambda>v. takes e v)) es"

lemma import_attrs_total:
  assumes "imports_fit L c es"
    and "\<And>j v k. j < length es \<Longrightarrow> \<not> a_ro (fst (es ! j)) \<Longrightarrow> takes (fst (es ! j)) v \<Longrightarrow> \<exists>ret k'. st (i + j) v k = Some (ret, k')"
  shows "\<exists>ret k'. import_attrs L K c root st i es k = Some (ret, k')"
  using assms
proof (induction es arbitrary: i k)
  case (Cons en es)
  obtain e n where en: "en = (e, n)" by (cases en)
  have fit: "imports_fit L c es" using Cons.prems(1) by (simp add: imports_fit_def)
  have st: "\<exists>ret k'. st (Suc i + j) v k = Some (ret, k')"
    if "j < length es" "\<not> a_ro (fst (es ! j))" "takes (fst (es ! j)) v" for j v k
    using Cons.prems(2) [of "Suc j" v k] that by simp
  note IH = Cons.IH [OF fit st]
  show ?case
  proof (cases "a_ro e")
    case True
    with IH [of k] en show ?thesis by simp
  next
    case False
    with Cons.prems(1) en obtain imp where imp: "n_import n = Some imp"
      "\<And>K root name k. \<exists>ret v k'. imp L K c root name k = Some (ret, v, k') \<and>
         (0 < ret \<longrightarrow> (\<exists>val. v = Some val \<and> takes e val))"
      by (auto simp: imports_fit_def node_total_def)
    from imp(2) [of K root "a_name e" k] obtain ret v k1 where
      v: "imp L K c root (a_name e) k = Some (ret, v, k1)" "0 < ret \<Longrightarrow> \<exists>val. v = Some val \<and> takes e val" by blast
    consider "ret = 0" | "ret < 0" | "0 < ret" by linarith
    then show ?thesis
    proof cases
      case 3
      from v(2) [OF 3] obtain val where val: "v = Some val" "takes e val" by blast
      from Cons.prems(2) [of 0 val k1] False val(2) en obtain ret2 k2 where "st i val k1 = Some (ret2, k2)" by auto
      with 3 False imp(1) v(1) val(1) en IH [of k2] show ?thesis by auto
    qed (use False imp(1) v(1) en IH [of k1] in auto)
  qed
qed simp

lemma table_set_val_total:
  "j < length tab \<Longrightarrow> takes (tab ! j) v \<Longrightarrow> \<exists>ret k'. table_set_val tab K p n j v k = Some (ret, k')"
  by (fastforce simp: table_set_val_def takes_def)

lemma table_set_unchecked_total:
  "j < length tab \<Longrightarrow> \<not> a_ro (tab ! j) \<Longrightarrow> takes (tab ! j) v \<Longrightarrow> \<exists>ret k'. table_set_unchecked tab K p n j v k = Some (ret, k')"
  by (fastforce simp: table_set_unchecked_def takes_def)

lemma takes_guid [simp]: "takes (guid_attr n) (Str_val (Some s))"
  by (simp add: takes_def guid_attr_def usbg_set_guid_def split: prod.split)

lemma tables_fit:
  assumes "readable L c"
  shows "imports_fit L c (zip midi_attr midi_nodes)" "imports_fit L c (zip net_attr net_nodes)"
    "imports_fit L c (zip uac2_attr uac2_nodes)" "imports_fit L c (zip hid_attr hid_nodes)"
    "imports_fit L c (zip ms_lun_attr ms_lun_nodes)" "imports_fit L c (zip uvc_config_attr uvc_config_nodes)"
    "imports_fit L c (zip uvc_frame_attr uvc_frame_nodes)" "imports_fit L c (zip uvc_format_attr uvc_format_nodes)"
  by (simp_all add: imports_fit_def struct_defs midi_nodes_def net_nodes_def uac2_nodes_def hid_nodes_def
      ms_lun_attr_def ms_lun_nodes_def uvc_config_attr_def uvc_config_nodes_def uvc_frame_attr_def
      uvc_frame_nodes_def uvc_format_attr_def uvc_format_nodes_def numeral_eq_Suc node_totals [OF assms]
      dec_attr_ro_def)

section \<open>The modules with one table\<close>

lemma import_table_total:
  assumes "imports_fit L c (zip tab nodes)" "length nodes = length tab"
    and "\<And>j v k. j < length tab \<Longrightarrow> \<not> a_ro (tab ! j) \<Longrightarrow> takes (tab ! j) v \<Longrightarrow> \<exists>ret k'. st j v k = Some (ret, k')"
  shows "\<exists>ret k'. import_attrs L K c root st 0 (zip tab nodes) k = Some (ret, k')"
  using assms(2,3) by (intro import_attrs_total [OF assms(1)]) simp

lemma midi_import_total: "readable L c \<Longrightarrow> \<exists>ret k'. midi_libconfig_import L K f c root k = Some (ret, k')"
  unfolding midi_libconfig_import_def
  by (rule import_table_total [OF tables_fit(1)]) (assumption, simp add: midi_attr_def midi_nodes_def, simp add: usbg_f_midi_set_attr_val_def table_set_val_total)

lemma ether_import_total: "readable L c \<Longrightarrow> \<exists>ret k'. ether_libconfig_import L K f c root k = Some (ret, k')"
  unfolding ether_libconfig_import_def
  by (rule import_table_total [OF tables_fit(2)]) (assumption, simp add: net_attr_def net_nodes_def, simp add: usbg_f_net_set_attr_val_def table_set_val_total)

lemma uac2_import_total: "readable L c \<Longrightarrow> \<exists>ret k'. uac2_libconfig_import L K f c root k = Some (ret, k')"
  unfolding uac2_libconfig_import_def
  by (rule import_table_total [OF tables_fit(3)]) (assumption, simp add: uac2_attr_def uac2_nodes_def, simp add: usbg_f_uac2_set_attr_val_def table_set_val_total)

lemma hid_import_total: "readable L c \<Longrightarrow> \<exists>ret k'. hid_libconfig_import L K f c root k = Some (ret, k')"
  unfolding hid_libconfig_import_def
  by (rule import_table_total [OF tables_fit(4)]) (assumption, simp add: hid_attr_def hid_nodes_def, simp add: usbg_f_hid_set_attr_val_def table_set_val_total)

lemma loopback_import_total: "\<exists>ret k'. loopback_libconfig_import L K f c root k = Some (ret, k')"
proof -
  have "\<exists>ret k'. usbg_f_loopback_set_attr_val K f i (Int_val v) k = Some (ret, k')" if "i < 2" for i v k
    using that unfolding usbg_f_loopback_set_attr_val_def
    by (intro table_set_val_total) (auto simp: loopback_attr_def less_Suc_eq numeral_2_eq_2)
  then have "\<exists>ret k'. loopback_import_loop L K f c root is k = Some (ret, k')" if "\<forall>i\<in>set is. i < 2" for "is"
    using that
  proof (induction "is" arbitrary: k)
    case (Cons i "is")
    then have IH: "\<exists>ret k'. loopback_import_loop L K f c root is k = Some (ret, k')" for k by simp
    show ?case
    proof (cases "lc_get_member L c root (a_name ((loopback_attr :: 'a attr_entry list) ! i))")
      case (Some node)
      from Cons.prems obtain ret k1 where "usbg_f_loopback_set_attr_val K f i (Int_val (lc_get_int L c node)) k = Some (ret, k1)"
        by fastforce
      with Some IH [of k1] show ?thesis by (auto simp: Let_def)
    qed (use IH in auto)
  qed simp
  then show ?thesis by (simp add: loopback_libconfig_import_def)
qed

section \<open>Mass storage\<close>

lemma ms_lun_attr_length: "length ms_lun_attr = 6"
  by (simp add: ms_lun_attr_def)

lemma ms_import_lun_attrs_total:
  "readable L c \<Longrightarrow> \<exists>ret k'. ms_import_lun_attrs L K mf lid c root k = Some (ret, k')"
  unfolding ms_import_lun_attrs_def
  by (rule import_table_total [OF tables_fit(5)])
     (simp_all add: ms_lun_nodes_def ms_lun_attr_length usbg_f_ms_set_lun_attr_val_def table_set_val_total)

lemma ms_import_loop_total:
  assumes "readable L c" "luns_named K" "\<forall>i\<in>set is. i < MAX_LUNS" "length (mf_luns mf) = MAX_LUNS"
  shows "\<exists>ret mf' k'. ms_import_loop L K c s is mf k = Some (ret, mf', k') \<and> length (mf_luns mf') = MAX_LUNS"
  using assms(3,4)
proof (induction "is" arbitrary: mf k)
  case (Cons i "is")
  have i: "i < MAX_LUNS" "\<forall>i\<in>set is. i < MAX_LUNS" using Cons.prems(1) by simp_all
  from lun_at_total [OF Cons.prems(2) i(1)] obtain b where b: "lun_at mf (int i) = Some b" ..
  have "\<exists>ret mf1 k1. (if b then Some (0, mf, k) else usbg_f_ms_create_lun K mf (int i) None k) = Some (ret, mf1, k1) \<and>
      length (mf_luns mf1) = MAX_LUNS"
    using create_lun_total [OF assms(2) Cons.prems(2) i(1), of None k] Cons.prems(2) by auto
  then obtain ret mf1 k1 where mf1: "(if b then Some (0, mf, k) else usbg_f_ms_create_lun K mf (int i) None k) = Some (ret, mf1, k1)"
    "length (mf_luns mf1) = MAX_LUNS" by blast
  show ?case
  proof (cases "lc_get_elem L c s i")
    case (Some node)
    from ms_import_lun_attrs_total [OF assms(1), of K mf1 "int i" node k1] obtain ret2 k2 where
      "ms_import_lun_attrs L K mf1 (int i) c node k1 = Some (ret2, k2)" by blast
    with Some b mf1 Cons.IH [OF i(2) mf1(2), of k2] Cons.prems(2) show ?thesis
      by (simp del: if_split_eq1 split del: if_split) (simp split: if_split)
  qed (use Cons.prems in simp)
qed simp

lemma ms_import_total:
  assumes "readable L c" "within_limits L c" "luns_named K" "length (mf_luns mf) = MAX_LUNS"
  shows "\<exists>ret mf' k'. ms_libconfig_import L K mf c root k = Some (ret, mf', k') \<and> length (mf_luns mf') = MAX_LUNS"
proof -
  obtain ret0 stall where st: "usbg_get_config_node_bool L c root ''stall'' = (ret0, stall)" by fastforce
  then have "ret0 \<le> 0" by (auto simp: usbg_get_config_node_bool_def split: option.splits config_type.splits)
  moreover have "\<exists>ret mf' k'. ms_import_loop L K c s [0..<lc_length L c s] mf1 k = Some (ret, mf', k') \<and>
      length (mf_luns mf') = MAX_LUNS"
    if "lc_get_member L c root ''luns'' = Some s" "length (mf_luns mf1) = MAX_LUNS" for s mf1 k
  proof -
    from assms(2) that(1) have "lc_length L c s \<le> MAX_LUNS" by (auto simp: within_limits_def short_def)
    then show ?thesis by (intro ms_import_loop_total [OF assms(1,3) _ that(2)]) simp
  qed
  moreover obtain mf1 k1 where "get_lun_mask K mf k = Some (mf1, k1)" "length (mf_luns mf1) = MAX_LUNS"
    using get_lun_mask_total [OF assms(3,4), of k] by blast
  ultimately show ?thesis using st assms(4)
    by (fastforce simp: ms_libconfig_import_def split: option.splits)
qed

section \<open>UVC\<close>

lemma mark_ids_fits:
  assumes "length msk = n" "\<forall>d\<in>set ds. \<exists>i. snd (sscanf_prefix_d pre d) = Some i \<and> 0 \<le> i \<and> i < int n"
  shows "\<exists>m. mark_ids pre ds msk = Some m \<and> length m = n"
  using assms by (induction ds arbitrary: msk) fastforce+

lemma masks_fitD:
  assumes "masks_fit fs" "i < MAX_FORMATS"
  shows "i < length fs" "length (fst (fs ! i)) = MAX_FRAMES"
proof -
  show i: "i < length fs" using assms by (simp add: masks_fit_def)
  from assms(1) nth_mem [OF i] show "length (fst (fs ! i)) = MAX_FRAMES"
    by (cases "fs ! i") (auto simp: masks_fit_def)
qed

lemma masks_fit_update: "masks_fit fs \<Longrightarrow> length (fst m) = MAX_FRAMES \<Longrightarrow> masks_fit (fs[i := m])"
  using set_update_subset_insert [of fs i m] by (cases m) (auto simp: masks_fit_def)

lemma init_frames_total:
  assumes "frames_named K" "masks_fit (uvcf_formats u)" "j < MAX_FORMATS"
  shows "\<exists>ret u' k'. init_frames K u j k = Some (ret, u', k') \<and> masks_fit (uvcf_formats u')"
proof -
  let ?p = "path2 (uvcf_path u) (uvcf_name u) @ ''/streaming/'' @ (format_names ! j) @ ''/''"
  obtain r k' where sc: "scandir K ?p frame_select k = (r, k')" by fastforce
  show ?thesis
  proof (cases r)
    case (Inr ns)
    with sc obtain ds where ds: "k_readdir K ((path2 (uvcf_path u) (uvcf_name u) @ ''/streaming/'' @ (format_names ! j)) @ ''/'') k = (Inr ds, k')"
      "ns = sort (map d_name (filter frame_select ds))"
      by (auto simp: scandir_def split: prod.splits sum.splits)
    with assms(1) have "\<forall>d\<in>set ds. frame_named d" unfolding frames_named_def list_all_iff by blast
    then have "\<forall>d\<in>set ns. \<exists>i. snd (sscanf_prefix_d ''frame.'' d) = Some i \<and> 0 \<le> i \<and> i < int MAX_FRAMES"
      by (auto simp: ds(2) frame_named_def split: option.splits)
    from mark_ids_fits [OF masks_fitD(2) [OF assms(2,3)] this] sc Inr assms(2) masks_fit_update
    show ?thesis by (auto simp: init_frames_def Let_def)
  qed (use sc assms(2) in \<open>simp add: init_frames_def Let_def\<close>)
qed

lemma get_formats_mask_total:
  assumes "frames_named K" "masks_fit (uvcf_formats u)"
  shows "\<exists>u' k'. get_formats_mask K u k = Some (u', k') \<and> masks_fit (uvcf_formats u')"
proof -
  have "\<exists>u' k'. init_formats_loop K is v k = Some (u', k') \<and> masks_fit (uvcf_formats u')"
    if "\<forall>i\<in>set is. i < MAX_FORMATS" "masks_fit (uvcf_formats v)" for "is" v k
    using that
  proof (induction "is" arbitrary: v k)
    case (Cons i "is")
    then obtain ret v' k' where "init_frames K v i k = Some (ret, v', k')" "masks_fit (uvcf_formats v')"
      using init_frames_total [OF assms(1) Cons.prems(2), of i k] by auto
    with Cons.prems(1) Cons.IH [of v' k'] Cons.IH [of "v'\<lparr>uvcf_formats_initiated := False\<rparr>" k'] show ?case by auto
  qed simp
  from this [of "[0..<MAX_FORMATS]" "u\<lparr>uvcf_formats_initiated := True\<rparr>" k] assms(2) show ?thesis
    by (auto simp: get_formats_mask_def)
qed

lemma frame_at_total:
  "masks_fit (uvcf_formats u) \<Longrightarrow> i < MAX_FORMATS \<Longrightarrow> j < MAX_FRAMES \<Longrightarrow> \<exists>b. frame_at u i j = Some b"
  using masks_fitD [of "uvcf_formats u" i] by (simp add: frame_at_def)

lemma mark_frame_fits: "masks_fit (uvcf_formats u) \<Longrightarrow> i < MAX_FORMATS \<Longrightarrow> masks_fit (uvcf_formats (mark_frame i j u))"
  using masks_fitD [of "uvcf_formats u" i] by (simp add: mark_frame_def masks_fit_update)

lemma create_frame_total:
  assumes "masks_fit (uvcf_formats u)" "i < MAX_FORMATS"
  shows "\<exists>ret u' k'. usbg_f_uvc_create_frame K u fmt i j None k = Some (ret, u', k') \<and> masks_fit (uvcf_formats u')"
proof (cases "j < MAX_FRAMES")
  case True
  from frame_at_total [OF assms True] obtain b where b: "frame_at u i j = Some b" ..
  have "frame_path u fmt (int j) \<noteq> []" by (simp add: frame_path_def)
  from uvc_create_dir_total [OF this, of K k] obtain ret k1 where
    "uvc_create_dir K (frame_path u fmt (int j)) k = Some (ret, k1)" by blast
  with True b assms mark_frame_fits [OF assms] show ?thesis
    by (auto simp: usbg_f_uvc_create_frame_def Let_def)
qed (use assms in \<open>simp add: usbg_f_uvc_create_frame_def\<close>)

lemma uvc_import_frame_attrs_total:
  "readable L c \<Longrightarrow> \<exists>ret k'. uvc_import_frame_attrs L K u fmt fid c root k = Some (ret, k')"
  unfolding uvc_import_frame_attrs_def
  by (rule import_table_total [OF tables_fit(7)])
     (assumption, simp add: uvc_frame_attr_def uvc_frame_nodes_def,
      simp add: usbg_f_uvc_set_frame_attr_val_def table_set_unchecked_total)

lemma uvc_import_format_attrs_total:
  "readable L c \<Longrightarrow> \<exists>ret k'. uvc_import_format_attrs L K u fmt c root k = Some (ret, k')"
  unfolding uvc_import_format_attrs_def
  by (rule import_table_total [OF tables_fit(8)])
     (assumption, simp add: uvc_format_attr_def uvc_format_nodes_def,
      simp add: usbg_f_uvc_set_format_attr_val_def table_set_unchecked_total)

lemma uvc_import_config_total: "readable L c \<Longrightarrow> \<exists>ret k'. uvc_import_config L K u c root k = Some (ret, k')"
proof -
  assume c: "readable L c"
  have "\<exists>ret k'. import_attrs L K c node (usbg_f_uvc_set_config_attr_val K u) 0 (zip uvc_config_attr uvc_config_nodes) k = Some (ret, k')" for node
    by (rule import_table_total [OF tables_fit(6) [OF c]])
       (simp add: uvc_config_attr_def uvc_config_nodes_def, simp add: usbg_f_uvc_set_config_attr_val_def table_set_unchecked_total)
  then show ?thesis by (simp add: uvc_import_config_def split: option.split)
qed

lemma uvc_import_frames_total:
  assumes "readable L c" "fi < MAX_FORMATS" "\<forall>j\<in>set js. j < MAX_FRAMES" "masks_fit (uvcf_formats u)"
  shows "\<exists>ret u' k'. uvc_import_frames_loop L K fmt fi c s js u k = Some (ret, u', k') \<and> masks_fit (uvcf_formats u')"
  using assms(3,4)
proof (induction js arbitrary: u k)
  case (Cons j js)
  have j: "j < MAX_FRAMES" "\<forall>j\<in>set js. j < MAX_FRAMES" using Cons.prems(1) by simp_all
  from frame_at_total [OF Cons.prems(2) assms(2) j(1)] obtain b where b: "frame_at u fi j = Some b" ..
  have "\<exists>ret u1 k1. (if b then Some (0, u, k) else usbg_f_uvc_create_frame K u fmt fi j None k) = Some (ret, u1, k1) \<and>
      masks_fit (uvcf_formats u1)"
    using create_frame_total [OF Cons.prems(2) assms(2), of K fmt j k] Cons.prems(2) by auto
  then obtain ret u1 k1 where u1: "(if b then Some (0, u, k) else usbg_f_uvc_create_frame K u fmt fi j None k) = Some (ret, u1, k1)"
    "masks_fit (uvcf_formats u1)" by blast
  show ?case
  proof (cases "lc_get_elem L c s j")
    case (Some node)
    from uvc_import_frame_attrs_total [OF assms(1), of K u1 fmt "int j" node k1] obtain ret2 k2 where
      "uvc_import_frame_attrs L K u1 fmt (int j) c node k1 = Some (ret2, k2)" by blast
    with Some b u1 Cons.IH [OF j(2) u1(2), of k2] Cons.prems(2) show ?thesis
      by (simp del: if_split_eq1 split del: if_split) (simp split: if_split)
  qed (use Cons.prems in simp)
qed simp

lemma uvc_import_formats_total:
  assumes "readable L c" "within_limits L c" "config_is_group L c s" "\<forall>i\<in>set is. i < MAX_FORMATS" "masks_fit (uvcf_formats u)"
  shows "\<exists>ret u' k'. uvc_import_formats_loop L K c s is u k = Some (ret, u', k') \<and> masks_fit (uvcf_formats u')"
  using assms(4,5)
proof (induction "is" arbitrary: u k)
  case (Cons i "is")
  show ?case
  proof (cases "lc_get_elem L c s i")
    case (Some node)
    from readableD(3) [OF assms(1,3) Some] obtain name where name: "lc_name L c node = Some name" ..
    let ?fp = "name @ ''/'' @ take 1 name"
    have "\<exists>ret u1 k1. uvc_import_format L K u ?fp i c node k = Some (ret, u1, k1) \<and> masks_fit (uvcf_formats u1)"
    proof (cases "lc_get_member L c node ''frames''")
      case (Some fs)
      with assms(2) have "lc_length L c fs \<le> MAX_FRAMES" by (auto simp: within_limits_def short_def)
      then show ?thesis
        using Some Cons.prems uvc_import_frames_total [OF assms(1) _ _ Cons.prems(2), of i "[0..<lc_length L c fs]" K ?fp fs k]
        by (auto simp: uvc_import_format_def)
    qed (use Cons.prems(2) in \<open>simp add: uvc_import_format_def\<close>)
    then obtain ret u1 k1 where u1: "uvc_import_format L K u ?fp i c node k = Some (ret, u1, k1)" "masks_fit (uvcf_formats u1)"
      by blast
    from uvc_import_format_attrs_total [OF assms(1), of K u1 ?fp node k1] obtain ret2 k2 where
      "uvc_import_format_attrs L K u1 ?fp c node k1 = Some (ret2, k2)" by blast
    with Some name u1 Cons.IH [OF _ u1(2), of k2] Cons.prems show ?thesis by (auto simp: Let_def)
  qed (use Cons.prems in simp)
qed simp

lemma uvc_import_total:
  assumes "readable L c" "within_limits L c" "frames_named K" "masks_fit (uvcf_formats u)"
  shows "\<exists>ret u' k'. uvc_libconfig_import L K u c root k = Some (ret, u', k') \<and> masks_fit (uvcf_formats u')"
proof (cases "lc_get_member L c root ''formats''")
  case (Some s)
  show ?thesis
  proof (cases "config_is_group L c s")
    case True
    from assms(2) Some have "lc_length L c s \<le> MAX_FORMATS" by (auto simp: within_limits_def short_def)
    then have len: "\<forall>i\<in>set [0..<lc_length L c s]. i < MAX_FORMATS" by simp
    obtain u1 k1 where u1: "get_formats_mask K u k = Some (u1, k1)" "masks_fit (uvcf_formats u1)"
      using get_formats_mask_total [OF assms(3,4), of k] by blast
    from uvc_import_formats_total [OF assms(1,2) True len u1(2), of K k1] obtain ret u2 k2 where
      u2: "uvc_import_formats_loop L K c s [0..<lc_length L c s] u1 k1 = Some (ret, u2, k2)" "masks_fit (uvcf_formats u2)"
      by blast
    from uvc_import_config_total [OF assms(1), of K u2 root k2] obtain r3 k3 where
      k3: "uvc_import_config L K u2 c root k2 = Some (r3, k3)" by blast
    from uvc_set_class_total [of K u2 "''control''" k3] obtain r4 k4 where
      k4: "uvc_set_class K u2 ''control'' k3 = Some (r4, k4)" by blast
    from uvc_set_class_total [of K u2 "''streaming''" k4] obtain r5 k5 where
      "uvc_set_class K u2 ''streaming'' k4 = Some (r5, k5)" by blast
    with Some True u1 u2 k3 k4 show ?thesis by (simp add: uvc_libconfig_import_def)
  qed (use Some assms(4) in \<open>simp add: uvc_libconfig_import_def\<close>)
qed (use assms(4) in \<open>simp add: uvc_libconfig_import_def\<close>)

section \<open>Every type\<close>

lemma ext_fits_uvc_update:
  "ext_fits fn \<Longrightarrow> f_type fn = USBG_F_UVC \<Longrightarrow> masks_fit (uvcf_formats u) \<Longrightarrow> ext_fits (uvc_update u fn)"
  by (simp add: ext_fits_def uvc_update_def)

lemma same_fn_uvc_update [simp]: "same_fn fn (uvc_update u fn)"
  by (simp add: same_fn_def uvc_update_def)

lemma function_import_total:
  assumes "readable L c" "within_limits L c" "luns_named K" "frames_named K" "ext_fits fn"
  shows "\<exists>ret fn' k'. function_import L K fn c root k = Some (ret, fn', k') \<and> ext_fits fn' \<and> same_fn fn fn'"
proof -
  note plain = midi_import_total [OF assms(1), of K fn root k] ether_import_total [OF assms(1), of K fn root k]
    uac2_import_total [OF assms(1), of K fn root k] hid_import_total [OF assms(1), of K fn root k]
    loopback_import_total [of L K fn c root k]
  show ?thesis
  proof (cases "f_type fn")
    case USBG_F_MASS_STORAGE
    from assms(5) this obtain mf where mf: "usbg_to_ms_function fn = Some mf" "length (mf_luns mf) = MAX_LUNS"
      by (rule ext_fits_ms)
    from ms_import_total [OF assms(1-3) mf(2), of root k] mf(1) USBG_F_MASS_STORAGE assms(5) ext_fits_update
    show ?thesis by (fastforce simp: function_import_def)
  next
    case USBG_F_UVC
    from assms(5) this obtain u where u: "usbg_to_uvc_function fn = Some u" "masks_fit (uvcf_formats u)"
      by (rule ext_fits_uvc)
    from uvc_import_total [OF assms(1,2,4) u(2), of root k] u(1) USBG_F_UVC assms(5) ext_fits_uvc_update
    show ?thesis by (fastforce simp: function_import_def)
  qed (use plain assms(5) in \<open>auto simp: function_import_def\<close>)
qed

end
