(* ===== verification/Usbg_Safety_Import.thy ===== *)
theory Usbg_Safety_Import
  imports Usbg_Scheme_Total Usbg_Import Usbg_Session
begin

text \<open>
  Import of functions, configurations and gadgets is safe: on a well-formed heap and a
  configuration within the limits of the library it is defined, ends and leaves the heap
  well-formed, wherever it fails. The steps are composed by rules about \<open>safe\<close>, one for each
  way the code puts them together.
\<close>

section \<open>Safe steps\<close>

text \<open>Objects that are live stay live.\<close>

definition grown :: "'k world \<Rightarrow> 'k world \<Rightarrow> bool" where
  "grown w w' \<longleftrightarrow> dom (gadget_at w) \<subseteq> dom (gadget_at w') \<and> dom (config_at w) \<subseteq> dom (config_at w') \<and>
     dom (function_at w) \<subseteq> dom (function_at w')"

lemma grown_refl [simp]: "grown w w"
  by (simp add: grown_def)

lemma grown_trans: "grown w w1 \<Longrightarrow> grown w1 w2 \<Longrightarrow> grown w w2"
  unfolding grown_def by (metis subset_trans)

lemma grown_os [simp]: "grown w (w\<lparr>os := k\<rparr>)"
  by (simp add: grown_def)

lemma grown_live:
  "grown w w' \<Longrightarrow> gadget_at w g \<noteq> None \<Longrightarrow> gadget_at w' g \<noteq> None"
  "grown w w' \<Longrightarrow> config_at w c \<noteq> None \<Longrightarrow> config_at w' c \<noteq> None"
  "grown w w' \<Longrightarrow> function_at w f \<noteq> None \<Longrightarrow> function_at w' f \<noteq> None"
  by (auto simp: grown_def)

lemmas live_grown = grown_live [rotated]

lemma same_objects_grown: "same_objects w w' \<Longrightarrow> grown w w'"
  by (simp add: same_objects_def grown_def)

definition safe :: "'k world \<Rightarrow> (int \<times> 'k world) option \<Rightarrow> bool" where
  "safe w r \<longleftrightarrow> (\<exists>ret w'. r = Some (ret, w') \<and> heap_wf w' \<and> grown w w')"

text \<open>A step that makes an object, of which \<open>P\<close> holds on success.\<close>

definition makes :: "('k world \<Rightarrow> ptr \<Rightarrow> bool) \<Rightarrow> 'k world \<Rightarrow> (int \<times> ptr option \<times> 'k world) option \<Rightarrow> bool" where
  "makes P w r \<longleftrightarrow> (\<exists>ret x w'. r = Some (ret, x, w') \<and> heap_wf w' \<and> grown w w' \<and>
     (ret = 0 \<longrightarrow> (\<exists>p. x = Some p \<and> P w' p)))"

named_theorems safe_intros

lemma safe_return [safe_intros]: "heap_wf w \<Longrightarrow> safe w (Some (e, w))"
  by (simp add: safe_def)

lemma safe_trans: "grown w w1 \<Longrightarrow> safe w1 r \<Longrightarrow> safe w r"
  unfolding safe_def using grown_trans by blast

lemma safe_bind:
  assumes "safe w r" "\<And>ret w'. heap_wf w' \<Longrightarrow> grown w w' \<Longrightarrow> safe w' (cont ret w')"
  shows "safe w (do { (ret, w') \<leftarrow> r; cont ret w' })"
proof -
  from assms(1) obtain ret w' where w': "r = Some (ret, w')" "heap_wf w'" "grown w w'" by (auto simp: safe_def)
  from safe_trans [OF w'(3) assms(2) [OF w'(2,3)]] w'(1) show ?thesis by simp
qed

lemma safe_if_done:
  assumes "safe w r" "\<And>w'. heap_wf w' \<Longrightarrow> grown w w' \<Longrightarrow> safe w' (cont w')"
  shows "safe w (if_done r cont)"
  unfolding if_done_def by (rule safe_bind [OF assms(1)]) (simp add: assms(2) safe_return)

lemma safe_optional:
  assumes "heap_wf w" "\<And>node. lc_get_member L c root tag = Some node \<Longrightarrow> safe w (imp node w)"
  shows "safe w (optional L c root tag imp w)"
  using assms by (simp add: optional_def safe_return split: option.split)

lemma safe_typed_section:
  assumes "heap_wf w"
    and "\<And>node. lc_get_member L c root tag = Some node \<Longrightarrow> lc_type L c node = type \<Longrightarrow> safe w (imp node w)"
  shows "safe w (typed_section L c root tag type imp w)"
  unfolding typed_section_def by (rule safe_optional) (use assms in \<open>simp_all add: safe_return\<close>)

text \<open>Operations on attributes change nothing but files.\<close>

lemma safe_on_object [safe_intros]:
  "heap_wf w \<Longrightarrow> gadget_at w g \<noteq> None \<Longrightarrow> safe w (on_gadget g m w)"
  "heap_wf w \<Longrightarrow> config_at w p \<noteq> None \<Longrightarrow> safe w (on_config p m' w)"
  "heap_wf w \<Longrightarrow> function_at w f \<noteq> None \<Longrightarrow> safe w (on_function f m'' w)"
  by (auto simp: safe_def on_gadget_def on_config_def on_function_def on_os_def)

lemma safe_gadget_setters [safe_intros]:
  assumes "heap_wf w" "gadget_at w g \<noteq> None"
  shows "safe w (set_gadget_hex16 K n (Some g) v w)" "safe w (set_gadget_hex8 K n (Some g) u w)"
    "safe w (usbg_set_gadget_strs K (Some g) lang (Some s) w)" "safe w (usbg_set_gadget_os_descs K g d w)"
  by (simp_all add: set_gadget_hex16_def set_gadget_hex8_def nonnull_ret_def usbg_set_gadget_strs_def
      usbg_set_gadget_os_descs_def safe_on_object assms)

lemma safe_config_setters [safe_intros]:
  assumes "heap_wf w" "config_at w p \<noteq> None"
  shows "safe w (usbg_set_config_bm_attrs K (Some p) v w)" "safe w (usbg_set_config_max_power K (Some p) v w)"
    "safe w (usbg_set_config_strs K (Some p) lang (Some s) w)"
  by (simp_all add: usbg_set_config_bm_attrs_def usbg_set_config_max_power_def usbg_set_config_strs_def
      usbg_set_config_string_def nonnull_ret_def safe_on_object safe_return assms split: option.split)

lemma safe_import_ints:
  assumes "heap_wf w" "I w" "\<And>w w'. I w \<Longrightarrow> grown w w' \<Longrightarrow> I w'"
    and "\<And>n l st v w. (n, l, st) \<in> set as \<Longrightarrow> heap_wf w \<Longrightarrow> I w \<Longrightarrow> safe w (st v w)"
  shows "safe w (import_ints L c root as w)"
  using assms(1,2,4)
proof (induction as arbitrary: w)
  case (Cons a as)
  obtain n l st where a: "a = (n, l, st)" by (metis prod_cases3)
  have IH: "safe w' (import_ints L c root as w')" if "heap_wf w'" "I w'" for w'
    by (rule Cons.IH [OF that]) (rule Cons.prems(3), auto)
  have "safe w (if_done (st v w) (import_ints L c root as))" for v
  proof (rule safe_if_done)
    show "safe w (st v w)" by (rule Cons.prems(3) [of n l]) (use a Cons.prems in auto)
  qed (use IH assms(3) Cons.prems(2) in blast)
  with Cons.prems(1) IH [OF Cons.prems(1,2)] show ?case
    by (simp add: a Let_def safe_return split: option.split)
qed (simp add: safe_return)

lemma safe_import_strings:
  assumes "\<forall>i\<in>set is. lc_get_elem L c root i \<noteq> None" "heap_wf w" "I w" "\<And>w w'. I w \<Longrightarrow> grown w w' \<Longrightarrow> I w'"
    and "\<And>node w. heap_wf w \<Longrightarrow> I w \<Longrightarrow> safe w (imp node w)"
  shows "safe w (import_strings_loop L c root imp is w)"
  using assms(1-3)
proof (induction "is" arbitrary: w)
  case (Cons i "is")
  then obtain node where node: "lc_get_elem L c root i = Some node" by auto
  have "safe w (if_done (imp node w) (import_strings_loop L c root imp is))"
    by (rule safe_if_done) (use Cons assms(4,5) in auto)
  with node Cons.prems(2) show ?case by (simp add: safe_return)
qed (simp add: safe_return)

lemma function_added_grown:
  assumes "function_added g type inst gad w w'"
  shows "function_at w' (next_ptr w) \<noteq> None" "grown w w'"
proof -
  from assms obtain fn fs where w': "w' = add_function g (next_ptr w) fn fs (w\<lparr>os := os w'\<rparr>)"
    by (auto simp: function_added_def)
  have "gadget_at w' = gadget_at (add_function g (next_ptr w) fn fs w)" "config_at w' = config_at w"
    "function_at w' = (function_at w)(next_ptr w \<mapsto> fn)"
    by (subst w'; simp add: add_function_def)+
  then show "function_at w' (next_ptr w) \<noteq> None" "grown w w'"
    by (auto simp: grown_def add_function_def)
qed

lemma config_added_grown:
  assumes "config_added g lbl i gad w w'"
  shows "config_at w' (next_ptr w) \<noteq> None" "grown w w'"
proof -
  from assms obtain cs where w': "w' = add_config g (next_ptr w) (new_config gad lbl i g) cs (w\<lparr>os := os w'\<rparr>)"
    by (auto simp: config_added_def)
  have "gadget_at w' = gadget_at (add_config g (next_ptr w) (new_config gad lbl i g) cs w)" "function_at w' = function_at w"
    "config_at w' = (config_at w)(next_ptr w \<mapsto> new_config gad lbl i g)"
    by (subst w'; simp add: add_config_def)+
  then show "config_at w' (next_ptr w) \<noteq> None" "grown w w'"
    by (auto simp: grown_def add_config_def)
qed

lemma binding_added_grown:
  assumes "binding_added p nm f conf w w'"
  shows "grown w w'"
proof -
  from assms obtain bn bs where w': "w' = add_binding p (next_ptr w) bn bs (w\<lparr>os := os w'\<rparr>)"
    by (auto simp: binding_added_def Let_def)
  have "gadget_at w' = gadget_at w" "config_at w' = config_at (add_binding p (next_ptr w) bn bs w)"
    "function_at w' = function_at w"
    by (subst w'; simp add: add_binding_def)+
  then show ?thesis by (auto simp: grown_def add_binding_def)
qed

lemma del_config_os: "del_config p g (w\<lparr>os := k\<rparr>) = (del_config p g w)\<lparr>os := k\<rparr>"
  by (simp add: del_config_def drop_config_def)

lemma config_removed_grown:
  assumes "if r = 0 then w' = del_config p g (w\<lparr>os := os w'\<rparr>) else fewer_bindings w w'" "grown w0 w" "config_at w0 p = None"
  shows "grown w0 w'"
proof (cases "r = 0")
  case True
  with assms(1) have w': "w' = (del_config p g w)\<lparr>os := os w'\<rparr>" by (metis del_config_os)
  have "gadget_at w' = gadget_at (del_config p g w)" "config_at w' = config_at (del_config p g w)"
    "function_at w' = function_at (del_config p g w)"
    by (subst w'; simp)+
  with assms(2,3) show ?thesis by (auto simp: grown_def del_config_def drop_config_def)
next
  case False
  with assms(1) have fb: "gadget_at w' = gadget_at w" "function_at w' = function_at w"
    "\<And>c. map_option (c_bindings_update (\<lambda>_. [])) (config_at w' c) = map_option (c_bindings_update (\<lambda>_. [])) (config_at w c)"
    by (simp_all add: fewer_bindings_def)
  have "config_at w' c = None \<longleftrightarrow> config_at w c = None" for c
    using fb(3) [of c] by (cases "config_at w' c"; cases "config_at w c") auto
  then have "dom (config_at w') = dom (config_at w)" by (simp add: dom_def)
  with assms(2) fb show ?thesis by (simp add: grown_def)
qed

lemma gadget_created_live:
  assumes "gadget_created name w 0 x w'"
  shows "\<exists>g. x = Some g \<and> gadget_at w' g \<noteq> None"
proof -
  from assms obtain u gs where w': "x = Some (next_ptr w)" "w' = (pending_gadget name u w)\<lparr>s_gadgets := gs, os := os w'\<rparr>"
    by (auto simp: gadget_created_def gadget_added_def)
  have "gadget_at w' (next_ptr w) \<noteq> None" by (subst w'(2)) (simp add: pending_gadget_def)
  with w'(1) show ?thesis by blast
qed

lemma safe_set_os_desc_config:
  assumes w: "heap_wf w" and g: "gadget_at w g = Some gad" and p: "config_at w p \<noteq> None"
  shows "safe w (usbg_set_os_desc_config K (Some g) (Some p) w)"
proof -
  from p obtain conf where conf: "config_at w p = Some conf" by auto
  have "heap_wf (w\<lparr>os := k, gadget_at := (gadget_at w)(g \<mapsto> gad\<lparr>g_os_desc_binding := Some p\<rparr>)\<rparr>)" for k
    using wfp_os_desc [of "{}" "w\<lparr>os := k\<rparr>" g gad "Some p"] w g by simp
  with g conf w show ?thesis
    by (auto simp: usbg_set_os_desc_config_def nonnull_ret_def usbg_create_os_desc_link_def Let_def upd_gadget_def
        safe_def grown_def split: option.split)
qed

text \<open>A function object of another shape.\<close>

lemma wf_function_updated:
  assumes "heap_wf w" "function_at w f = Some fn" "ext_fits fn'" "same_fn fn fn'"
  shows "heap_wf (w\<lparr>function_at := (function_at w)(f \<mapsto> fn'), os := k\<rparr>)"
proof -
  have "heap_wf (w\<lparr>function_at := (function_at w)(f \<mapsto> fn')\<rparr>\<lparr>os := k\<rparr>)"
    unfolding wfp_os by (rule wfp_set_function [OF assms(1,2) same_fn_fields(5) [OF assms(4)] assms(3)])
  then show ?thesis by simp
qed

lemma lookup_type_known:
  "\<exists>t. 0 \<le> usbg_lookup_function_type (Some n) \<longrightarrow> function_type_of (usbg_lookup_function_type (Some n)) = Some t"
proof (cases "n \<in> set (map function_type_name all_function_types)")
  case True
  then obtain t where "n = function_type_name t" by auto
  then show ?thesis by auto
next
  case False
  then show ?thesis by (simp add: usbg_lookup_function_type_def lookup_name_def lookup_loop_not_found)
qed

lemma split_label_defined:
  assumes "CHR ''_'' \<in> set label"
  shows "\<exists>ret ti. split_function_label label = Some (ret, ti) \<and> (ret = 0 \<longrightarrow> ti \<noteq> None)"
proof -
  let ?buf = "takeWhile (\<lambda>ch. ch \<noteq> CHR ''_'') label"
  from lookup_type_known [of ?buf] obtain t where
    "0 \<le> usbg_lookup_function_type (Some ?buf) \<Longrightarrow> function_type_of (usbg_lookup_function_type (Some ?buf)) = Some t" by blast
  with assms show ?thesis by (auto simp: split_function_label_def Let_def)
qed

section \<open>The environment of an import\<close>

text \<open>A kernel that names directories as configfs does, and a configuration within the limits.\<close>

locale import_env =
  fixes K :: "'k kernel" and L :: "('s, 'c) libconfig" and c :: 'c
  assumes luns: "luns_named K" and frames: "frames_named K"
    and readable: "readable L c" and limits: "within_limits L c"
begin

lemma elements: "\<forall>i\<in>set [0..<lc_length L c r]. lc_get_elem L c r i \<noteq> None"
  using readableD(1) [OF readable] by fastforce

text \<open>A label that is looked up gives a live function or none.\<close>

lemma lookup_function_defined:
  assumes "heap_wf w" "gadget_at w g = Some gad" "CHR ''_'' \<in> set label"
  obtains r where "usbg_lookup_function g label w = Some r" "\<And>f. r = Some f \<Longrightarrow> function_at w f \<noteq> None"
proof -
  note own = wfpD(4) [OF assms(1,2)]
  have live: "function_at w f \<noteq> None" if "tailq_find (function_at w) Q (g_functions gad) = Some (Some f)" for f Q
    using tailq_find_Some [OF that] by auto
  obtain r where r: "tailq_find (function_at w) (\<lambda>fn. f_label fn = Some label) (g_functions gad) = Some r"
    using tailq_find_owned [OF own] by blast
  show thesis
  proof (cases r)
    case (Some p)
    with r assms(2) live [of _ p] that [of "Some p"] show thesis by (auto simp: usbg_lookup_function_def)
  next
    case None
    obtain ret ti where sp: "split_function_label label = Some (ret, ti)" "ret = 0 \<Longrightarrow> ti \<noteq> None"
      using split_label_defined [OF assms(3)] by blast
    show thesis
    proof (cases "ret = 0")
      case True
      with sp obtain type inst where ti: "ti = Some (type, inst)" by auto
      obtain f where f: "usbg_get_function g type inst w = Some f"
        using tailq_find_owned [OF own] assms(2) by (fastforce simp: usbg_get_function_def)
      with live assms(2) have "\<And>p. f = Some p \<Longrightarrow> function_at w p \<noteq> None" by (auto simp: usbg_get_function_def)
      with that r None assms(2) sp(1) True ti f show thesis by (auto simp: usbg_lookup_function_def)
    qed (use that r None assms(2) sp(1) in \<open>auto simp: usbg_lookup_function_def\<close>)
  qed
qed

section \<open>Functions\<close>

lemma safe_function_attrs:
  assumes "heap_wf w" "function_at w f \<noteq> None"
  shows "safe w (usbg_import_function_attrs L K c root f w)"
proof -
  from assms(2) obtain fn where fn: "function_at w f = Some fn" by auto
  from function_import_total [OF readable limits luns frames wfpD(9) [OF assms(1) fn], of root "os w"]
  obtain ret fn' k' where im: "function_import L K fn c root (os w) = Some (ret, fn', k')" "ext_fits fn'" "same_fn fn fn'"
    by blast
  from wf_function_updated [OF assms(1) fn im(2,3)] im(1) fn show ?thesis
    by (auto simp: usbg_import_function_attrs_def safe_def grown_def)
qed

lemma safe_function_os_descs:
  assumes "heap_wf w" "function_at w f \<noteq> None"
  shows "safe w (usbg_import_function_os_descs L K c root f w)"
proof -
  have "safe w (import_os_descs_loop L K c root allowed f is w)" for allowed "is"
    using assms
  proof (induction "is" arbitrary: w)
    case (Cons i "is")
    have "safe w (do { (ret, w1) \<leftarrow> usbg_set_interf_os_desc K f (Some n) d w;
        if ret \<noteq> 0 then Some (ret, w1) else import_os_descs_loop L K c root allowed f is w1 })" for n d
    proof (rule safe_bind)
      show "safe w (usbg_set_interf_os_desc K f (Some n) d w)"
        by (simp add: usbg_set_interf_os_desc_def safe_on_object Cons.prems)
    next
      fix ret w1
      assume w1: "heap_wf w1" "grown w w1"
      from Cons.IH [OF w1(1) grown_live(3) [OF w1(2) Cons.prems(2)]] w1(1)
      show "safe w1 (if ret \<noteq> 0 then Some (ret, w1) else import_os_descs_loop L K c root allowed f is w1)"
        by (simp add: safe_return)
    qed
    with Cons.prems(1) show ?case
      by (simp add: safe_return Let_def split: option.split prod.split)
  qed (simp add: safe_return)
  with assms show ?thesis by (auto simp: usbg_import_function_os_descs_def)
qed

lemma makes_function:
  assumes "heap_wf w" "gadget_at w g \<noteq> None"
  shows "makes (\<lambda>w f. function_at w f \<noteq> None) w (usbg_import_function_run L K c g root inst w)"
proof -
  let ?M = "makes (\<lambda>w f. function_at w f \<noteq> None) w"
  have err: "?M (Some (e, None, w))" if "e \<noteq> 0" for e
    using assms(1) that by (simp add: makes_def)
  from assms(2) obtain gad where gad: "gadget_at w g = Some gad" by auto
  have run: "?M (do {
      (ret, f, w1) \<leftarrow> usbg_create_function K (Some g) type (Some inst) None True w;
      if ret \<noteq> err USBG_SUCCESS then Some (ret, f, w1)
      else do {
        p \<leftarrow> f;
        (ret, w2) \<leftarrow> if_done
          (optional L c root ''attrs'' (\<lambda>node. usbg_import_function_attrs L K c node p) w1)
          (optional L c root ''os_descs'' (\<lambda>node. usbg_import_function_os_descs L K c node p));
        Some (ret, f, w2)
      } })" for type
  proof -
    from create_function_wf [OF luns assms(1) gad, of None type inst] obtain ret f w1 where
      cr: "usbg_create_function K (Some g) type (Some inst) None True w = Some (ret, f, w1)" "heap_wf w1"
        "ret \<noteq> 0 \<and> same_objects w w1 \<or> ret = 0 \<and> f = Some (next_ptr w) \<and> function_added g type inst gad w w1" by auto
    show ?thesis
    proof (cases "ret = 0")
      case False
      with cr same_objects_grown [of w w1] show ?thesis by (auto simp: makes_def)
    next
      case True
      with cr(3) have f: "f = Some (next_ptr w)" "function_at w1 (next_ptr w) \<noteq> None" "grown w w1"
        using function_added_grown by auto
      have "safe w1 (if_done
          (optional L c root ''attrs'' (\<lambda>node. usbg_import_function_attrs L K c node (next_ptr w)) w1)
          (optional L c root ''os_descs'' (\<lambda>node. usbg_import_function_os_descs L K c node (next_ptr w))))"
        by (intro safe_if_done safe_optional safe_function_attrs safe_function_os_descs cr(2) f(2))
           (assumption | rule grown_live(3) [OF _ f(2)])+
      then obtain r2 w2 where "if_done
          (optional L c root ''attrs'' (\<lambda>node. usbg_import_function_attrs L K c node (next_ptr w)) w1)
          (optional L c root ''os_descs'' (\<lambda>node. usbg_import_function_os_descs L K c node (next_ptr w))) = Some (r2, w2)"
        "heap_wf w2" "grown w1 w2" by (auto simp: safe_def)
      with cr(1) True f grown_trans [OF f(3), of w2] grown_live(3) [of w1 w2, OF _ f(2)] show ?thesis by (simp add: makes_def)
    qed
  qed
  show ?thesis
  proof (cases "lc_get_member L c root ''type''")
    case (Some node)
    show ?thesis
    proof (cases "lc_get_string L c node")
      case (Some ty)
      from lookup_type_known [of ty] obtain type where
        "0 \<le> usbg_lookup_function_type (Some ty) \<Longrightarrow> function_type_of (usbg_lookup_function_type (Some ty)) = Some type" by blast
      with run [of type] err Some \<open>lc_get_member L c root ''type'' = Some node\<close> show ?thesis
        by (simp add: usbg_import_function_run_def Let_def)
    qed (use Some err in \<open>simp add: usbg_import_function_run_def\<close>)
  qed (use err in \<open>simp add: usbg_import_function_run_def\<close>)
qed

section \<open>Bindings\<close>

lemma safe_bind_named:
  assumes "heap_wf w" "config_at w p \<noteq> None" "function_at w f \<noteq> None"
  shows "safe w (bind_named K p name f w)"
proof -
  from assms(2,3) obtain conf fn where "config_at w p = Some conf" "function_at w f = Some fn" by auto
  from add_config_function_wf [OF assms(1) this refl, of K "Some name"] same_objects_grown binding_added_grown
  show ?thesis by (fastforce simp: bind_named_def safe_def)
qed

lemma parent_live:
  assumes "heap_wf w" "config_at w p = Some cf"
  shows "gadget_at w (c_parent cf) \<noteq> None"
  using wfpD(6) [OF assms] by auto

lemma safe_binding_string:
  assumes "heap_wf w" "config_at w p \<noteq> None" "usbg_config_is_string L c node" "label_node L c node"
  shows "safe w (usbg_import_binding_string L K c node p w)"
proof -
  from assms(2) obtain cf where cf: "config_at w p = Some cf" by auto
  from parent_live [OF assms(1) cf] obtain gad where gad: "gadget_at w (c_parent cf) = Some gad" by auto
  show ?thesis
  proof (cases "lc_get_string L c node")
    case (Some label)
    with assms(3,4) have "CHR ''_'' \<in> set label" by (simp add: label_node_def)
    from lookup_function_defined [OF assms(1) gad this] obtain r where
      r: "usbg_lookup_function (c_parent cf) label w = Some r" "\<And>f. r = Some f \<Longrightarrow> function_at w f \<noteq> None" by blast
    show ?thesis
    proof (cases r)
      case None
      with Some r(1) cf assms(1) show ?thesis by (simp add: usbg_import_binding_string_def safe_return)
    next
      case (Some f)
      from r(2) [OF Some] obtain fn where "function_at w f = Some fn" by auto
      with Some r(1) cf \<open>lc_get_string L c node = Some label\<close> safe_bind_named [OF assms(1,2) r(2) [OF Some]]
      show ?thesis by (simp add: usbg_import_binding_string_def)
    qed
  qed (use assms(1) in \<open>simp add: usbg_import_binding_string_def safe_return\<close>)
qed

lemma makes_binding_target:
  assumes "heap_wf w" "gadget_at w g \<noteq> None" "label_node L c node"
  shows "makes (\<lambda>w f. function_at w f \<noteq> None) w (import_binding_target L K c node g w)"
proof -
  let ?M = "makes (\<lambda>w f. function_at w f \<noteq> None) w"
  have err: "?M (Some (e, None, w))" if "e \<noteq> 0" for e
    using assms(1) that by (simp add: makes_def)
  from assms(2) obtain gad where gad: "gadget_at w g = Some gad" by auto
  show ?thesis
  proof (cases "usbg_config_is_string L c node")
    case True
    from readableD(2) [OF readable True] obtain label where label: "lc_get_string L c node = Some label" ..
    with True assms(3) have "CHR ''_'' \<in> set label" by (simp add: label_node_def)
    from lookup_function_defined [OF assms(1) gad this] obtain r where
      r: "usbg_lookup_function g label w = Some r" "\<And>f. r = Some f \<Longrightarrow> function_at w f \<noteq> None" by blast
    with True label assms(1) show ?thesis
      by (cases r) (auto simp: import_binding_target_def makes_def)
  next
    case False
    with err makes_function [OF assms(1,2)] show ?thesis
      by (auto simp: import_binding_target_def split: option.split)
  qed
qed

lemma safe_binding_group:
  assumes "heap_wf w" "config_at w p \<noteq> None"
  shows "safe w (usbg_import_binding_group L K c node p w)"
proof (cases "lc_get_member L c node ''function''")
  case (Some fnode)
  from assms(2) obtain cf where cf: "config_at w p = Some cf" by auto
  from limits Some have "label_node L c fnode" by (simp add: within_limits_def)
  from makes_binding_target [OF assms(1) parent_live [OF assms(1) cf] this] obtain ret x w1 where
    t: "import_binding_target L K c fnode (c_parent cf) w = Some (ret, x, w1)" "heap_wf w1" "grown w w1"
      "ret = 0 \<Longrightarrow> \<exists>f. x = Some f \<and> function_at w1 f \<noteq> None" by (auto simp: makes_def)
  note p1 = grown_live(2) [OF t(3) assms(2)]
  show ?thesis
  proof (cases "ret = 0")
    case False
    with Some cf t show ?thesis by (auto simp: usbg_import_binding_group_def safe_def)
  next
    case True
    from t(4) [OF True] obtain f fn where f: "x = Some f" "function_at w1 f = Some fn" by auto
    have bind: "safe w1 (bind_named K p name f w1)" for name
      using f(2) by (intro safe_bind_named [OF t(2) p1]) simp
    have "usbg_import_binding_group L K c node p w =
      (case lc_get_member L c node ''name'' of
         Some name_node \<Rightarrow>
           if \<not> usbg_config_is_string L c name_node then Some (err USBG_ERROR_INVALID_TYPE, w1)
           else (case lc_get_string L c name_node of
              None \<Rightarrow> Some (err USBG_ERROR_OTHER_ERROR, w1)
            | Some name \<Rightarrow> bind_named K p name f w1)
       | None \<Rightarrow> bind_named K p (f_name fn) f w1)"
      using Some cf t(1) True f by (simp add: usbg_import_binding_group_def split: option.split)
    then show ?thesis
      using bind t(2) by (auto intro!: safe_trans [OF t(3)] simp: safe_return split: option.split)
  qed
qed (use assms(1) in \<open>simp add: usbg_import_binding_group_def safe_return\<close>)

lemma safe_config_bindings:
  assumes "heap_wf w" "config_at w p \<noteq> None" "lc_get_member L c root ''functions'' = Some node"
  shows "safe w (usbg_import_config_bindings L K c node p w)"
proof -
  have label: "label_node L c e" if "lc_get_elem L c node i = Some e" for i e
    using limits assms(3) that unfolding within_limits_def by blast
  have "safe w (import_bindings_loop L K c node p is w)" if "\<forall>i\<in>set is. lc_get_elem L c node i \<noteq> None" for "is"
    using that assms(1,2)
  proof (induction "is" arbitrary: w)
    case (Cons i "is")
    then obtain e where e: "lc_get_elem L c node i = Some e" by auto
    have "safe w (if usbg_config_is_string L c e then usbg_import_binding_string L K c e p w
        else if config_is_group L c e then usbg_import_binding_group L K c e p w
        else Some (err USBG_ERROR_INVALID_TYPE, w))"
      using safe_binding_string [OF Cons.prems(2,3) _ label [OF e]] safe_binding_group [OF Cons.prems(2,3)] Cons.prems(2)
      by (simp add: safe_return)
    then have "safe w (if_done (if usbg_config_is_string L c e then usbg_import_binding_string L K c e p w
        else if config_is_group L c e then usbg_import_binding_group L K c e p w
        else Some (err USBG_ERROR_INVALID_TYPE, w)) (import_bindings_loop L K c node p is))"
      by (rule safe_if_done) (use Cons.IH Cons.prems grown_live(2) [OF _ Cons.prems(3)] in auto)
    with e show ?case by simp
  qed (simp add: safe_return)
  with elements show ?thesis by (simp add: usbg_import_config_bindings_def)
qed

section \<open>Configurations\<close>

lemma safe_config_attrs:
  assumes "heap_wf w" "config_at w p \<noteq> None"
  shows "safe w (usbg_import_config_attrs L K c root p w)"
  unfolding usbg_import_config_attrs_def
  by (rule safe_import_ints [where I = "\<lambda>w. config_at w p \<noteq> None", OF assms live_grown(2)])
     (auto intro: safe_config_setters)

lemma safe_config_strings:
  assumes "heap_wf w" "config_at w p \<noteq> None"
  shows "safe w (usbg_import_config_strings L K c root p w)"
  unfolding usbg_import_config_strings_def
proof (rule safe_import_strings [where I = "\<lambda>w. config_at w p \<noteq> None", OF elements assms live_grown(2)])
  fix node and w :: "'k world"
  assume "heap_wf w" "config_at w p \<noteq> None"
  then show "safe w (usbg_import_config_strs_lang L K c node p w)"
    by (simp add: usbg_import_config_strs_lang_def Let_def safe_return safe_config_setters split: option.split prod.split)
qed

lemma makes_config:
  assumes "heap_wf w" "gadget_at w g \<noteq> None"
  shows "\<exists>ret x w'. usbg_import_config_run L K c g root cid w = Some (ret, x, w') \<and> heap_wf w' \<and>
    grown w w' \<and> (ret = 0 \<longrightarrow> (\<exists>p. x = Some p \<and> config_at w' p \<noteq> None)) \<and> (ret \<noteq> 0 \<longrightarrow> x = None)"
proof (cases "lc_get_member L c root ''name''")
  case (Some node)
  note name_node = Some
  show ?thesis
  proof (cases "lc_get_string L c node")
    case (Some name)
    from assms(2) obtain gad where gad: "gadget_at w g = Some gad" by auto
    from create_config_wf [OF assms(1) gad refl, of K cid "Some name" None None] obtain ret x w1 where
      cr: "usbg_create_config K (Some g) cid (Some name) None None True w = Some (ret, x, w1)" "heap_wf w1"
        "ret \<noteq> 0 \<and> same_objects w w1 \<or> ret = 0 \<and> x = Some (next_ptr w) \<and> config_added g name cid gad w w1" by auto
    show ?thesis
    proof (cases "ret = 0")
      case False
      with cr same_objects_grown have "grown w w1" by blast
      with False cr name_node Some show ?thesis by (simp add: usbg_import_config_run_def)
    next
      case True
      let ?p = "next_ptr w"
      from True cr(3) have x: "x = Some ?p" "config_at w1 ?p \<noteq> None" "grown w w1"
        using config_added_grown by auto
      let ?rest = "if_done
           (typed_section L c root ''attrs'' CONFIG_TYPE_GROUP (\<lambda>node. usbg_import_config_attrs L K c node ?p) w1) (\<lambda>w. if_done
           (typed_section L c root ''strings'' CONFIG_TYPE_LIST (\<lambda>node. usbg_import_config_strings L K c node ?p) w)
           (typed_section L c root ''functions'' CONFIG_TYPE_LIST (\<lambda>node. usbg_import_config_bindings L K c node ?p)))"
      have "safe w1 ?rest"
        by (intro safe_if_done safe_typed_section safe_config_attrs safe_config_strings safe_config_bindings cr(2) x(2))
           (assumption | rule grown_live(2) [OF _ x(2)] | rule grown_trans)+
      then obtain r2 w2 where w2: "?rest = Some (r2, w2)" "heap_wf w2" "grown w1 w2" by (auto simp: safe_def)
      note p2 = grown_live(2) [OF w2(3) x(2)]
      note g2 = grown_trans [OF x(3) w2(3)]
      show ?thesis
      proof (cases "r2 = 0")
        case True
        with \<open>ret = 0\<close> cr(1) x(1) w2(1,2) p2 g2 name_node Some show ?thesis
          by (simp add: usbg_import_config_run_def)
      next
        case False
        from p2 obtain conf where conf: "config_at w2 ?p = Some conf" by auto
        from rm_config_wf [OF w2(2) conf, of K USBG_RM_RECURSE] obtain r3 w3 where
          w3: "usbg_rm_config K (Some ?p) USBG_RM_RECURSE w2 = Some (r3, w3)" "heap_wf w3"
            "if r3 = 0 then w3 = del_config ?p (c_parent conf) (w2\<lparr>os := os w3\<rparr>) else fewer_bindings w2 w3" by blast
        from fresh_pointer(2) [OF assms(1)] have "config_at w ?p = None" by simp
        from config_removed_grown [OF w3(3) g2 this] have "grown w w3" .
        with False \<open>ret = 0\<close> cr(1) x(1) w2(1) w3(1,2) name_node Some show ?thesis
          by (simp add: usbg_import_config_run_def)
      qed
    qed
  qed (use assms Some in \<open>simp add: usbg_import_config_run_def\<close>)
qed (use assms in \<open>simp add: usbg_import_config_run_def\<close>)

section \<open>Gadgets\<close>

lemma safe_gadget_configs:
  assumes "heap_wf w" "gadget_at w g \<noteq> None"
  shows "safe w (usbg_import_gadget_configs L K c root g w)"
proof -
  have "safe w (import_configs_loop L K c root g is w)" for "is"
    using assms
  proof (induction "is" arbitrary: w)
    case (Cons i "is")
    have step: "safe w (do { (ret, p, w1) \<leftarrow> usbg_import_config_run L K c g node cid w;
        if ret \<noteq> err USBG_SUCCESS then Some (ret, w1) else import_configs_loop L K c root g is w1 })" for node cid
    proof -
      from makes_config [OF Cons.prems, of node cid] obtain ret x w1 where
        w1: "usbg_import_config_run L K c g node cid w = Some (ret, x, w1)" "heap_wf w1" "grown w w1" by blast
      from safe_trans [OF w1(3) Cons.IH [OF w1(2) grown_live(1) [OF w1(3) Cons.prems(2)]]] w1 show ?thesis
        by (cases "ret = 0") (auto simp: safe_def)
    qed
    with Cons.prems show ?case by (simp add: safe_return split: option.split)
  qed (simp add: safe_return)
  then show ?thesis by (simp add: usbg_import_gadget_configs_def)
qed

lemma safe_label:
  assumes "heap_wf w" "function_at w p \<noteq> None"
  shows "\<exists>w'. upd_function p (f_label_update h) w = Some w' \<and> heap_wf w' \<and> grown w w'"
proof -
  from assms(2) obtain fn where fn: "function_at w p = Some fn" by auto
  have "ext_fits (f_label_update h fn) = ext_fits fn" by (simp add: ext_fits_def split: function_ext.split)
  with wfp_set_function [OF assms(1) fn, of "f_label_update h fn"] wfpD(9) [OF assms(1) fn] fn show ?thesis
    by (auto simp: upd_function_def grown_def)
qed

lemma safe_gadget_functions:
  assumes "heap_wf w" "gadget_at w g \<noteq> None"
  shows "safe w (usbg_import_gadget_functions L K c root g w)"
proof -
  have "safe w (import_functions_loop L K c root g is w)" for "is"
    using assms
  proof (induction "is" arbitrary: w)
    case (Cons i "is")
    have step: "safe w (do {
        (ret, f, w1) \<leftarrow> usbg_import_function_run L K c g node inst w;
        if ret \<noteq> err USBG_SUCCESS then Some (ret, w1)
        else case lc_name L c node of
          None \<Rightarrow> Some (err USBG_ERROR_OTHER_ERROR, w1)
        | Some label \<Rightarrow> do {
            p \<leftarrow> f;
            let (ok, w2) = on_os (k_malloc K) w1;
            w3 \<leftarrow> upd_function p (f_label_update (\<lambda>_. if ok then Some label else None)) w2;
            if \<not> ok then Some (err USBG_ERROR_NO_MEM, w3)
            else import_functions_loop L K c root g is w3
          } })" for node inst
    proof -
      from makes_function [OF Cons.prems, of node inst] obtain ret x w1 where
        w1: "usbg_import_function_run L K c g node inst w = Some (ret, x, w1)" "heap_wf w1" "grown w w1"
          "ret = 0 \<Longrightarrow> \<exists>p. x = Some p \<and> function_at w1 p \<noteq> None" by (auto simp: makes_def)
      show ?thesis
      proof (cases "ret = 0 \<and> lc_name L c node \<noteq> None")
        case False
        with w1 show ?thesis by (auto simp: safe_def split: option.split)
      next
        case True
        then obtain label where label: "lc_name L c node = Some label" by auto
        from True w1(4) obtain p where p: "x = Some p" "function_at w1 p \<noteq> None" by auto
        obtain ok k where ok: "on_os (k_malloc K) w1 = (ok, w1\<lparr>os := k\<rparr>)" by (simp add: on_os_def)
        from safe_label [of "w1\<lparr>os := k\<rparr>" p "\<lambda>_. if ok then Some label else None"] w1(2) p(2) obtain w3 where
          w3: "upd_function p (f_label_update (\<lambda>_. if ok then Some label else None)) (w1\<lparr>os := k\<rparr>) = Some w3"
            "heap_wf w3" "grown (w1\<lparr>os := k\<rparr>) w3" by auto
        from w3(3) have gr: "grown w1 w3" by (simp add: grown_def)
        note g3 = grown_live(1) [OF grown_trans [OF w1(3) gr] Cons.prems(2)]
        from w1(1) True label p(1) ok w3(1) Cons.IH [OF w3(2) g3]
        have "safe w3 (if \<not> ok then Some (err USBG_ERROR_NO_MEM, w3) else import_functions_loop L K c root g is w3)"
          using w3(2) by (simp add: safe_return)
        from safe_trans [OF grown_trans [OF w1(3) gr] this] w1(1) True label p(1) ok w3(1) show ?thesis by simp
      qed
    qed
    with Cons.prems(1) show ?case by (simp add: safe_return split: option.split)
  qed (simp add: safe_return)
  then show ?thesis by (simp add: usbg_import_gadget_functions_def)
qed

lemma safe_gadget_strings:
  assumes "heap_wf w" "gadget_at w g \<noteq> None"
  shows "safe w (usbg_import_gadget_strings L K c root g w)"
  unfolding usbg_import_gadget_strings_def
proof (rule safe_import_strings [where I = "\<lambda>w. gadget_at w g \<noteq> None", OF elements assms live_grown(1)])
  fix node and w :: "'k world"
  assume "heap_wf w" "gadget_at w g \<noteq> None"
  then show "safe w (usbg_import_gadget_strs_lang L K c node g w)"
    by (simp add: usbg_import_gadget_strs_lang_def Let_def safe_return safe_gadget_setters split: option.split prod.split)
qed

lemma safe_gadget_attrs:
  assumes "heap_wf w" "gadget_at w g \<noteq> None"
  shows "safe w (usbg_import_gadget_attrs L K c root g w)"
  unfolding usbg_import_gadget_attrs_def
  by (rule safe_import_ints [where I = "\<lambda>w. gadget_at w g \<noteq> None", OF assms live_grown(1)])
     (auto simp: gadget_setters intro: safe_gadget_setters)

lemma safe_gadget_os_descs:
  assumes "heap_wf w" "gadget_at w g \<noteq> None"
  shows "safe w (usbg_import_gadget_os_descs L K c root g w)"
proof -
  have link: "safe w1 (do {
      target \<leftarrow> usbg_get_config g cid None w1;
      case target of
        None \<Rightarrow> Some (err USBG_ERROR_NOT_FOUND, w1)
      | Some p \<Rightarrow> do { (ignored, w2) \<leftarrow> usbg_set_os_desc_config K (Some g) (Some p) w1; Some (ret, w2) } })"
    if w1: "heap_wf w1" "gadget_at w1 g \<noteq> None" for w1 ret cid
  proof -
    from w1(2) obtain gad where gad: "gadget_at w1 g = Some gad" by auto
    obtain r where r: "usbg_get_config g cid None w1 = Some r"
      using tailq_find_owned [OF wfpD(3) [OF w1(1) gad]] gad by (fastforce simp: usbg_get_config_def)
    show ?thesis
    proof (cases r)
      case (Some p)
      with r gad have "config_at w1 p \<noteq> None" by (auto simp: usbg_get_config_def dest!: tailq_find_Some)
      with safe_set_os_desc_config [OF w1(1) gad, of p K] r Some show ?thesis by (auto simp: safe_def)
    qed (use r w1(1) in \<open>simp add: safe_return\<close>)
  qed
  have bind: "safe w (do { (ret, w1) \<leftarrow> usbg_set_gadget_os_descs K g d w; cont ret w1 })"
    if "\<And>ret w1. heap_wf w1 \<Longrightarrow> gadget_at w1 g \<noteq> None \<Longrightarrow> safe w1 (cont ret w1)" for d cont
    by (rule safe_bind [OF safe_gadget_setters(4) [OF assms]]) (use that grown_live(1) [OF _ assms(2)] in blast)
  have cont: "safe w1 (case lc_get_member L c root ''config_id'' of
        None \<Rightarrow> Some (ret, w1)
      | Some node \<Rightarrow>
          if \<not> usbg_config_is_int L c node then Some (ret, w1)
          else do {
            target \<leftarrow> usbg_get_config g (sint (lc_get_int L c node)) None w1;
            case target of
              None \<Rightarrow> Some (err USBG_ERROR_NOT_FOUND, w1)
            | Some p \<Rightarrow> do { (ignored, w2) \<leftarrow> usbg_set_os_desc_config K (Some g) (Some p) w1; Some (ret, w2) }
          })" if "heap_wf w1" "gadget_at w1 g \<noteq> None" for ret w1
  proof (cases "lc_get_member L c root ''config_id''")
    case (Some node)
    show ?thesis
    proof (cases "usbg_config_is_int L c node")
      case True
      show ?thesis
        by (simp only: Some option.case True not_True_eq_False if_False link [OF that])
    qed (simp add: Some safe_return that(1))
  qed (simp add: safe_return that(1))
  show ?thesis
  proof (cases "optional_u8 L c root ''use''"; cases "optional_u8 L c root ''b_vendor_code''")
    fix use code
    assume *: "optional_u8 L c root ''use'' = Inr use" "optional_u8 L c root ''b_vendor_code'' = Inr code"
    obtain ok q where "optional_string L c root ''qw_sign'' = (ok, q)" by fastforce
    with * assms(1) bind [OF cont, of "\<lparr>od_use = (use \<noteq> 0), od_b_vendor_code = ucast code, od_qw_sign = q\<rparr>"] show ?thesis
      by (simp add: usbg_import_gadget_os_descs_def Let_def safe_return)
  qed (use assms(1) in \<open>simp_all add: usbg_import_gadget_os_descs_def safe_return\<close>)
qed

lemma makes_gadget:
  assumes "heap_wf w"
  shows "\<exists>ret x w'. usbg_import_gadget_run L K c root name w = Some (ret, x, w') \<and> heap_wf w' \<and>
    (ret = 0 \<longrightarrow> (\<exists>g. x = Some g \<and> gadget_at w' g \<noteq> None)) \<and> (ret \<noteq> 0 \<longrightarrow> x = None)"
proof -
  from create_gadget_wf [OF assms, of K name None None] obtain ret x w1 where
    cr: "usbg_create_gadget K name None None True w = Some (ret, x, w1)" "heap_wf w1" "gadget_created name w ret x w1" by blast
  show ?thesis
  proof (cases "ret = 0")
    case False
    with cr show ?thesis by (simp add: usbg_import_gadget_run_def)
  next
    case True
    with cr(3) obtain g where g: "x = Some g" "gadget_at w1 g \<noteq> None"
      using gadget_created_live by blast
    let ?rest = "if_done
         (typed_section L c root ''attrs'' CONFIG_TYPE_GROUP (\<lambda>node. usbg_import_gadget_attrs L K c node g) w1) (\<lambda>w. if_done
         (typed_section L c root ''strings'' CONFIG_TYPE_LIST (\<lambda>node. usbg_import_gadget_strings L K c node g) w) (\<lambda>w. if_done
         (typed_section L c root ''functions'' CONFIG_TYPE_GROUP (\<lambda>node. usbg_import_gadget_functions L K c node g) w) (\<lambda>w. if_done
         (typed_section L c root ''configs'' CONFIG_TYPE_LIST (\<lambda>node. usbg_import_gadget_configs L K c node g) w)
         (typed_section L c root ''os_descs'' CONFIG_TYPE_GROUP (\<lambda>node. usbg_import_gadget_os_descs L K c node g)))))"
    have "safe w1 ?rest"
      by (intro safe_if_done safe_typed_section safe_gadget_attrs safe_gadget_strings safe_gadget_functions
          safe_gadget_configs safe_gadget_os_descs cr(2) g(2))
         (assumption | rule grown_live(1) [OF _ g(2)] | rule grown_trans)+
    then obtain r2 w2 where w2: "?rest = Some (r2, w2)" "heap_wf w2" "gadget_at w2 g \<noteq> None"
      using grown_live(1) [OF _ g(2)] unfolding safe_def by blast
    show ?thesis
    proof (cases "r2 = 0")
      case True
      with \<open>ret = 0\<close> cr(1) g(1) w2 show ?thesis by (simp add: usbg_import_gadget_run_def)
    next
      case False
      from w2(3) obtain gad where gad: "gadget_at w2 g = Some gad" by auto
      from rm_gadget_wf [OF luns w2(2) gad, of USBG_RM_RECURSE] obtain r3 w3 where
        "usbg_rm_gadget K (Some g) USBG_RM_RECURSE w2 = Some (r3, w3)" "heap_wf w3" by blast
      with False \<open>ret = 0\<close> cr(1) g(1) w2(1) show ?thesis by (simp add: usbg_import_gadget_run_def)
    qed
  qed
qed

end

section \<open>The API\<close>

text \<open>What is read from a file is readable and within the limits.\<close>

definition file_fits :: "('s, 'c) libconfig \<Rightarrow> ('c, 'f) config_io \<Rightarrow> 'f \<Rightarrow> bool" where
  "file_fits L IO f \<longleftrightarrow> (case cio_read IO f of (good, c, f1) \<Rightarrow> good \<longrightarrow> readable L c \<and> within_limits L c)"

lemma import_from_wf:
  assumes "file_fits L IO f" "heap_wf w" "grown w0 w"
    and "\<And>c w. readable L c \<Longrightarrow> within_limits L c \<Longrightarrow> heap_wf w \<Longrightarrow> grown w0 w \<Longrightarrow>
           \<exists>ret x w'. run c (lc_root L) w = Some (ret, x, w') \<and> heap_wf w' \<and> (ret = 0 \<longrightarrow> (\<exists>p. x = Some p \<and> P w' p))"
  shows "\<exists>ret x f1 fi1 w'. import_from L IO K owner run f fi w = Some (ret, x, f1, fi1, w') \<and> heap_wf w' \<and>
    (ret = 0 \<longrightarrow> (\<exists>p. x = Some p \<and> P w' p)) \<and> (ret \<noteq> 0 \<longrightarrow> x = None)"
proof -
  obtain ok k where ok: "on_os (k_malloc K) w = (ok, w\<lparr>os := k\<rparr>)" by (simp add: on_os_def)
  obtain good c f1 where rd: "cio_read IO f = (good, c, f1)" by (metis prod_cases3)
  show ?thesis
  proof (cases "ok \<and> good")
    case True
    with assms(1) rd have c: "readable L c" "within_limits L c" by (auto simp: file_fits_def)
    have "heap_wf (w\<lparr>os := k\<rparr>)" "grown w0 (w\<lparr>os := k\<rparr>)" using assms(2,3) by (simp_all add: grown_def)
    from assms(4) [OF c this] obtain ret x w' where "run c (lc_root L) (w\<lparr>os := k\<rparr>) = Some (ret, x, w')"
      "heap_wf w'" "ret = 0 \<longrightarrow> (\<exists>p. x = Some p \<and> P w' p)" by blast
    with True ok rd show ?thesis by (simp add: import_from_def)
  qed (use ok rd assms(2) in \<open>auto simp: import_from_def\<close>)
qed

lemma map_result:
  "\<exists>ret x f1 fi1 w'. r = Some (ret, x, f1, fi1, w') \<and> Q ret x w' \<Longrightarrow>
   \<exists>ret x f1 fi1 w'. map_option (\<lambda>(ret, new, f1, fi1, w1). (ret, new, Some f1, fi1, w1)) r = Some (ret, x, f1, fi1, w') \<and> Q ret x w'"
  by auto

lemma import_gadget_wf:
  assumes "luns_named K" "frames_named K" "pred_option (file_fits L IO) st" "heap_wf w"
  shows "\<exists>ret x st1 fi1 w'. usbg_import_gadget L IO K st name fi w = Some (ret, x, st1, fi1, w') \<and> heap_wf w' \<and>
    (ret = 0 \<longrightarrow> (\<exists>g. x = Some g \<and> gadget_at w' g \<noteq> None)) \<and> (ret \<noteq> 0 \<longrightarrow> x = None)"
proof (cases "st = None \<or> name = None")
  case False
  then obtain f n where fn: "st = Some f" "name = Some n" by auto
  from assms(3) fn(1) have fit: "file_fits L IO f" by simp
  show ?thesis
    unfolding fn usbg_import_gadget_def prod.case option.case
  proof (rule map_result, rule import_from_wf [OF fit assms(4) grown_refl])
    fix c and w :: "'a world"
    assume "readable L c" "within_limits L c" "heap_wf w"
    with import_env.makes_gadget [OF import_env.intro [OF assms(1,2)], of L c w "lc_root L" n]
    show "\<exists>ret x w'. usbg_import_gadget_run L K c (lc_root L) n w = Some (ret, x, w') \<and> heap_wf w' \<and>
        (ret = 0 \<longrightarrow> (\<exists>p. x = Some p \<and> gadget_at w' p \<noteq> None))" by blast
  qed
qed (use assms(4) in \<open>auto simp: usbg_import_gadget_def split: option.split\<close>)

lemma import_config_wf:
  assumes "luns_named K" "frames_named K" "pred_option (file_fits L IO) st" "heap_wf w" "\<And>p. g = Some p \<Longrightarrow> gadget_at w p \<noteq> None"
  shows "\<exists>ret x st1 fi1 w'. usbg_import_config L IO K g st cid fi w = Some (ret, x, st1, fi1, w') \<and> heap_wf w' \<and>
    (ret = 0 \<longrightarrow> (\<exists>p. x = Some p \<and> config_at w' p \<noteq> None)) \<and> (ret \<noteq> 0 \<longrightarrow> x = None)"
proof (cases "g = None \<or> st = None \<or> cid < 0")
  case False
  then obtain p f where pf: "g = Some p" "st = Some f" "\<not> cid < 0" by auto
  from assms(3) pf(2) have fit: "file_fits L IO f" by simp
  show ?thesis
    unfolding pf usbg_import_config_def prod.case option.case if_not_P [OF pf(3)]
  proof (rule map_result, rule import_from_wf [OF fit assms(4) grown_refl])
    fix c and w1 :: "'a world"
    assume "readable L c" "within_limits L c" "heap_wf w1" "grown w w1"
    with import_env.makes_config [OF import_env.intro [OF assms(1,2)], of L c w1 p "lc_root L" cid]
      grown_live(1) [OF _ assms(5) [OF pf(1)]]
    show "\<exists>ret x w'. usbg_import_config_run L K c p (lc_root L) cid w1 = Some (ret, x, w') \<and> heap_wf w' \<and>
        (ret = 0 \<longrightarrow> (\<exists>p. x = Some p \<and> config_at w' p \<noteq> None))" by blast
  qed
qed (use assms(4) in \<open>auto simp: usbg_import_config_def split: option.split\<close>)

lemma import_function_wf:
  assumes "luns_named K" "frames_named K" "pred_option (file_fits L IO) st" "heap_wf w" "\<And>p. g = Some p \<Longrightarrow> gadget_at w p \<noteq> None"
  shows "\<exists>ret x st1 fi1 w'. usbg_import_function L IO K g st inst fi w = Some (ret, x, st1, fi1, w') \<and> heap_wf w' \<and>
    (ret = 0 \<longrightarrow> (\<exists>f. x = Some f \<and> function_at w' f \<noteq> None)) \<and> (ret \<noteq> 0 \<longrightarrow> x = None)"
proof (cases "g = None \<or> st = None \<or> inst = None")
  case False
  then obtain p f i where pf: "g = Some p" "st = Some f" "inst = Some i" by auto
  from assms(3) pf(2) have fit: "file_fits L IO f" by simp
  show ?thesis
    unfolding pf usbg_import_function_def prod.case option.case
  proof (rule map_result, rule import_from_wf [OF fit assms(4) grown_refl])
    fix c and w1 :: "'a world"
    assume "readable L c" "within_limits L c" "heap_wf w1" "grown w w1"
    with import_env.makes_function [OF import_env.intro [OF assms(1,2)], of L c w1 p "lc_root L" i]
      grown_live(1) [OF _ assms(5) [OF pf(1)]]
    show "\<exists>ret x w'. usbg_import_function_run L K c p (lc_root L) i w1 = Some (ret, x, w') \<and> heap_wf w' \<and>
        (ret = 0 \<longrightarrow> (\<exists>p. x = Some p \<and> function_at w' p \<noteq> None))" unfolding makes_def by blast
  qed
qed (use assms(4) in \<open>auto simp: usbg_import_function_def split: option.split\<close>)

end
