(* ===== verification/Usbg_Import_Demo.thy ===== *)
theory Usbg_Import_Demo
  imports Usbg_Safety_Import Usbg_Scheme_Demo
begin

text \<open>
  A gadget scheme for the examples: a gadget with one serial function and a configuration
  that binds it by its label, as settings of \<open>Usbg_Config_Tree\<close>. It is within the limits of
  an import, on which \<open>import_env\<close> is interpreted.
\<close>

definition named_settings :: "nat setting \<Rightarrow> (nat \<times> string) list" where
  "named_settings x = (case x of Set_group ms \<Rightarrow> map (\<lambda>(n, s). (s, n)) ms | _ \<Rightarrow> [])"

definition cfg_of :: "(nat \<times> nat setting) list \<Rightarrow> cfg" where
  "cfg_of xs = \<lparr>cfg_nodes = map_of xs, cfg_names = map_of (concat (map (named_settings \<circ> snd) xs)), cfg_next = length xs\<rparr>"

text \<open>The members of its groups.\<close>

definition members :: "(nat \<times> nat setting) list \<Rightarrow> (nat \<times> string \<times> nat) list" where
  "members xs = concat (map (\<lambda>(r, x). case x of Set_group ms \<Rightarrow> map (\<lambda>(n, s). (r, n, s)) ms | _ \<Rightarrow> []) xs)"

lemma cfg_of_member:
  assumes "lc_get_member cfg_lib (cfg_of xs) r n = Some s"
  shows "(r, n, s) \<in> set (members xs)"
proof -
  from assms obtain ms where "(r, Set_group ms) \<in> set xs" "(n, s) \<in> set ms"
    by (auto simp: cfg_lib_def cfg_of_def split: option.splits setting.splits dest: map_of_SomeD)
  then show ?thesis by (force simp: members_def)
qed

lemma cfg_of_readable:
  assumes "Set_string None \<notin> snd ` set xs"
  shows "readable cfg_lib (cfg_of xs)"
proof -
  have string: "lc_get_string cfg_lib (cfg_of xs) s \<noteq> None" if "lc_type cfg_lib (cfg_of xs) s = CONFIG_TYPE_STRING" for s
  proof -
    from that obtain t where "map_of xs s = Some (Set_string t)"
      by (auto simp: cfg_lib_def cfg_of_def elim: setting_type.elims split: option.splits)
    moreover from this have "t \<noteq> None" using assms by (force dest: map_of_SomeD)
    ultimately show ?thesis by (simp add: cfg_lib_def cfg_of_def)
  qed
  have name: "lc_name cfg_lib (cfg_of xs) s \<noteq> None"
    if "lc_type cfg_lib (cfg_of xs) r = CONFIG_TYPE_GROUP" "lc_get_elem cfg_lib (cfg_of xs) r i = Some s" for r i s
  proof -
    from that(1) obtain ms where ms: "map_of xs r = Some (Set_group ms)"
      by (auto simp: cfg_lib_def cfg_of_def elim: setting_type.elims split: option.splits)
    with that(2) have "s \<in> snd ` set ms"
      by (auto simp: cfg_lib_def cfg_of_def split: if_splits)
    with map_of_SomeD [OF ms] have "s \<in> fst ` set (concat (map (named_settings \<circ> snd) xs))"
      by (force simp: named_settings_def)
    then show ?thesis by (auto simp: cfg_lib_def cfg_of_def map_of_eq_None_iff image_iff)
  qed
  from string name show ?thesis
    by (auto simp: readable_def cfg_lib_def cfg_of_def split: option.splits setting.splits)
qed

text \<open>The scheme, and a stream from which it is read.\<close>

definition demo_settings :: "(nat \<times> nat setting) list" where
  "demo_settings =
     [(0, Set_group [(''attrs'', 1), (''functions'', 3), (''configs'', 7)]),
      (1, Set_group [(''bcdUSB'', 2)]), (2, Set_int 0x200),
      (3, Set_group [(''acm_usb0'', 4)]), (4, Set_group [(''instance'', 5), (''type'', 6)]),
      (5, Set_string (Some ''usb0'')), (6, Set_string (Some ''acm'')),
      (7, Set_list [8]), (8, Set_group [(''id'', 9), (''name'', 10), (''functions'', 11)]),
      (9, Set_int 1), (10, Set_string (Some ''c'')), (11, Set_list [12]), (12, Set_string (Some ''acm_usb0''))]"

definition demo_config :: cfg where
  "demo_config = cfg_of demo_settings"

lemma demo_readable: "readable cfg_lib demo_config"
  unfolding demo_config_def by (rule cfg_of_readable) (simp add: demo_settings_def)

lemma demo_members:
  "members demo_settings = [(0, ''attrs'', 1), (0, ''functions'', 3), (0, ''configs'', 7), (1, ''bcdUSB'', 2),
    (3, ''acm_usb0'', 4), (4, ''instance'', 5), (4, ''type'', 6), (8, ''id'', 9), (8, ''name'', 10), (8, ''functions'', 11)]"
  by code_simp

lemmas demo_member = cfg_of_member [of demo_settings, folded demo_config_def, unfolded demo_members]

lemma demo_nodes:
  "cfg_nodes demo_config 3 = Some (Set_group [(''acm_usb0'', 4)])"
  "cfg_nodes demo_config 4 = Some (Set_group [(''instance'', 5), (''type'', 6)])"
  "cfg_nodes demo_config 11 = Some (Set_list [12])"
  "cfg_nodes demo_config 12 = Some (Set_string (Some ''acm_usb0''))"
  by (simp_all add: demo_config_def cfg_of_def demo_settings_def)

lemma demo_labels: "label_node cfg_lib demo_config 4" "label_node cfg_lib demo_config 12"
  by (simp_all add: label_node_def usbg_config_is_string_def cfg_lib_def demo_nodes)

lemma demo_functions:
  assumes "lc_get_member cfg_lib demo_config r ''functions'' = Some s" "lc_get_elem cfg_lib demo_config s i = Some e"
  shows "label_node cfg_lib demo_config e"
proof -
  from demo_member [OF assms(1)] have "s = 3 \<or> s = 11" by (simp add: demo_members) auto
  then show ?thesis
  proof
    assume "s = 3"
    with assms(2) have "e = 4" by (simp add: cfg_lib_def demo_nodes split: if_splits)
    with demo_labels show ?thesis by simp
  next
    assume "s = 11"
    with assms(2) have "e = 12" by (simp add: cfg_lib_def demo_nodes split: if_splits)
    with demo_labels show ?thesis by simp
  qed
qed

lemma demo_limits: "within_limits cfg_lib demo_config"
proof -
  have absent: "lc_get_member cfg_lib demo_config r n = None"
    if "n \<notin> (fst \<circ> snd) ` set (members demo_settings)" for r n
  proof (rule ccontr)
    assume "\<not> ?thesis"
    then obtain s where "lc_get_member cfg_lib demo_config r n = Some s" by auto
    from cfg_of_member [OF this [unfolded demo_config_def]] that show False by force
  qed
  have "lc_get_member cfg_lib demo_config r n = None" if "n \<in> {''luns'', ''formats'', ''frames'', ''function''}" for r n
    using that by (intro absent) (auto simp: demo_members)
  with demo_functions show ?thesis by (simp add: within_limits_def short_def)
qed

interpretation demo_import: import_env configfs cfg_lib demo_config
  by (rule import_env.intro [OF configfs_luns_named configfs_frames_named demo_readable demo_limits])

lemma demo_file_fits: "file_fits cfg_lib cfg_io (Some demo_config)"
  by (simp add: file_fits_def cfg_io_def demo_readable demo_limits)

text \<open>An import of it on a fresh configfs succeeds, and binds the function.\<close>

definition fresh_world :: "cfs world" where
  "fresh_world = \<lparr>s_configfs_path = ''/c'', s_path = ''/c/usb_gadget'', s_gadgets = [], s_udcs = [],
     gadget_at = Map.empty, config_at = Map.empty, function_at = Map.empty, binding_at = Map.empty,
     udc_at = Map.empty, next_ptr = 1, os = fresh_fs\<rparr>"

lemma fresh_wf: "heap_wf fresh_world"
  by (auto simp: fresh_world_def wf_defs owns_def fresh_from_def one_kind_def)

definition demo_import :: "(int \<times> ptr option \<times> cfg option option \<times> cfg failed_imports \<times> cfs world) option" where
  "demo_import = usbg_import_gadget cfg_lib cfg_io configfs (Some (Some demo_config)) (Some ''g1'') fresh_imports fresh_world"

lemma demo_import_run:
  "map_option (\<lambda>(r, g, st, fi, w). (r, g, map_option f_label (function_at w 2), map_option b_target (binding_at w 4))) demo_import =
     Some (0, Some 1, Some (Some ''acm_usb0''), Some 2)"
  by code_simp

end
