(* ===== verification/Usbg_Export_Total.thy ===== *)
theory Usbg_Export_Total
  imports Usbg_Scheme_Total
begin

text \<open>
  Export of the attributes of any function is defined, whatever the kernel and libconfig
  answer: a getter that succeeds gives a value that the node of its entry can write, and the
  masks of a function are read in range. The function object keeps its shape.
\<close>

section \<open>GUIDs\<close>

text \<open>
  The kernel's file of a GUID has 16 bytes and is never empty. The library relies on it: the
  reader of the GUID returns 0 for an empty file, and sets no string then.
\<close>

definition guids_filled :: "'k kernel \<Rightarrow> bool" where
  "guids_filled K \<longleftrightarrow> (\<forall>p n k. fst (k_read K (path3 p n ''guidFormat'') 16 k) \<noteq> Read_bytes [] False)"

section \<open>Tables\<close>

text \<open>What holds of every value that the getter of an entry gives with success.\<close>

definition gives :: "'k kernel \<Rightarrow> 'k attr_entry \<Rightarrow> (attr_val \<Rightarrow> bool) \<Rightarrow> bool" where
  "gives K e P \<longleftrightarrow> (\<forall>p m d k v k'. a_get e K p m (a_name e) d k = (0, v, k') \<longrightarrow> P v)"

definition writes :: "('s, 'c, 'k) node_entry \<Rightarrow> attr_val \<Rightarrow> bool" where
  "writes n v \<longleftrightarrow> (\<exists>expo. n_export n = Some expo \<and> (\<forall>L root name c. \<exists>ret c'. expo L root name v c = Some (ret, c')))"

definition exports_fit :: "'k kernel \<Rightarrow> bool \<Rightarrow> ('k attr_entry \<times> ('s, 'c, 'k) node_entry) list \<Rightarrow> bool" where
  "exports_fit K skip es \<longleftrightarrow> list_all (\<lambda>(e, n). skip \<and> a_ro e \<or> gives K e (writes n)) es"

text \<open>A getter that is defined, and gives what its entry gives.\<close>

definition reads :: "'k kernel \<Rightarrow> 'k attr_entry \<Rightarrow> (int \<times> attr_val \<times> 'k) option \<Rightarrow> bool" where
  "reads K e r \<longleftrightarrow> (\<exists>ret v k'. r = Some (ret, v, k') \<and> (ret = 0 \<longrightarrow> (\<forall>P. gives K e P \<longrightarrow> P v)))"

lemma table_get_val_reads: "i < length tab \<Longrightarrow> reads K (tab ! i) (table_get_val tab K p n i d k)"
  by (cases "a_get (tab ! i) K p n (a_name (tab ! i)) d k")
     (fastforce simp: reads_def gives_def table_get_val_def)

lemma export_attrs_total:
  assumes "exports_fit K skip es" "\<And>j d k. j < length es \<Longrightarrow> reads K (fst (es ! j)) (get (i + j) d k)"
  shows "\<exists>ret c' k'. export_attrs L skip root get i es c k = Some (ret, c', k')"
  using assms
proof (induction es arbitrary: i c k)
  case (Cons en es)
  obtain e n where en: "en = (e, n)" by (cases en)
  have fit: "exports_fit K skip es" using Cons.prems(1) by (simp add: exports_fit_def)
  have get: "reads K (fst (es ! j)) (get (Suc i + j) d k)" if "j < length es" for j d k
    using Cons.prems(2) [of "Suc j"] that by simp
  note IH = Cons.IH [OF fit get]
  show ?case
  proof (cases "skip \<and> a_ro e")
    case True
    with IH en show ?thesis by simp
  next
    case False
    with Cons.prems(1) en have g: "gives K e (writes n)" by (auto simp: exports_fit_def)
    from Cons.prems(2) [of 0 "Int_val 0" k] en obtain ret v k1 where
      v: "get i (Int_val 0) k = Some (ret, v, k1)" "ret = 0 \<Longrightarrow> \<forall>P. gives K e P \<longrightarrow> P v" by (auto simp: reads_def)
    show ?thesis
    proof (cases "ret = 0")
      case True
      with v(2) g have "writes n v" by blast
      then obtain expo where expo: "n_export n = Some expo" "\<forall>L root name c. \<exists>ret c'. expo L root name v c = Some (ret, c')"
        by (auto simp: writes_def)
      from expo(2) obtain r2 c2 where "expo L root (a_name e) v c = Some (r2, c2)" by blast
      with False True en v(1) expo(1) IH [of c2 k1] show ?thesis by auto
    qed (use False en v(1) in auto)
  qed
qed simp

lemma export_table_total:
  assumes "exports_fit K skip (zip tab nodes)" "length nodes = length tab"
    and "\<And>j d k. j < length tab \<Longrightarrow> reads K (tab ! j) (get j d k)"
  shows "\<exists>ret c' k'. export_attrs L skip root get 0 (zip tab nodes) c k = Some (ret, c', k')"
  using assms(2,3) by (intro export_attrs_total [OF assms(1)]) simp

section \<open>Values and nodes\<close>

lemma gives_simps:
  "(\<And>i. P (Int_val i)) \<Longrightarrow> gives K (dec_attr n) P" "(\<And>i. P (Int_val i)) \<Longrightarrow> gives K (dec_attr_ro n) P"
  "(\<And>b. P (Bool_val b)) \<Longrightarrow> gives K (bool_attr n) P"
  "(\<And>s. P (Str_val s)) \<Longrightarrow> gives K (string_attr n) P" "(\<And>s. P (Str_val s)) \<Longrightarrow> gives K (string_attr_ro n) P"
  "(\<And>a. P (Ether_val a)) \<Longrightarrow> gives K (ether_addr_attr n) P" "(\<And>d. P (Dev_val d)) \<Longrightarrow> gives K (dev_attr_ro n) P"
  by (auto simp: gives_def dec_attr_def dec_attr_ro_def bool_attr_def string_attr_def string_attr_ro_def ether_addr_attr_def
      dev_attr_ro_def usbg_get_dec_def usbg_get_bool_def usbg_get_string_def get_ether_def get_dev_def split: prod.splits if_splits)

text \<open>A report that was read, and the 16 bytes of a GUID.\<close>

lemma gives_report: "(\<And>s. P (Report_val s)) \<Longrightarrow> gives K (report_attr n) P"
  by (auto simp: gives_def report_attr_def hid_get_report_def split: prod.splits if_splits)

lemma guid_read_16:
  assumes "guids_filled K" "usbg_read_buf_alloc K p m ''guidFormat'' 16 k = (0, s, k')"
  shows "\<exists>t. s = Some t \<and> length t = 16"
proof -
  obtain ret buf k1 where b: "usbg_read_buf_limited K p m ''guidFormat'' 16 k = (ret, buf, k1)" by (metis prod_cases3)
  obtain r k2 where r: "k_read K (path3 p m ''guidFormat'') 16 k = (r, k2)" by fastforce
  with assms(1) have "r \<noteq> Read_bytes [] False" by (metis fst_conv guids_filled_def)
  moreover have "usbg_translate_error e \<noteq> 16" for e using translate_error_neg [of e] by linarith
  ultimately have "ret \<noteq> 0 \<and> (ret = 16 \<longrightarrow> length buf = 16)" using b r
    by (auto simp: usbg_read_buf_limited_def Let_def min_def split: if_splits file_read.splits)
  with assms(2) b show ?thesis
    by (auto simp: usbg_read_buf_alloc_def split: if_splits prod.splits)
qed

lemma gives_guid:
  assumes "guids_filled K" "\<And>s. length s = 16 \<Longrightarrow> P (Str_val (Some s))"
  shows "gives K (guid_attr ''guidFormat'') P"
  using guid_read_16 [OF assms(1)] assms(2)
  by (fastforce simp: gives_def guid_attr_def usbg_get_guid_def split: prod.splits if_splits)

lemma writes_simps [simp]:
  "writes int_node (Int_val i)" "writes int_node_ro (Int_val i)" "writes bool_node (Bool_val b)"
  "writes string_node (Str_val s)" "writes string_node_ro (Str_val s)" "writes ether_node (Ether_val a)"
  "writes dev_node_ro (Dev_val d)" "writes report_node (Report_val r)"
  by (simp_all add: writes_def int_node_def int_node_ro_def bool_node_def string_node_def string_node_ro_def ether_node_def
      dev_node_ro_def report_node_def hid_set_config_node_report_def)

lemma writes_guid [simp]: "length s = 16 \<Longrightarrow> writes guid_node (Str_val (Some s))"
  by (auto simp: writes_def guid_node_def usbg_set_config_node_guid_def config_ret_def split: prod.splits option.splits)

lemmas table_defs = struct_defs midi_nodes_def net_nodes_def uac2_nodes_def hid_nodes_def ms_lun_attr_def
  ms_lun_nodes_def uvc_config_attr_def uvc_config_nodes_def uvc_frame_attr_def uvc_frame_nodes_def uvc_format_attr_def
  uvc_format_nodes_def numeral_eq_Suc

lemma tables_exported:
  "exports_fit K False (zip midi_attr midi_nodes)" "exports_fit K True (zip net_attr net_nodes)"
  "exports_fit K False (zip uac2_attr uac2_nodes)" "exports_fit K False (zip hid_attr hid_nodes)"
  "exports_fit K False (zip ms_lun_attr ms_lun_nodes)" "exports_fit K False (zip uvc_config_attr uvc_config_nodes)"
  "exports_fit K False (zip uvc_frame_attr uvc_frame_nodes)"
  by (simp_all add: exports_fit_def table_defs gives_simps gives_report)

lemma format_table_exported: "guids_filled K \<Longrightarrow> exports_fit K False (zip uvc_format_attr uvc_format_nodes)"
  by (simp add: exports_fit_def table_defs gives_simps gives_guid)

section \<open>The modules with one table\<close>

lemma midi_export_total: "\<exists>ret c' k'. midi_libconfig_export L K f root c k = Some (ret, c', k')"
  unfolding midi_libconfig_export_def
  by (rule export_table_total [OF tables_exported(1)]) (simp add: midi_attr_def midi_nodes_def, unfold usbg_f_midi_get_attr_val_def, rule table_get_val_reads)

lemma ether_export_total: "\<exists>ret c' k'. ether_libconfig_export L K f root c k = Some (ret, c', k')"
  unfolding ether_libconfig_export_def
  by (rule export_table_total [OF tables_exported(2)]) (simp add: net_attr_def net_nodes_def, unfold usbg_f_net_get_attr_val_def, rule table_get_val_reads)

lemma uac2_export_total: "\<exists>ret c' k'. uac2_libconfig_export L K f root c k = Some (ret, c', k')"
  unfolding uac2_libconfig_export_def
  by (rule export_table_total [OF tables_exported(3)]) (simp add: uac2_attr_def uac2_nodes_def, unfold usbg_f_uac2_get_attr_val_def, rule table_get_val_reads)

lemma hid_export_total: "\<exists>ret c' k'. hid_libconfig_export L K f root c k = Some (ret, c', k')"
  unfolding hid_libconfig_export_def
  by (rule export_table_total [OF tables_exported(4)]) (simp add: hid_attr_def hid_nodes_def, unfold usbg_f_hid_get_attr_val_def, rule table_get_val_reads)

lemma loopback_export_total: "\<exists>ret c' k'. loopback_libconfig_export L K f root c k = Some (ret, c', k')"
proof -
  have "\<exists>ret c' k'. loopback_export_loop L K f root is c k = Some (ret, c', k')" if "\<forall>i\<in>set is. i < 2" for "is"
    using that
  proof (induction "is" arbitrary: c k)
    case (Cons i "is")
    then have "i < length loopback_attr" by (simp add: loopback_attr_def)
    then obtain ret v k1 where "usbg_f_loopback_get_attr_val K f i (Int_val 0) k = Some (ret, v, k1)"
      using table_get_val_reads [of i loopback_attr K] by (fastforce simp: reads_def usbg_f_loopback_get_attr_val_def)
    with Cons show ?case by (auto simp: Let_def split: prod.split)
  qed simp
  then show ?thesis by (simp add: loopback_libconfig_export_def)
qed

section \<open>Mass storage\<close>

lemma path_or_table_reads:
  "i < length tab \<Longrightarrow> reads K (tab ! i) (if \<not> ok then Some (err USBG_ERROR_PATH_TOO_LONG, d, k) else table_get_val tab K p n i d k)"
  using table_get_val_reads [of i tab K p n d k] by (simp add: reads_def)

lemma ms_export_lun_attrs_total: "\<exists>ret c' k'. ms_export_lun_attrs L K mf lid root c k = Some (ret, c', k')"
  unfolding ms_export_lun_attrs_def
  by (rule export_table_total [OF tables_exported(5)])
     (simp add: ms_lun_attr_length ms_lun_nodes_def,
      unfold usbg_f_ms_get_lun_attr_val_def, rule path_or_table_reads)

lemma ms_export_loop_total:
  assumes "length (mf_luns mf) = MAX_LUNS" "\<forall>i\<in>set is. i < MAX_LUNS"
  shows "\<exists>ret c' k'. ms_export_loop L K mf s is c k = Some (ret, c', k')"
  using assms(2)
proof (induction "is" arbitrary: c k)
  case (Cons i "is")
  from Cons.prems lun_at_total [OF assms(1), of i] obtain b where b: "lun_at mf (int i) = Some b" by auto
  obtain node c1 where node: "lc_add L s (Some '''') CONFIG_TYPE_GROUP c = (node, c1)" by fastforce
  show ?case
  proof (cases node)
    case (Some n)
    from ms_export_lun_attrs_total [of L K mf "int i" n c1 k] obtain ret c2 k1 where
      "ms_export_lun_attrs L K mf (int i) n c1 k = Some (ret, c2, k1)" by blast
    with Some node b Cons show ?thesis by simp
  qed (use node b Cons in simp)
qed simp

lemma ms_export_total:
  assumes "luns_named K" "length (mf_luns mf) = MAX_LUNS"
  shows "\<exists>ret mf' c' k'. ms_libconfig_export L K mf root c k = Some (ret, mf', c', k') \<and> length (mf_luns mf') = MAX_LUNS"
proof -
  obtain ret stall k1 where st: "usbg_f_ms_get_stall K mf False k = (ret, stall, k1)" by (metis prod_cases3)
  obtain r2 c1 where c1: "usbg_set_config_node_bool L root (Some ''stall'') stall c = (r2, c1)" by fastforce
  obtain node c2 where node: "lc_add L root (Some ''luns'') CONFIG_TYPE_LIST c1 = (node, c2)" by fastforce
  show ?thesis
  proof (cases "ret = 0 \<and> r2 = 0 \<and> node \<noteq> None")
    case True
    then obtain n where n: "node = Some n" by auto
    obtain mf1 k2 where mf1: "get_lun_mask K mf k1 = Some (mf1, k2)" "length (mf_luns mf1) = MAX_LUNS"
      using get_lun_mask_total [OF assms, of k1] by blast
    from ms_export_loop_total [OF mf1(2), of "[0..<MAX_LUNS]" L K n c2 k2] obtain r3 c3 k3 where
      "ms_export_loop L K mf1 n [0..<MAX_LUNS] c2 k2 = Some (r3, c3, k3)" by auto
    with True n st c1 node mf1 show ?thesis by (simp add: ms_libconfig_export_def)
  qed (use st c1 node assms(2) in \<open>auto simp: ms_libconfig_export_def\<close>)
qed

section \<open>UVC\<close>

lemma uvc_export_config_total: "\<exists>ret c' k'. uvc_export_config L K u root c k = Some (ret, c', k')"
proof -
  have "\<exists>ret c' k'. export_attrs L False node (usbg_f_uvc_get_config_attr_val K u) 0 (zip uvc_config_attr uvc_config_nodes) c k = Some (ret, c', k')"
    for node c k
    by (rule export_table_total [OF tables_exported(6)])
       (simp add: uvc_config_attr_def uvc_config_nodes_def, unfold usbg_f_uvc_get_config_attr_val_def, rule path_or_table_reads)
  then show ?thesis by (simp add: uvc_export_config_def split: prod.split option.split)
qed

lemma uvc_export_format_attrs_total:
  assumes "guids_filled K"
  shows "\<exists>ret c' k'. uvc_export_format_attrs L K u fmt root c k = Some (ret, c', k')"
proof -
  have "\<exists>ret c' k'. export_attrs L False root (usbg_f_uvc_get_format_attr_val K u fmt) 0 (zip uvc_format_attr uvc_format_nodes) c k = Some (ret, c', k')"
    by (rule export_table_total [OF format_table_exported [OF assms]])
       (simp add: uvc_format_attr_def uvc_format_nodes_def, unfold usbg_f_uvc_get_format_attr_val_def, rule path_or_table_reads)
  then show ?thesis by (auto simp: uvc_export_format_attrs_def forgive_not_found_def)
qed

lemma uvc_export_frame_attrs_total: "\<exists>ret c' k'. uvc_export_frame_attrs L K u fmt fid root c k = Some (ret, c', k')"
proof -
  have "\<exists>ret c' k'. export_attrs L False root (usbg_f_uvc_get_frame_attr_val K u fmt fid) 0 (zip uvc_frame_attr uvc_frame_nodes) c k = Some (ret, c', k')"
    by (rule export_table_total [OF tables_exported(7)])
       (simp add: uvc_frame_attr_def uvc_frame_nodes_def, unfold usbg_f_uvc_get_frame_attr_val_def, rule path_or_table_reads)
  then show ?thesis by (auto simp: uvc_export_frame_attrs_def forgive_not_found_def)
qed

lemma uvc_export_frames_total: "\<exists>ret c' k'. uvc_export_frames L K u fmt frames root c k = Some (ret, c', k')"
proof -
  have "\<exists>ret c' k'. uvc_export_frames_loop L K u fmt s is c k = Some (ret, c', k')" for s "is" c k
  proof (induction "is" arbitrary: c k)
    case (Cons i "is")
    obtain node c1 where node: "lc_add L s (Some '''') CONFIG_TYPE_GROUP c = (node, c1)" by fastforce
    show ?case
    proof (cases node)
      case (Some n)
      from uvc_export_frame_attrs_total [of L K u fmt "int i" n c1 k] obtain ret c2 k1 where
        "uvc_export_frame_attrs L K u fmt (int i) n c1 k = Some (ret, c2, k1)" by blast
      with Some node Cons show ?thesis by simp
    qed (use node in simp)
  qed simp
  then show ?thesis by (simp add: uvc_export_frames_def split: prod.split option.split)
qed

lemma uvc_export_formats_total:
  assumes "guids_filled K" "masks_fit (uvcf_formats u)" "\<forall>i\<in>set is. i < MAX_FORMATS"
  shows "\<exists>ret c' k'. uvc_export_formats_loop L K u root s is c k = Some (ret, c', k')"
  using assms(3)
proof (induction "is" arbitrary: c k)
  case Nil
  show ?case using uvc_export_config_total by simp
next
  case (Cons i "is")
  let ?fmt = "format_names ! i"
  obtain node c1 where node: "lc_add L s (Some (take (length ?fmt - 2) ?fmt)) CONFIG_TYPE_GROUP c = (node, c1)" by fastforce
  show ?case
  proof (cases node)
    case (Some n)
    have i: "i < length (uvcf_formats u)" using Cons.prems by (intro masks_fitD(1) [OF assms(2)]) simp
    from uvc_export_frames_total [of L K u ?fmt "fst (uvcf_formats u ! i)" n c1 k] obtain ret c2 k1 where
      c2: "uvc_export_frames L K u ?fmt (fst (uvcf_formats u ! i)) n c1 k = Some (ret, c2, k1)" by blast
    from uvc_export_format_attrs_total [OF assms(1), of L u ?fmt n c2 k1] obtain r3 c3 k2 where
      "uvc_export_format_attrs L K u ?fmt n c2 k1 = Some (r3, c3, k2)" by blast
    with Some node i c2 Cons show ?thesis by (simp add: Let_def)
  qed (use node in \<open>simp add: Let_def\<close>)
qed

lemma uvc_export_total:
  assumes "guids_filled K" "frames_named K" "masks_fit (uvcf_formats u)"
  shows "\<exists>ret u' c' k'. uvc_libconfig_export L K u root c k = Some (ret, u', c', k') \<and> masks_fit (uvcf_formats u')"
proof -
  obtain node c1 where node: "lc_add L root (Some ''formats'') CONFIG_TYPE_GROUP c = (node, c1)" by fastforce
  obtain u1 k1 where u1: "get_formats_mask K u k = Some (u1, k1)" "masks_fit (uvcf_formats u1)"
    using get_formats_mask_total [OF assms(2,3), of k] by blast
  show ?thesis
  proof (cases node)
    case (Some n)
    from uvc_export_formats_total [OF assms(1) u1(2), of "[0..<MAX_FORMATS]" L root n c1 k1] obtain ret c2 k2 where
      "uvc_export_formats_loop L K u1 root n [0..<MAX_FORMATS] c1 k1 = Some (ret, c2, k2)" by auto
    with Some node u1 show ?thesis by (simp add: uvc_libconfig_export_def)
  qed (use node assms(3) in \<open>simp add: uvc_libconfig_export_def\<close>)
qed

section \<open>Every type\<close>

lemma function_export_total:
  assumes "luns_named K" "frames_named K" "f_type fn = USBG_F_UVC \<Longrightarrow> guids_filled K" "ext_fits fn"
  shows "\<exists>ret fn' c' k'. function_export L K fn root c k = Some (ret, fn', c', k') \<and> ext_fits fn' \<and> same_fn fn fn'"
proof -
  note plain = midi_export_total [of L K fn root c k] ether_export_total [of L K fn root c k]
    uac2_export_total [of L K fn root c k] hid_export_total [of L K fn root c k] loopback_export_total [of L K fn root c k]
  show ?thesis
  proof (cases "f_type fn")
    case USBG_F_MASS_STORAGE
    from assms(4) this obtain mf where mf: "usbg_to_ms_function fn = Some mf" "length (mf_luns mf) = MAX_LUNS"
      by (rule ext_fits_ms)
    from ms_export_total [OF assms(1) mf(2), of L root c k] mf(1) USBG_F_MASS_STORAGE assms(4) ext_fits_update
    show ?thesis by (fastforce simp: function_export_def)
  next
    case USBG_F_UVC
    from assms(4) this obtain u where u: "usbg_to_uvc_function fn = Some u" "masks_fit (uvcf_formats u)"
      by (rule ext_fits_uvc)
    from uvc_export_total [OF assms(3) [OF USBG_F_UVC] assms(2) u(2), of L root c k] u(1) USBG_F_UVC assms(4) ext_fits_uvc_update
    show ?thesis by (fastforce simp: function_export_def)
  qed (use plain assms(4) in \<open>auto simp: function_export_def\<close>)
qed

end
