(* ===== verification/Usbg_Safety_Export.thy ===== *)
theory Usbg_Safety_Export
  imports Usbg_Export_Total Usbg_Export Usbg_Safety_Import
begin

text \<open>
  Export changes no object of the library: what it leaves behind differs from what was there
  only in files and in the masks of functions that were read for the first time. Export of
  functions and configurations is defined; that of a gadget is not when the strings of a
  language cannot be read.
\<close>

section \<open>Worlds that differ in masks\<close>

definition masks_read :: "'k world \<Rightarrow> 'k world \<Rightarrow> bool" where
  "masks_read w w' \<longleftrightarrow> (\<exists>m k. w' = w\<lparr>function_at := m, os := k\<rparr> \<and> (\<forall>f. rel_option same_fn (function_at w f) (m f)))"

lemma same_fn_trans: "same_fn f1 f2 \<Longrightarrow> same_fn f2 f3 \<Longrightarrow> same_fn f1 f3"
  by (auto simp: same_fn_def) (metis usbg_function.update_convs(7) usbg_function.surjective usbg_function.select_convs(7))

lemma masks_read_refl [simp]: "masks_read w w"
  unfolding masks_read_def by (rule exI [of _ "function_at w"], rule exI [of _ "os w"]) (simp add: option.rel_refl)

lemma masks_read_os [simp]: "masks_read w (w\<lparr>os := k\<rparr>)"
  unfolding masks_read_def by (rule exI [of _ "function_at w"], rule exI [of _ k]) (simp add: option.rel_refl)

lemma masks_read_trans: "masks_read w w1 \<Longrightarrow> masks_read w1 w2 \<Longrightarrow> masks_read w w2"
proof -
  assume "masks_read w w1" "masks_read w1 w2"
  then obtain m k m2 k2 where 1: "w1 = w\<lparr>function_at := m, os := k\<rparr>" "\<forall>f. rel_option same_fn (function_at w f) (m f)"
    and 2: "w2 = w1\<lparr>function_at := m2, os := k2\<rparr>" "\<forall>f. rel_option same_fn (function_at w1 f) (m2 f)"
    by (auto simp: masks_read_def)
  have "rel_option same_fn (function_at w f) (m2 f)" for f
    using 1(1) spec [OF 1(2), of f] spec [OF 2(2), of f] same_fn_trans
    by (auto simp: rel_option_iff split: option.splits)
  with 1(1) 2(1) show ?thesis
    unfolding masks_read_def by (intro exI [of _ m2] exI [of _ k2]) simp
qed

lemma masks_read_same:
  assumes "masks_read w w'"
  shows "gadget_at w' = gadget_at w" "config_at w' = config_at w" "binding_at w' = binding_at w"
    "udc_at w' = udc_at w" "s_gadgets w' = s_gadgets w" "s_udcs w' = s_udcs w"
  using assms by (auto simp: masks_read_def)

lemma masks_read_function:
  assumes "masks_read w w'"
  shows "function_at w f = None \<longleftrightarrow> function_at w' f = None"
    "function_at w f = Some fn \<Longrightarrow> \<exists>fn'. function_at w' f = Some fn' \<and> same_fn fn fn'"
    "function_at w' f = Some fn' \<Longrightarrow> \<exists>fn. function_at w f = Some fn \<and> same_fn fn fn'"
proof -
  from assms have "rel_option same_fn (function_at w f) (function_at w' f)" by (auto simp: masks_read_def)
  then show "function_at w f = None \<longleftrightarrow> function_at w' f = None"
    "function_at w f = Some fn \<Longrightarrow> \<exists>fn'. function_at w' f = Some fn' \<and> same_fn fn fn'"
    "function_at w' f = Some fn' \<Longrightarrow> \<exists>fn. function_at w f = Some fn \<and> same_fn fn fn'"
    by (auto elim: option.rel_cases)
qed

lemma masks_read_live: "masks_read w w' \<Longrightarrow> function_at w f \<noteq> None \<Longrightarrow> function_at w' f \<noteq> None"
  using masks_read_function(1) [of w w' f] by simp

section \<open>Steps of an export\<close>

text \<open>\<open>partial\<close>: the step may be undefined.\<close>

definition exports :: "bool \<Rightarrow> 'k world \<Rightarrow> (int \<times> 'c \<times> 'k world) option \<Rightarrow> bool" where
  "exports partial w r \<longleftrightarrow>
     (case r of None \<Rightarrow> partial | Some (ret, c, w') \<Rightarrow> heap_wf w' \<and> masks_read w w')"

lemma exports_return: "heap_wf w \<Longrightarrow> exports b w (Some (e, c, w))"
  by (simp add: exports_def)

lemma exports_trans:
  assumes "masks_read w w1" "exports b w1 r"
  shows "exports b w r"
proof (cases r)
  case (Some x)
  obtain ret c w' where "x = (ret, c, w')" by (metis prod_cases3)
  with Some assms(2) masks_read_trans [OF assms(1)] show ?thesis by (simp add: exports_def)
qed (use assms(2) in \<open>simp add: exports_def\<close>)

lemma exports_os: "exports b (w\<lparr>os := k\<rparr>) r \<Longrightarrow> exports b w r"
  by (rule exports_trans [OF masks_read_os])

lemma exports_none: "exports True w None"
  by (simp add: exports_def)

text \<open>\<open>w0\<close>: the world in which the export started.\<close>

lemma exports_if_ok:
  assumes "exports b w r" "masks_read w0 w" "\<And>c w'. heap_wf w' \<Longrightarrow> masks_read w0 w' \<Longrightarrow> exports b w' (cont c w')"
  shows "exports b w (if_ok r cont)"
proof (cases r)
  case None
  with assms(1) show ?thesis by (simp add: exports_def if_ok_def)
next
  case (Some x)
  obtain ret c w' where x: "x = (ret, c, w')" by (metis prod_cases3)
  with Some assms(1) have w': "heap_wf w'" "masks_read w w'" by (simp_all add: exports_def)
  have "exports b w (Some (ret, c, w'))" by (rule exports_trans [OF w'(2) exports_return [OF w'(1)]])
  with exports_trans [OF w'(2) assms(3) [OF w'(1) masks_read_trans [OF assms(2) w'(2)]], of c] show ?thesis by (simp add: Some x if_ok_def)
qed

lemma exports_in_new_node:
  assumes "heap_wf w" "\<And>node c. exports b w (cont node c w)"
  shows "exports b w (in_new_node L root name t cont c w)"
  using assms by (simp add: in_new_node_def exports_return split: prod.split option.split)

lemma exports_no_io: "heap_wf w \<Longrightarrow> exports b w (no_io m c w)"
  by (simp add: no_io_def exports_return split: prod.split)

lemma exports_ret:
  "exports b w r \<Longrightarrow> exports b w (do { (ret, c, w) \<leftarrow> r; Some (h ret, c, w) })"
  by (cases r) (auto simp: exports_def)

text \<open>Strings of a list of languages.\<close>

lemma exports_langs:
  assumes "\<And>l node c w'. heap_wf w' \<Longrightarrow> masks_read w w' \<Longrightarrow> exports b w' (expl l node c w')" "heap_wf w1" "masks_read w w1"
  shows "exports b w1 (export_langs_loop L expl root ls c w1)"
  using assms(2,3)
proof (induction ls arbitrary: c w1)
  case (Cons l ls)
  have "exports b w1 (if_ok (expl (of_int l) node c1 w1) (export_langs_loop L expl root ls))" for node c1
    by (rule exports_if_ok [OF assms(1) [OF Cons.prems] Cons.prems(2) Cons.IH])
  then show ?case
    using Cons.prems(1) by (simp add: exports_return if_ok_def split: prod.split option.split)
qed (simp add: exports_return)

section \<open>Functions\<close>

text \<open>The kernel's numbers and, if there are UVC functions, its GUIDs.\<close>

definition exportable :: "'k kernel \<Rightarrow> 'k world \<Rightarrow> bool" where
  "exportable K w \<longleftrightarrow> luns_named K \<and> frames_named K \<and>
     (\<forall>f fn. function_at w f = Some fn \<longrightarrow> f_type fn = USBG_F_UVC \<longrightarrow> guids_filled K)"

lemma exportable_masks:
  assumes "exportable K w" "masks_read w w'"
  shows "exportable K w'"
  using assms(1) masks_read_function(3) [OF assms(2)] same_fn_fields(3) unfolding exportable_def by metis

lemma exports_function_attrs:
  assumes "heap_wf w" "function_at w f \<noteq> None" "exportable K w"
  shows "exports b w (usbg_export_function_attrs L K f root c w)"
proof -
  from assms(2) obtain fn where fn: "function_at w f = Some fn" by auto
  with assms(3) have K: "luns_named K" "frames_named K" "f_type fn = USBG_F_UVC \<Longrightarrow> guids_filled K"
    by (auto simp: exportable_def)
  from function_export_total [OF K wfpD(9) [OF assms(1) fn], of L root c "os w"]
  obtain ret fn' c' k' where ex: "function_export L K fn root c (os w) = Some (ret, fn', c', k')" "ext_fits fn'" "same_fn fn fn'"
    by blast
  have "rel_option same_fn (function_at w p) (((function_at w)(f \<mapsto> fn')) p)" for p
    using fn ex(3) by (simp add: option.rel_refl)
  then have "masks_read w (w\<lparr>function_at := (function_at w)(f \<mapsto> fn'), os := k'\<rparr>)"
    unfolding masks_read_def by blast
  moreover have "usbg_export_function_attrs L K f root c w =
      Some (ret, c', w\<lparr>function_at := (function_at w)(f \<mapsto> fn'), os := k'\<rparr>)"
    using ex(1) fn by (simp add: usbg_export_function_attrs_def)
  ultimately show ?thesis
    using wf_function_updated [OF assms(1) fn ex(2,3)] by (simp only: exports_def option.case prod.case)
qed

lemma interf_os_desc_read:
  assumes "function_at w f \<noteq> None"
  shows "\<exists>ret d k. usbg_get_interf_os_desc K f (Some n) w = Some ((ret, d), w\<lparr>os := k\<rparr>) \<and> (ret = 0 \<longrightarrow> d \<noteq> None)"
proof -
  from assms obtain fn where fn: "function_at w f = Some fn" by auto
  obtain r1 c k1 where r1: "usbg_read_string_alloc K (interf_path fn n) [] ''compatible_id'' (os w) = (r1, c, k1)"
    by (metis prod_cases3)
  obtain r2 s k2 where "usbg_read_string_alloc K (interf_path fn n) [] ''sub_compatible_id'' k1 = (r2, s, k2)"
    by (metis prod_cases3)
  with fn r1 show ?thesis by (auto simp: usbg_get_interf_os_desc_def on_function_def on_os_def Let_def intro: exI [of _ "os w"])
qed

lemma exports_interf_os_descs:
  assumes "heap_wf w" "function_at w f \<noteq> None"
  shows "exports b w (export_os_descs_loop L K f root is c w)"
  using assms
proof (induction "is" arbitrary: c w)
  case (Cons n "is")
  obtain ret d k where os: "usbg_get_interf_os_desc K f (Some n) w = Some ((ret, d), w\<lparr>os := k\<rparr>)" "ret = 0 \<Longrightarrow> d \<noteq> None"
    using interf_os_desc_read [OF Cons.prems(2)] by blast
  have "exports b (w\<lparr>os := k\<rparr>) (if ret \<noteq> 0 then Some (ret, c, w\<lparr>os := k\<rparr>)
      else do { d \<leftarrow> d; let (ret, c1) = usbg_set_config_node_os_desc L root n d c;
        if ret < 0 then Some (ret, c1, w\<lparr>os := k\<rparr>) else export_os_descs_loop L K f root is c1 (w\<lparr>os := k\<rparr>) })"
    using os(2) Cons.prems Cons.IH by (auto simp: exports_return split: prod.split)
  from exports_os [OF this] os(1) show ?case by simp
qed (simp add: exports_return)

lemma exports_function_prep:
  assumes "heap_wf w" "function_at w f \<noteq> None" "exportable K w"
  shows "exports b w (usbg_export_function_prep L K f root c w)"
proof -
  from assms(2) obtain fn where fn: "function_at w f = Some fn" by auto
  note live = masks_read_live [OF _ assms(2)]
  have attrs: "exports b w' (usbg_export_function_attrs L K f node c w')" if "heap_wf w'" "masks_read w w'" for w' node c
    by (rule exports_function_attrs [OF that(1) live [OF that(2)] exportable_masks [OF assms(3) that(2)]])
  have descs: "exports b w' (usbg_export_function_os_descs L K f node c w')" if "heap_wf w'" "masks_read w w'" for w' node c
  proof -
    from live [OF that(2)] obtain fn' where "function_at w' f = Some fn'" by auto
    with exports_interf_os_descs [OF that(1) live [OF that(2)]] show ?thesis
      by (simp add: usbg_export_function_os_descs_def)
  qed
  show ?thesis
    unfolding usbg_export_function_prep_def fn bind.bind_lunit
  proof (rule exports_if_ok [OF exports_no_io [OF assms(1)] masks_read_refl], rule exports_if_ok)
    fix c1 w1
    assume w1: "heap_wf w1" "masks_read w w1"
    then show "exports b w1 (in_new_node L root (Some ''attrs'') CONFIG_TYPE_GROUP (usbg_export_function_attrs L K f) c1 w1)"
      by (intro exports_in_new_node attrs)
    show "masks_read w w1" by fact
  next
    fix c1 w1
    assume w1: "heap_wf w1" "masks_read w w1"
    then show "exports b w1 (in_new_node L root (Some ''os_descs'') CONFIG_TYPE_LIST (\<lambda>node c w. do {
       (ret, c1, w1) \<leftarrow> usbg_export_function_os_descs L K f node c w;
       Some (if ret = err USBG_ERROR_NOT_SUPPORTED then err USBG_SUCCESS else ret, c1, w1)
     }) c1 w1)"
      by (intro exports_in_new_node exports_ret descs)
  qed
qed

lemma exports_gadget_functions:
  assumes "heap_wf w" "gadget_at w g = Some gad" "exportable K w"
  shows "exports b w (usbg_export_gadget_functions L K g root c w)"
proof -
  have "exports b w' (export_functions_loop L K root fs c w')"
    if "heap_wf w'" "masks_read w w'" "\<forall>f\<in>set fs. function_at w f \<noteq> None" for fs w' c
    using that
  proof (induction fs arbitrary: c w')
    case (Cons f fs)
    have f: "function_at w f \<noteq> None" and fs: "\<forall>f\<in>set fs. function_at w f \<noteq> None" using Cons.prems(3) by simp_all
    from masks_read_live [OF Cons.prems(2) f] obtain fn where fn: "function_at w' f = Some fn" by auto
    let ?put = "\<lambda>node c w. if_ok (no_io (usbg_set_config_node_string L node (Some ''instance'') (Some (f_instance fn))) c w)
        (usbg_export_function_prep L K f node)"
    have prep: "exports b w' (?put node c w')" for node c
    proof (rule exports_if_ok [OF exports_no_io [OF Cons.prems(1)] Cons.prems(2)])
      fix c1 w1
      assume "heap_wf w1" "masks_read w w1"
      from exports_function_prep [OF this(1) masks_read_live [OF this(2) f] exportable_masks [OF assms(3) this(2)]]
      show "exports b w1 (usbg_export_function_prep L K f node c1 w1)" .
    qed
    have "exports b w' (if_ok (in_new_node L root (Some label) CONFIG_TYPE_GROUP ?put c w') (export_functions_loop L K root fs))" for label
      by (rule exports_if_ok [OF _ Cons.prems(2) Cons.IH [OF _ _ fs]], rule exports_in_new_node, rule Cons.prems(1), rule prep)
    with fn Cons.prems(1) show ?case by (simp add: Let_def exports_return)
  qed (simp add: exports_return)
  from this [OF assms(1) masks_read_refl, of "g_functions gad"] owns_live [OF wfpD(4) [OF assms(1,2)]] assms(2) show ?thesis
    by (fastforce simp: usbg_export_gadget_functions_def)
qed

section \<open>Configurations\<close>

text \<open>A step that reads files of an object and goes on.\<close>

lemma exports_reading:
  assumes "r = Some ((ret, x), w\<lparr>os := k\<rparr>)" "heap_wf w" "masks_read w0 w"
    and "\<And>w1. heap_wf w1 \<Longrightarrow> masks_read w0 w1 \<Longrightarrow> exports b w1 (cont ret x w1)"
  shows "exports b w (do { ((ret, x), w1) \<leftarrow> r; cont ret x w1 })"
proof -
  have "exports b (w\<lparr>os := k\<rparr>) (cont ret x (w\<lparr>os := k\<rparr>))"
    by (rule assms(4)) (use assms(2) masks_read_trans [OF assms(3) masks_read_os] in simp_all)
  from exports_os [OF this] assms(1) show ?thesis by simp
qed

lemma on_config_reads: "config_at w p = Some conf \<Longrightarrow> on_config p m w = Some (fst (m conf (os w)), w\<lparr>os := snd (m conf (os w))\<rparr>)"
  by (simp add: on_config_def on_os_def)

lemma on_gadget_reads: "gadget_at w p = Some gad \<Longrightarrow> on_gadget p m w = Some (fst (m gad (os w)), w\<lparr>os := snd (m gad (os w))\<rparr>)"
  by (simp add: on_gadget_def on_os_def)

lemma exports_config_attrs:
  assumes "heap_wf w" "config_at w p = Some conf"
  shows "exports b w (usbg_export_config_attrs L K p root c w)"
proof -
  obtain ret a k where r: "usbg_parse_config_attrs K (c_path conf) (c_name conf) \<lparr>ca_bmAttributes = 0, ca_bMaxPower = 0\<rparr> (os w) = (ret, a, k)"
    by (metis prod_cases3)
  then have get: "usbg_get_config_attrs K (Some p) (Some \<lparr>ca_bmAttributes = 0, ca_bMaxPower = 0\<rparr>) w = Some ((ret, Some a), w\<lparr>os := k\<rparr>)"
    using assms(2) by (simp add: usbg_get_config_attrs_def on_config_reads)
  show ?thesis
    unfolding usbg_export_config_attrs_def
    by (rule exports_reading [OF get assms(1) masks_read_refl]) (simp add: exports_return split: prod.split)
qed

lemma exports_config_strs_lang:
  assumes "heap_wf w" "config_at w p = Some conf"
  shows "exports b w (usbg_export_config_strs_lang L K p lang root c w)"
proof -
  obtain ret s k where r: "usbg_parse_config_strs K (c_path conf) (c_name conf) lang (os w) = (ret, s, k)"
    by (metis prod_cases3)
  then have get: "usbg_get_config_strs K (Some p) lang w = Some ((ret, s), w\<lparr>os := k\<rparr>)"
    using assms(2) by (simp add: usbg_get_config_strs_def nonnull_def on_config_reads)
  show ?thesis
    unfolding usbg_export_config_strs_lang_def
    by (rule exports_reading [OF get assms(1) masks_read_refl]) (simp add: exports_return Let_def split: prod.split)
qed

lemma langs_found: "usbg_get_strs_langs_by_path K p n k = (0, ls, k') \<Longrightarrow> \<exists>l. ls = Some l"
  by (auto simp: usbg_get_strs_langs_by_path_def Let_def split: if_splits prod.splits sum.splits option.splits)

lemma exports_config_strings:
  assumes "heap_wf w" "config_at w p = Some conf"
  shows "exports b w (usbg_export_config_strings L K p root c w)"
proof -
  obtain ret ls k where r: "usbg_get_strs_langs_by_path K (c_path conf) (c_name conf) (os w) = (ret, ls, k)"
    by (metis prod_cases3)
  then have get: "usbg_get_config_strs_langs K p w = Some ((ret, ls), w\<lparr>os := k\<rparr>)"
    using assms(2) by (simp add: usbg_get_config_strs_langs_def on_config_reads)
  have langs: "exports b w1 (export_langs_loop L (usbg_export_config_strs_lang L K p) root l c w1)"
    if w1: "heap_wf w1" "masks_read w w1" for l w1
  proof (rule exports_langs [OF _ w1])
    fix l node c w'
    assume w': "heap_wf w'" "masks_read w w'"
    show "exports b w' (usbg_export_config_strs_lang L K p l node c w')"
      by (rule exports_config_strs_lang [OF w'(1)]) (simp add: masks_read_same(2) [OF w'(2)] assms(2))
  qed
  show ?thesis
    unfolding usbg_export_config_strings_def
  proof (rule exports_reading [OF get assms(1) masks_read_refl])
    fix w1
    assume w1: "heap_wf w1" "masks_read w w1"
    show "exports b w1 (if ret \<noteq> err USBG_SUCCESS then Some (ret, c, w1)
        else do { ls \<leftarrow> ls; export_langs_loop L (usbg_export_config_strs_lang L K p) root ls c w1 })"
    proof (cases "ret = 0")
      case True
      from langs_found [OF r [unfolded True]] obtain l where "ls = Some l" ..
      with True langs [OF w1] show ?thesis by simp
    qed (simp add: exports_return w1(1))
  qed
qed

text \<open>The functions of a configuration are there.\<close>

definition targets_live :: "'k world \<Rightarrow> ptr \<Rightarrow> bool" where
  "targets_live w p \<longleftrightarrow>
     (\<forall>b bn. binding_at w b = Some bn \<longrightarrow> b_parent bn = p \<longrightarrow> function_at w (b_target bn) \<noteq> None)"

lemma export_bindings_total:
  assumes "\<forall>b\<in>set bs. \<exists>bn. binding_at w b = Some bn \<and> function_at w (b_target bn) \<noteq> None"
  shows "\<exists>ret c'. export_bindings_loop L root bs c w = Some (ret, c')"
  using assms
proof (induction bs arbitrary: c)
  case (Cons b bs)
  then obtain bn fn where bn: "binding_at w b = Some bn" "function_at w (b_target bn) = Some fn" by auto
  obtain node c1 where node: "lc_add L root None CONFIG_TYPE_GROUP c = (node, c1)" by fastforce
  show ?case
  proof (cases node)
    case (Some n)
    have "\<exists>ret c'. usbg_export_binding L b n c1 w = Some (ret, c')"
      using bn by (auto simp: usbg_export_binding_def Let_def split: prod.split)
    then obtain ret c2 where "usbg_export_binding L b n c1 w = Some (ret, c2)" by blast
    with Some node Cons.IH [of c2] Cons.prems show ?thesis by simp
  qed (use node in simp)
qed simp

lemma exports_config_bindings:
  assumes "heap_wf w" "config_at w p = Some conf" "targets_live w p \<or> b" "heap_wf w'" "masks_read w w'"
  shows "exports b w' (map_option (\<lambda>(ret, c). (ret, c, w')) (usbg_export_config_bindings L p node c w'))"
proof (cases "targets_live w p")
  case True
  have "\<exists>bn. binding_at w' q = Some bn \<and> function_at w' (b_target bn) \<noteq> None" if "q \<in> set (c_bindings conf)" for q
  proof -
    from owns_live [OF wfpD(7) [OF assms(1,2)] that] obtain bn where bn: "binding_at w q = Some bn" "b_parent bn = p" by blast
    with True have "function_at w (b_target bn) \<noteq> None" by (auto simp: targets_live_def)
    from masks_read_live [OF assms(5) this] bn(1) masks_read_same(3) [OF assms(5)] show ?thesis by simp
  qed
  then have "\<forall>q\<in>set (c_bindings conf). \<exists>bn. binding_at w' q = Some bn \<and> function_at w' (b_target bn) \<noteq> None" ..
  from export_bindings_total [OF this, of L node c]
  obtain ret c' where "export_bindings_loop L node (c_bindings conf) c w' = Some (ret, c')" by (elim exE)
  with assms(2,4) masks_read_same(2) [OF assms(5)] show ?thesis by (simp add: usbg_export_config_bindings_def exports_return)
next
  case False
  with assms(3,4) show ?thesis
    by (cases "usbg_export_config_bindings L p node c w'") (auto simp: exports_none exports_return)
qed

lemma exports_config_prep:
  assumes "heap_wf w" "config_at w p = Some conf" "targets_live w p \<or> b"
  shows "exports b w (usbg_export_config_prep L K p root c w)"
  unfolding usbg_export_config_prep_def assms(2) bind.bind_lunit
proof (rule exports_if_ok [OF exports_no_io [OF assms(1)] masks_read_refl])
  have conf: "config_at w' p = Some conf" if "masks_read w w'" for w'
    using assms(2) masks_read_same(2) [OF that] by simp
  fix c1 w1
  assume w1: "heap_wf w1" "masks_read w w1"
  let ?functions = "in_new_node L root (Some ''functions'') CONFIG_TYPE_LIST (\<lambda>node c w.
    map_option (\<lambda>(ret, c). (ret, c, w)) (usbg_export_config_bindings L p node c w))"
  show "exports b w1 (if_ok (in_new_node L root (Some ''attrs'') CONFIG_TYPE_GROUP (usbg_export_config_attrs L K p) c1 w1) (\<lambda>c w.
      if_ok (in_new_node L root (Some ''strings'') CONFIG_TYPE_LIST (usbg_export_config_strings L K p) c w) ?functions))"
  proof (rule exports_if_ok [OF _ w1(2)])
    show "exports b w1 (in_new_node L root (Some ''attrs'') CONFIG_TYPE_GROUP (usbg_export_config_attrs L K p) c1 w1)"
      by (intro exports_in_new_node exports_config_attrs [OF _ conf] w1)
    fix c2 w2
    assume w2: "heap_wf w2" "masks_read w w2"
    show "exports b w2 (if_ok (in_new_node L root (Some ''strings'') CONFIG_TYPE_LIST (usbg_export_config_strings L K p) c2 w2) ?functions)"
    proof (rule exports_if_ok [OF _ w2(2)])
      show "exports b w2 (in_new_node L root (Some ''strings'') CONFIG_TYPE_LIST (usbg_export_config_strings L K p) c2 w2)"
        by (intro exports_in_new_node exports_config_strings [OF _ conf] w2)
      show "exports b w3 (?functions c3 w3)" if "heap_wf w3" "masks_read w w3" for c3 w3
        by (rule exports_in_new_node, rule that(1), rule exports_config_bindings [OF assms that])
    qed
  qed
qed

section \<open>Gadgets\<close>

lemma exports_gadget_attrs:
  assumes "heap_wf w" "gadget_at w g = Some gad"
  shows "exports b w (usbg_export_gadget_attrs L K g root c w)"
proof -
  obtain ret a k where r: "usbg_parse_gadget_attrs K (g_path gad) (g_name gad) zero_gadget_attrs (os w) = (ret, a, k)"
    by (metis prod_cases3)
  then have get: "usbg_get_gadget_attrs K (Some g) (Some zero_gadget_attrs) w = Some ((ret, Some a), w\<lparr>os := k\<rparr>)"
    using assms(2) by (simp add: usbg_get_gadget_attrs_def on_gadget_reads)
  show ?thesis
    unfolding usbg_export_gadget_attrs_def
    by (rule exports_reading [OF get assms(1) masks_read_refl]) (simp add: exports_return exports_no_io)
qed

text \<open>The link of the OS descriptors may dangle, and the strings may be unreadable.\<close>

lemma exports_gadget_os_descs:
  assumes "heap_wf w" "gadget_at w g = Some gad"
  shows "exports True w (usbg_export_gadget_os_descs L K g root c w)"
proof -
  have link: "exports True w (case g_os_desc_binding gad of None \<Rightarrow> Some (err USBG_SUCCESS, c, w)
      | Some p \<Rightarrow> do { conf \<leftarrow> config_at w p; no_io (usbg_set_config_node_int L root (Some ''config_id'') (of_int (c_id conf))) c w })"
    using assms(1) by (auto simp: exports_return exports_none exports_no_io split: option.split bind_split)
  show ?thesis
    unfolding usbg_export_gadget_os_descs_def assms(2) bind.bind_lunit
  proof (rule exports_if_ok [OF link masks_read_refl])
    fix c1 w1
    assume w1: "heap_wf w1" "masks_read w w1"
    have g1: "gadget_at w1 g = Some gad" using assms(2) masks_read_same(1) [OF w1(2)] by simp
    obtain ret d k where "usbg_parse_gadget_os_descs K (g_path gad) (g_name gad) \<lparr>od_use = False, od_b_vendor_code = 0, od_qw_sign = None\<rparr> (os w1) = (ret, d, k)"
      by (metis prod_cases3)
    then have get: "usbg_get_gadget_os_descs K (Some g) (Some \<lparr>od_use = False, od_b_vendor_code = 0, od_qw_sign = None\<rparr>) w1 =
        Some ((ret, Some d), w1\<lparr>os := k\<rparr>)"
      using g1 by (simp add: usbg_get_gadget_os_descs_def on_gadget_reads)
    show "exports True w1 (do {
       ((ret, descs), w1) \<leftarrow> usbg_get_gadget_os_descs K (Some g)
           (Some \<lparr>od_use = False, od_b_vendor_code = 0, od_qw_sign = None\<rparr>) w1;
       if ret \<noteq> 0 then Some (ret, c1, w1)
       else do {
         d \<leftarrow> descs;
         if_ok (no_io (usbg_set_config_node_int L root (Some ''use'') (if od_use d then 1 else 0)) c1 w1) (\<lambda>c w.
         if_ok (no_io (usbg_set_config_node_string L root (Some ''qw_sign'') (od_qw_sign d)) c w) (\<lambda>c w.
         no_io (usbg_set_config_node_int_hex L root (Some ''b_vendor_code'') (ucast (od_b_vendor_code d))) c w))
       }})"
      by (rule exports_reading [OF get w1(1) masks_read_refl])
         (auto intro!: exports_return exports_if_ok [OF exports_no_io masks_read_refl] exports_no_io)
  qed
qed

lemma exports_gadget_strs_lang:
  assumes "heap_wf w" "gadget_at w g = Some gad"
  shows "exports True w (usbg_export_gadget_strs_lang L K g lang root c w)"
proof -
  obtain ret s k where "usbg_parse_gadget_strs K (g_path gad) (g_name gad) lang (os w) = (ret, s, k)"
    by (metis prod_cases3)
  then have get: "usbg_get_gadget_strs K (Some g) lang w = Some ((ret, s), w\<lparr>os := k\<rparr>)"
    using assms(2) by (simp add: usbg_get_gadget_strs_def nonnull_def on_gadget_reads)
  show ?thesis
    unfolding usbg_export_gadget_strs_lang_def assms(2) bind.bind_lunit
    by (rule exports_reading [OF get assms(1) masks_read_refl])
       (auto intro!: exports_return exports_none exports_if_ok [OF exports_no_io masks_read_refl] exports_no_io split: bind_split)
qed

lemma exports_gadget_strings:
  assumes "heap_wf w" "gadget_at w g = Some gad"
  shows "exports True w (usbg_export_gadget_strings L K g root c w)"
proof -
  obtain ret ls k where r: "usbg_get_strs_langs_by_path K (g_path gad) (g_name gad) (os w) = (ret, ls, k)"
    by (metis prod_cases3)
  then have get: "usbg_get_gadget_strs_langs K g w = Some ((ret, ls), w\<lparr>os := k\<rparr>)"
    using assms(2) by (simp add: usbg_get_gadget_strs_langs_def on_gadget_reads)
  have langs: "exports True w1 (export_langs_loop L (usbg_export_gadget_strs_lang L K g) root l c w1)"
    if w1: "heap_wf w1" "masks_read w w1" for l w1
  proof (rule exports_langs [OF _ w1])
    fix l node c w'
    assume w': "heap_wf w'" "masks_read w w'"
    show "exports True w' (usbg_export_gadget_strs_lang L K g l node c w')"
      by (rule exports_gadget_strs_lang [OF w'(1)]) (simp add: masks_read_same(1) [OF w'(2)] assms(2))
  qed
  show ?thesis
    unfolding usbg_export_gadget_strings_def
    by (rule exports_reading [OF get assms(1) masks_read_refl])
       (auto intro!: exports_return exports_none langs split: bind_split)
qed

lemma exports_gadget_configs:
  assumes "heap_wf w" "gadget_at w g = Some gad"
  shows "exports True w (usbg_export_gadget_configs L K g root c w)"
proof -
  have "exports True w' (export_configs_loop L K root ps c w')" if "heap_wf w'" "masks_read w w'" for ps w' c
    using that
  proof (induction ps arbitrary: c w')
    case (Cons p ps)
    let ?put = "\<lambda>node c w. do { conf \<leftarrow> config_at w p;
        if_ok (no_io (usbg_set_config_node_int L node (Some ''id'') (of_int (c_id conf))) c w) (usbg_export_config_prep L K p node) }"
    have put: "exports True w' (?put node c w')" for node c
    proof (cases "config_at w' p")
      case (Some conf)
      show ?thesis
        unfolding Some bind.bind_lunit
      proof (rule exports_if_ok [OF exports_no_io [OF Cons.prems(1)] masks_read_refl])
        fix c1 w1
        assume w1: "heap_wf w1" "masks_read w' w1"
        show "exports True w1 (usbg_export_config_prep L K p node c1 w1)"
          by (rule exports_config_prep [OF w1(1)]) (simp_all add: masks_read_same(2) [OF w1(2)] Some)
      qed
    qed (simp add: exports_none)
    show ?case
      unfolding export_configs_loop.simps
      by (rule exports_if_ok [OF _ Cons.prems(2) Cons.IH], rule exports_in_new_node, rule Cons.prems(1), rule put)
  qed (simp add: exports_return)
  from this [OF assms(1) masks_read_refl] assms(2) show ?thesis by (simp add: usbg_export_gadget_configs_def)
qed

lemma exports_nodes:
  assumes "heap_wf w1" "masks_read w w1"
    and "\<And>w' node c. heap_wf w' \<Longrightarrow> masks_read w w' \<Longrightarrow> exports b w' (cont node c w')"
    and "\<And>w' c. heap_wf w' \<Longrightarrow> masks_read w w' \<Longrightarrow> exports b w' (rest c w')"
  shows "exports b w1 (if_ok (in_new_node L root name t cont c w1) rest)"
  by (rule exports_if_ok [OF _ assms(2) assms(4)], rule exports_in_new_node [OF assms(1)], rule assms(3) [OF assms(1,2)])

lemma exports_gadget_prep:
  assumes "heap_wf w" "gadget_at w g = Some gad" "exportable K w"
  shows "exports True w (usbg_export_gadget_prep L K g root c w)"
proof -
  have gad: "gadget_at w' g = Some gad" if "masks_read w w'" for w'
    using assms(2) masks_read_same(1) [OF that] by simp
  show ?thesis
    unfolding usbg_export_gadget_prep_def
  proof (intro exports_nodes [OF assms(1) masks_read_refl] exports_nodes [where w = w], goal_cases)
    case 1 then show ?case by (intro exports_gadget_attrs [OF _ gad])
  next
    case 4 then show ?case by (intro exports_ret exports_gadget_os_descs [OF _ gad])
  next
    case 7 then show ?case by (intro exports_gadget_strings [OF _ gad])
  next
    case 10 then show ?case by (intro exports_gadget_functions [OF _ gad exportable_masks [OF assms(3)]])
  next
    case 11 then show ?case by (intro exports_in_new_node exports_gadget_configs [OF _ gad])
  qed
qed

section \<open>The API\<close>

lemma export_to_wf:
  assumes "heap_wf w" "\<And>p f. obj = Some p \<Longrightarrow> stream = Some f \<Longrightarrow> exports b w (prep p (lc_root L) (lc_init L) w)"
  shows "case export_to L IO prep obj stream w of None \<Rightarrow> b
    | Some (ret, stream', w') \<Rightarrow> heap_wf w' \<and> masks_read w w' \<and> (ret \<noteq> 0 \<longrightarrow> stream' = stream)"
proof (cases "obj = None \<or> stream = None")
  case True
  then have "export_to L IO prep obj stream w = Some (err USBG_ERROR_INVALID_PARAM, stream, w)"
    by (auto simp: export_to_def split: option.split)
  with assms(1) show ?thesis by simp
next
  case False
  then obtain p f where pf: "obj = Some p" "stream = Some f" by auto
  from assms(2) [OF pf] show ?thesis
    by (cases "prep p (lc_root L) (lc_init L) w") (auto simp: pf export_to_def exports_def)
qed

lemma export_function_wf:
  assumes "heap_wf w" "function_at w f \<noteq> None" "exportable K w"
  shows "\<exists>ret st1 w'. usbg_export_function L IO K (Some f) st w = Some (ret, st1, w') \<and> heap_wf w' \<and> masks_read w w' \<and>
    (ret \<noteq> 0 \<longrightarrow> st1 = st)"
proof -
  have "exports False w (usbg_export_function_prep L K p (lc_root L) (lc_init L) w)" if "Some f = Some p" for p
    using exports_function_prep [OF assms] that by simp
  from export_to_wf [where prep = "usbg_export_function_prep L K" and obj = "Some f", OF assms(1) this, of st IO] show ?thesis
    by (auto simp: usbg_export_function_def split: option.splits)
qed

lemma export_config_wf:
  assumes "heap_wf w" "config_at w c = Some conf" "targets_live w c"
  shows "\<exists>ret st1 w'. usbg_export_config L IO K (Some c) st w = Some (ret, st1, w') \<and> heap_wf w' \<and> masks_read w w' \<and>
    (ret \<noteq> 0 \<longrightarrow> st1 = st)"
proof -
  have "exports False w (usbg_export_config_prep L K p (lc_root L) (lc_init L) w)" if "Some c = Some p" for p
    using exports_config_prep [OF assms(1,2) disjI1 [OF assms(3)]] that by simp
  from export_to_wf [where prep = "usbg_export_config_prep L K" and obj = "Some c", OF assms(1) this, of st IO] show ?thesis
    by (auto simp: usbg_export_config_def split: option.splits)
qed

lemma export_gadget_wf:
  assumes "heap_wf w" "gadget_at w g = Some gad" "exportable K w"
    and "usbg_export_gadget L IO K (Some g) st w = Some (ret, st1, w')"
  shows "heap_wf w' \<and> masks_read w w' \<and> (ret \<noteq> 0 \<longrightarrow> st1 = st)"
proof -
  have "exports True w (usbg_export_gadget_prep L K p (lc_root L) (lc_init L) w)" if "Some g = Some p" for p
    using exports_gadget_prep [OF assms(1-3)] that by simp
  from export_to_wf [where prep = "usbg_export_gadget_prep L K" and obj = "Some g", OF assms(1) this, of st IO] assms(4) show ?thesis
    by (auto simp: usbg_export_gadget_def)
qed

text \<open>Strings of a language whose directory is gone: what was never set is freed.\<close>

lemma export_strs_undefined:
  assumes "gadget_at w g = Some gad" "fits (lang_path (g_path gad) (g_name gad) lang)"
    and "k_opendir K (lang_path (g_path gad) (g_name gad) lang) (os w) = (Some e, k)"
  shows "usbg_export_gadget_strs_lang L K g lang root c w = None"
proof -
  have "usbg_get_gadget_strs K (Some g) lang w = Some ((usbg_translate_error e, None), w\<lparr>os := k\<rparr>)"
    using assms by (simp add: usbg_get_gadget_strs_def nonnull_def on_gadget_reads usbg_parse_gadget_strs_def)
  with assms show ?thesis
    by (simp add: usbg_export_gadget_strs_lang_def strs_unset_def)
qed

end
