(* ===== verification/Usbg_Programs.thy ===== *)
theory Usbg_Programs
  imports Usbg_Safety_Import Usbg_Cleanup
begin

text \<open>
  The programs of \<open>examples/\<close> that build or remove a gadget. They compose most of the API: each
  initialises the library, makes its calls until one fails, and cleans up. What they print is
  not modelled. A program is a function from the state of the environment to its exit status,
  the heap it leaves (none if there never was a state) and the environment.
\<close>

section \<open>The shape of the programs\<close>

text \<open>\<open>if (usbg_ret != USBG_SUCCESS) goto out2;\<close> after a call that creates an object.\<close>

definition made ::
  "(int \<times> ptr option \<times> 'k world) option \<Rightarrow> (ptr \<Rightarrow> 'k world \<Rightarrow> (int \<times> 'k world) option)
     \<Rightarrow> (int \<times> 'k world) option" where
  "made r cont = do { (ret, x, w) \<leftarrow> r; if ret \<noteq> err USBG_SUCCESS then Some (ret, w) else do { p \<leftarrow> x; cont p w } }"

definition VENDOR :: u16 where "VENDOR = 0x1d6b"
definition PRODUCT :: u16 where "PRODUCT = 0x0104"

text \<open>The frame of every \<open>main\<close>; \<open>calls\<close> is what stands between \<open>usbg_init\<close> and \<open>out2\<close>.\<close>

definition main_with ::
  "('k world \<Rightarrow> (int \<times> 'k world) option) \<Rightarrow> 'k kernel \<Rightarrow> 'k \<Rightarrow> (int \<times> 'k world option \<times> 'k) option" where
  "main_with calls K k = do {
     (usbg_ret, s, k1) \<leftarrow> usbg_init K ''/sys/kernel/config'' 1 k;
     if usbg_ret \<noteq> err USBG_SUCCESS then Some (- EINVAL, None, k1)
     else do {
       w \<leftarrow> s;
       (usbg_ret, w1) \<leftarrow> calls w;
       w2 \<leftarrow> usbg_cleanup w1;
       Some (if usbg_ret \<noteq> err USBG_SUCCESS then - EINVAL else 0, Some w2, os w2)
     }
   }"

definition example_attrs :: gadget_attrs where
  "example_attrs =
     \<lparr>ga_bcdUSB = 0x0200, ga_bDeviceClass = 0, ga_bDeviceSubClass = 0, ga_bDeviceProtocol = 0,
      ga_bMaxPacketSize0 = 64, ga_idVendor = VENDOR, ga_idProduct = PRODUCT, ga_bcdDevice = 1\<rparr>"

definition example_strs :: gadget_strs where
  "example_strs =
     \<lparr>gs_manufacturer = Some ''Foo Inc.'', gs_product = Some ''Bar Gadget'', gs_serial = Some ''0123456789''\<rparr>"

definition example_gadget :: "'k kernel \<Rightarrow> 'k world \<Rightarrow> (int \<times> ptr option \<times> 'k world) option" where
  "example_gadget K w = usbg_create_gadget K ''g1'' (Some example_attrs) (Some example_strs) True w"

definition example_config :: "'k kernel \<Rightarrow> ptr \<Rightarrow> string \<Rightarrow> 'k world \<Rightarrow> (int \<times> ptr option \<times> 'k world) option" where
  "example_config K g str w = usbg_create_config K (Some g) 1 (Some ''The only one'') None (Some (Some str)) True w"

text \<open>Most programs make one function, bind it and enable the gadget on the default controller.\<close>

definition one_function ::
  "usbg_function_type \<Rightarrow> string \<Rightarrow> function_attrs option \<Rightarrow> string \<Rightarrow> string \<Rightarrow> 'k kernel \<Rightarrow> 'k world
     \<Rightarrow> (int \<times> 'k world) option" where
  "one_function type inst attrs str link K w =
     made (example_gadget K w) (\<lambda>g w.
     made (usbg_create_function K (Some g) type (Some inst) attrs True w) (\<lambda>f w.
     made (example_config K g str w) (\<lambda>c w.
     if_done (usbg_add_config_function K (Some c) (Some link) (Some f) w)
       (usbg_enable_gadget K (Some g) None))))"

section \<open>The programs\<close>

definition gadget_midi :: "'k kernel \<Rightarrow> 'k \<Rightarrow> (int \<times> 'k world option \<times> 'k) option" where
  "gadget_midi K = main_with (one_function USBG_F_MIDI ''usb0''
     (Some (Midi_attrs \<lparr>midi_index = 0, midi_id = Some ''usb0'', midi_in_ports = 2, midi_out_ports = 3,
        midi_buflen = 128, midi_qlen = 16\<rparr>)) ''1xMIDI'' ''some_name'' K) K"

text \<open>The members that the initialiser does not name are 0 and NULL.\<close>

definition example_uac2 :: uac2_attrs where
  "example_uac2 =
     \<lparr>uac2_c_chmask = 3, uac2_c_srate = 44100, uac2_c_ssize = 4, uac2_p_chmask = 3, uac2_p_srate = 44100,
      uac2_p_ssize = 4, uac2_p_hs_bint = 0, uac2_c_hs_bint = 0, uac2_c_sync = None, uac2_req_number = 0,
      uac2_fb_max = 0, uac2_p_mute_present = False, uac2_p_volume_present = False, uac2_p_volume_min = 0,
      uac2_p_volume_max = 0, uac2_p_volume_res = 0, uac2_c_mute_present = False,
      uac2_c_volume_present = False, uac2_c_volume_min = 0, uac2_c_volume_max = 0, uac2_c_volume_res = 0,
      uac2_function_name = None\<rparr>"

definition gadget_uac2 :: "'k kernel \<Rightarrow> 'k \<Rightarrow> (int \<times> 'k world option \<times> 'k) option" where
  "gadget_uac2 K = main_with
     (one_function USBG_F_UAC2 ''usb0'' (Some (Uac2_attrs example_uac2)) ''1xUAC2'' ''some_name'' K) K"

definition gadget_printer :: "'k kernel \<Rightarrow> 'k \<Rightarrow> (int \<times> 'k world option \<times> 'k) option" where
  "gadget_printer K = main_with (one_function USBG_F_PRINTER ''usb0'' None ''PRINTER'' ''printer.1'' K) K"

definition example_report :: string where
  "example_report = map (char_of :: nat \<Rightarrow> char)
    [0x05, 0x01, 0x09, 0x06, 0xa1, 0x01, 0x05, 0x07, 0x19, 0xe0, 0x29, 0xe7, 0x15, 0x00, 0x25, 0x01,
     0x75, 0x01, 0x95, 0x08, 0x81, 0x02, 0x95, 0x01, 0x75, 0x08, 0x81, 0x03, 0x95, 0x05, 0x75, 0x01,
     0x05, 0x08, 0x19, 0x01, 0x29, 0x05, 0x91, 0x02, 0x95, 0x01, 0x75, 0x03, 0x91, 0x03, 0x95, 0x06,
     0x75, 0x08, 0x15, 0x00, 0x25, 0x65, 0x05, 0x07, 0x19, 0x00, 0x29, 0x65, 0x81, 0x00, 0xc0]"

definition gadget_hid :: "'k kernel \<Rightarrow> 'k \<Rightarrow> (int \<times> 'k world option \<times> 'k) option" where
  "gadget_hid K = main_with (one_function USBG_F_HID ''usb0''
     (Some (Hid_attrs \<lparr>hid_dev = (0, 0), hid_protocol = 1, hid_report_desc = example_report,
        hid_report_length = 8, hid_subclass = 0\<rparr>)) ''1xHID'' ''some_name'' K) K"

text \<open>\<open>argv[1]\<close>, if it was given, is the file behind a LUN. The ids of the LUNs are -1.\<close>

definition example_lun :: "bool \<Rightarrow> string \<Rightarrow> string \<Rightarrow> ms_lun_attrs" where
  "example_lun cdrom file inquiry =
     \<lparr>lun_id = -1, lun_cdrom = cdrom, lun_ro = False, lun_nofua = False, lun_removable = True,
      lun_file = Some file, lun_inquiry_string = Some inquiry\<rparr>"

definition gadget_ms :: "'k kernel \<Rightarrow> string option \<Rightarrow> 'k \<Rightarrow> (int \<times> 'k world option \<times> 'k) option" where
  "gadget_ms K arg k =
     (case arg of
        None \<Rightarrow> Some (- EINVAL, None, k)
      | Some file \<Rightarrow> main_with (one_function USBG_F_MASS_STORAGE ''my_reader''
          (Some (Ms_attrs \<lparr>ms_stall = False,
             ms_lun_list = [example_lun False file ''Non-empty'', example_lun True [] ''Empty'']\<rparr>))
          ''1xMass Storage'' ''some_name_here'' K) K k)"

definition example_frame :: "cint \<Rightarrow> cint \<Rightarrow> cint \<Rightarrow> cint \<Rightarrow> uvc_frame_attrs" where
  "example_frame i interval height width =
     \<lparr>ur_bFrameIndex = i, ur_bmCapabilities = 0, ur_dwMinBitRate = 0, ur_dwMaxBitRate = 0,
      ur_dwMaxVideoFrameBufferSize = 0, ur_dwDefaultFrameInterval = 0, ur_dwFrameInterval = interval,
      ur_wWidth = width, ur_wHeight = height\<rparr>"

definition example_frames :: "uvc_frame_attrs list" where
  "example_frames =
     [example_frame 1 2000000 480 640, example_frame 2 2000000 1080 1920, example_frame 3 333333 1080 1920,
      example_frame 4 333333 2160 3840]"

definition example_format :: "string \<Rightarrow> cint \<Rightarrow> uvc_format_attrs" where
  "example_format name i =
     \<lparr>uf_bmaControls = 0, uf_bFormatIndex = 0, uf_bDefaultFrameIndex = i, uf_bAspectRatioX = 0, uf_bAspectRatioY = 0,
      uf_bmInterlaceFlags = 0, uf_format = name, uf_bBitsPerPixel = 0, uf_guidFormat = None,
      uf_frames = example_frames\<rparr>"

definition gadget_uvc :: "'k kernel \<Rightarrow> 'k \<Rightarrow> (int \<times> 'k world option \<times> 'k) option" where
  "gadget_uvc K = main_with (one_function USBG_F_UVC ''uvc''
     (Some (Uvc_attrs \<lparr>ua_formats = [example_format ''mjpeg/m'' 3, example_format ''uncompressed/u'' 2]\<rparr>))
     ''UVC'' ''uvc.cam'' K) K"

definition acm_ecm_calls :: "'k kernel \<Rightarrow> 'k world \<Rightarrow> (int \<times> 'k world) option" where
  "acm_ecm_calls K w =
     made (example_gadget K w) (\<lambda>g w.
     made (usbg_create_function K (Some g) USBG_F_ACM (Some ''usb0'') None True w) (\<lambda>f_acm0 w.
     made (usbg_create_function K (Some g) USBG_F_ACM (Some ''usb1'') None True w) (\<lambda>f_acm1 w.
     made (usbg_create_function K (Some g) USBG_F_ECM (Some ''usb0'') None True w) (\<lambda>f_ecm w.
     made (example_config K g ''CDC 2xACM+ECM'' w) (\<lambda>c w.
     if_done (usbg_add_config_function K (Some c) (Some ''acm.GS0'') (Some f_acm0) w) (\<lambda>w.
     if_done (usbg_add_config_function K (Some c) (Some ''acm.GS1'') (Some f_acm1) w) (\<lambda>w.
     if_done (usbg_add_config_function K (Some c) (Some ''ecm.usb0'') (Some f_ecm) w)
       (usbg_enable_gadget K (Some g) None))))))))"

definition gadget_acm_ecm :: "'k kernel \<Rightarrow> 'k \<Rightarrow> (int \<times> 'k world option \<times> 'k) option" where
  "gadget_acm_ecm K = main_with (acm_ecm_calls K) K"

text \<open>The gadget is left disabled until the daemons of its functions run.\<close>

definition ffs_calls :: "'k kernel \<Rightarrow> 'k world \<Rightarrow> (int \<times> 'k world) option" where
  "ffs_calls K w =
     made (example_gadget K w) (\<lambda>g w.
     made (usbg_create_function K (Some g) USBG_F_FFS (Some ''my_dev_name'') None True w) (\<lambda>f_ffs1 w.
     made (usbg_create_function K (Some g) USBG_F_FFS (Some ''my_other_dev_name'') None True w) (\<lambda>f_ffs2 w.
     made (example_config K g ''2xFFS'' w) (\<lambda>c w.
     if_done (usbg_add_config_function K (Some c) (Some ''some_name_here'') (Some f_ffs1) w)
       (usbg_add_config_function K (Some c) (Some ''some_name_here_too'') (Some f_ffs2))))))"

definition gadget_ffs :: "'k kernel \<Rightarrow> 'k \<Rightarrow> (int \<times> 'k world option \<times> 'k) option" where
  "gadget_ffs K = main_with (ffs_calls K) K"

definition rndis_calls :: "'k kernel \<Rightarrow> 'k world \<Rightarrow> (int \<times> 'k world) option" where
  "rndis_calls K w =
     made (example_gadget K w) (\<lambda>g w.
     made (usbg_create_function K (Some g) USBG_F_RNDIS (Some ''usb0'') None True w) (\<lambda>f_rndis w.
     if_done (usbg_set_interf_os_desc K f_rndis (Some ''rndis'')
       \<lparr>fo_compatible_id = Some ''RNDIS'', fo_sub_compatible_id = Some ''5162001''\<rparr> w) (\<lambda>w.
     made (example_config K g ''RNDIS'' w) (\<lambda>c w.
     if_done (usbg_add_config_function K (Some c) (Some ''rndis.usb0'') (Some f_rndis) w) (\<lambda>w.
     if_done (usbg_set_gadget_os_descs K g
       \<lparr>od_use = True, od_b_vendor_code = 0xBC, od_qw_sign = Some ''MSFT100''\<rparr> w) (\<lambda>w.
     if_done (usbg_set_os_desc_config K (Some g) (Some c) w)
       (usbg_enable_gadget K (Some g) None)))))))"

definition gadget_rndis_os_desc :: "'k kernel \<Rightarrow> 'k \<Rightarrow> (int \<times> 'k world option \<times> 'k) option" where
  "gadget_rndis_os_desc K = main_with (rndis_calls K) K"

section \<open>Removing all gadgets of a vendor\<close>

definition remove_gadget :: "'k kernel \<Rightarrow> ptr \<Rightarrow> 'k world \<Rightarrow> (int \<times> 'k world) option" where
  "remove_gadget K g w = do {
     (u, w1) \<leftarrow> usbg_get_gadget_udc K (Some g) w;
     if_done (if u \<noteq> None then usbg_disable_gadget K (Some g) w1 else Some (err USBG_SUCCESS, w1))
       (usbg_rm_gadget K (Some g) USBG_RM_RECURSE)
   }"

text \<open>The loop reads the next gadget before it removes one. \<open>g_attrs\<close> is not initialised.\<close>

partial_function (option) remove_loop ::
  "'k kernel \<Rightarrow> int \<Rightarrow> int \<Rightarrow> gadget_attrs \<Rightarrow> ptr option \<Rightarrow> 'k world \<Rightarrow> (int \<times> 'k world) option" where
  "remove_loop K vendor product g_attrs g w =
     (case g of
        None \<Rightarrow> Some (err USBG_SUCCESS, w)
      | Some p \<Rightarrow> do {
          ((usbg_ret, a), w1) \<leftarrow> usbg_get_gadget_attrs K (Some p) (Some g_attrs) w;
          if usbg_ret \<noteq> err USBG_SUCCESS then Some (usbg_ret, w1)
          else do {
            g_attrs' \<leftarrow> a;
            g_next \<leftarrow> usbg_get_next_gadget (Some p) w1;
            if uint (ga_idVendor g_attrs') = vendor \<and> uint (ga_idProduct g_attrs') = product then do {
              (usbg_ret, w2) \<leftarrow> remove_gadget K p w1;
              if usbg_ret \<noteq> err USBG_SUCCESS then Some (usbg_ret, w2)
              else remove_loop K vendor product g_attrs' g_next w2
            }
            else remove_loop K vendor product g_attrs' g_next w1
          }
        })"

declare remove_loop.simps [code]

text \<open>The numbers are those of the command line, or \<open>VENDOR\<close> and \<open>PRODUCT\<close>.\<close>

definition gadget_vid_pid_remove ::
  "'k kernel \<Rightarrow> int \<Rightarrow> int \<Rightarrow> gadget_attrs \<Rightarrow> 'k \<Rightarrow> (int \<times> 'k world option \<times> 'k) option" where
  "gadget_vid_pid_remove K vendor product g_attrs =
     main_with (\<lambda>w. remove_loop K vendor product g_attrs (usbg_get_first_gadget w) w) K"

section \<open>The building programs\<close>

text \<open>Calls that end with a well-formed heap are enough for a program to end and free everything.\<close>

definition ends_wf :: "(int \<times> 'k world) option \<Rightarrow> bool" where
  "ends_wf r \<longleftrightarrow> (\<exists>ret w'. r = Some (ret, w') \<and> heap_wf w')"

lemma safe_ends_wf: "safe w r \<Longrightarrow> ends_wf r"
  by (auto simp: safe_def ends_wf_def)

definition ends_clean :: "(int \<times> 'k world option \<times> 'k) option \<Rightarrow> bool" where
  "ends_clean r \<longleftrightarrow> (\<exists>st mem k'. r = Some (st, mem, k') \<and> (st = 0 \<or> st = - EINVAL) \<and> pred_option empty_heap mem)"

lemma main_with_ends:
  assumes "links_absolute K" "\<And>w. heap_wf w \<Longrightarrow> ends_wf (calls w)"
  shows "ends_clean (main_with calls K k)"
proof -
  from init_wf [OF assms(1), of "''/sys/kernel/config''" 1 k] obtain ret s k1 where
    i: "usbg_init K ''/sys/kernel/config'' 1 k = Some (ret, s, k1)" "ret = 0 \<longrightarrow> (\<exists>w. s = Some w \<and> heap_wf w)" by blast
  show ?thesis
  proof (cases "ret = 0")
    case False
    with i(1) show ?thesis by (simp add: main_with_def ends_clean_def)
  next
    case True
    with i(2) obtain w where w: "s = Some w" "heap_wf w" by blast
    from assms(2) [OF w(2)] obtain r w1 where c: "calls w = Some (r, w1)" "heap_wf w1" by (auto simp: ends_wf_def)
    from cleanup_wf [OF c(2)] obtain w2 where "usbg_cleanup w1 = Some w2" "empty_heap w2" by blast
    with True i(1) w(1) c(1) show ?thesis by (simp add: main_with_def ends_clean_def)
  qed
qed

lemma safe_made:
  assumes "makes P w r" "\<And>p w'. heap_wf w' \<Longrightarrow> grown w w' \<Longrightarrow> P w' p \<Longrightarrow> safe w' (cont p w')"
  shows "safe w (made r cont)"
proof -
  from assms(1) obtain ret x w' where r: "r = Some (ret, x, w')" "heap_wf w'" "grown w w'"
    "ret = 0 \<longrightarrow> (\<exists>p. x = Some p \<and> P w' p)" by (auto simp: makes_def)
  show ?thesis
  proof (cases "ret = 0")
    case True
    with r(4) obtain p where p: "x = Some p" "P w' p" by blast
    with safe_trans [OF r(3) assms(2) [OF r(2,3) p(2)]] r(1) True show ?thesis by (simp add: made_def)
  next
    case False
    with r show ?thesis by (simp add: made_def safe_def)
  qed
qed

lemma gadget_created_grown: "gadget_created name w ret g w' \<Longrightarrow> grown w w'"
proof -
  assume "gadget_created name w ret g w'"
  then consider "gadget_cancelled w w'" | u gs where "w' = (pending_gadget name u w)\<lparr>s_gadgets := gs, os := os w'\<rparr>"
    by (auto simp: gadget_created_def gadget_added_def)
  then show "grown w w'"
  proof cases
    case 1
    then show ?thesis by (simp add: gadget_cancelled_def same_objects_def grown_def)
  next
    case 2
    have "gadget_at w' = gadget_at (pending_gadget name u w)" "config_at w' = config_at w" "function_at w' = function_at w"
      by (subst 2, simp add: pending_gadget_def)+
    then show ?thesis by (auto simp: grown_def pending_gadget_def)
  qed
qed

lemma makes_example_gadget:
  assumes "heap_wf w"
  shows "makes (\<lambda>w g. gadget_at w g \<noteq> None) w (example_gadget K w)"
proof -
  from create_gadget_wf [OF assms, of K "''g1''" "Some example_attrs" "Some example_strs"] obtain ret g w' where
    r: "example_gadget K w = Some (ret, g, w')" "heap_wf w'" "gadget_created ''g1'' w ret g w'"
    unfolding example_gadget_def by blast
  with gadget_created_grown [OF r(3)] gadget_created_live [of "''g1''" w g w'] show ?thesis by (auto simp: makes_def)
qed

lemma makes_create_function:
  assumes "luns_named K" "heap_wf w" "gadget_at w g \<noteq> None" "pred_option (attrs_ok t) a"
  shows "makes (\<lambda>w f. function_at w f \<noteq> None) w (usbg_create_function K (Some g) t (Some i) a True w)"
proof -
  from assms(3) obtain gad where g: "gadget_at w g = Some gad" by blast
  have "\<forall>x. a = Some x \<longrightarrow> attrs_ok t x" using assms(4) by auto
  from create_function_wf [OF assms(1,2) g this, of i] obtain ret f w' where
    r: "usbg_create_function K (Some g) t (Some i) a True w = Some (ret, f, w')" "heap_wf w'"
      "ret \<noteq> 0 \<and> same_objects w w' \<or> ret = 0 \<and> f = Some (next_ptr w) \<and> function_added g t i gad w w'" by blast
  from r(3) show ?thesis
    using r(1,2) same_objects_grown function_added_grown by (elim disjE conjE) (auto simp: makes_def)
qed

lemma makes_example_config:
  assumes "heap_wf w" "gadget_at w g \<noteq> None"
  shows "makes (\<lambda>w c. config_at w c \<noteq> None) w (example_config K g str w)"
proof -
  from assms(2) obtain gad where g: "gadget_at w g = Some gad" by blast
  from create_config_wf [OF assms(1) g refl, of K 1 "Some ''The only one''" None "Some (Some str)"] obtain ret c w' where
    r: "example_config K g str w = Some (ret, c, w')" "heap_wf w'"
      "ret \<noteq> 0 \<and> same_objects w w' \<or> ret = 0 \<and> c = Some (next_ptr w) \<and>
       config_added g (case Some ''The only one'' of None \<Rightarrow> DEFAULT_CONFIG_LABEL | Some l \<Rightarrow> l) 1 gad w w'"
    unfolding example_config_def by blast
  from r(3) show ?thesis
    using r(1,2) same_objects_grown config_added_grown by (elim disjE conjE) (auto simp: makes_def)
qed

lemma safe_add_config_function:
  assumes "heap_wf w" "config_at w c \<noteq> None" "function_at w f \<noteq> None"
  shows "safe w (usbg_add_config_function K (Some c) name (Some f) w)"
proof -
  from assms(2,3) obtain conf fn where c: "config_at w c = Some conf" "function_at w f = Some fn" by blast
  from add_config_function_wf [OF assms(1) c refl, of K name] obtain ret w' where
    r: "usbg_add_config_function K (Some c) name (Some f) w = Some (ret, w')" "heap_wf w'"
      "same_objects w w' \<or> binding_added c (case name of None \<Rightarrow> f_name fn | Some n \<Rightarrow> n) f conf w w'" by blast
  from r(3) have "grown w w'" using same_objects_grown binding_added_grown by blast
  with r(1,2) show ?thesis by (auto simp: safe_def)
qed

lemma grown_udc: "grown w (set_gadget_of q g' (set_udc g u (detach v (w\<lparr>os := k\<rparr>))))"
  by (auto simp: grown_def set_gadget_of_def set_udc_def detach_def split: option.splits)

lemma safe_enable_default:
  assumes "heap_wf w" "gadget_at w g \<noteq> None"
  shows "safe w (usbg_enable_gadget K (Some g) None w)"
proof -
  from assms(2) obtain gad where g: "gadget_at w g = Some gad" by blast
  from enable_gadget_wf [OF assms(1) g, of None K] obtain ret w' where
    r: "usbg_enable_gadget K (Some g) None w = Some (ret, w')" "heap_wf w'" "same_objects w w' \<or>
      (\<exists>q. w' = set_gadget_of q (Some g) (set_udc g (Some q) (detach (g_udc gad) (w\<lparr>os := os w'\<rparr>))))" by blast
  from r(3) have "grown w w'" using same_objects_grown grown_udc by metis
  with r(1,2) show ?thesis by (auto simp: safe_def)
qed

lemma safe_interf_os_desc:
  "heap_wf w \<Longrightarrow> function_at w f \<noteq> None \<Longrightarrow> safe w (usbg_set_interf_os_desc K f iname d w)"
  by (simp add: usbg_set_interf_os_desc_def safe_return safe_on_object split: option.split)

lemma safe_os_desc_link:
  "heap_wf w \<Longrightarrow> gadget_at w g \<noteq> None \<Longrightarrow> config_at w c \<noteq> None \<Longrightarrow> safe w (usbg_set_os_desc_config K (Some g) (Some c) w)"
  by (auto intro: safe_set_os_desc_config)

text \<open>A handle that is live stays so while the program goes on.\<close>

lemmas building = safe_made [OF makes_example_gadget] safe_made [OF makes_create_function] safe_made [OF makes_example_config]
  safe_if_done [OF safe_add_config_function] safe_if_done [OF safe_interf_os_desc] safe_if_done [OF safe_os_desc_link]
  safe_if_done [OF safe_gadget_setters(4)] safe_add_config_function safe_enable_default

lemma safe_one_function:
  assumes "luns_named K" "pred_option (attrs_ok t) a" "heap_wf w"
  shows "safe w (one_function t i a str link K w)"
  unfolding one_function_def by (intro building) (use assms in \<open>(assumption | meson grown_live)+\<close>)

lemma safe_acm_ecm:
  assumes "luns_named K" "heap_wf w"
  shows "safe w (acm_ecm_calls K w)"
  unfolding acm_ecm_calls_def by (intro building) (insert assms, (assumption | erule grown_live | (simp; fail))+)

lemma safe_ffs:
  assumes "luns_named K" "heap_wf w"
  shows "safe w (ffs_calls K w)"
  unfolding ffs_calls_def by (intro building) (insert assms, (assumption | erule grown_live | (simp; fail))+)

lemma safe_rndis:
  assumes "luns_named K" "heap_wf w"
  shows "safe w (rndis_calls K w)"
  unfolding rndis_calls_def by (intro building) (insert assms, (assumption | erule grown_live | (simp; fail))+)

section \<open>The removing program\<close>

lemma udc_steps_roots:
  "gadget_at w p \<noteq> None \<Longrightarrow> same_objects w w' \<Longrightarrow> gadget_at w' p \<noteq> None \<and> s_gadgets w' = s_gadgets w"
  "gadget_at w p \<noteq> None \<Longrightarrow> w' = set_udc g u (set_gadget_of q h (w\<lparr>os := os w'\<rparr>)) \<Longrightarrow>
    gadget_at w' p \<noteq> None \<and> s_gadgets w' = s_gadgets w"
  "gadget_at w p \<noteq> None \<Longrightarrow> w' = set_udc g u (detach v (w\<lparr>os := os w'\<rparr>)) \<Longrightarrow>
    gadget_at w' p \<noteq> None \<and> s_gadgets w' = s_gadgets w"
proof -
  assume g: "gadget_at w p \<noteq> None"
  show "gadget_at w' p \<noteq> None \<and> s_gadgets w' = s_gadgets w" if "same_objects w w'"
    using g that by (simp add: same_objects_def)
  show "gadget_at w' p \<noteq> None \<and> s_gadgets w' = s_gadgets w"
    if "w' = set_udc g u (set_gadget_of q h (w\<lparr>os := os w'\<rparr>))"
    using g arg_cong [OF that, of gadget_at] arg_cong [OF that, of s_gadgets]
    by (auto simp: set_udc_def set_gadget_of_def)
  show "gadget_at w' p \<noteq> None \<and> s_gadgets w' = s_gadgets w"
    if "w' = set_udc g u (detach v (w\<lparr>os := os w'\<rparr>))"
    using g arg_cong [OF that, of gadget_at] arg_cong [OF that, of s_gadgets]
    by (auto simp: set_udc_def detach_def set_gadget_of_def split: option.splits)
qed

lemma remove_gadget_ends:
  assumes "luns_named K" "heap_wf w" "gadget_at w p \<noteq> None"
  shows "\<exists>ret w'. remove_gadget K p w = Some (ret, w') \<and> heap_wf w' \<and> (ret = 0 \<longrightarrow> s_gadgets w' = remove1 p (s_gadgets w))"
proof -
  from assms(3) obtain gad where g: "gadget_at w p = Some gad" by blast
  from get_gadget_udc_wf [OF assms(2) g, of K] obtain u w1 where
    u: "usbg_get_gadget_udc K (Some p) w = Some (u, w1)" "heap_wf w1"
      "same_objects w w1 \<or> (\<exists>q. w1 = set_udc p None (set_gadget_of q None (w\<lparr>os := os w1\<rparr>)))" by blast
  from u(3) udc_steps_roots [OF assms(3)] have l1: "gadget_at w1 p \<noteq> None" "s_gadgets w1 = s_gadgets w" by blast+
  from l1(1) obtain gad1 where g1: "gadget_at w1 p = Some gad1" by blast
  have "\<exists>ret w2. (if u \<noteq> None then usbg_disable_gadget K (Some p) w1 else Some (err USBG_SUCCESS, w1)) = Some (ret, w2) \<and>
      heap_wf w2 \<and> gadget_at w2 p \<noteq> None \<and> s_gadgets w2 = s_gadgets w1"
  proof (cases "u = None")
    case True
    with u(2) l1(1) show ?thesis by simp
  next
    case False
    from disable_gadget_wf [OF u(2) g1, of K] obtain ret w2 where
      d: "usbg_disable_gadget K (Some p) w1 = Some (ret, w2)" "heap_wf w2"
        "same_objects w1 w2 \<or> w2 = set_udc p None (detach (g_udc gad1) (w1\<lparr>os := os w2\<rparr>))" by blast
    from d(3) udc_steps_roots [OF l1(1)] have "gadget_at w2 p \<noteq> None \<and> s_gadgets w2 = s_gadgets w1" by blast
    with d(1,2) False show ?thesis by simp
  qed
  then obtain ret w2 where
    d: "(if u \<noteq> None then usbg_disable_gadget K (Some p) w1 else Some (err USBG_SUCCESS, w1)) = Some (ret, w2)"
      "heap_wf w2" "gadget_at w2 p \<noteq> None" "s_gadgets w2 = s_gadgets w1" by blast
  from d(3) obtain gad2 where g2: "gadget_at w2 p = Some gad2" by blast
  from rm_gadget_wf [OF assms(1) d(2) g2, of USBG_RM_RECURSE] obtain r w3 where
    r: "usbg_rm_gadget K (Some p) USBG_RM_RECURSE w2 = Some (r, w3)" "heap_wf w3"
      "r = 0 \<longrightarrow> w3 = (drop_gadget p w2)\<lparr>s_gadgets := remove1 p (s_gadgets w2), os := os w3\<rparr>" by blast
  have q: "s_gadgets w3 = remove1 p (s_gadgets w)" if "r = 0"
  proof -
    from r(3) that have e: "w3 = (drop_gadget p w2)\<lparr>s_gadgets := remove1 p (s_gadgets w2), os := os w3\<rparr>" by simp
    show ?thesis by (subst e) (simp add: d(4) l1(2))
  qed
  have "remove_gadget K p w = (if ret \<noteq> 0 then Some (ret, w2) else Some (r, w3))"
    unfolding remove_gadget_def u(1) if_done_def bind.bind_lunit prod.case d(1) using r(1) by simp
  with d(2) r(2) q show ?thesis by (cases "ret = 0") auto
qed

text \<open>The gadgets that are still to be visited are the end of the queue.\<close>

lemma remove_loop_ends:
  assumes "luns_named K" "heap_wf w" "s_gadgets w = xs @ rest"
  shows "ends_wf (remove_loop K vendor product a (tailq_first rest) w)"
  using assms(2,3)
proof (induction rest arbitrary: xs w a)
  case Nil
  then show ?case by (simp add: remove_loop.simps [of K vendor product a] tailq_first_def ends_wf_def)
next
  case (Cons p rest)
  have d: "distinct (xs @ p # rest)" using owns_distinct [OF wfpD(1) [OF Cons.prems(1)]] Cons.prems(2) by simp
  from owns_live [OF wfpD(1) [OF Cons.prems(1)], of p] Cons.prems(2) obtain gad where g: "gadget_at w p = Some gad" by auto
  obtain ret a' k' where at: "usbg_parse_gadget_attrs K (g_path gad) (g_name gad) a (os w) = (ret, a', k')"
    by (metis prod_cases3)
  let ?w1 = "w\<lparr>os := k'\<rparr>"
  have get: "usbg_get_gadget_attrs K (Some p) (Some a) w = Some ((ret, Some a'), ?w1)"
    using g at by (simp add: usbg_get_gadget_attrs_def on_gadget_def)
  have "tailq_next p (xs @ p # rest) = tailq_first rest"
    using tailq_next_nth [OF d, of "length xs"] by (cases rest) (simp_all add: tailq_first_def nth_append)
  then have nx: "usbg_get_next_gadget (Some p) ?w1 = Some (tailq_first rest)"
    using g Cons.prems(2) by (simp add: usbg_get_next_gadget_def)
  have w1: "heap_wf ?w1" "gadget_at ?w1 p \<noteq> None" using Cons.prems(1) g by simp_all
  have go: "ends_wf (remove_loop K vendor product b (tailq_first rest) ?w1)" for b
    by (rule Cons.IH [of ?w1 "xs @ [p]"]) (use w1(1) Cons.prems(2) in simp_all)
  from remove_gadget_ends [OF assms(1) w1] obtain r w2 where
    r: "remove_gadget K p ?w1 = Some (r, w2)" "heap_wf w2" "r = 0 \<longrightarrow> s_gadgets w2 = remove1 p (xs @ p # rest)"
    using Cons.prems(2) by auto
  have rm: "ends_wf (remove_loop K vendor product b (tailq_first rest) w2)" if "r = 0" for b
    by (rule Cons.IH [of w2 xs]) (use r(2,3) that d in \<open>simp_all add: remove1_append\<close>)
  have "remove_loop K vendor product a (tailq_first (p # rest)) w =
      (if ret \<noteq> 0 then Some (ret, ?w1)
       else if uint (ga_idVendor a') = vendor \<and> uint (ga_idProduct a') = product then
         if r \<noteq> 0 then Some (r, w2) else remove_loop K vendor product a' (tailq_first rest) w2
       else remove_loop K vendor product a' (tailq_first rest) ?w1)"
    by (subst remove_loop.simps) (simp add: tailq_first_def get nx r(1))
  with go rm w1(1) r(2) show ?case by (auto simp: ends_wf_def)
qed

section \<open>The UAC2 program\<close>

text \<open>A setter of strings refuses NULL, so a structure with NULL in a member is never set.\<close>

lemma table_set_null:
  assumes "(string_attr n, Str_val None) \<in> set (zip es vs)"
  shows "table_set_attrs es K p m vs k \<noteq> Some (0, k')"
  using assms
proof (induction es arbitrary: vs k)
  case (Cons e es)
  then obtain v vs' where vs: "vs = v # vs'" by (cases vs) auto
  show ?case
  proof (cases "e = string_attr n \<and> v = Str_val None")
    case True
    with vs show ?thesis by (simp add: string_attr_def usbg_set_string_def usbg_write_string_def)
  next
    case False
    with Cons.prems vs have "(string_attr n, Str_val None) \<in> set (zip es vs')" by auto
    with Cons.IH vs show ?thesis by (auto elim!: bind_Some_elim split: if_splits)
  qed
qed simp

lemma example_uac2_refused:
  fixes K :: "'k kernel"
  shows "function_set_attrs K fn (Uac2_attrs example_uac2) k \<noteq> Some (0, fn', k')"
proof -
  have "(string_attr ''c_sync'', Str_val None) \<in> set (zip (uac2_attr :: 'k attr_entry list) (uac2_vals example_uac2))"
    by (simp add: uac2_attr_def uac2_vals_def example_uac2_def)
  from table_set_null [OF this] show ?thesis
    by (auto simp: function_set_attrs_def keep_fn_def usbg_f_uac2_set_attrs_def struct_set_attrs_def)
qed

lemma create_uac2_fails: "usbg_create_function K (Some g) t (Some i) (Some (Uac2_attrs example_uac2)) True w \<noteq> Some (0, f, w')"
proof -
  have "usbg_set_function_attrs K (Some p) (Some (Uac2_attrs example_uac2)) v \<noteq> Some (0, v')" for p v v'
    using example_uac2_refused [of K] by (auto simp: usbg_set_function_attrs_def elim!: bind_Some_elim)
  then have "finish_function K g p full (Some (Uac2_attrs example_uac2)) v \<noteq> Some (0, x, v')" for p full v x v'
    by (auto simp: finish_function_def elim!: bind_Some_elim split: if_splits)
  then show ?thesis
    by (auto simp: usbg_create_function_def Let_def elim!: bind_Some_elim split: if_splits option.splits prod.splits)
qed

lemma gadget_uac2_fails: "gadget_uac2 K k \<noteq> Some (0, mem, k')"
proof -
  have "one_function t i (Some (Uac2_attrs example_uac2)) str link K w \<noteq> Some (0, w')" for t i str link w w'
    using create_uac2_fails [of K] by (auto simp: one_function_def made_def elim!: bind_Some_elim split: if_splits)
  then show ?thesis
    by (auto simp: gadget_uac2_def main_with_def elim!: bind_Some_elim split: if_splits)
qed

section \<open>All programs\<close>

definition programs :: "'k kernel \<Rightarrow> string option \<Rightarrow> int \<Rightarrow> int \<Rightarrow> gadget_attrs \<Rightarrow> ('k \<Rightarrow> (int \<times> 'k world option \<times> 'k) option) list" where
  "programs K arg vendor product a =
     [gadget_acm_ecm K, gadget_ffs K, gadget_hid K, gadget_midi K, gadget_ms K arg, gadget_printer K,
      gadget_rndis_os_desc K, gadget_uac2 K, gadget_uvc K, gadget_vid_pid_remove K vendor product a]"

lemma example_luns_ok:
  "attrs_ok USBG_F_MASS_STORAGE (Ms_attrs \<lparr>ms_stall = False,
     ms_lun_list = [example_lun False file ''Non-empty'', example_lun True [] ''Empty'']\<rparr>)"
  by (auto simp: attrs_ok_def attrs_fit_def luns_in_order_def example_lun_def MAX_LUNS_def less_Suc_eq)

lemma programs_end:
  assumes "luns_named K" "links_absolute K" "prog \<in> set (programs K arg vendor product a)"
  shows "ends_clean (prog k)"
proof -
  have one: "ends_clean (main_with (one_function t i at str link K) K k)" if "pred_option (attrs_ok t) at" for t i at str link
    by (rule main_with_ends [OF assms(2)]) (rule safe_ends_wf [OF safe_one_function [OF assms(1) that]])
  have calls: "ends_clean (main_with (c K) K k)" if "c \<in> {acm_ecm_calls, ffs_calls, rndis_calls}" for c
    by (rule main_with_ends [OF assms(2)])
      (use that safe_ends_wf [OF safe_acm_ecm [OF assms(1)]] safe_ends_wf [OF safe_ffs [OF assms(1)]]
        safe_ends_wf [OF safe_rndis [OF assms(1)]] in auto)
  have rm: "ends_clean (gadget_vid_pid_remove K vendor product a k)"
    unfolding gadget_vid_pid_remove_def usbg_get_first_gadget_def
    by (rule main_with_ends [OF assms(2)]) (rule remove_loop_ends [OF assms(1), where xs = "[]"], simp_all)
  have ms: "ends_clean (gadget_ms K arg k)"
    by (cases arg) (simp add: gadget_ms_def ends_clean_def, simp add: gadget_ms_def one example_luns_ok)
  from assms(3) show ?thesis
    unfolding programs_def list.set
    by (elim insertE emptyE)
      (simp_all add: rm ms gadget_acm_ecm_def gadget_ffs_def gadget_rndis_os_desc_def calls gadget_hid_def gadget_midi_def
        gadget_printer_def gadget_uac2_def gadget_uvc_def one attrs_ok_def [of USBG_F_HID]
        attrs_ok_def [of USBG_F_MIDI] attrs_ok_def [of USBG_F_UAC2] attrs_ok_def [of USBG_F_UVC] attrs_fit_def)
qed

end
