(* ===== verification/Usbg_Schemes_None.thy ===== *)
theory Usbg_Schemes_None
  imports Usbg_State
begin

text \<open>
  What the library offers when it is built without libconfig
  (\<open>src/usbg_schemes_none.c\<close>): no import, no export, and no text of an error. The line of
  an error is an error code here, where the other build returns -1.
\<close>

definition none_export_function :: "ptr option \<Rightarrow> 'f option \<Rightarrow> int" where
  "none_export_function f stream = err USBG_ERROR_NOT_SUPPORTED"

definition none_export_config :: "ptr option \<Rightarrow> 'f option \<Rightarrow> int" where
  "none_export_config c stream = err USBG_ERROR_NOT_SUPPORTED"

definition none_export_gadget :: "ptr option \<Rightarrow> 'f option \<Rightarrow> int" where
  "none_export_gadget g stream = err USBG_ERROR_NOT_SUPPORTED"

definition none_import_function :: "ptr option \<Rightarrow> 'f option \<Rightarrow> string option \<Rightarrow> int" where
  "none_import_function g stream inst = err USBG_ERROR_NOT_SUPPORTED"

definition none_import_config :: "ptr option \<Rightarrow> 'f option \<Rightarrow> int \<Rightarrow> int" where
  "none_import_config g stream cid = err USBG_ERROR_NOT_SUPPORTED"

definition none_import_gadget :: "'f option \<Rightarrow> string option \<Rightarrow> int" where
  "none_import_gadget stream name = err USBG_ERROR_NOT_SUPPORTED"

definition none_func_import_error_text :: "ptr option \<Rightarrow> string option" where
  "none_func_import_error_text g = None"

definition none_func_import_error_line :: "ptr option \<Rightarrow> int" where
  "none_func_import_error_line g = err USBG_ERROR_NOT_SUPPORTED"

definition none_config_import_error_text :: "ptr option \<Rightarrow> string option" where
  "none_config_import_error_text g = None"

definition none_config_import_error_line :: "ptr option \<Rightarrow> int" where
  "none_config_import_error_line g = err USBG_ERROR_NOT_SUPPORTED"

definition none_gadget_import_error_text :: "bool \<Rightarrow> string option" where
  "none_gadget_import_error_text state_given = None"

definition none_gadget_import_error_line :: "bool \<Rightarrow> int" where
  "none_gadget_import_error_line state_given = err USBG_ERROR_NOT_SUPPORTED"

end
