(* ===== verification/Spec2Isabelle.thy ===== *)
theory Spec2Isabelle
  imports Usbg_Session Usbg_Forest_Refine Usbg_Walk Usbg_Get_Attrs Usbg_Examples Usbg_Scheme_Demo Usbg_Import_Demo Usbg_Safety_Export Usbg_Programs Usbg_Schemes_None
begin

text \<open>
  This development models \<open>libusbgx\<close>, the C library that describes USB gadgets to the Linux
  kernel through the files of configfs, and proves what its operations promise.

  \<^bold>\<open>The program.\<close> A program calls \<open>usbg_init\<close>, which reads the directories of configfs into
  a tree of heap objects: gadgets, each with functions and configurations, the configurations with
  bindings (links to functions), and the device controllers (UDCs). The API then creates, changes,
  links and removes objects, in configfs and in the tree, in step. Attributes are never cached:
  each getter and setter reads or writes one file. Every function type (serial, network, MIDI,
  HID, audio, mass storage, UVC, ...) has a table of operations for its attributes.

  \<^bold>\<open>The environment.\<close> File system calls are not code of the repository: they are the record
  \<open>kernel\<close> of \<open>Usbg_Kernel\<close>, an argument of every definition that reaches them, over a
  state \<open>'k\<close> of any type; a call may fail or change that state as it likes, so a theorem about
  all kernels is a theorem about any behaviour of other processes. The few facts some theorems
  need are named: \<open>links_absolute\<close> (the target of a symbolic link in configfs contains a
  slash), \<open>luns_named\<close> and \<open>frames_named\<close> (the kernel numbers LUNs below 16 and frames below
  the size of their masks), \<open>guids_filled\<close> (the file of a GUID is not empty), the locale
  \<open>attr_store\<close> (attribute files keep what is written) and, for printf and scanf, the
  definitions of \<open>Usbg_Libc\<close>. \<open>Usbg_Configfs\<close> instantiates all of them by one file system
  that computes. Of a configuration that is imported, \<open>readable\<close> is what libconfig documents,
  and \<open>within_limits\<close> what the library does not check: the lengths of lists that index arrays,
  and the underscore in the label of a function.

  \<^bold>\<open>Undefined behaviour and errors.\<close> \<open>None\<close> as the result of an operation is undefined
  behaviour of the C code: a freed or NULL pointer that is followed, an index outside of an array,
  a NULL function that is called, and a loop that does not end (the loops over queues that are
  changed while they are walked are \<open>partial_function (option)\<close>; no fuel is used). So a theorem
  that says \<open>\<exists>w'. f w = Some \<dots>\<close> states both memory safety and termination. Errors of the
  library are its negative return codes. Each allocation may fail (\<open>k_malloc\<close>).

  \<^bold>\<open>Theories.\<close>
  \<^item> \<open>Usbg_Prelude\<close>, \<open>Usbg_Error\<close> (\<open>src/usbg_error.c\<close>), \<open>Usbg_Libc\<close> (the functions of
    the C library in use), \<open>Usbg_Kernel\<close> (file system calls), \<open>Usbg_Common\<close>
    (\<open>src/usbg_common.c\<close>: bounded reads and writes), \<open>Usbg_Attr_Files\<close> (their contract, the
    locale \<open>stored_attr\<close> with one interpretation per kind of attribute).
  \<^item> \<open>Usbg_Names\<close>: the name tables of \<open>src/usbg.c\<close> and the splitting of directory names.
  \<^item> \<open>Usbg_State\<close>: the objects (\<open>usbg_internal.h\<close>) in an explicit store, allocation,
    release and \<open>INSERT_TAILQ_STRING_ORDER\<close>; \<open>Usbg_Insert\<close>: the insertion is \<open>insort\<close>,
    as an interpretation of a locale of ordered queues; \<open>Usbg_Queries\<close>: look-up, iteration and
    accessors of \<open>src/usbg.c\<close>.
  \<^item> \<open>Usbg_Attr_Table\<close>, \<open>Usbg_F_Basic\<close>, \<open>Usbg_F_Ms\<close>, \<open>Usbg_F_Uvc\<close>, \<open>Usbg_Functions\<close>:
    the files of \<open>src/function/\<close> and the dispatch over the 18 function types;
    \<open>Usbg_Gadget_Attrs\<close>: attributes, strings and OS descriptors of gadgets and configurations.
  \<^item> \<open>Usbg_Ops\<close>: everything in \<open>src/usbg.c\<close> that changes objects; \<open>Usbg_Parse\<close>:
    \<open>usbg_init\<close> and the \<open>usbg_parse_*\<close> functions.
  \<^item> \<open>Usbg_Invariant\<close>: \<open>heap_wf\<close>, the invariant: every queue lists exactly the objects whose
    parent pointer leads back, each once, and every pointer that is followed is live.
    \<open>Usbg_Free\<close>, \<open>Usbg_Safety*\<close>, \<open>Usbg_Ms_Total\<close>, \<open>Usbg_Cleanup\<close>: each operation on a
    world that satisfies it is defined, keeps it, and changes just the objects it should.
  \<^item> \<open>Usbg_Session\<close>: calls, the step relation of a program that makes them, reachability and
    the invariant of what is reachable. \<open>Usbg_Forest\<close>: the abstract specification of the calls,
    on forests of named nodes; \<open>Usbg_Forest_Refine\<close>: the calls refine it, on success and after
    every error. \<open>Usbg_Walk\<close>: the \<open>usbg_for_each_*\<close> loops of \<open>usbg.h\<close> end and visit every live
    object once. \<open>Usbg_Get_Attrs\<close>: the getters of functions fill the structure of the type.
  \<^item> \<open>Usbg_Libconfig\<close> (\<open>src/usbg_common_libconfig.c\<close>), \<open>Usbg_Scheme_Functions\<close>,
    \<open>Usbg_Scheme_Types\<close> (the import and export operations of \<open>src/function/\<close>), \<open>Usbg_Export\<close>,
    \<open>Usbg_Import\<close> (\<open>src/usbg_schemes_libconfig.c\<close>), \<open>Usbg_Schemes_None\<close>
    (\<open>src/usbg_schemes_none.c\<close>): gadget schemes. The third-party library libconfig is the record
    \<open>libconfig\<close>, an argument of the definitions; the locale \<open>config_store\<close> of
    \<open>Usbg_Config_Store\<close> has what it documents of its settings, and \<open>Usbg_Config_Tree\<close> is a
    configuration that computes. \<open>Usbg_Scheme_Round\<close>, \<open>Usbg_Scheme_Api\<close>, \<open>Usbg_Scheme_Gadget\<close>:
    import after export, in the locales \<open>scheme_store\<close> and \<open>scheme_file\<close>; \<open>Usbg_Scheme_Demo\<close>:
    their instances. \<open>Usbg_Scheme_Total\<close>, \<open>Usbg_Safety_Import\<close> (locale \<open>import_env\<close>,
    interpreted in \<open>Usbg_Import_Demo\<close>): an import is defined, ends and keeps the invariant;
    \<open>Usbg_Export_Total\<close>, \<open>Usbg_Safety_Export\<close>: so is an export, which changes only masks that
    it reads, if the functions that are bound are still there (\<open>targets_live\<close>).
  \<^item> \<open>Usbg_Gadget_Round\<close>: what a setter writes its getter reads; \<open>Usbg_Configfs\<close>,
    \<open>Usbg_Examples\<close>: the file system and the small worlds the examples use.

  \<^item> \<open>Usbg_Programs\<close>: the programs of \<open>examples/\<close> that build or remove gadgets, as compositions of
    the calls.

  \<^bold>\<open>Not modelled.\<close> What the programs of \<open>examples/\<close> print and those that only print
  (\<open>show-gadgets.c\<close>, \<open>show-udcs.c\<close>) or only open a file around one call (\<open>gadget-import.c\<close>,
  \<open>gadget-export.c\<close>); the tests of the repository; parsing and printing of libconfig's files
  (third-party code).
\<close>

section \<open>Programs that use the library\<close>





text \<open>C3. Seen as a forest of named objects, every call does what its abstract specification says:
  a creation adds one node below its parent, with a name and an id that no sibling has, or
  nothing; a removal prunes objects below its handle only, each with all its descendants, and a
  function takes no links but those that lead to it; every other call leaves the forest alone.
  So names that are apart stay apart.\<close>

theorem session_refines:
  assumes "reachable K w" "handles_live w c" "links_absolute K" "luns_named K"
  shows "\<exists>w'. exec K c w = Some w' \<and> call_spec c (forest_of w) (forest_of w') \<and>
    (separate (forest_of w) \<longrightarrow> separate (forest_of w'))"
  using exec_wf [OF assms(4) reachable_wf [OF assms(1,3,4)] assms(2)]
    call_refines [OF assms(4) reachable_wf [OF assms(1,3,4)] assms(2)] call_spec_separate
  by blast

theorem session_refines_witness:
  "\<exists>w k' w'. usbg_init configfs ''/c'' 1 fresh_fs = Some (0, Some w, k') \<and>
     exec configfs (Create_gadget_vid_pid ''g1'' 1 2) w = Some w' \<and>
     (forest_of w' = forest_of w \<or> planted (forest_of w) (Gadget_node ''g1'') (forest_of w'))"
  using session_refines [OF reachable_init _ configfs_links_absolute configfs_luns_named,
      where c = "Create_gadget_vid_pid ''g1'' 1 2"] fresh_init by fastforce







section \<open>Removal\<close>

text \<open>C7. Removing a gadget, with or without what is below it: defined, keeps the invariant, and
  on success exactly the gadget, its functions, its configurations and their bindings are gone.\<close>

theorem rm_gadget_safe:
  assumes "luns_named K" "heap_wf w" "gadget_at w g = Some gad"
  shows "\<exists>ret w'. usbg_rm_gadget K (Some g) opts w = Some (ret, w') \<and> heap_wf w' \<and>
    (ret = 0 \<longrightarrow> w' = (drop_gadget g w)\<lparr>s_gadgets := remove1 g (s_gadgets w), os := os w'\<rparr>)"
  using assms by (rule rm_gadget_wf)

theorem rm_gadget_safe_witness:
  "\<exists>ret w'. usbg_rm_gadget configfs (Some 2) USBG_RM_RECURSE demo = Some (ret, w') \<and> heap_wf w' \<and>
    (ret = 0 \<longrightarrow> w' = (drop_gadget 2 demo)\<lparr>s_gadgets := remove1 2 (s_gadgets demo), os := os w'\<rparr>)"
  by (rule rm_gadget_safe [OF configfs_luns_named demo_wf demo_simps(1)])

text \<open>C8. Removing a function: with \<open>USBG_RM_RECURSE\<close> its bindings are removed first; on
  success the function is gone from the heap and from its gadget's queue, after an error it is
  still there, with its parent and name.\<close>

theorem rm_function_safe:
  assumes "luns_named K" "heap_wf w" "function_at w f = Some fn" "gadget_at w (f_parent fn) = Some gad"
  shows "\<exists>ret w'. usbg_rm_function K (Some f) opts w = Some (ret, w') \<and> heap_wf w' \<and>
    function_removed f fn gad opts w ret w'"
  using assms by (rule rm_function_wf)

theorem rm_function_safe_witness:
  "\<exists>ret w'. usbg_rm_function configfs (Some 3) USBG_RM_RECURSE demo = Some (ret, w') \<and> heap_wf w'"
  using rm_function_safe [OF configfs_luns_named demo_wf demo_simps(5), of _ USBG_RM_RECURSE] demo_simps(1) by fastforce

text \<open>C9. Removing a configuration, with or without the objects below it, on a heap that
  satisfies the invariant: the operation is defined and returns (it follows no dangling pointer
  and its loop over the bindings ends), keeps the invariant, and on success exactly the
  configuration, its bindings and its place in the gadget's queue are gone; after an error
  nothing but bindings may be missing.\<close>

theorem rm_config_safe:
  assumes "heap_wf w" "config_at w c = Some conf"
  shows "\<exists>ret w'. usbg_rm_config K (Some c) opts w = Some (ret, w') \<and> ret \<le> 0 \<and> heap_wf w' \<and>
    (if ret = 0 then w' = del_config c (c_parent conf) (w\<lparr>os := os w'\<rparr>) else fewer_bindings w w')"
  using assms by (rule rm_config_wf)

theorem rm_config_safe_witness:
  "\<exists>ret w'. usbg_rm_config configfs (Some 4) USBG_RM_RECURSE demo = Some (ret, w') \<and> ret \<le> 0 \<and> heap_wf w' \<and>
    (if ret = 0 then w' = del_config 4 2 (demo\<lparr>os := os w'\<rparr>) else fewer_bindings demo w')"
  using rm_config_safe [OF demo_wf demo_simps(2), of configfs USBG_RM_RECURSE] by (simp only: usbg_config.simps)



text \<open>C11. Removing a binding: defined; on success exactly the binding and its place in the
  configuration's queue are gone, after an error nothing has changed.\<close>

theorem rm_binding_safe:
  assumes "heap_wf w" "binding_at w b = Some bn"
  shows "\<exists>ret w'. usbg_rm_binding K (Some b) w = Some (ret, w') \<and> ret \<le> 0 \<and> heap_wf w' \<and>
    (if ret = 0 then w' = del_binding b (b_parent bn) (w\<lparr>os := os w'\<rparr>) else w' = w\<lparr>os := os w'\<rparr>)"
  using assms by (rule rm_binding_wf)

theorem rm_binding_safe_witness:
  "\<exists>ret w'. usbg_rm_binding configfs (Some 5) demo = Some (ret, w') \<and> ret \<le> 0 \<and> heap_wf w'"
  using rm_binding_safe [OF demo_wf demo_simps(3)] by blast

section \<open>Creation\<close>



text \<open>C13. Creating a configuration: it succeeds only for an id from 1 to 255 that no
  configuration of the gadget has, and then the configuration \<open>label.id\<close> is in its place in
  the gadget's queue; after an error no object has changed.\<close>

theorem create_config_safe:
  assumes "heap_wf w" "gadget_at w g = Some gad"
    "lbl = (case label of None \<Rightarrow> DEFAULT_CONFIG_LABEL | Some l \<Rightarrow> l)"
  shows "\<exists>ret c w'. usbg_create_config K (Some g) i label c_attrs c_strs True w = Some (ret, c, w') \<and> heap_wf w' \<and>
    (ret \<noteq> 0 \<and> same_objects w w' \<or>
     ret = 0 \<and> 0 < i \<and> i \<le> 255 \<and> usbg_get_config g i None w = Some None \<and> c = Some (next_ptr w) \<and>
       config_added g lbl i gad w w')"
  using assms by (rule create_config_wf)

theorem create_config_safe_witness:
  "\<exists>ret c w'. usbg_create_config configfs (Some 2) 2 None None None True demo = Some (ret, c, w') \<and> heap_wf w'"
  using create_config_safe [OF demo_wf demo_simps(1) refl] by blast

text \<open>C14. Creating a function, with attributes that fit its type: it succeeds only if no
  function of the gadget has the type and instance, and then the function is in its place in
  the gadget's queue; after an error no object has changed.\<close>

theorem create_function_safe:
  assumes "luns_named K" "heap_wf w" "gadget_at w g = Some gad" "\<forall>a. f_attrs = Some a \<longrightarrow> attrs_ok type a"
  shows "\<exists>ret f w'. usbg_create_function K (Some g) type (Some inst) f_attrs True w = Some (ret, f, w') \<and> heap_wf w' \<and>
    (ret \<noteq> 0 \<and> same_objects w w' \<or>
     ret = 0 \<and> inst \<noteq> [] \<and> usbg_get_function g type inst w = Some None \<and> f = Some (next_ptr w) \<and>
       function_added g type inst gad w w')"
  using assms by (rule create_function_wf)

theorem create_function_safe_witness:
  "\<exists>ret f w'. usbg_create_function configfs (Some 2) USBG_F_ECM (Some ''usb0'') None True demo = Some (ret, f, w') \<and>
     heap_wf w'"
  using create_function_safe [OF configfs_luns_named demo_wf demo_simps(1), of None USBG_F_ECM "''usb0''"] by fastforce

text \<open>C15. Binding a function to a configuration: it succeeds only if the configuration has no
  binding of that name and none to that function, and then the binding is in its place in the
  configuration's queue and points to the function; after an error no object has changed.\<close>

theorem add_config_function_safe:
  assumes "heap_wf w" "config_at w c = Some conf" "function_at w f = Some fn"
    "nm = (case name of None \<Rightarrow> f_name fn | Some n \<Rightarrow> n)"
  shows "\<exists>ret w'. usbg_add_config_function K (Some c) name (Some f) w = Some (ret, w') \<and> ret \<le> 0 \<and> heap_wf w' \<and>
    (ret \<noteq> 0 \<and> same_objects w w' \<or>
     ret = 0 \<and> usbg_get_binding c nm w = Some None \<and> usbg_get_link_binding c f w = Some None \<and>
       binding_added c nm f conf w w')"
  using assms by (rule add_config_function_wf)

theorem add_config_function_safe_witness:
  "\<exists>ret w'. usbg_add_config_function configfs (Some 4) (Some ''b'') (Some 3) demo = Some (ret, w') \<and> ret \<le> 0 \<and> heap_wf w'"
  using add_config_function_safe [OF demo_wf demo_simps(2,5) refl] by blast

section \<open>Gadgets and controllers\<close>

text \<open>C16. Enabling a gadget on the given controller, or on the first: on success the gadget's
  former controller points to no gadget, and the gadget and the controller point to each other;
  after an error no object has changed.\<close>

theorem enable_gadget_safe:
  assumes "heap_wf w" "gadget_at w g = Some gad" "\<And>u. udc = Some u \<Longrightarrow> u \<in> dom (udc_at w)"
  shows "\<exists>ret w'. usbg_enable_gadget K (Some g) udc w = Some (ret, w') \<and> heap_wf w' \<and>
    (ret \<noteq> 0 \<and> same_objects w w' \<or>
     ret = 0 \<and> (\<exists>q. chosen_udc udc w = Some q \<and>
       w' = set_gadget_of q (Some g) (set_udc g (Some q) (detach (g_udc gad) (w\<lparr>os := os w'\<rparr>)))))"
  using assms by (rule enable_gadget_wf)

theorem enable_gadget_safe_witness:
  "\<exists>ret w'. usbg_enable_gadget configfs (Some 2) None demo = Some (ret, w') \<and> heap_wf w'"
  using enable_gadget_safe [OF demo_wf demo_simps(1), of None] by fastforce

text \<open>C17. Disabling a gadget: on success neither it nor its former controller points to the
  other; after an error no object has changed.\<close>

theorem disable_gadget_safe:
  assumes "heap_wf w" "gadget_at w g = Some gad"
  shows "\<exists>ret w'. usbg_disable_gadget K (Some g) w = Some (ret, w') \<and> heap_wf w' \<and>
    (ret \<noteq> 0 \<and> same_objects w w' \<or> ret = 0 \<and> w' = set_udc g None (detach (g_udc gad) (w\<lparr>os := os w'\<rparr>)))"
  using assms by (rule disable_gadget_wf)

theorem disable_gadget_safe_witness:
  "\<exists>ret w'. usbg_disable_gadget configfs (Some 2) demo = Some (ret, w') \<and> heap_wf w'"
  using disable_gadget_safe [OF demo_wf demo_simps(1)] by blast



text \<open>C19. The loops of a client over gadgets and controllers, and over the functions,
  configurations and bindings of a live parent, all end, and their bodies run exactly once for
  each live object.\<close>

theorem walks_visit_all:
  assumes "heap_wf w"
  shows "(\<exists>gs. usbg_for_each_gadget w = Some gs \<and> distinct gs \<and> set gs = dom (gadget_at w)) \<and>
    (\<exists>us. usbg_for_each_udc w = Some us \<and> distinct us \<and> set us = dom (udc_at w)) \<and>
    (\<forall>g\<in>dom (gadget_at w).
       (\<exists>fs. usbg_for_each_function (Some g) w = Some fs \<and> distinct fs \<and>
          set fs = {f. \<exists>fn. function_at w f = Some fn \<and> f_parent fn = g}) \<and>
       (\<exists>cs. usbg_for_each_config (Some g) w = Some cs \<and> distinct cs \<and>
          set cs = {c. \<exists>conf. config_at w c = Some conf \<and> c_parent conf = g})) \<and>
    (\<forall>c\<in>dom (config_at w). \<exists>bs. usbg_for_each_binding (Some c) w = Some bs \<and> distinct bs \<and>
       set bs = {b. \<exists>bn. binding_at w b = Some bn \<and> b_parent bn = c})"
proof (intro conjI ballI)
  fix g assume "g \<in> dom (gadget_at w)"
  then obtain gad where "gadget_at w g = Some gad" by blast
  note g = for_each_of_gadget [OF assms this]
  show "\<exists>fs. usbg_for_each_function (Some g) w = Some fs \<and> distinct fs \<and>
      set fs = {f. \<exists>fn. function_at w f = Some fn \<and> f_parent fn = g}" by (rule g(1))
  show "\<exists>cs. usbg_for_each_config (Some g) w = Some cs \<and> distinct cs \<and>
      set cs = {c. \<exists>conf. config_at w c = Some conf \<and> c_parent conf = g}" by (rule g(2))
next
  fix c assume "c \<in> dom (config_at w)"
  then obtain conf where "config_at w c = Some conf" by blast
  then show "\<exists>bs. usbg_for_each_binding (Some c) w = Some bs \<and> distinct bs \<and>
      set bs = {b. \<exists>bn. binding_at w b = Some bn \<and> b_parent bn = c}" by (rule for_each_of_config [OF assms])
qed (rule for_each_roots [OF assms])+

theorem walks_visit_all_witness:
  "\<exists>fs. usbg_for_each_function (Some 2) demo = Some fs \<and> distinct fs \<and> set fs = {3, 6}"
proof -
  have "2 \<in> dom (gadget_at demo)" "{f. \<exists>fn. function_at demo f = Some fn \<and> f_parent fn = 2} = {3, 6}"
    by (auto simp: demo_def)
  with walks_visit_all [OF demo_wf, THEN conjunct2, THEN conjunct2, THEN conjunct1, rule_format, of 2] show ?thesis
    by simp
qed

text \<open>C20. A fault of \<open>usbg_get_udc_gadget\<close>: when the kernel detached the controller since, the
  check it makes clears the controller's pointer to the gadget, and the function follows that
  pointer afterwards.\<close>

theorem get_udc_gadget_follows_null:
  assumes "udc_at w u = Some udc" "u_gadget udc = Some g" "gadget_at w g = Some gad" "g_udc gad = Some u"
    and "usbg_read_string K (g_path gad) (g_name gad) ''UDC'' (os w) = (0, buf, k)" "buf \<noteq> u_name udc"
  shows "usbg_get_udc_gadget K (Some u) w = None"
  using assms by (rule get_udc_gadget_detached)

theorem get_udc_gadget_follows_null_witness:
  "usbg_get_udc_gadget configfs (Some 1) enabled_demo = None"
  by (rule get_udc_gadget_follows_null [OF enabled_demo_simps enabled_demo_read]) simp

section \<open>Ordered queues\<close>

text \<open>C21. \<open>INSERT_TAILQ_STRING_ORDER\<close> into a queue that is in the order of names is insertion
  into a sorted list.\<close>

theorem insert_is_insort:
  assumes "all_named nm (x # xs)" "sorted (map (key nm) xs)"
  shows "insert_string_order nm x xs = Some (insort_key (key nm) x xs)"
  using assms by (rule insert_string_order_sorted)

theorem insert_is_insort_witness:
  "insert_string_order [1 \<mapsto> ''b'', 2 \<mapsto> ''a'', 3 \<mapsto> ''c''] 1 [2, 3] = Some [2, 1, 3]"
  using insert_is_insort [of "[1 \<mapsto> ''b'', 2 \<mapsto> ''a'', 3 \<mapsto> ''c'']" 1 "[2, 3]"]
  by (simp add: all_named_def key_def)

text \<open>C22. Names of the functions' directories: what is composed of a type and an instance is
  split into them again.\<close>

theorem function_name_round_trip:
  assumes "inst \<noteq> []" "k_malloc K k = (True, k')"
  shows "usbg_split_function_instance_type K (function_type_name t @ ''.'' @ inst) k =
           (err USBG_SUCCESS, Some (t, inst), k')"
  using assms by (rule split_function_name)

theorem function_name_round_trip_witness:
  "usbg_split_function_instance_type configfs (function_type_name USBG_F_ACM @ ''.'' @ ''a.b'') fresh_fs =
     (err USBG_SUCCESS, Some (USBG_F_ACM, ''a.b''), fresh_fs)"
  by (rule function_name_round_trip) (simp_all add: configfs_def)

text \<open>C23. The name of each function type is looked up as its code in the enumeration, and a name
  of no type as an error.\<close>

theorem lookup_type_inverse:
  "usbg_lookup_function_type (Some n) =
     (if n \<in> range function_type_name then int (function_type_code (the_inv function_type_name n))
      else err USBG_ERROR_NOT_FOUND)"
proof (cases "n \<in> range function_type_name")
  case True
  then obtain t where "n = function_type_name t" by blast
  moreover have "inj function_type_name" by (simp add: inj_def)
  ultimately show ?thesis by (simp add: the_inv_f_f)
next
  case False
  then have "n \<notin> set (map function_type_name all_function_types)" by auto
  with False show ?thesis by (simp add: usbg_lookup_function_type_def lookup_name_def lookup_loop_not_found)
qed

text \<open>C24. A kernel's error never becomes success: every number of an error is translated to an
  error of the library's enumeration.\<close>

theorem errors_stay_errors:
  "usbg_translate_error e < 0 \<and> (\<exists>c. usbg_translate_error e = err c \<and> usbg_error_name (err c) \<noteq> ''UNKNOWN'')"
  using translate_error_enum [of e] translate_error_neg [of e] error_name_err by metis

section \<open>Attribute files\<close>

text \<open>C25. A number that was written to an attribute file is read back, for every value of 32 bits
  and every format of the library, also when another file was written in between.\<close>

theorem int_file_round_trip:
  assumes "attr_store K contents" "usbg_write_int K p n f v fmt k = (0, k1)"
    and "contents k2 = (contents k1)(q \<mapsto> s)" "q \<noteq> path3 p n f"
  shows "\<exists>k'. usbg_read_int K p n f (format_base fmt) d k2 = (0, v, k')"
  using assms by (rule int_file_kept)

theorem int_file_round_trip_witness:
  "\<exists>k'. usbg_read_int configfs ''/c/usb_gadget'' ''g1'' ''bcdUSB'' 16 0
     (snd (usbg_write_int configfs ''/c/usb_gadget'' ''g1'' ''idVendor'' 5 Fmt_04x
       (snd (usbg_write_int configfs ''/c/usb_gadget'' ''g1'' ''bcdUSB'' 0x0200 Fmt_04x demo_fs)))) = (0, 0x0200, k')"
proof -
  let ?k1 = "snd (usbg_write_int configfs ''/c/usb_gadget'' ''g1'' ''bcdUSB'' 0x0200 Fmt_04x demo_fs)"
  let ?k2 = "snd (usbg_write_int configfs ''/c/usb_gadget'' ''g1'' ''idVendor'' 5 Fmt_04x ?k1)"
  have "fst (usbg_write_int configfs ''/c/usb_gadget'' ''g1'' ''bcdUSB'' 0x0200 Fmt_04x demo_fs) = 0"
    "fst (usbg_write_int configfs ''/c/usb_gadget'' ''g1'' ''idVendor'' 5 Fmt_04x ?k1) = 0" by code_simp+
  then have w: "usbg_write_int configfs ''/c/usb_gadget'' ''g1'' ''bcdUSB'' 0x0200 Fmt_04x demo_fs = (0, ?k1)"
    "usbg_write_int configfs ''/c/usb_gadget'' ''g1'' ''idVendor'' 5 Fmt_04x ?k1 = (0, ?k2)"
    by (metis prod.collapse)+
  from int_file_round_trip [where contents = fs_contents, OF cfs.attr_store_axioms w(1) conjunct2 [OF cfs.write_int_stores [OF w(2)]]]
  show ?thesis by simp
qed

text \<open>C26. The attributes of a gadget are read back as they were set.\<close>

theorem gadget_attrs_kept:
  assumes "attr_store K contents" "usbg_set_gadget_attrs K (Some g) (Some a) w = Some (0, w')"
  shows "\<exists>w''. usbg_get_gadget_attrs K (Some g) (Some d) w' = Some ((0, Some a), w'')"
  using assms by (rule gadget_attrs_round_trip)

theorem gadget_attrs_kept_witness:
  "\<exists>w' w''. usbg_set_gadget_attrs configfs (Some 2) (Some demo_attrs) demo = Some (0, w') \<and>
     usbg_get_gadget_attrs configfs (Some 2) (Some zero_attrs) w' = Some ((0, Some demo_attrs), w'')"
proof -
  from demo_set_attrs obtain w' where "usbg_set_gadget_attrs configfs (Some 2) (Some demo_attrs) demo = Some (0, w')" ..
  with gadget_attrs_kept [OF cfs.attr_store_axioms this] show ?thesis by blast
qed

section \<open>Functions\<close>



text \<open>C28. The attributes of a network function are read back as they were set: MAC addresses in
  the library's notation, and numbers; the interface name is the kernel's.\<close>

theorem net_attrs_kept:
  assumes "attr_store_mem K contents" "usbg_f_net_set_attrs K f a k = Some (0, k')"
    and "length (net_dev_addr a) = 6" "length (net_host_addr a) = 6" "i < 7" "i \<noteq> 2"
  shows "\<exists>k''. usbg_f_net_get_attr_val K f i d k' = Some (0, net_vals a ! i, k'')"
  using assms by (rule attr_store_mem.net_round_trip)

theorem net_attrs_kept_witness:
  "\<exists>k' k''. usbg_f_net_set_attrs configfs net_demo net_demo_attrs net_fs = Some (0, k') \<and>
     usbg_f_net_get_attr_val configfs net_demo 1 (Ether_val []) k' = Some (0, Ether_val [2, 0, 0, 0, 10, 16], k'')"
proof -
  have "(case usbg_f_net_set_attrs configfs net_demo net_demo_attrs net_fs of Some (r, k) \<Rightarrow> r = 0 | None \<Rightarrow> False)"
    by code_simp
  then obtain k' where k': "usbg_f_net_set_attrs configfs net_demo net_demo_attrs net_fs = Some (0, k')"
    by (auto split: option.splits)
  have "length (net_dev_addr net_demo_attrs) = 6" "length (net_host_addr net_demo_attrs) = 6"
    "net_vals net_demo_attrs ! 1 = Ether_val [2, 0, 0, 0, 10, 16]"
    by (simp_all add: net_demo_attrs_def net_vals_def)
  with net_attrs_kept [OF cfs.attr_store_mem_axioms k', of 1] k' show ?thesis by auto
qed







text \<open>C32. A fault of the UVC function: setting its configuration attributes never succeeds. The
  loop runs to the number of frame attributes, past the end of the structure and its table.\<close>

theorem uvc_set_config_attrs_fails:
  "usbg_f_uvc_set_config_attrs K uvcf a k \<noteq> Some (0, k')"
  by (rule set_config_attrs_never_succeeds)

section \<open>Gadget schemes\<close>



text \<open>C34. So does a network function without OS descriptors: the function that is imported has
  its type, its MAC addresses and its numbers; the name of the interface is the kernel's.\<close>

theorem net_scheme_kept:
  assumes "scheme_file K contents L look IO" "luns_named K"
    and "usbg_set_function_attrs K (Some f) (Some (Net_attrs a)) w = Some (0, w0)"
    and "length (net_dev_addr a) = 6" "length (net_host_addr a) = 6"
    and "function_at w f = Some fn" "f_type fn \<in> {USBG_F_ECM, USBG_F_SUBSET, USBG_F_EEM}"
    and "usbg_export_function L IO K (Some f) (Some st) w0 = Some (0, st1, w1)"
    and "usbg_import_function L IO K (Some g) st1 (Some inst) fi w2 = Some (0, q, st2, fi2, w3)"
    and "heap_wf w2" "gadget_at w2 g \<noteq> None"
  shows "\<exists>p fn1. q = Some p \<and> function_at w3 p = Some fn1 \<and> f_type fn1 = f_type fn \<and>
    (\<forall>i<7. i \<noteq> 2 \<longrightarrow> (\<exists>k4. usbg_f_net_get_attr_val K fn1 i d (os w3) = Some (0, net_vals a ! i, k4)))"
  by (rule scheme_file.export_import_net [OF assms(1,3-11,2)])

theorem net_scheme_kept_witness:
  "\<exists>p fn1 w3 k4. small_run USBG_F_ECM (Net_attrs net_demo_attrs) = Some (0, 0, 0, Some p, w3) \<and>
     function_at w3 p = Some fn1 \<and>
     usbg_f_net_get_attr_val configfs fn1 1 (Ether_val []) (os w3) = Some (0, Ether_val [2, 0, 0, 0, 10, 16], k4)"
proof -
  obtain w0 st1 w1 q st2 fi2 w2 where run:
    "usbg_set_function_attrs configfs (Some 2) (Some (Net_attrs net_demo_attrs)) (small_world USBG_F_ECM (small_fs USBG_F_ECM)) = Some (0, w0)"
    "usbg_export_function cfg_lib cfg_io configfs (Some 2) (Some None) w0 = Some (0, st1, w1)"
    "usbg_import_function cfg_lib cfg_io configfs (Some 1) st1 (Some ''b'') fresh_imports w0 = Some (0, q, st2, fi2, w2)"
    "small_run USBG_F_ECM (Net_attrs net_demo_attrs) = Some (0, 0, 0, q, w2)"
    by (rule small_run_steps [OF small_net_run])
  have ok: "attrs_ok USBG_F_ECM (Net_attrs net_demo_attrs)" by (simp add: attrs_ok_def attrs_fit_def)
  have a: "length (net_dev_addr net_demo_attrs) = 6" "length (net_host_addr net_demo_attrs) = 6"
    "net_vals net_demo_attrs ! 1 = Ether_val [2, 0, 0, 0, 10, 16]"
    "f_type (small_function USBG_F_ECM) \<in> {USBG_F_ECM, USBG_F_SUBSET, USBG_F_EEM}"
    by (simp_all add: net_demo_attrs_def net_vals_def small_function_def)
  from net_scheme_kept [OF demo_scheme.scheme_file_axioms configfs_luns_named run(1) a(1,2) small_function_at a(4) run(2,3)
      small_set [OF run(1) ok], of "Ether_val []"] obtain p fn1 where p: "q = Some p" "function_at w2 p = Some fn1"
    "\<forall>i<7. i \<noteq> 2 \<longrightarrow> (\<exists>k4. usbg_f_net_get_attr_val configfs fn1 i (Ether_val []) (os w2) = Some (0, net_vals net_demo_attrs ! i, k4))"
    by blast
  from p(3) [rule_format, of 1] a(3)
  have "\<exists>k4. usbg_f_net_get_attr_val configfs fn1 1 (Ether_val []) (os w2) = Some (0, Ether_val [2, 0, 0, 0, 10, 16], k4)"
    by simp
  with p(1,2) run(4) show ?thesis by blast
qed

text \<open>C35. The attributes of a gadget go through a scheme unchanged, for all values of their 8 and
  16 bits: they pass the limits of the import and reach the files of the gadget that is
  imported.\<close>

theorem gadget_scheme_kept:
  assumes "scheme_store K contents L look" "config_store.is_group look c r"
    and "usbg_set_gadget_attrs K (Some g) (Some a) w = Some (0, w0)"
    and "usbg_export_gadget_attrs L K g r c w0 = Some (0, c', w1)"
    and "usbg_import_gadget_attrs L K c' r h w2 = Some (0, w3)" "gadget_at w2 h \<noteq> None"
  shows "\<exists>w4. usbg_get_gadget_attrs K (Some h) (Some d) w3 = Some ((0, Some a), w4)"
  by (rule scheme_store.gadget_attrs_export_import [OF assms(1,3,4,2,5,6)])

theorem gadget_scheme_kept_witness:
  "\<exists>w0 c' w1 w2 w4. usbg_set_gadget_attrs configfs (Some 2) (Some demo_attrs) demo = Some (0, w0) \<and>
     usbg_export_gadget_attrs cfg_lib configfs 2 0 cfg_empty w0 = Some (0, c', w1) \<and>
     usbg_import_gadget_attrs cfg_lib configfs c' 0 2 demo = Some (0, w2) \<and>
     usbg_get_gadget_attrs configfs (Some 2) (Some zero_attrs) w2 = Some ((0, Some demo_attrs), w4)"
proof -
  from demo_gadget_run obtain w0 c' w1 w2 where run:
    "usbg_set_gadget_attrs configfs (Some 2) (Some demo_attrs) demo = Some (0, w0)"
    "usbg_export_gadget_attrs cfg_lib configfs 2 0 cfg_empty w0 = Some (0, c', w1)"
    "usbg_import_gadget_attrs cfg_lib configfs c' 0 2 demo = Some (0, w2)" by blast
  have root: "cfg.is_group cfg_empty 0" by (simp add: cfg.is_group_def cfg_empty_def)
  from gadget_scheme_kept [OF demo_scheme.scheme_store_axioms root run] run show ?thesis by fastforce
qed

text \<open>C36. Importing a gadget is safe: for every configuration that is well-formed for libconfig and
  within the limits of the library, the import is defined and returns, whatever the kernel
  answers, and leaves a well-formed heap. On success there is a new gadget, on an error none is
  returned.\<close>

theorem import_gadget_safe:
  assumes "luns_named K" "frames_named K" "pred_option (file_fits L IO) st" "heap_wf w"
  shows "\<exists>ret x st1 fi1 w'. usbg_import_gadget L IO K st name fi w = Some (ret, x, st1, fi1, w') \<and> heap_wf w' \<and>
    (ret = 0 \<longrightarrow> (\<exists>g. x = Some g \<and> gadget_at w' g \<noteq> None)) \<and> (ret \<noteq> 0 \<longrightarrow> x = None)"
  using assms by (rule import_gadget_wf)

theorem import_gadget_safe_witness:
  "\<exists>g st1 fi1 w'. usbg_import_gadget cfg_lib cfg_io configfs (Some (Some demo_config)) (Some ''g1'') fresh_imports fresh_world =
     Some (0, Some g, st1, fi1, w') \<and> heap_wf w' \<and> gadget_at w' g \<noteq> None"
proof -
  have "pred_option (file_fits cfg_lib cfg_io) (Some (Some demo_config))" by (simp add: demo_file_fits)
  from import_gadget_safe [OF configfs_luns_named configfs_frames_named this fresh_wf, of "Some ''g1''" fresh_imports]
  obtain ret x st1 fi1 w' where "demo_import = Some (ret, x, st1, fi1, w')" "heap_wf w'"
    "ret = 0 \<longrightarrow> (\<exists>g. x = Some g \<and> gadget_at w' g \<noteq> None)" unfolding demo_import_def by blast
  with demo_import_run show ?thesis unfolding demo_import_def by auto
qed

text \<open>C37. So is importing a function into a live gadget, for all 18 types: the LUNs, formats and
  frames of the configuration are never used as indices outside of the masks.\<close>

theorem import_function_safe:
  assumes "luns_named K" "frames_named K" "pred_option (file_fits L IO) st" "heap_wf w" "gadget_at w g \<noteq> None"
  shows "\<exists>ret x st1 fi1 w'. usbg_import_function L IO K (Some g) st inst fi w = Some (ret, x, st1, fi1, w') \<and> heap_wf w' \<and>
    (ret = 0 \<longrightarrow> (\<exists>f. x = Some f \<and> function_at w' f \<noteq> None)) \<and> (ret \<noteq> 0 \<longrightarrow> x = None)"
  using assms(5) by (intro import_function_wf [OF assms(1-4)]) simp

theorem import_function_safe_witness:
  "\<exists>ret x st1 fi1 w'. usbg_import_function cfg_lib cfg_io configfs (Some 2) (Some (Some demo_config)) (Some ''u'') fresh_imports demo =
     Some (ret, x, st1, fi1, w') \<and> heap_wf w'"
proof -
  have "pred_option (file_fits cfg_lib cfg_io) (Some (Some demo_config))" by (simp add: demo_file_fits)
  moreover have "gadget_at demo 2 \<noteq> None" by simp
  ultimately show ?thesis
    using import_function_safe [OF configfs_luns_named configfs_frames_named _ demo_wf] by blast
qed







end
